(* ===== verification/Json.thy ===== *)
theory Json
  imports Complex_Main Prelude
begin

text \<open>
  JSON-like Python values and the operations the validators use on them: subscripts, \<open>.get\<close>,
  \<open>isinstance\<close>, truth value, equality, membership, iteration. Text is a sequence of UTF-8 bytes, for
  which equality, concatenation, substring tests and ordering agree with Python's code points;
  \<open>chars_of\<close> recovers the code points where a length or an iteration counts them. Floats are exact
  rationals, the negative zero, which equals zero but has a text of its own, or one of the three non-finite values. Values are trees: sharing and cycles of Python
  objects are not represented.
\<close>

section \<open>Values\<close>

datatype pyfloat = Fin rat | NegZero | PosInf | NegInf | NaN

datatype json =
    JNull
  | JBool bool
  | JInt int
  | JFloat pyfloat
  | JStr string
  | JList "json list"
  | JObj "(string \<times> json) list"

fun is_obj :: "json \<Rightarrow> bool" where "is_obj (JObj _) = True" | "is_obj _ = False"
fun is_list :: "json \<Rightarrow> bool" where "is_list (JList _) = True" | "is_list _ = False"
fun is_str :: "json \<Rightarrow> bool" where "is_str (JStr _) = True" | "is_str _ = False"
fun is_bool :: "json \<Rightarrow> bool" where "is_bool (JBool _) = True" | "is_bool _ = False"

text \<open>\<open>isinstance(x, int)\<close> holds for booleans too.\<close>

fun is_int :: "json \<Rightarrow> bool" where
  "is_int (JInt _) = True" | "is_int (JBool _) = True" | "is_int _ = False"

fun is_number :: "json \<Rightarrow> bool" where
  "is_number (JInt _) = True" | "is_number (JBool _) = True" | "is_number (JFloat _) = True"
| "is_number _ = False"

text \<open>\<open>isinstance(x, str) and x\<close>, the negation of \<open>not isinstance(x, str) or not x\<close>.\<close>

fun is_nonempty_str :: "json \<Rightarrow> bool" where
  "is_nonempty_str (JStr s) = (s \<noteq> [])" | "is_nonempty_str _ = False"

text \<open>An integer that is not a boolean.\<close>

fun is_strict_int :: "json \<Rightarrow> bool" where
  "is_strict_int (JInt _) = True" | "is_strict_int _ = False"

fun as_str :: "json \<Rightarrow> string" where "as_str (JStr s) = s" | "as_str _ = []"
fun as_list :: "json \<Rightarrow> json list" where "as_list (JList xs) = xs" | "as_list _ = []"
fun as_dict :: "json \<Rightarrow> (string \<times> json) list" where "as_dict (JObj kvs) = kvs" | "as_dict _ = []"
fun as_int :: "json \<Rightarrow> int" where
  "as_int (JInt n) = n" | "as_int (JBool b) = (if b then 1 else 0)" | "as_int _ = 0"

lemma is_str_iff: "is_str v \<longleftrightarrow> (\<exists>s. v = JStr s)" by (cases v) auto
lemma is_list_iff: "is_list v \<longleftrightarrow> (\<exists>xs. v = JList xs)" by (cases v) auto
lemma is_obj_iff: "is_obj v \<longleftrightarrow> (\<exists>kvs. v = JObj kvs)" by (cases v) auto
lemma is_bool_iff: "is_bool v \<longleftrightarrow> (\<exists>b. v = JBool b)" by (cases v) auto
lemma is_strict_int_iff: "is_strict_int v \<longleftrightarrow> (\<exists>n. v = JInt n)" by (cases v) auto
lemma is_nonempty_str_iff: "is_nonempty_str v \<longleftrightarrow> (\<exists>s. v = JStr s \<and> s \<noteq> [])" by (cases v) auto
lemma is_int_not_bool: "is_int v \<and> \<not> is_bool v \<longleftrightarrow> is_strict_int v" by (cases v) auto

lemmas json_kinds = is_str_iff is_list_iff is_obj_iff is_bool_iff is_strict_int_iff
  is_nonempty_str_iff

section \<open>Truth value, text and numbers\<close>

fun truthy :: "json \<Rightarrow> bool" where
  "truthy JNull = False"
| "truthy (JBool b) = b"
| "truthy (JInt n) = (n \<noteq> 0)"
| "truthy (JFloat f) = (f \<noteq> Fin 0 \<and> f \<noteq> NegZero)"
| "truthy (JStr s) = (s \<noteq> [])"
| "truthy (JList xs) = (xs \<noteq> [])"
| "truthy (JObj kvs) = (kvs \<noteq> [])"

text \<open>Code points of a UTF-8 text: a lead byte with its continuation bytes (\<open>0x80\<close> to \<open>0xBF\<close>).\<close>

definition is_cont :: "char \<Rightarrow> bool" where
  "is_cont c = (let n = (of_char c :: nat) in 128 \<le> n \<and> n < 192)"

function chars_of :: "string \<Rightarrow> string list" where
  "chars_of [] = []"
| "chars_of (c # cs) = (c # takeWhile is_cont cs) # chars_of (dropWhile is_cont cs)"
  by pat_completeness auto
termination
  by (relation "measure length") (auto simp: le_imp_less_Suc length_dropWhile_le)

definition str_len :: "string \<Rightarrow> nat" where
  "str_len s = length (chars_of s)"

text \<open>\<open>str.isspace\<close> on one code point: the ASCII separators and the Unicode spaces.\<close>

definition is_space :: "string \<Rightarrow> bool" where
  "is_space c =
     (c \<in> set [[CHR 0x09], [CHR 0x0A], [CHR 0x0B], [CHR 0x0C], [CHR 0x0D], [CHR 0x1C],
        [CHR 0x1D], [CHR 0x1E], [CHR 0x1F], [CHR 0x20],
        [CHR 0xC2, CHR 0x85], [CHR 0xC2, CHR 0xA0], [CHR 0xE1, CHR 0x9A, CHR 0x80],
        [CHR 0xE2, CHR 0x80, CHR 0x80], [CHR 0xE2, CHR 0x80, CHR 0x81],
        [CHR 0xE2, CHR 0x80, CHR 0x82], [CHR 0xE2, CHR 0x80, CHR 0x83],
        [CHR 0xE2, CHR 0x80, CHR 0x84], [CHR 0xE2, CHR 0x80, CHR 0x85],
        [CHR 0xE2, CHR 0x80, CHR 0x86], [CHR 0xE2, CHR 0x80, CHR 0x87],
        [CHR 0xE2, CHR 0x80, CHR 0x88], [CHR 0xE2, CHR 0x80, CHR 0x89],
        [CHR 0xE2, CHR 0x80, CHR 0x8A], [CHR 0xE2, CHR 0x80, CHR 0xA8],
        [CHR 0xE2, CHR 0x80, CHR 0xA9], [CHR 0xE2, CHR 0x80, CHR 0xAF],
        [CHR 0xE2, CHR 0x81, CHR 0x9F], [CHR 0xE3, CHR 0x80, CHR 0x80]])"

text \<open>\<open>not s.strip()\<close>\<close>

definition is_blank :: "string \<Rightarrow> bool" where
  "is_blank s = list_all is_space (chars_of s)"

definition is_hex_digit :: "char \<Rightarrow> bool" where
  "is_hex_digit c = (c \<in> set ''0123456789abcdef'')"

text \<open>\<open>re.fullmatch(r"[0-9a-f]{n}", s)\<close>\<close>

definition is_hex :: "nat \<Rightarrow> string \<Rightarrow> bool" where
  "is_hex n s = (length s = n \<and> list_all is_hex_digit s)"

definition is_digit :: "char \<Rightarrow> bool" where
  "is_digit c = (c \<in> set ''0123456789'')"

text \<open>Decimal text of a number, as \<open>str(n)\<close>.\<close>

definition digit_char :: "nat \<Rightarrow> char" where
  "digit_char d = ''0123456789'' ! (d mod 10)"

fun decimal :: "nat \<Rightarrow> string" where
  "decimal n = (if n < 10 then [digit_char n] else decimal (n div 10) @ [digit_char (n mod 10)])"

declare decimal.simps [simp del]

definition int_text :: "int \<Rightarrow> string" where
  "int_text n = (if n < 0 then ''-'' @ decimal (nat (- n)) else decimal (nat n))"

text \<open>
  The numeric value of an operand of \<open><\<close> or \<open>==\<close>: booleans count as 0 and 1.
\<close>

fun num_of :: "json \<Rightarrow> rat option" where
  "num_of (JBool b) = Some (if b then 1 else 0)"
| "num_of (JInt n) = Some (of_int n)"
| "num_of (JFloat (Fin r)) = Some r"
| "num_of (JFloat NegZero) = Some 0"
| "num_of _ = None"

text \<open>\<open>x < n\<close> and \<open>x <= n\<close> against an integer constant; text, containers and \<open>None\<close> are not orderable.\<close>

fun lt_int :: "json \<Rightarrow> int \<Rightarrow> bool result" where
  "lt_int (JFloat PosInf) n = Inr False"
| "lt_int (JFloat NegInf) n = Inr True"
| "lt_int (JFloat NaN) n = Inr False"
| "lt_int v n = (case num_of v of Some r \<Rightarrow> Inr (r < of_int n) | None \<Rightarrow> Inl (TypeError ''<''))"

fun le_int :: "json \<Rightarrow> int \<Rightarrow> bool result" where
  "le_int (JFloat PosInf) n = Inr False"
| "le_int (JFloat NegInf) n = Inr True"
| "le_int (JFloat NaN) n = Inr False"
| "le_int v n = (case num_of v of Some r \<Rightarrow> Inr (r \<le> of_int n) | None \<Rightarrow> Inl (TypeError ''<=''))"

text \<open>\<open>0 <= x <= 1\<close> for a number.\<close>

definition in_unit_interval :: "json \<Rightarrow> bool" where
  "in_unit_interval v = (case num_of v of Some r \<Rightarrow> 0 \<le> r \<and> r \<le> 1 | None \<Rightarrow> False)"

section \<open>Children of a value\<close>

text \<open>
  Nodes of a value, which the stack loops of the policy code count. \<open>children\<close> are the values an
  iteration pushes: \<open>current.values()\<close> of an object, the elements of a list.
\<close>

fun children :: "json \<Rightarrow> json list" where
  "children (JObj kvs) = map snd kvs"
| "children (JList xs) = xs"
| "children _ = []"

lemma size_children: "x \<in> set (children v) \<Longrightarrow> size x < size v"
proof (cases v)
  case (JList xs)
  moreover assume "x \<in> set (children v)"
  ultimately show ?thesis
    by (simp add: le_imp_less_Suc size_list_estimation')
next
  case (JObj kvs)
  moreover assume "x \<in> set (children v)"
  ultimately obtain k where "(k, x) \<in> set kvs" by auto
  then have "size x \<le> size_list (size_prod (\<lambda>_. 0) size) kvs"
    by (rule size_list_estimation') simp
  with JObj show ?thesis by simp
qed simp_all

section \<open>Equality and hashing\<close>

text \<open>\<open>==\<close>: numbers compare by value across types, objects regardless of key order.\<close>

function py_eq :: "json \<Rightarrow> json \<Rightarrow> bool" where
  "py_eq v w =
     (case (v, w) of
        (JNull, JNull) \<Rightarrow> True
      | (JStr s, JStr t) \<Rightarrow> s = t
      | (JList xs, JList ys) \<Rightarrow>
          length xs = length ys \<and> (\<forall>p \<in> set (zip xs ys). py_eq (fst p) (snd p))
      | (JObj a, JObj b) \<Rightarrow>
          length a = length b \<and>
          (\<forall>kv \<in> set a. case dict_get b (fst kv) of None \<Rightarrow> False | Some y \<Rightarrow> py_eq (snd kv) y)
      | (JFloat PosInf, JFloat PosInf) \<Rightarrow> True
      | (JFloat NegInf, JFloat NegInf) \<Rightarrow> True
      | _ \<Rightarrow> (case (num_of v, num_of w) of (Some r, Some q) \<Rightarrow> r = q | _ \<Rightarrow> False))"
  by pat_completeness auto
termination
proof (relation "measure (\<lambda>(v, w). size v)", goal_cases)
  case 1
  show ?case by simp
next
  case (2 v w a b xs ys p)
  then have "fst p \<in> set (children (JList xs))"
    by (cases p) (auto dest: set_zip_leftD)
  then show ?case using 2 size_children [of "fst p" "JList xs"] by (auto simp: case_prod_beta)
next
  case (3 v w x z a b kv y)
  then have "snd kv \<in> set (children (JObj a))"
    by (cases kv) force
  then show ?case using 3 size_children [of "snd kv" "JObj a"] by (auto simp: case_prod_beta)
qed

declare py_eq.simps [simp del]

lemma py_eq_JStr [simp]: "py_eq (JStr s) (JStr t) = (s = t)"
  by (simp add: py_eq.simps)

text \<open>Lists and objects are unhashable: testing them for membership in a set raises.\<close>

definition hashable :: "json \<Rightarrow> bool" where
  "hashable v = (\<not> is_list v \<and> \<not> is_obj v)"

text \<open>\<open>v in {"a", "b", ...}\<close>\<close>

definition in_strings :: "json \<Rightarrow> string list \<Rightarrow> bool result" where
  "in_strings v ss =
     (if hashable v then Inr (\<exists>s \<in> set ss. v = JStr s) else Inl (TypeError ''unhashable type''))"

definition not_in_strings :: "json \<Rightarrow> string list \<Rightarrow> bool result" where
  "not_in_strings v ss = mapR Not (in_strings v ss)"

text \<open>Raise \<open>e\<close> when \<open>v\<close> is not one of the strings.\<close>

definition require_in :: "json \<Rightarrow> string list \<Rightarrow> py_error \<Rightarrow> unit result" where
  "require_in v ss e = bindE (not_in_strings v ss) (\<lambda>b. reject_if b e)"

lemma require_in_eq_Inr [result_simps]:
  "require_in v ss e = Inr u \<longleftrightarrow> (\<exists>s \<in> set ss. v = JStr s)"
  by (auto simp: require_in_def not_in_strings_def in_strings_def hashable_def result_simps)

text \<open>\<open>len(xs) != len(set(xs))\<close> for a list of strings.\<close>

definition has_duplicates :: "'a list \<Rightarrow> bool" where
  "has_duplicates xs = (\<not> distinct xs)"

lemma has_duplicates_iff [simp]: "has_duplicates xs \<longleftrightarrow> \<not> distinct xs"
  by (simp add: has_duplicates_def)

section \<open>Fields and iteration\<close>

text \<open>\<open>v[k]\<close>, \<open>v.get(k)\<close>, \<open>v.get(k, d)\<close>, \<open>k in v\<close>\<close>

fun getitem :: "json \<Rightarrow> string \<Rightarrow> json result" where
  "getitem (JObj kvs) k = (case dict_get kvs k of Some v \<Rightarrow> Inr v | None \<Rightarrow> Inl (KeyError k))"
| "getitem _ k = Inl (TypeError ''not subscriptable by a string'')"

fun get_default :: "json \<Rightarrow> string \<Rightarrow> json \<Rightarrow> json result" where
  "get_default (JObj kvs) k d = Inr (case dict_get kvs k of Some v \<Rightarrow> v | None \<Rightarrow> d)"
| "get_default _ k d = Inl (AttributeError ''get'')"

definition get_opt :: "json \<Rightarrow> string \<Rightarrow> json result" where
  "get_opt v k = get_default v k JNull"

text \<open>Field access on a value already known to be an object.\<close>

definition fld :: "json \<Rightarrow> string \<Rightarrow> json" where
  "fld v k = (case dict_get (as_dict v) k of Some x \<Rightarrow> x | None \<Rightarrow> JNull)"

definition has_key :: "json \<Rightarrow> string \<Rightarrow> bool" where
  "has_key v k = (dict_get (as_dict v) k \<noteq> None)"

definition fld_or :: "json \<Rightarrow> string \<Rightarrow> json \<Rightarrow> json" where
  "fld_or v k d = (case dict_get (as_dict v) k of Some x \<Rightarrow> x | None \<Rightarrow> d)"

text \<open>\<open>v[k] = x\<close> on an object.\<close>

fun put :: "json \<Rightarrow> string \<Rightarrow> json \<Rightarrow> json" where
  "put (JObj kvs) k x = JObj (dict_set k x kvs)"
| "put v k x = v"

text \<open>\<open>for x in v\<close>: elements, keys or code points.\<close>

fun iterate :: "json \<Rightarrow> json list result" where
  "iterate (JList xs) = Inr xs"
| "iterate (JObj kvs) = Inr (map (\<lambda>kv. JStr (fst kv)) kvs)"
| "iterate (JStr s) = Inr (map JStr (chars_of s))"
| "iterate _ = Inl (TypeError ''not iterable'')"

text \<open>\<open>v.keys()\<close>, \<open>v.values()\<close>, \<open>v.items()\<close>\<close>

fun items_of :: "json \<Rightarrow> (string \<times> json) list result" where
  "items_of (JObj kvs) = Inr kvs"
| "items_of _ = Inl (AttributeError ''items'')"

definition keys_of :: "json \<Rightarrow> string list result" where
  "keys_of v = mapR (map fst) (items_of v)"

lemma get_opt_JObj [simp]: "get_opt (JObj kvs) k = Inr (fld (JObj kvs) k)"
  by (simp add: get_opt_def fld_def)

lemma getitem_eq_Inr [result_simps]:
  "getitem v k = Inr x \<longleftrightarrow> is_obj v \<and> has_key v k \<and> x = fld v k"
  by (cases v) (auto simp: has_key_def fld_def split: option.splits)

lemma get_default_eq_Inr [result_simps]:
  "get_default v k d = Inr x \<longleftrightarrow> is_obj v \<and> x = fld_or v k d"
  by (cases v) (auto simp: fld_or_def)

lemma get_opt_eq_Inr [result_simps]:
  "get_opt v k = Inr x \<longleftrightarrow> is_obj v \<and> x = fld v k"
  by (cases v) (auto simp: get_opt_def fld_def)

lemma items_of_eq_Inr [result_simps]: "items_of v = Inr d \<longleftrightarrow> v = JObj d"
  by (cases v) auto

lemma iterate_JList_iff: "is_list v \<Longrightarrow> iterate v = Inr (as_list v)"
  by (cases v) auto

lemma fld_JObj_Cons [json_simps]:
  "fld (JObj ((k', v) # d)) k = (if k = k' then v else fld (JObj d) k)"
  by (simp add: fld_def)

lemma fld_JObj_Nil [json_simps]: "fld (JObj []) k = JNull"
  by (simp add: fld_def)

lemma has_key_JObj_Cons [json_simps]:
  "has_key (JObj ((k', v) # d)) k = (k = k' \<or> has_key (JObj d) k)"
  by (simp add: has_key_def)

lemma has_key_JObj_Nil [json_simps]: "\<not> has_key (JObj []) k"
  by (simp add: has_key_def)

lemma fld_put: "is_obj v \<Longrightarrow> fld (put v k x) k' = (if k' = k then x else fld v k')"
  by (cases v) (auto simp: fld_def dict_get_set)

lemma fld_put_same [json_simps]: "is_obj v \<Longrightarrow> fld (put v k x) k = x"
  by (simp add: fld_put)

lemma fld_put_other [json_simps]: "k' \<noteq> k \<Longrightarrow> fld (put v k x) k' = fld v k'"
  by (cases v) (auto simp: fld_def dict_get_set)

lemma is_obj_put [simp]: "is_obj (put v k x) = is_obj v"
  by (cases v) auto

lemma has_key_put: "is_obj v \<Longrightarrow> has_key (put v k x) k' = (k' = k \<or> has_key v k')"
  by (cases v) (auto simp: has_key_def dict_get_set)

lemma fld_or_has_key: "has_key v k \<Longrightarrow> fld_or v k d = fld v k"
  by (auto simp: fld_or_def fld_def has_key_def)

lemma fld_or_no_key: "\<not> has_key v k \<Longrightarrow> fld_or v k d = d"
  by (auto simp: fld_or_def has_key_def split: option.splits)

section \<open>Size of a value\<close>

function json_nodes :: "json \<Rightarrow> nat" where
  "json_nodes v = Suc (sum_list (map json_nodes (children v)))"
  by pat_completeness auto
termination
  by (relation "measure size") (auto simp: size_children)

declare json_nodes.simps [simp del]

lemma json_nodes_pos [simp]: "0 < json_nodes v"
  by (simp add: json_nodes.simps [of v])

end
