(* ===== verification/Exec.thy ===== *)
theory Exec
  imports Json
begin

text \<open>
  Effectful code as explicit state passing: a method maps the state to a result and the state it
  leaves, and an exception keeps the changes made before it was raised. Facts about such code are
  total-correctness statements: \<open>runs m s Q\<close> says that \<open>m\<close> started in \<open>s\<close> returns normally with \<open>Q\<close>,
  \<open>keeps P m\<close> that \<open>m\<close> preserves \<open>P\<close> whether it returns or raises.
\<close>

section \<open>Operations\<close>

type_synonym ('s, 'a) exec = "'s \<Rightarrow> 'a result \<times> 's"

definition ret :: "'a \<Rightarrow> ('s, 'a) exec" where
  "ret x s = (Inr x, s)"

definition throw :: "py_error \<Rightarrow> ('s, 'a) exec" where
  "throw e s = (Inl e, s)"

definition bindS :: "('s, 'a) exec \<Rightarrow> ('a \<Rightarrow> ('s, 'b) exec) \<Rightarrow> ('s, 'b) exec" where
  "bindS m f s = (case m s of (Inl e, s') \<Rightarrow> (Inl e, s') | (Inr x, s') \<Rightarrow> f x s')"

definition thenS :: "('s, unit) exec \<Rightarrow> ('s, 'b) exec \<Rightarrow> ('s, 'b) exec" where
  "thenS m k = bindS m (\<lambda>_. k)"

definition liftE :: "'a result \<Rightarrow> ('s, 'a) exec" where
  "liftE r s = (r, s)"

definition reads :: "('s \<Rightarrow> 'a) \<Rightarrow> ('s, 'a) exec" where
  "reads f s = (Inr (f s), s)"

definition updates :: "('s \<Rightarrow> 's) \<Rightarrow> ('s, unit) exec" where
  "updates f s = (Inr (), f s)"

text \<open>\<open>try: m except ContractError as e: h(e)\<close>\<close>

definition catch_contract :: "('s, 'a) exec \<Rightarrow> (py_error \<Rightarrow> ('s, 'a) exec) \<Rightarrow> ('s, 'a) exec" where
  "catch_contract m h s =
     (case m s of
        (Inl (ContractError t), s') \<Rightarrow> h (ContractError t) s'
      | r \<Rightarrow> r)"

text \<open>A \<open>for\<close> loop with local variables \<open>l\<close>.\<close>

fun foldS :: "('l \<Rightarrow> 'a \<Rightarrow> ('s, 'l) exec) \<Rightarrow> 'l \<Rightarrow> 'a list \<Rightarrow> ('s, 'l) exec" where
  "foldS f l [] = ret l"
| "foldS f l (x # xs) = bindS (f l x) (\<lambda>l'. foldS f l' xs)"

section \<open>Runs\<close>

definition runs :: "('s, 'a) exec \<Rightarrow> 's \<Rightarrow> ('a \<Rightarrow> 's \<Rightarrow> bool) \<Rightarrow> bool" where
  "runs m s Q = (case m s of (Inl e, s') \<Rightarrow> False | (Inr x, s') \<Rightarrow> Q x s')"

lemma runs_I: "m s = (Inr x, s') \<Longrightarrow> Q x s' \<Longrightarrow> runs m s Q"
  by (simp add: runs_def)

lemma runs_eq: "m s = (Inr x, s') \<Longrightarrow> runs m s Q = Q x s'"
  by (simp add: runs_def)

lemma runs_D: "runs m s Q \<Longrightarrow> \<exists>x s'. m s = (Inr x, s') \<and> Q x s'"
  by (auto simp: runs_def split: prod.splits sum.splits)

lemma runs_ret [simp]: "runs (ret x) s Q = Q x s"
  by (simp add: runs_def ret_def)

lemma runs_throw [simp]: "\<not> runs (throw e) s Q"
  by (simp add: runs_def throw_def)

lemma runs_reads [simp]: "runs (reads g) s Q = Q (g s) s"
  by (simp add: runs_def reads_def)

lemma runs_updates [simp]: "runs (updates h) s Q = Q () (h s)"
  by (simp add: runs_def updates_def)

lemma runs_liftE_Inr [simp]: "runs (liftE (Inr x)) s Q = Q x s"
  by (simp add: runs_def liftE_def)

lemma runs_liftE_Inl [simp]: "\<not> runs (liftE (Inl e)) s Q"
  by (simp add: runs_def liftE_def)

lemma runs_bind [simp]: "runs (bindS m f) s Q = runs m s (\<lambda>x s'. runs (f x) s' Q)"
  by (auto simp: runs_def bindS_def split: prod.splits sum.splits)

lemma runs_then [simp]: "runs (thenS m k) s Q = runs m s (\<lambda>x s'. runs k s' Q)"
  by (simp add: thenS_def)

lemma runs_liftE: "runs (liftE r) s Q = (\<exists>x. r = Inr x \<and> Q x s)"
  by (cases r) simp_all

lemma runs_catch: "runs m s Q \<Longrightarrow> runs (catch_contract m h) s Q"
  by (auto simp: runs_def catch_contract_def split: prod.splits sum.splits)

lemma runs_mono: "runs m s P \<Longrightarrow> (\<And>x s'. P x s' \<Longrightarrow> Q x s') \<Longrightarrow> runs m s Q"
  by (auto simp: runs_def split: prod.splits sum.splits)

lemma runs_conj: "runs m s P \<Longrightarrow> runs m s Q \<Longrightarrow> runs m s (\<lambda>x s'. P x s' \<and> Q x s')"
  by (auto simp: runs_def split: prod.splits sum.splits)

lemma runs_foldS:
  assumes "I l done0 s" and "\<And>l pre x post s. xs = pre @ x # post \<Longrightarrow> I l (done0 @ pre) s \<Longrightarrow>
      runs (f l x) s (\<lambda>l' s'. I l' (done0 @ pre @ [x]) s')"
  shows "runs (foldS f l xs) s (\<lambda>l' s'. I l' (done0 @ xs) s')"
  using assms
proof (induction xs arbitrary: l s done0)
  case (Cons x xs)
  have "runs (f l x) s (\<lambda>l' s'. I l' (done0 @ [x]) s')"
    using Cons.prems(2) [of "[]" x xs] Cons.prems(1) by simp
  moreover have "runs (foldS f l' xs) s' (\<lambda>l'' s''. I l'' ((done0 @ [x]) @ xs) s'')"
    if "I l' (done0 @ [x]) s'" for l' s'
  proof (rule Cons.IH [OF that])
    fix l pre y post s
    assume "xs = pre @ y # post" and "I l ((done0 @ [x]) @ pre) s"
    then show "runs (f l y) s (\<lambda>l' s'. I l' ((done0 @ [x]) @ pre @ [y]) s')"
      using Cons.prems(2) [of "x # pre" y post] by simp
  qed
  ultimately show ?case by (auto elim!: runs_mono)
qed simp

section \<open>Preservation on every outcome\<close>

definition keeps :: "('s \<Rightarrow> bool) \<Rightarrow> ('s, 'a) exec \<Rightarrow> bool" where
  "keeps P m \<longleftrightarrow> (\<forall>s. P s \<longrightarrow> P (snd (m s)))"

lemma keeps_simple [simp, intro]:
  "keeps P (ret x)" "keeps P (throw e)" "keeps P (reads g)" "keeps P (liftE r)"
  by (simp_all add: keeps_def ret_def throw_def reads_def liftE_def)

lemma keeps_updates: "(\<And>s. P s \<Longrightarrow> P (f s)) \<Longrightarrow> keeps P (updates f)"
  by (simp add: keeps_def updates_def)

lemma keeps_bind: "keeps P m \<Longrightarrow> (\<And>x. keeps P (f x)) \<Longrightarrow> keeps P (bindS m f)"
  unfolding keeps_def bindS_def by (auto split: prod.splits sum.splits)

lemma keeps_then: "keeps P m \<Longrightarrow> keeps P k \<Longrightarrow> keeps P (thenS m k)"
  by (simp add: thenS_def keeps_bind)

lemma keeps_catch: "keeps P m \<Longrightarrow> (\<And>e. keeps P (h e)) \<Longrightarrow> keeps P (catch_contract m h)"
  unfolding keeps_def catch_contract_def
  by (auto split: prod.splits sum.splits py_error.splits)

lemma keeps_fold: "(\<And>l x. keeps P (f l x)) \<Longrightarrow> keeps P (foldS f l xs)"
  by (induction xs arbitrary: l) (auto intro: keeps_bind)

lemmas keeps_intros = keeps_simple keeps_bind keeps_then keeps_catch keeps_fold

end
