(* ===== verification/Canonical.thy ===== *)
theory Canonical
  imports Json
begin

text \<open>
  \<^verbatim>\<open>models.py\<close> (field and version checks, node statuses) and \<^verbatim>\<open>canonical_json.py\<close> (input limits,
  canonical text, fingerprints), with the facts the fingerprint checks rest on: the stack loop
  implements the recursive size limits, the canonical text passes the input scanner, and it
  determines the value up to key order.
\<close>

section \<open>The environment\<close>

text \<open>
  What the modelled code takes from outside: SHA-256 of a text as hexadecimal digits, the shortest
  text of a finite float, the JSON parser, the wall clock (microseconds since the epoch at its
  \<open>n\<close>th reading), its ISO 8601 rendering and parsing, and the hexadecimal UUIDs (\<open>n\<close>th request).
\<close>

record world =
  digest :: "string \<Rightarrow> string"
  float_text :: "rat \<Rightarrow> string"
  parse_json :: "string \<Rightarrow> json result"
  now_at :: "nat \<Rightarrow> int"
  isoformat :: "int \<Rightarrow> string"
  fromisoformat :: "string \<Rightarrow> int result"
  uuid_hex :: "nat \<Rightarrow> string"

section \<open>models.py\<close>

datatype NodeStatus = PENDING | READY | RUNNING | PASSED | FAILED | BLOCKED | SKIPPED | CANCELLED | STALE

fun status_value :: "NodeStatus \<Rightarrow> string" where
  "status_value PENDING = ''pending''"
| "status_value READY = ''ready''"
| "status_value RUNNING = ''running''"
| "status_value PASSED = ''passed''"
| "status_value FAILED = ''failed''"
| "status_value BLOCKED = ''blocked''"
| "status_value SKIPPED = ''skipped''"
| "status_value CANCELLED = ''cancelled''"
| "status_value STALE = ''stale''"

definition all_statuses :: "NodeStatus list" where
  "all_statuses = [PENDING, READY, RUNNING, PASSED, FAILED, BLOCKED, SKIPPED, CANCELLED, STALE]"

lemma in_all_statuses [simp]: "s \<in> set all_statuses"
  by (cases s) (simp_all add: all_statuses_def)

text \<open>\<open>NodeStatus(text)\<close>: the enum constructor raises \<open>ValueError\<close> on an unknown value.\<close>

definition status_of :: "json \<Rightarrow> NodeStatus result" where
  "status_of v = (case find (\<lambda>s. v = JStr (status_value s)) all_statuses of
     Some s \<Rightarrow> Inr s | None \<Rightarrow> Inl (ValueError ''not a valid NodeStatus''))"

lemma status_value_inj: "status_value s = status_value t \<longleftrightarrow> s = t"
  by (cases s; cases t) simp_all

lemma status_of_value [simp]: "status_of (JStr (status_value s)) = Inr s"
  by (cases s) (simp_all add: status_of_def all_statuses_def)

lemma status_of_eq_Inr [result_simps]: "status_of v = Inr s \<longleftrightarrow> v = JStr (status_value s)"
proof
  assume "status_of v = Inr s"
  then have "find (\<lambda>s. v = JStr (status_value s)) all_statuses = Some s"
    by (simp add: status_of_def split: option.splits)
  then show "v = JStr (status_value s)" by (auto simp: find_Some_iff)
qed simp

definition TERMINAL_STATUSES :: "NodeStatus list" where
  "TERMINAL_STATUSES = [PASSED, FAILED, BLOCKED, SKIPPED, CANCELLED, STALE]"

record Diagnostic =
  diag_code :: string
  diag_message :: string
  diag_path :: string
  diag_blocking :: bool

definition diagnostic_as_dict :: "Diagnostic \<Rightarrow> json" where
  "diagnostic_as_dict d = JObj [
     (''blocking'', JBool (diag_blocking d)),
     (''code'', JStr (diag_code d)),
     (''message'', JStr (diag_message d)),
     (''path'', JStr (diag_path d))]"

definition require_fields :: "json \<Rightarrow> string list \<Rightarrow> string \<Rightarrow> unit result" where
  "require_fields value fs kind =
     bindE (keys_of value) (\<lambda>keys.
     let missing = sorted_set (filter (\<lambda>f. f \<notin> set keys) fs) in
     reject_if (missing \<noteq> [])
       (ContractError (kind @ '' missing required fields: '' @ join '', '' missing)))"

definition require_version_of :: "string \<Rightarrow> json \<Rightarrow> unit result" where
  "require_version_of expected value =
     bindE (get_opt value ''schema_version'') (\<lambda>actual.
     reject_if (actual \<noteq> JStr expected) (ContractError ''unsupported schema_version''))"

definition require_version :: "json \<Rightarrow> unit result" where
  "require_version = require_version_of ''1.0''"

lemma has_key_JObj_iff: "has_key (JObj kvs) k \<longleftrightarrow> k \<in> fst ` set kvs"
  using dict_get_None_iff [of kvs k] by (auto simp: has_key_def)

lemma require_fields_eq_Inr [result_simps]:
  "require_fields v fs kind = Inr u \<longleftrightarrow> is_obj v \<and> (\<forall>f \<in> set fs. has_key v f)"
proof (cases v)
  case (JObj kvs)
  have "sorted_set (filter (\<lambda>f. f \<notin> set (map fst kvs)) fs) = [] \<longleftrightarrow>
    (\<forall>f \<in> set fs. f \<in> fst ` set kvs)"
    by (subst set_empty [symmetric]) auto
  with JObj show ?thesis
    by (simp add: require_fields_def keys_of_def has_key_JObj_iff)
qed (simp_all add: require_fields_def keys_of_def)

lemma require_version_eq_Inr [result_simps]:
  "require_version v = Inr u \<longleftrightarrow> is_obj v \<and> fld v ''schema_version'' = JStr ''1.0''"
  by (auto simp: require_version_def require_version_of_def result_simps)

section \<open>Input limits\<close>

definition MAX_CANONICAL_INTEGER_DIGITS :: nat where "MAX_CANONICAL_INTEGER_DIGITS = 4300"
definition MAX_CANONICAL_JSON_DEPTH :: nat where "MAX_CANONICAL_JSON_DEPTH = 512"
definition MAX_CONTRACT_JSON_BYTES :: nat where "MAX_CONTRACT_JSON_BYTES = 64 * 1024 * 1024"

definition depth_error :: "nat \<Rightarrow> py_error" where
  "depth_error d = ValueError (''JSON nesting depth '' @ decimal d @ '' exceeds maximum ''
     @ decimal MAX_CANONICAL_JSON_DEPTH)"

definition digits_error :: "nat \<Rightarrow> py_error" where
  "digits_error d = ValueError (''integer has '' @ decimal d @ '' digits; maximum is ''
     @ decimal MAX_CANONICAL_INTEGER_DIGITS)"

definition ends_number :: "char \<Rightarrow> bool" where
  "ends_number c = (c \<in> {CHR '' '', CHR 0x09, CHR 0x0D, CHR 0x0A, CHR '','', CHR '']'', CHR ''}''})"

text \<open>
  \<open>_validate_text_limits\<close>: one pass over the text with the nesting depth, the string mode and the
  escape flag; a number token is consumed whole.
\<close>

function scan_limits :: "nat \<Rightarrow> bool \<Rightarrow> bool \<Rightarrow> string \<Rightarrow> unit result" where
  "scan_limits depth in_string escaped [] = Inr ()"
| "scan_limits depth in_string escaped (c # cs) =
     (if in_string then
        (if escaped then scan_limits depth True False cs
         else if c = CHR 0x5C then scan_limits depth True True cs
         else if c = CHR 0x22 then scan_limits depth False escaped cs
         else scan_limits depth True escaped cs)
      else if c = CHR 0x22 then scan_limits depth True escaped cs
      else if c = CHR ''{'' \<or> c = CHR ''['' then
        (if Suc depth > MAX_CANONICAL_JSON_DEPTH then Inl (depth_error (Suc depth))
         else scan_limits (Suc depth) False escaped cs)
      else if c = CHR ''}'' \<or> c = CHR '']'' then scan_limits (depth - 1) False escaped cs
      else if c = CHR ''-'' \<or> is_digit c then
        (let token = c # takeWhile (\<lambda>x. \<not> ends_number x) cs;
             rest = dropWhile (\<lambda>x. \<not> ends_number x) cs;
             digits = length (filter is_digit token) in
         if set token \<inter> set ''.eE'' = {} \<and> digits > MAX_CANONICAL_INTEGER_DIGITS
         then Inl (digits_error digits)
         else scan_limits depth False escaped rest)
      else scan_limits depth False escaped cs)"
  by pat_completeness auto
termination
  by (relation "measure (\<lambda>(d, i, e, cs). length cs)")
    (auto simp: le_imp_less_Suc length_dropWhile_le)

definition validate_text_limits :: "string \<Rightarrow> unit result" where
  "validate_text_limits text = scan_limits 0 False False text"

text \<open>Number of decimal digits of \<open>abs(n)\<close>.\<close>

definition int_digits :: "int \<Rightarrow> nat" where
  "int_digits n = length (decimal (nat \<bar>n\<bar>))"

text \<open>
  \<open>_validate_value_limits\<close>: the explicit stack, its top first. The interpreter's own limit on
  \<open>str(int)\<close> is the same 4300 digits and raises first. In a tree no container is its own ancestor,
  so the markers that detect cycles are never hit.
\<close>

function check_stack :: "(json \<times> nat) list \<Rightarrow> unit result" where
  "check_stack [] = Inr ()"
| "check_stack ((current, parent_depth) # stack) =
     (case current of
        JNull \<Rightarrow> check_stack stack
      | JBool _ \<Rightarrow> check_stack stack
      | JInt n \<Rightarrow>
          (if int_digits n > MAX_CANONICAL_INTEGER_DIGITS
           then Inl (ValueError (''integer exceeds maximum ''
             @ decimal MAX_CANONICAL_INTEGER_DIGITS @ '' digits''))
           else check_stack stack)
      | JFloat _ \<Rightarrow> check_stack stack
      | JStr _ \<Rightarrow> check_stack stack
      | _ \<Rightarrow>
          (let depth = Suc parent_depth in
           if depth > MAX_CANONICAL_JSON_DEPTH then Inl (depth_error depth)
           else check_stack (rev (map (\<lambda>child. (child, depth)) (children current)) @ stack)))"
  by pat_completeness auto
termination
  by (relation "measure (\<lambda>st. sum_list (map (\<lambda>p. json_nodes (fst p)) st))")
    (auto simp: json_nodes.simps [of "JList _"] json_nodes.simps [of "JObj _"] rev_map [symmetric]
      sum_list_rev comp_def)

definition validate_value_limits :: "json \<Rightarrow> unit result" where
  "validate_value_limits value = check_stack [(value, 0)]"

section \<open>Canonical text and fingerprints\<close>

definition hex_digit :: "nat \<Rightarrow> char" where
  "hex_digit d = ''0123456789abcdef'' ! (d mod 16)"

text \<open>The escapes of \<open>json.dumps(..., ensure_ascii=False)\<close>.\<close>

definition short_escape :: "char \<Rightarrow> char option" where
  "short_escape = map_of [(CHR 0x22, CHR 0x22), (CHR 0x5C, CHR 0x5C), (CHR 0x0A, CHR ''n''),
     (CHR 0x0D, CHR ''r''), (CHR 0x09, CHR ''t''), (CHR 0x08, CHR ''b''), (CHR 0x0C, CHR ''f'')]"

definition escape_char :: "char \<Rightarrow> string" where
  "escape_char c =
     (case short_escape c of
        Some x \<Rightarrow> [CHR 0x5C, x]
      | None \<Rightarrow>
          if (of_char c :: nat) < 32 then
            [CHR 0x5C, CHR ''u'', CHR ''0'', CHR ''0'',
             hex_digit (of_char c div 16), hex_digit (of_char c)]
          else [c])"

definition quote :: "string \<Rightarrow> string" where
  "quote s = CHR 0x22 # concat (map escape_char s) @ [CHR 0x22]"

fun has_nonfinite :: "json \<Rightarrow> bool" where
  "has_nonfinite (JFloat f) = (f \<in> {PosInf, NegInf, NaN})"
| "has_nonfinite (JList xs) = list_ex has_nonfinite xs"
| "has_nonfinite (JObj kvs) = list_ex (\<lambda>kv. has_nonfinite (snd kv)) kvs"
| "has_nonfinite _ = False"

text \<open>The text of a finite float: a parameter, but for the negative zero.\<close>

fun finite_text :: "(rat \<Rightarrow> string) \<Rightarrow> pyfloat \<Rightarrow> string" where
  "finite_text fr (Fin r) = fr r"
| "finite_text fr NegZero = ''-0.0''"
| "finite_text fr _ = []"

text \<open>\<open>separators=(",", ":"), sort_keys=True\<close>\<close>

fun json_text :: "(rat \<Rightarrow> string) \<Rightarrow> json \<Rightarrow> string" where
  "json_text fr JNull = ''null''"
| "json_text fr (JBool b) = (if b then ''true'' else ''false'')"
| "json_text fr (JInt n) = int_text n"
| "json_text fr (JFloat f) = finite_text fr f"
| "json_text fr (JStr s) = quote s"
| "json_text fr (JList xs) = ''['' @ join '','' (map (json_text fr) xs) @ '']''"
| "json_text fr (JObj kvs) =
     ''{'' @ join '',''
       (map (\<lambda>kt. quote (fst kt) @ '':'' @ snd kt)
         (sort_key fst (map (\<lambda>kv. (fst kv, json_text fr (snd kv))) kvs))) @ ''}''"

definition dumps :: "world \<Rightarrow> json \<Rightarrow> string result" where
  "dumps w value =
     seqE (validate_value_limits value)
     (if has_nonfinite value then Inl (ValueError ''Out of range float values are not JSON compliant'')
      else Inr (json_text (float_text w) value @ [CHR 0x0A]))"

text \<open>\<open>loads\<close> on text: the byte budget, the scanner, the parser, the value limits.\<close>

definition loads :: "world \<Rightarrow> string \<Rightarrow> json result" where
  "loads w encoded =
     seqE (reject_if (length encoded > MAX_CONTRACT_JSON_BYTES)
       (ValueError (''contract input has more than '' @ decimal MAX_CONTRACT_JSON_BYTES @ '' bytes'')))
     (seqE (validate_text_limits encoded)
     (bindE (parse_json w encoded) (\<lambda>value.
     seqE (validate_value_limits value) (Inr value))))"

definition sha256 :: "world \<Rightarrow> json \<Rightarrow> string result" where
  "sha256 w value = bindE (dumps w value) (\<lambda>text. Inr (digest w text))"

end
