(* ===== verification/CanonicalFacts.thy ===== *)
theory CanonicalFacts
  imports Canonical
begin

text \<open>
  Facts about the canonical encoding: the explicit stack of the value limits implements the
  recursive limits, canonical text passes the input scanner, and it determines the value up to the
  order of object keys.
\<close>

section \<open>The value limits\<close>

text \<open>The limits as a recursive predicate: a value at nesting depth \<open>d\<close>.\<close>

function limits_ok :: "json \<Rightarrow> nat \<Rightarrow> bool" where
  "limits_ok v d =
     (case v of
        JInt n \<Rightarrow> int_digits n \<le> MAX_CANONICAL_INTEGER_DIGITS
      | JList _ \<Rightarrow> Suc d \<le> MAX_CANONICAL_JSON_DEPTH \<and> (\<forall>x \<in> set (children v). limits_ok x (Suc d))
      | JObj _ \<Rightarrow> Suc d \<le> MAX_CANONICAL_JSON_DEPTH \<and> (\<forall>x \<in> set (children v). limits_ok x (Suc d))
      | _ \<Rightarrow> True)"
  by pat_completeness auto
termination
  by (relation "measure (\<lambda>(v, d). size v)") (auto dest: size_children simp del: children.simps)

declare limits_ok.simps [simp del]

lemma limits_ok_simps [simp]:
  "limits_ok JNull d" "limits_ok (JBool b) d" "limits_ok (JFloat f) d" "limits_ok (JStr s) d"
  "limits_ok (JInt n) d = (int_digits n \<le> MAX_CANONICAL_INTEGER_DIGITS)"
  "limits_ok (JList xs) d = (Suc d \<le> MAX_CANONICAL_JSON_DEPTH \<and> (\<forall>x \<in> set xs. limits_ok x (Suc d)))"
  "limits_ok (JObj kvs) d =
     (Suc d \<le> MAX_CANONICAL_JSON_DEPTH \<and> (\<forall>x \<in> snd ` set kvs. limits_ok x (Suc d)))"
  by (subst limits_ok.simps; simp)+

declare check_stack.simps(2) [simp del]

lemma check_stack_leaf [simp]:
  "check_stack ((JNull, d) # st) = check_stack st"
  "check_stack ((JBool b, d) # st) = check_stack st"
  "check_stack ((JFloat f, d) # st) = check_stack st"
  "check_stack ((JStr s, d) # st) = check_stack st"
  by (simp_all add: check_stack.simps(2))

lemma check_stack_iff:
  "check_stack st = Inr u \<longleftrightarrow> (\<forall>p \<in> set st. limits_ok (fst p) (snd p))"
proof (induction st rule: check_stack.induct)
  case (2 current d stack)
  show ?case
  proof (cases current)
    case (JInt n)
    with "2.IH"(3) show ?thesis
      by (cases "int_digits n \<le> MAX_CANONICAL_INTEGER_DIGITS") (auto simp: check_stack.simps(2))
  next
    case (JList xs)
    with "2.IH"(6) [of xs "Suc d"] show ?thesis
      by (cases "Suc d \<le> MAX_CANONICAL_JSON_DEPTH") (auto simp: check_stack.simps(2) ball_Un)
  next
    case (JObj kvs)
    with "2.IH"(7) [of kvs "Suc d"] show ?thesis
      by (cases "Suc d \<le> MAX_CANONICAL_JSON_DEPTH") (auto simp: check_stack.simps(2) ball_Un)
  qed (use "2.IH" in simp_all)
qed simp

lemma value_limits_iff: "validate_value_limits v = Inr u \<longleftrightarrow> limits_ok v 0"
  unfolding validate_value_limits_def check_stack_iff by simp

lemma dumps_eq_Inr [result_simps]:
  "dumps w v = Inr s \<longleftrightarrow>
     limits_ok v 0 \<and> \<not> has_nonfinite v \<and> s = json_text (float_text w) v @ [CHR 0x0A]"
  by (auto simp: dumps_def result_simps value_limits_iff split: if_splits)

section \<open>Characters of numbers and strings\<close>

lemma digit_char_in: "digit_char d \<in> set ''0123456789''"
proof -
  have "d mod 10 < length ''0123456789''" by simp
  then show ?thesis unfolding digit_char_def by (rule nth_mem)
qed

lemma hex_digit_in: "hex_digit d \<in> set ''0123456789abcdef''"
proof -
  have "d mod 16 < length ''0123456789abcdef''" by simp
  then show ?thesis unfolding hex_digit_def by (rule nth_mem)
qed

lemma decimal_digits: "set (decimal n) \<subseteq> set ''0123456789''"
proof (induction n rule: decimal.induct)
  case (1 n)
  have digit: "set [digit_char d] \<subseteq> set ''0123456789''" for d
    using digit_char_in [of d] by simp
  show ?case
  proof (cases "n < 10")
    case True
    then show ?thesis by (subst decimal.simps) (simp only: if_True digit)
  next
    case False
    with "1.IH" have "set (decimal (n div 10)) \<union> set [digit_char (n mod 10)] \<subseteq> set ''0123456789''"
      using digit [of "n mod 10"] by (intro Un_least) simp_all
    with False show ?thesis by (subst decimal.simps) (simp only: if_False set_append)
  qed
qed

lemma decimal_not_Nil [simp]: "decimal n \<noteq> []"
  by (subst decimal.simps) simp

definition digit_value :: "char \<Rightarrow> nat" where
  "digit_value c = of_char c - 48"

definition undecimal :: "string \<Rightarrow> nat" where
  "undecimal s = foldl (\<lambda>a c. 10 * a + digit_value c) 0 s"

lemma digit_value_char: "d < 10 \<Longrightarrow> digit_value (digit_char d) = d"
proof -
  assume "d < 10"
  then have "d = 0 \<or> d = 1 \<or> d = 2 \<or> d = 3 \<or> d = 4 \<or> d = 5 \<or> d = 6 \<or> d = 7 \<or> d = 8 \<or> d = 9"
    by arith
  then show ?thesis
    by (elim disjE) (simp_all add: digit_char_def digit_value_def)
qed

lemma undecimal_decimal: "undecimal (decimal n) = n"
proof (induction n rule: decimal.induct)
  case (1 n)
  then show ?case
    by (subst decimal.simps) (auto simp: undecimal_def digit_value_char)
qed

lemma decimal_inject [simp]: "decimal m = decimal n \<longleftrightarrow> m = n"
  by (metis undecimal_decimal)

definition number_chars :: string where
  "number_chars = ''0123456789+-.eE''"

lemma int_text_chars: "set (int_text n) \<subseteq> set ''-0123456789''"
proof -
  have "set ''0123456789'' \<subseteq> set ''-0123456789''" by simp
  with decimal_digits have "set (decimal m) \<subseteq> set ''-0123456789''" for m
    by (rule subset_trans)
  then show ?thesis by (simp add: int_text_def)
qed

lemma int_text_not_Nil [simp]: "int_text n \<noteq> []"
  by (simp add: int_text_def)

lemma subset_notin: "A \<subseteq> B \<Longrightarrow> x \<notin> B \<Longrightarrow> x \<notin> A"
  by blast

lemma minus_notin_decimal: "CHR ''-'' \<notin> set (decimal n)"
  by (rule subset_notin [OF decimal_digits]) simp

lemma int_text_inject [simp]: "int_text m = int_text n \<longleftrightarrow> m = n"
proof -
  have "\<And>a b. ''-'' @ decimal a \<noteq> decimal b"
    using minus_notin_decimal by (metis append_Cons list.set_intros(1))
  then have "CHR ''-'' # decimal a \<noteq> decimal b" "decimal b \<noteq> CHR ''-'' # decimal a" for a b
    by (metis append_Cons append_Nil, metis append_Cons append_Nil)
  then show ?thesis by (auto simp: int_text_def)
qed

text \<open>
  What \<open>repr\<close> of a finite float guarantees: distinct floats have distinct texts, of number characters,
  starting with a digit or a sign and marked as non-integers by a point or an exponent.
\<close>

definition float_text_ok :: "(rat \<Rightarrow> string) \<Rightarrow> bool" where
  "float_text_ok fr \<longleftrightarrow> inj fr \<and>
     (\<forall>r. fr r \<noteq> [] \<and> set (fr r) \<subseteq> set number_chars \<and>
       hd (fr r) \<in> set ''-0123456789'' \<and> set (fr r) \<inter> set ''.eE'' \<noteq> {} \<and> fr r \<noteq> ''-0.0'')"

lemma finite_text_ok:
  assumes "float_text_ok fr" and "f \<notin> {PosInf, NegInf, NaN}"
  shows "finite_text fr f \<noteq> []" "set (finite_text fr f) \<subseteq> set number_chars" "hd (finite_text fr f) \<in> set ''-0123456789''"
    "set (finite_text fr f) \<inter> set ''.eE'' \<noteq> {}"
proof -
  consider q where "f = Fin q" | "f = NegZero" using assms(2) by (cases f) auto
  then have "finite_text fr f \<noteq> [] \<and> set (finite_text fr f) \<subseteq> set number_chars \<and> hd (finite_text fr f) \<in> set ''-0123456789'' \<and>
      set (finite_text fr f) \<inter> set ''.eE'' \<noteq> {}"
  proof cases
    case 1
    show ?thesis using assms(1) unfolding float_text_ok_def 1 finite_text.simps by blast
  next
    case 2
    then show ?thesis by (simp add: number_chars_def)
  qed
  then show "finite_text fr f \<noteq> []" "set (finite_text fr f) \<subseteq> set number_chars" "hd (finite_text fr f) \<in> set ''-0123456789''"
    "set (finite_text fr f) \<inter> set ''.eE'' \<noteq> {}"
    by blast+
qed

lemma finite_text_inject:
  assumes "float_text_ok fr" and "f \<notin> {PosInf, NegInf, NaN}" and "g \<notin> {PosInf, NegInf, NaN}"
    and "finite_text fr f = finite_text fr g"
  shows "f = g"
proof -
  have "fr p = fr q \<longleftrightarrow> p = q" "fr p \<noteq> ''-0.0''" "''-0.0'' \<noteq> fr p" for p q
    using assms(1) by (auto simp only: float_text_ok_def inj_eq)
  then show ?thesis using assms(2-4) by (cases f; cases g) auto
qed

text \<open>A text the simplest float printer meets: numerator, point, denominator.\<close>

definition fraction_text :: "rat \<Rightarrow> string" where
  "fraction_text r = int_text (fst (quotient_of r)) @ ''.'' @ int_text (snd (quotient_of r))"

lemma takeWhile_sep: "c \<notin> set a \<Longrightarrow> takeWhile (\<lambda>x. x \<noteq> c) (a @ [c] @ b) = a"
  by (induction a) auto

lemma append_sep_inject:
  assumes "a @ [c] @ b = a' @ [c] @ b'" and "c \<notin> set a" and "c \<notin> set a'"
  shows "a = a' \<and> b = b'"
proof -
  have "takeWhile (\<lambda>x. x \<noteq> c) (a @ [c] @ b) = a" "takeWhile (\<lambda>x. x \<noteq> c) (a' @ [c] @ b') = a'"
    by (rule takeWhile_sep [OF assms(2)], rule takeWhile_sep [OF assms(3)])
  then show ?thesis using assms(1) by auto
qed

lemma hd_in_set_sub: "xs \<noteq> [] \<Longrightarrow> set xs \<subseteq> A \<Longrightarrow> hd xs \<in> A"
  by (cases xs) auto

lemma fraction_text_ok: "float_text_ok fraction_text"
  unfolding float_text_ok_def
proof (intro conjI allI)
  have dot: "CHR ''.'' \<notin> set (int_text n)" for n
    by (rule subset_notin [OF int_text_chars]) simp
  show "inj fraction_text"
  proof (rule injI)
    fix r q assume "fraction_text r = fraction_text q"
    then have "int_text (fst (quotient_of r)) = int_text (fst (quotient_of q)) \<and>
      int_text (snd (quotient_of r)) = int_text (snd (quotient_of q))"
      unfolding fraction_text_def by (rule append_sep_inject) (rule dot)+
    then have "quotient_of r = quotient_of q" by (simp add: prod_eq_iff)
    then show "r = q" by (rule quotient_of_inject)
  qed
  fix r
  show "fraction_text r \<noteq> []" by (simp add: fraction_text_def)
  show "set (fraction_text r) \<subseteq> set number_chars"
  proof -
    have "set ''-0123456789'' \<subseteq> set number_chars" by (simp add: number_chars_def)
    with int_text_chars have "set (int_text n) \<subseteq> set number_chars" for n by (rule subset_trans)
    then show ?thesis by (simp add: fraction_text_def) (simp add: number_chars_def)
  qed
  have "hd (int_text (fst (quotient_of r))) \<in> set ''-0123456789''"
    by (intro hd_in_set_sub int_text_chars) simp
  then show "hd (fraction_text r) \<in> set ''-0123456789''"
    by (simp add: fraction_text_def)
  have "CHR ''.'' \<in> set (fraction_text r)" by (simp add: fraction_text_def)
  moreover have "CHR ''.'' \<in> set ''.eE''" by simp
  ultimately show "set (fraction_text r) \<inter> set ''.eE'' \<noteq> {}" by blast
  show "fraction_text r \<noteq> ''-0.0''"
  proof
    assume "fraction_text r = ''-0.0''"
    then have "int_text (fst (quotient_of r)) @ ''.'' @ int_text (snd (quotient_of r)) = ''-0'' @ ''.'' @ ''0''"
      by (simp add: fraction_text_def)
    then have "int_text (snd (quotient_of r)) = ''0''" by (rule append_sep_inject [THEN conjunct2]) (rule dot, simp)
    moreover have "int_text 0 = ''0''" by code_simp
    ultimately have "int_text (snd (quotient_of r)) = int_text 0" by (rule trans [OF _ sym])
    then show False using quotient_of_denom_pos' [of r] by simp
  qed
qed

section \<open>Canonical text passes the input scanner\<close>

text \<open>What may follow a value inside canonical text.\<close>

definition stop_chars :: string where
  "stop_chars = [CHR '','', CHR '']'', CHR ''}'', CHR 0x0A]"

definition stops :: "string \<Rightarrow> bool" where
  "stops r \<longleftrightarrow> r = [] \<or> hd r \<in> set stop_chars"

lemma stops_Nil [simp]: "stops []"
  and stops_Cons [simp]: "stops (c # r) \<longleftrightarrow> c \<in> set stop_chars"
  by (simp_all add: stops_def)

lemma number_not_stop: "c \<in> set number_chars \<Longrightarrow> \<not> ends_number c"
  by (auto simp: number_chars_def ends_number_def)

lemma stop_ends_number: "c \<in> set stop_chars \<Longrightarrow> ends_number c"
  by (auto simp: stop_chars_def ends_number_def)

lemma takeWhile_number:
  assumes "set s \<subseteq> set number_chars" and "stops r"
  shows "takeWhile (\<lambda>x. \<not> ends_number x) (s @ r) = s \<and>
    dropWhile (\<lambda>x. \<not> ends_number x) (s @ r) = r"
proof -
  have "\<forall>x \<in> set s. \<not> ends_number x" using assms(1) number_not_stop by blast
  moreover have "takeWhile (\<lambda>x. \<not> ends_number x) r = []" "dropWhile (\<lambda>x. \<not> ends_number x) r = r"
    using assms(2) by (cases r; auto dest: stop_ends_number)+
  ultimately show ?thesis by simp
qed

declare scan_limits.simps(2) [simp del]

lemma scan_number:
  assumes "s = c # cs" and "set s \<subseteq> set number_chars" and "c = CHR ''-'' \<or> is_digit c"
    and "set s \<inter> set ''.eE'' \<noteq> {} \<or> length (filter is_digit s) \<le> MAX_CANONICAL_INTEGER_DIGITS"
    and "stops r"
  shows "scan_limits d False e (s @ r) = scan_limits d False e r"
proof -
  have "set cs \<subseteq> set number_chars" using assms(1,2) by auto
  then have tok: "takeWhile (\<lambda>x. \<not> ends_number x) (cs @ r) = cs"
      "dropWhile (\<lambda>x. \<not> ends_number x) (cs @ r) = r"
    using takeWhile_number assms(5) by blast+
  have c: "c \<noteq> CHR 0x22" "c \<noteq> CHR ''{''" "c \<noteq> CHR ''[''" "c \<noteq> CHR ''}''" "c \<noteq> CHR '']''"
    using assms(3) by (auto simp: is_digit_def)
  let ?bad = "set (c # cs) \<inter> set ''.eE'' = {} \<and>
    length (filter is_digit (c # cs)) > MAX_CANONICAL_INTEGER_DIGITS"
  have "scan_limits d False e (c # (cs @ r)) =
      (if ?bad then Inl (digits_error (length (filter is_digit (c # cs))))
       else scan_limits d False e r)"
    by (subst scan_limits.simps(2)) (simp only: Let_def tok c assms(3) simp_thms if_False if_True)
  moreover have "\<not> ?bad" using assms(4) unfolding assms(1) by (metis not_le)
  ultimately show ?thesis unfolding assms(1) by (simp only: if_False append_Cons)
qed

lemma plain_scan:
  "c \<noteq> CHR 0x22 \<Longrightarrow> c \<noteq> CHR 0x5C \<Longrightarrow> scan_limits d True False (c # r) = scan_limits d True False r"
  by (simp add: scan_limits.simps(2))

lemma escaped_scan: "scan_limits d True False (CHR 0x5C # c # r) = scan_limits d True False r"
  by (simp add: scan_limits.simps(2))

lemma hex_digit_plain: "hex_digit h \<noteq> CHR 0x22" "hex_digit h \<noteq> CHR 0x5C"
proof -
  have "CHR 0x22 \<notin> set ''0123456789abcdef''" "CHR 0x5C \<notin> set ''0123456789abcdef''" by simp_all
  then show "hex_digit h \<noteq> CHR 0x22" "hex_digit h \<noteq> CHR 0x5C" using hex_digit_in [of h] by metis+
qed

lemma short_escape_None: "short_escape c = None \<Longrightarrow> c \<noteq> CHR 0x22 \<and> c \<noteq> CHR 0x5C"
  by (auto simp: short_escape_def)

lemma scan_escape: "scan_limits d True False (escape_char c @ r) = scan_limits d True False r"
  using short_escape_None [of c]
  by (auto simp: escape_char_def escaped_scan plain_scan hex_digit_plain split: option.splits)

lemma scan_quote: "scan_limits d False False (quote s @ r) = scan_limits d False False r"
proof -
  have "scan_limits d True False (concat (map escape_char s) @ CHR 0x22 # r) = scan_limits d False False r"
    by (induction s) (simp_all add: scan_escape, simp add: scan_limits.simps(2))
  then show ?thesis by (simp add: quote_def scan_limits.simps(2))
qed

lemma int_text_head: "\<exists>c cs. int_text n = c # cs \<and> (c = CHR ''-'' \<or> is_digit c)"
proof -
  have "\<exists>c cs. decimal m = c # cs \<and> is_digit c" for m
  proof -
    obtain c cs where "decimal m = c # cs" using decimal_not_Nil by (cases "decimal m") auto
    moreover have "c \<in> set ''0123456789''"
      using decimal_digits [of m] unfolding \<open>decimal m = c # cs\<close> by (rule subsetD) simp
    ultimately show ?thesis unfolding is_digit_def by blast
  qed
  then show ?thesis by (cases "n < 0") (simp_all add: int_text_def, blast)
qed

lemma filter_digits_decimal: "filter is_digit (decimal m) = decimal m"
  using decimal_digits [of m] by (intro filter_True) (auto simp only: is_digit_def subset_iff)

lemma int_text_digits: "length (filter is_digit (int_text n)) = int_digits n"
proof -
  have "\<not> is_digit (CHR ''-'')" by (simp add: is_digit_def)
  then show ?thesis by (simp add: int_text_def int_digits_def filter_digits_decimal)
qed

lemma scan_literal:
  "scan_limits d False e (''null'' @ r) = scan_limits d False e r"
  "scan_limits d False e (''true'' @ r) = scan_limits d False e r"
  "scan_limits d False e (''false'' @ r) = scan_limits d False e r"
  by (simp_all add: scan_limits.simps(2) is_digit_def)

lemma scan_int:
  assumes "int_digits n \<le> MAX_CANONICAL_INTEGER_DIGITS" and "stops r"
  shows "scan_limits d False e (int_text n @ r) = scan_limits d False e r"
proof -
  obtain c cs where c: "int_text n = c # cs" "c = CHR ''-'' \<or> is_digit c"
    using int_text_head by blast
  have "set ''-0123456789'' \<subseteq> set number_chars" by (simp add: number_chars_def)
  with int_text_chars have "set (int_text n) \<subseteq> set number_chars" by (rule subset_trans)
  moreover have "length (filter is_digit (int_text n)) \<le> MAX_CANONICAL_INTEGER_DIGITS"
    using assms(1) by (simp only: int_text_digits)
  ultimately show ?thesis by (intro scan_number [OF c(1) _ c(2) _ assms(2)] disjI2)
qed

lemma scan_float:
  assumes "float_text_ok fr" and "f \<notin> {PosInf, NegInf, NaN}" and "stops r"
  shows "scan_limits d False e (finite_text fr f @ r) = scan_limits d False e r"
proof -
  note T = finite_text_ok [OF assms(1,2)]
  obtain c cs where c: "finite_text fr f = c # cs" using T(1) by (cases "finite_text fr f") auto
  then have h: "c = CHR ''-'' \<or> is_digit c" using T(3) by (simp add: is_digit_def)
  show ?thesis by (rule scan_number [OF c T(2) h disjI1 [OF T(4)] assms(3)])
qed

text \<open>A bracketed, comma-separated text scans through when each item does, one level deeper.\<close>

lemma scan_items:
  assumes "\<And>t r. t \<in> set ts \<Longrightarrow> stops r \<Longrightarrow>
      scan_limits (Suc d) False False (t @ r) = scan_limits (Suc d) False False r"
    and "c = CHR '']'' \<or> c = CHR ''}''"
  shows "scan_limits (Suc d) False False (join '','' ts @ c # r) = scan_limits d False False r"
  using assms(1)
proof (induction "'',''" ts rule: join.induct)
  case 1
  from assms(2) show ?case by (auto simp: scan_limits.simps(2))
next
  case (2 x)
  have "stops (c # r)" using assms(2) by (auto simp: stop_chars_def)
  then have "scan_limits (Suc d) False False (x @ c # r) = scan_limits (Suc d) False False (c # r)"
    by (intro "2.prems") simp_all
  with assms(2) show ?case by (auto simp: scan_limits.simps(2))
next
  case (3 x y ys)
  have "stops ('','' @ join '','' (y # ys) @ c # r)" by (simp add: stop_chars_def)
  then have "scan_limits (Suc d) False False (x @ '','' @ join '','' (y # ys) @ c # r) =
      scan_limits (Suc d) False False ('','' @ join '','' (y # ys) @ c # r)"
    by (intro "3.prems") simp_all
  also have "\<dots> = scan_limits (Suc d) False False (join '','' (y # ys) @ c # r)"
    by (simp add: scan_limits.simps(2) is_digit_def)
  also have "\<dots> = scan_limits d False False r"
    by (rule "3.hyps") (rule "3.prems", simp_all)
  finally show ?case by simp
qed

lemma scan_open: "Suc d \<le> MAX_CANONICAL_JSON_DEPTH \<Longrightarrow> c = CHR ''['' \<or> c = CHR ''{'' \<Longrightarrow>
    scan_limits d False False (c # r) = scan_limits (Suc d) False False r"
  by (auto simp: scan_limits.simps(2))

lemma scan_colon: "scan_limits d False False (CHR '':'' # r) = scan_limits d False False r"
  by (simp add: scan_limits.simps(2) is_digit_def)

lemma scan_value:
  assumes "float_text_ok fr"
  shows "limits_ok v d \<Longrightarrow> \<not> has_nonfinite v \<Longrightarrow> stops r \<Longrightarrow>
    scan_limits d False False (json_text fr v @ r) = scan_limits d False False r"
proof (induction v arbitrary: d r)
  case (JFloat f)
  then show ?case by (simp add: scan_float [OF assms])
next
  case (JList xs)
  have "scan_limits (Suc d) False False (join '','' (map (json_text fr) xs) @ CHR '']'' # r) =
      scan_limits d False False r"
    using JList by (intro scan_items) (auto simp: list_ex_iff)
  with JList.prems(1) show ?case by (simp add: scan_open)
next
  case (JObj kvs)
  have "scan_limits (Suc d) False False (join '','' (map (\<lambda>kt. quote (fst kt) @ '':'' @ snd kt)
      (sort_key fst (map (\<lambda>kv. (fst kv, json_text fr (snd kv))) kvs))) @ CHR ''}'' # r) =
      scan_limits d False False r"
  proof (rule scan_items)
    fix t r' assume "t \<in> set (map (\<lambda>kt. quote (fst kt) @ '':'' @ snd kt)
      (sort_key fst (map (\<lambda>kv. (fst kv, json_text fr (snd kv))) kvs)))" and r': "stops r'"
    then obtain k x where t: "t = quote k @ '':'' @ json_text fr x" and kx: "(k, x) \<in> set kvs"
      by auto
    have "limits_ok x (Suc d)" using JObj.prems(1) kx by force
    moreover have "\<not> has_nonfinite x" using JObj.prems(2) kx by (auto simp: list_ex_iff)
    ultimately have "scan_limits (Suc d) False False (json_text fr x @ r') =
        scan_limits (Suc d) False False r'"
      using JObj.IH [OF kx] r' by simp
    then show "scan_limits (Suc d) False False (t @ r') = scan_limits (Suc d) False False r'"
      by (simp add: t scan_quote scan_colon)
  qed simp
  with JObj.prems(1) show ?case by (simp add: scan_open)
next
  case (JBool b)
  then show ?case using scan_literal(2,3) by (cases b) (simp_all del: append_Cons)
next
  case JNull
  then show ?case using scan_literal(1) by (simp del: append_Cons)
qed (simp_all add: scan_int scan_quote)

lemma dumps_passes_scanner:
  assumes "float_text_ok (float_text w)" and "dumps w v = Inr s"
  shows "validate_text_limits s = Inr ()"
proof -
  from assms(2) have v: "limits_ok v 0" "\<not> has_nonfinite v"
      and s: "s = json_text (float_text w) v @ [CHR 0x0A]"
    by (simp_all add: result_simps)
  have "scan_limits 0 False False s = scan_limits 0 False False [CHR 0x0A]"
    unfolding s by (rule scan_value [OF assms(1) v]) (simp add: stop_chars_def)
  then show ?thesis by (simp add: validate_text_limits_def scan_limits.simps(2) is_digit_def)
qed

section \<open>Canonical text determines the value\<close>

text \<open>A value with the keys of every object in canonical order.\<close>

fun key_sorted :: "json \<Rightarrow> json" where
  "key_sorted (JList xs) = JList (map key_sorted xs)"
| "key_sorted (JObj kvs) = JObj (sort_key fst (map (\<lambda>kv. (fst kv, key_sorted (snd kv))) kvs))"
| "key_sorted v = v"

lemma insort_key_map_snd:
  "insort_key fst (fst p, f (snd p)) (map (\<lambda>kv. (fst kv, f (snd kv))) xs) =
     map (\<lambda>kv. (fst kv, f (snd kv))) (insort_key fst p xs)"
  by (induction xs) auto

lemma sort_key_map_snd:
  "sort_key fst (map (\<lambda>kv. (fst kv, f (snd kv))) xs) =
     map (\<lambda>kv. (fst kv, f (snd kv))) (sort_key fst xs)"
  by (induction xs) (auto simp: insort_key_map_snd [symmetric])

text \<open>Text of an object through its sorted entries.\<close>

definition entry_text :: "(rat \<Rightarrow> string) \<Rightarrow> string \<times> json \<Rightarrow> string" where
  "entry_text fr kv = quote (fst kv) @ '':'' @ json_text fr (snd kv)"

lemma json_text_JObj:
  "json_text fr (JObj kvs) = ''{'' @ join '','' (map (entry_text fr) (sort_key fst kvs)) @ ''}''"
  by (simp add: sort_key_map_snd comp_def entry_text_def [abs_def])

lemma key_sorted_JObj:
  "key_sorted (JObj kvs) = JObj (map (\<lambda>kv. (fst kv, key_sorted (snd kv))) (sort_key fst kvs))"
  by (simp add: sort_key_map_snd)

declare json_text.simps(7) [simp del] key_sorted.simps(2) [simp del]

text \<open>Escapes are prefix-free and never start with a closing quote.\<close>

lemma hex_digit_inject: "hex_digit m = hex_digit n \<longleftrightarrow> m mod 16 = n mod 16"
proof -
  have "distinct ''0123456789abcdef''" by simp
  then have "''0123456789abcdef'' ! (m mod 16) = ''0123456789abcdef'' ! (n mod 16) \<longleftrightarrow> m mod 16 = n mod 16"
    by (rule nth_eq_iff_index_eq) simp_all
  then show ?thesis by (simp only: hex_digit_def)
qed

lemma short_escape_Some: "short_escape c = Some x \<Longrightarrow> x \<noteq> CHR ''u''"
  by (auto simp: short_escape_def split: if_splits)

lemma short_escape_inj: "short_escape c = Some x \<Longrightarrow> short_escape d = Some x \<Longrightarrow> c = d"
  by (auto simp: short_escape_def split: if_splits)

lemma control_inject:
  fixes c d :: char
  assumes "(of_char c :: nat) < 32" "(of_char d :: nat) < 32"
    and "hex_digit (of_char c div 16) = hex_digit (of_char d div 16)"
    and "hex_digit (of_char c) = hex_digit (of_char d)"
  shows "c = d"
proof -
  let ?c = "of_char c :: nat" and ?d = "of_char d :: nat"
  have "?c div 16 = ?d div 16" "?c mod 16 = ?d mod 16"
    using assms by (simp_all add: hex_digit_inject)
  then have "?c = ?d" by (metis div_mult_mod_eq)
  then show ?thesis by simp
qed

lemma escape_inject: "escape_char c @ r = escape_char d @ q \<Longrightarrow> c = d \<and> r = q"
  using short_escape_None [of c] short_escape_None [of d]
  by (auto simp: escape_char_def control_inject short_escape_inj
      dest: short_escape_Some split: option.splits if_splits)

lemma escape_head: "\<exists>x xs. escape_char c = x # xs \<and> x \<noteq> CHR 0x22"
  using short_escape_None [of c] by (auto simp: escape_char_def split: option.splits)

lemma escaped_text_inject:
  "concat (map escape_char s) @ CHR 0x22 # r = concat (map escape_char t) @ CHR 0x22 # q \<Longrightarrow>
   s = t \<and> r = q"
proof (induction s arbitrary: t)
  case Nil
  show ?case
  proof (cases t)
    case (Cons c cs)
    with Nil escape_head [of c] show ?thesis by auto
  qed (use Nil in simp)
next
  case (Cons c cs)
  show ?case
  proof (cases t)
    case Nil
    with Cons.prems escape_head [of c] show ?thesis by auto
  next
    case (Cons d ds)
    from Cons.prems have
      "escape_char c @ (concat (map escape_char cs) @ CHR 0x22 # r) =
       escape_char d @ (concat (map escape_char ds) @ CHR 0x22 # q)"
      by (simp add: Cons)
    then have "c = d \<and> concat (map escape_char cs) @ CHR 0x22 # r =
        concat (map escape_char ds) @ CHR 0x22 # q"
      by (rule escape_inject)
    with Cons.IH [of ds] show ?thesis by (simp add: Cons)
  qed
qed

lemma quote_inject: "quote s @ r = quote t @ q \<Longrightarrow> s = t \<and> r = q"
  by (rule escaped_text_inject) (simp add: quote_def)

text \<open>The first character of a text tells the kind of the value.\<close>

definition class_of :: "char \<Rightarrow> char" where
  "class_of c = (if c = CHR ''-'' \<or> is_digit c then CHR ''0'' else c)"

fun tag :: "json \<Rightarrow> char" where
  "tag JNull = CHR ''n''"
| "tag (JBool b) = (if b then CHR ''t'' else CHR ''f'')"
| "tag (JInt n) = CHR ''0''"
| "tag (JFloat f) = CHR ''0''"
| "tag (JStr s) = CHR 0x22"
| "tag (JList xs) = CHR ''[''"
| "tag (JObj kvs) = CHR ''{''"

lemma text_head:
  assumes "float_text_ok fr" and "\<not> has_nonfinite v"
  shows "\<exists>c cs. json_text fr v = c # cs \<and> class_of c = tag v"
proof (cases v)
  case (JInt n)
  obtain c cs where "int_text n = c # cs" "c = CHR ''-'' \<or> is_digit c"
    using int_text_head by blast
  then show ?thesis unfolding JInt json_text.simps tag.simps class_of_def
    by (intro exI [of _ c] exI [of _ cs]) (simp only: if_True simp_thms)
next
  case (JFloat f)
  then have "f \<notin> {PosInf, NegInf, NaN}" using assms(2) by simp
  note T = finite_text_ok [OF assms(1) this]
  obtain c cs where c: "finite_text fr f = c # cs" using T(1) by (cases "finite_text fr f") auto
  then have "c = CHR ''-'' \<or> is_digit c" using T(3) by (simp add: is_digit_def)
  then show ?thesis by (simp add: JFloat c class_of_def)
qed (simp_all add: class_of_def is_digit_def quote_def json_text_JObj)

lemma same_tag:
  assumes "float_text_ok fr" and "\<not> has_nonfinite v" and "\<not> has_nonfinite w"
    and "json_text fr v @ r = json_text fr w @ q"
  shows "tag w = tag v"
  using text_head [OF assms(1,2)] text_head [OF assms(1,3)] assms(4) by auto

lemma number_text:
  assumes "float_text_ok fr" and "\<not> has_nonfinite v" and "tag v = CHR ''0''" and "stops r"
  shows "takeWhile (\<lambda>x. \<not> ends_number x) (json_text fr v @ r) = json_text fr v"
proof -
  have "set (json_text fr v) \<subseteq> set number_chars"
  proof (cases v)
    case (JInt n)
    have "set ''-0123456789'' \<subseteq> set number_chars" by (simp add: number_chars_def)
    with int_text_chars show ?thesis unfolding JInt json_text.simps by (rule subset_trans)
  next
    case (JFloat f)
    then have "f \<notin> {PosInf, NegInf, NaN}" using assms(2) by simp
    with JFloat show ?thesis using finite_text_ok(2) [OF assms(1)] by simp
  qed (use assms(3) in \<open>auto split: if_splits\<close>)
  then show ?thesis using takeWhile_number assms(4) by blast
qed

lemma int_text_unmarked: "set (int_text n) \<inter> set ''.eE'' = {}"
proof -
  have "set ''-0123456789'' \<inter> set ''.eE'' = {}" by simp
  with int_text_chars [of n] show ?thesis by blast
qed

lemma number_text_inject:
  assumes "float_text_ok fr" and "json_text fr v = json_text fr w"
    and "\<not> has_nonfinite v" "\<not> has_nonfinite w" and "tag v = CHR ''0''" "tag w = CHR ''0''"
  shows "v = w"
proof -
  have num: "(\<exists>n. u = JInt n) \<or> (\<exists>f. u = JFloat f \<and> f \<notin> {PosInf, NegInf, NaN})"
    if "\<not> has_nonfinite u" "tag u = CHR ''0''" for u
    using that by (cases u) (auto split: if_splits)
  have "int_text n \<noteq> finite_text fr f" if "f \<notin> {PosInf, NegInf, NaN}" for n f
    using finite_text_ok(4) [OF assms(1) that] int_text_unmarked [of n] by metis
  moreover from this have "finite_text fr f \<noteq> int_text n" if "f \<notin> {PosInf, NegInf, NaN}" for n f using that by metis
  ultimately show ?thesis
    using num [OF assms(3,5)] num [OF assms(4,6)] assms(2) finite_text_inject [OF assms(1)]
    by (elim disjE exE conjE) (simp_all del: insert_iff)
qed

lemma join_Cons: "join sep (x # xs) = x @ (if xs = [] then [] else sep @ join sep xs)"
  by (cases xs) auto

lemma join_inject:
  assumes inject: "\<And>x y r q. x \<in> set xs \<Longrightarrow> y \<in> set ys \<Longrightarrow> stops r \<Longrightarrow> stops q \<Longrightarrow>
      f x @ r = f y @ q \<Longrightarrow> R x y \<and> r = q"
    and head: "\<And>z. z \<in> set xs \<union> set ys \<Longrightarrow> \<exists>h t. f z = h # t \<and> h \<noteq> c"
    and c: "c \<in> set [CHR '']'', CHR ''}'']"
    and eq: "join '','' (map f xs) @ c # r = join '','' (map f ys) @ c # q"
  shows "list_all2 R xs ys \<and> r = q"
  using inject head eq
proof (induction xs arbitrary: ys)
  case Nil
  show ?case
  proof (cases ys)
    case (Cons y ys')
    with Nil.prems(2) [of y] Nil.prems(3) show ?thesis by (auto simp: join_Cons)
  qed (use Nil in simp)
next
  case (Cons x xs')
  show ?case
  proof (cases ys)
    case Nil
    with Cons.prems(2) [of x] Cons.prems(3) show ?thesis by (auto simp: join_Cons)
  next
    case (Cons y ys')
    let ?tail = "\<lambda>zs u. if zs = [] then c # u else CHR '','' # join '','' (map f zs) @ c # u"
    have "f x @ ?tail xs' r = f y @ ?tail ys' q"
      using Cons.prems(3) by (auto simp: Cons join_Cons split: if_splits)
    moreover have "stops (?tail zs u)" for zs u using c by (auto simp: stop_chars_def)
    ultimately have "R x y \<and> ?tail xs' r = ?tail ys' q"
      by (intro Cons.prems(1)) (simp_all add: Cons)
    then have R: "R x y" and tails: "?tail xs' r = ?tail ys' q" by blast+
    show ?thesis
    proof (cases "xs' = []")
      case True
      with tails c have "ys' = []" by (auto split: if_splits)
      with True tails R show ?thesis by (simp add: Cons)
    next
      case False
      with tails c have ne: "ys' \<noteq> []" by (auto split: if_splits)
      with False tails have eq': "join '','' (map f xs') @ c # r = join '','' (map f ys') @ c # q"
        by simp
      have "list_all2 R xs' ys' \<and> r = q"
        by (rule Cons.IH [OF _ _ eq']) (use Cons.prems(1,2) in \<open>auto simp: Cons\<close>)
      with R show ?thesis by (simp add: Cons)
    qed
  qed
qed

lemma text_inject:
  assumes fr: "float_text_ok fr"
  shows "json_text fr v @ r = json_text fr w @ q \<Longrightarrow> stops r \<Longrightarrow> stops q \<Longrightarrow>
    \<not> has_nonfinite v \<Longrightarrow> \<not> has_nonfinite w \<Longrightarrow> key_sorted v = key_sorted w \<and> r = q"
proof (induction v arbitrary: w r q)
  case (JList xs)
  then have "tag w = CHR ''[''" using same_tag [OF fr JList.prems(4,5,1)] by simp
  then obtain ys where w: "w = JList ys" by (cases w) (auto split: if_splits)
  have "list_all2 (\<lambda>x y. key_sorted x = key_sorted y) xs ys \<and> r = q"
  proof (rule join_inject [where f = "json_text fr" and c = "CHR '']''"])
    show "join '','' (map (json_text fr) xs) @ CHR '']'' # r = join '','' (map (json_text fr) ys) @ CHR '']'' # q"
      using JList.prems(1) by (simp add: w)
    show "\<exists>h t. json_text fr z = h # t \<and> h \<noteq> CHR '']''" if "z \<in> set xs \<union> set ys" for z
    proof -
      have "\<not> has_nonfinite z" using that JList.prems(4,5) by (auto simp: w list_ex_iff)
      from text_head [OF fr this] obtain h t where ht: "json_text fr z = h # t" "class_of h = tag z"
        by blast
      moreover have "class_of (CHR '']'') = CHR '']''" by (simp add: class_of_def is_digit_def)
      moreover have "tag z \<noteq> CHR '']''" by (cases z) auto
      ultimately show ?thesis by auto
    qed
    fix x y r' q'
    assume "x \<in> set xs" "y \<in> set ys" "stops r'" "stops q'"
      and "json_text fr x @ r' = json_text fr y @ q'"
    moreover have "\<not> has_nonfinite x" "\<not> has_nonfinite y"
      using \<open>x \<in> set xs\<close> \<open>y \<in> set ys\<close> JList.prems(4,5) by (auto simp: w list_ex_iff)
    ultimately show "key_sorted x = key_sorted y \<and> r' = q'" by (intro JList.IH)
  qed simp
  then show ?case by (simp add: w list_all2_conv_all_nth list_eq_iff_nth_eq)
next
  case (JObj kvs)
  then have "tag w = CHR ''{''" using same_tag [OF fr JObj.prems(4,5,1)] by simp
  then obtain kws where w: "w = JObj kws" by (cases w) (auto split: if_splits)
  have "list_all2 (\<lambda>a b. fst a = fst b \<and> key_sorted (snd a) = key_sorted (snd b))
      (sort_key fst kvs) (sort_key fst kws) \<and> r = q"
  proof (rule join_inject [where f = "entry_text fr" and c = "CHR ''}''"])
    show "join '','' (map (entry_text fr) (sort_key fst kvs)) @ CHR ''}'' # r =
        join '','' (map (entry_text fr) (sort_key fst kws)) @ CHR ''}'' # q"
      using JObj.prems(1) by (simp add: w json_text_JObj)
    show "\<exists>h t. entry_text fr z = h # t \<and> h \<noteq> CHR ''}''" for z
      by (simp add: entry_text_def quote_def)
    fix a b r' q'
    assume ab: "a \<in> set (sort_key fst kvs)" "b \<in> set (sort_key fst kws)" "stops r'" "stops q'"
      and eq: "entry_text fr a @ r' = entry_text fr b @ q'"
    have fin: "\<not> has_nonfinite (snd a)" "\<not> has_nonfinite (snd b)"
      using ab JObj.prems(4,5) by (auto simp: w list_ex_iff)
    from eq have "fst a = fst b \<and> '':'' @ json_text fr (snd a) @ r' = '':'' @ json_text fr (snd b) @ q'"
      unfolding entry_text_def append_assoc by (rule quote_inject)
    moreover have "(fst a, snd a) \<in> set kvs" using ab(1) by simp
    ultimately show "(fst a = fst b \<and> key_sorted (snd a) = key_sorted (snd b)) \<and> r' = q'"
      using JObj.IH [of "(fst a, snd a)" "snd a" r' "snd b" q'] ab(3,4) fin by auto
  qed simp
  then show ?case
    by (auto simp: w key_sorted_JObj list_all2_conv_all_nth list_eq_iff_nth_eq)
next
  case (JStr s)
  then have "tag w = CHR 0x22" using same_tag [OF fr JStr.prems(4,5,1)] by simp
  then obtain t where w: "w = JStr t" by (cases w) (auto split: if_splits)
  with JStr.prems(1) quote_inject [of s r t q] show ?case by simp
next
  case (JInt n)
  then have tags: "tag w = CHR ''0''" using same_tag [OF fr JInt.prems(4,5,1)] by simp
  have "json_text fr (JInt n) = json_text fr w"
    using JInt.prems number_text [OF fr] tags by (metis tag.simps(3))
  with JInt.prems number_text_inject [OF fr this] tags show ?case by auto
next
  case (JFloat f)
  then have tags: "tag w = CHR ''0''" using same_tag [OF fr JFloat.prems(4,5,1)] by simp
  have "json_text fr (JFloat f) = json_text fr w"
    using JFloat.prems number_text [OF fr] tags by (metis tag.simps(4))
  with JFloat.prems number_text_inject [OF fr this] tags show ?case by auto
next
  case (JBool b)
  then have "tag w = tag (JBool b)" using same_tag [OF fr JBool.prems(4,5,1)] by simp
  then have "w = JBool b" by (cases w) (auto split: if_splits)
  with JBool.prems(1) show ?case by simp
next
  case JNull
  then have "tag w = CHR ''n''" using same_tag [OF fr JNull.prems(4,5,1)] by simp
  then have "w = JNull" by (cases w) (auto split: if_splits)
  with JNull.prems(1) show ?case by simp
qed

lemma dumps_determines_value:
  assumes "float_text_ok (float_text w)" and "dumps w v = Inr s" and "dumps w u = Inr s"
  shows "key_sorted v = key_sorted u"
  using text_inject [OF assms(1), of v "[CHR 0x0A]" u "[CHR 0x0A]"] assms(2,3)
  by (auto simp: result_simps stop_chars_def)

text \<open>Conversely the text depends on the key-sorted value only.\<close>

lemma key_sorted_text: "json_text fr (key_sorted v) = json_text fr v"
proof (induction v)
  case (JList xs)
  then show ?case by (simp cong: map_cong)
next
  case (JObj kvs)
  let ?s = "sort_key fst kvs"
  have sorted: "sort_key fst (map (\<lambda>kv. (fst kv, key_sorted (snd kv))) ?s) =
      map (\<lambda>kv. (fst kv, key_sorted (snd kv))) ?s"
    by (simp add: sort_key_map_snd sort_key_id_if_sorted)
  have "map (entry_text fr) (map (\<lambda>kv. (fst kv, key_sorted (snd kv))) ?s) = map (entry_text fr) ?s"
    using JObj by (auto simp: entry_text_def)
  then show ?case by (simp only: key_sorted_JObj json_text_JObj sorted)
qed simp_all

lemma same_key_sorted_text: "key_sorted v = key_sorted u \<Longrightarrow> json_text fr v = json_text fr u"
  by (metis key_sorted_text)

end
