(* ===== verification/LedgerContracts.thy ===== *)
theory LedgerContracts
  imports Canonical
begin

text \<open>
  The validators of \<^verbatim>\<open>contracts.py\<close> for the runtime's artifacts: node attempts, resource events,
  approval records and the run ledger that collects them.
\<close>

section \<open>Comparisons and sets of arbitrary values\<close>

text \<open>\<open>a < b\<close> between two values: numbers or texts.\<close>

fun py_lt :: "json \<Rightarrow> json \<Rightarrow> bool result" where
  "py_lt (JStr s) (JStr t) = Inr (s < t)"
| "py_lt a b =
     (if is_number a \<and> is_number b then
        (case (num_of a, num_of b) of
           (Some r, Some q) \<Rightarrow> Inr (r < q)
         | _ \<Rightarrow> Inr (a \<noteq> JFloat NaN \<and> b \<noteq> JFloat NaN \<and>
             (a = JFloat NegInf \<and> b \<noteq> JFloat NegInf \<or> b = JFloat PosInf \<and> a \<noteq> JFloat PosInf)))
      else Inl (TypeError ''<''))"

text \<open>\<open>xs == sorted(xs)\<close>: no element is smaller than the one before it.\<close>

fun ascending :: "json list \<Rightarrow> bool result" where
  "ascending (a # b # xs) = bindE (py_lt b a) (\<lambda>less. if less then Inr False else ascending (b # xs))"
| "ascending _ = Inr True"

text \<open>\<open>len(xs) == len(set(xs))\<close> under Python equality, for hashable values.\<close>

fun py_distinct :: "('a \<Rightarrow> 'a \<Rightarrow> bool) \<Rightarrow> 'a list \<Rightarrow> bool" where
  "py_distinct eq [] = True"
| "py_distinct eq (x # xs) = ((\<forall>y \<in> set xs. \<not> eq x y) \<and> py_distinct eq xs)"

definition all_unique :: "json list \<Rightarrow> bool result" where
  "all_unique xs =
     (if list_all hashable xs then Inr (py_distinct py_eq xs) else Inl (TypeError ''unhashable type''))"

definition pair_eq :: "json \<times> json \<Rightarrow> json \<times> json \<Rightarrow> bool" where
  "pair_eq p q = (py_eq (fst p) (fst q) \<and> py_eq (snd p) (snd q))"

definition all_pairs_unique :: "(json \<times> json) list \<Rightarrow> bool result" where
  "all_pairs_unique ps =
     (if list_all (\<lambda>p. hashable (fst p) \<and> hashable (snd p)) ps
      then Inr (py_distinct pair_eq ps) else Inl (TypeError ''unhashable type''))"

text \<open>\<open>x in set(xs)\<close>\<close>

definition py_member :: "json \<Rightarrow> json list \<Rightarrow> bool result" where
  "py_member x xs =
     (if hashable x then Inr (\<exists>y \<in> set xs. py_eq x y) else Inl (TypeError ''unhashable type''))"

text \<open>\<open>xs[0]\<close>\<close>

fun first_item :: "json \<Rightarrow> json result" where
  "first_item (JList (x # xs)) = Inr x"
| "first_item (JList []) = Inl (IndexError ''list index out of range'')"
| "first_item (JStr s) =
     (case chars_of s of [] \<Rightarrow> Inl (IndexError ''string index out of range'') | c # _ \<Rightarrow> Inr (JStr c))"
| "first_item (JObj _) = Inl (KeyError ''0'')"
| "first_item _ = Inl (TypeError ''not subscriptable'')"

text \<open>Reject when a computed condition holds.\<close>

definition reject_when :: "bool result \<Rightarrow> py_error \<Rightarrow> unit result" where
  "reject_when c e = bindE c (\<lambda>b. reject_if b e)"

lemma reject_when_eq_Inr [result_simps]: "reject_when c e = Inr u \<longleftrightarrow> c = Inr False"
  by (auto simp: reject_when_def result_simps)

lemma orE_eq_False [result_simps]: "orE a b = Inr False \<longleftrightarrow> a = Inr False \<and> b = Inr False"
  by (cases a) (auto simp: orE_def)

section \<open>Shared checks\<close>

definition base :: "json \<Rightarrow> string list \<Rightarrow> string \<Rightarrow> unit result" where
  "base value fs kind =
     seqE (reject_if (\<not> is_obj value) (ContractError (kind @ '' must be an object'')))
     (seqE (require_version value)
     (require_fields value (fs @ [''schema_version'']) kind))"

definition exact_object :: "json \<Rightarrow> string list \<Rightarrow> string \<Rightarrow> unit result" where
  "exact_object value fs kind =
     reject_if (\<not> is_obj value \<or> set (map fst (as_dict value)) \<noteq> set fs)
       (ContractError (kind @ '' fields are invalid''))"

lemma base_eq_Inr [result_simps]:
  "base v fs kind = Inr u \<longleftrightarrow> is_obj v \<and> fld v ''schema_version'' = JStr ''1.0'' \<and>
     (\<forall>f \<in> set fs. has_key v f) \<and> has_key v ''schema_version''"
  by (auto simp: base_def result_simps)

section \<open>Node attempts\<close>

text \<open>\<open>LEGAL_NODE_TRANSITIONS\<close>, the validator's own copy of the transition table.\<close>

definition LEGAL_NODE_TRANSITIONS :: "string \<Rightarrow> string list" where
  "LEGAL_NODE_TRANSITIONS s =
     (case map_of
        [(''pending'', [''ready'', ''blocked'', ''skipped'', ''cancelled'']),
         (''ready'', [''running'', ''blocked'', ''cancelled'', ''stale'']),
         (''running'', [''passed'', ''failed'', ''blocked'', ''skipped'', ''cancelled'']),
         (''passed'', [''stale'']), (''failed'', [''stale'']), (''blocked'', [''ready'', ''stale'']),
         (''skipped'', [''stale'']), (''cancelled'', [''stale'']), (''stale'', [''ready''])] s of
        Some ts \<Rightarrow> ts | None \<Rightarrow> [])"

text \<open>The loop over the events: the status reached so far is \<open>previous\<close>, absent before the first.\<close>

definition check_attempt_event :: "json option \<Rightarrow> json \<Rightarrow> json option result" where
  "check_attempt_event previous event =
     seqE (require_fields event [''at'', ''from'', ''to'', ''reason''] ''node-attempt.event'')
     (bindE (getitem event ''to'') (\<lambda>target.
     seqE (require_in target (map status_value all_statuses)
       (ContractError ''node-attempt event status is invalid''))
     (bindE (getitem event ''from'') (\<lambda>source.
     seqE (case previous of
         None \<Rightarrow> Inr ()
       | Some p \<Rightarrow> reject_if (\<not> py_eq source p
           \<or> as_str target \<notin> set (LEGAL_NODE_TRANSITIONS (as_str p)))
           (ContractError ''node-attempt event transition is invalid''))
     (Inr (Some target))))))"

definition validate_node_attempt :: "json \<Rightarrow> unit result" where
  "validate_node_attempt value =
     seqE (base value [''attempt_id'', ''node_id'', ''status'', ''events'', ''attempt_number'',
       ''max_retries'', ''timeout_seconds'', ''deadline''] ''node-attempt'')
     (bindE (getitem value ''status'') (\<lambda>status.
     seqE (reject_if (\<not> is_ok (status_of status)) (ContractError ''node-attempt status is invalid''))
     (seqE (reject_when
         (orE (lt_int (fld value ''attempt_number'') 1)
         (orE (lt_int (fld value ''max_retries'') 0)
              (le_int (fld value ''timeout_seconds'') 0)))
         (ContractError ''node-attempt retry or timeout metadata is invalid''))
     (bindE (getitem value ''events'') (\<lambda>events.
     seqE (reject_when
         (if \<not> truthy events then Inr True
          else bindE (first_item events) (\<lambda>e0.
            orE (mapR (\<lambda>f. f \<noteq> JNull) (get_opt e0 ''from''))
                (mapR (\<lambda>t. t \<noteq> JStr ''pending'') (get_opt e0 ''to''))))
         (ContractError ''node-attempt must start with a pending creation event''))
     (bindE (iterate events) (\<lambda>es.
     bindE (foldE check_attempt_event None es) (\<lambda>previous.
     reject_if (previous \<noteq> Some status)
       (ContractError ''node-attempt final event does not match status'')))))))))"

definition validate_resource_event :: "json \<Rightarrow> unit result" where
  "validate_resource_event value =
     seqE (base value [''sequence'', ''attempt_id'', ''resource_key'', ''action''] ''resource-event'')
     (require_in (fld value ''action'')
       [''requested'', ''acquired'', ''released'', ''timed-out'', ''cancelled'']
       (ContractError ''resource-event action is invalid''))"

definition validate_approval_record :: "json \<Rightarrow> unit result" where
  "validate_approval_record value =
     seqE (base value [''attempt_id'', ''action'', ''reason'', ''scope'', ''scope_hash'', ''status'']
       ''approval-record'')
     (require_in (fld value ''status'') [''pending'', ''granted'', ''denied'', ''expired'', ''revoked'']
       (ContractError ''approval-record status is invalid''))"

section \<open>Run ledger\<close>

definition validate_ledger_object :: "json \<Rightarrow> string list \<Rightarrow> string \<Rightarrow> unit result" where
  "validate_ledger_object value fs kind =
     seqE (exact_object value fs kind)
     (for_each (\<lambda>f. reject_if (\<not> is_nonempty_str (fld value f)) (ContractError (kind @ '' '' @ f @ '' is invalid'')))
       (filter (\<lambda>f. f \<notin> set [''failure_attribution'', ''cleanup'', ''data'', ''artifact_ids'']) fs))"

text \<open>\<open>attempts_by_id.get(id)\<close>: attempt ids are unique when it is used.\<close>

definition attempt_by_id :: "json list \<Rightarrow> json \<Rightarrow> json option" where
  "attempt_by_id attempts i = find (\<lambda>a. py_eq (fld a ''attempt_id'') i) attempts"

definition validate_attempt_node_reference :: "json \<Rightarrow> json list \<Rightarrow> string \<Rightarrow> unit result" where
  "validate_attempt_node_reference value attempts kind =
     reject_if (case attempt_by_id attempts (fld value ''attempt_id'') of
         None \<Rightarrow> True
       | Some a \<Rightarrow> \<not> py_eq (fld a ''node_id'') (fld value ''node_id''))
       (ContractError (kind @ '' references unknown attempt or mismatched node''))"

definition artifact_kinds :: "string list" where
  "artifact_kinds = [''structured-report'', ''test-report'', ''review-report'', ''delivery-report'',
     ''diagnostics'', ''raw-log'', ''other'']"

text \<open>Artifact hashes: the accumulated \<open>(attempt_id, artifact_id)\<close> keys.\<close>

definition check_ledger_artifact ::
    "json list \<Rightarrow> (string \<times> string) list \<Rightarrow> json \<Rightarrow> (string \<times> string) list result" where
  "check_ledger_artifact attempts keys artifact =
     seqE (validate_ledger_object artifact
       [''attempt_id'', ''node_id'', ''artifact_id'', ''kind'', ''sha256'', ''uri''] ''run-ledger.artifact-hash'')
     (seqE (validate_attempt_node_reference artifact attempts ''artifact-hash'')
     (seqE (reject_if (\<not> is_hex 64 (as_str (fld artifact ''sha256'')))
       (ContractError ''run-ledger artifact-hash sha256 is invalid''))
     (seqE (require_in (fld artifact ''kind'') artifact_kinds
       (ContractError ''run-ledger artifact-hash kind is invalid''))
     (let key = (as_str (fld artifact ''attempt_id''), as_str (fld artifact ''artifact_id'')) in
      seqE (reject_if (key \<in> set keys)
        (ContractError ''run-ledger artifact ids must be unique per attempt''))
      (Inr (key # keys))))))"

definition check_ledger_cleanup :: "json \<Rightarrow> unit result" where
  "check_ledger_cleanup cleanup =
     reject_when
       (if \<not> is_obj cleanup \<or> set (map fst (as_dict cleanup)) \<noteq> set [''resource'', ''status'', ''detail'']
        then Inr True
        else orE (not_in_strings (fld cleanup ''status'') [''not-required'', ''completed'', ''failed''])
          (Inr (list_ex (\<lambda>kv. \<not> is_nonempty_str (snd kv)) (as_dict cleanup))))
       (ContractError ''run-ledger adapter-outcome cleanup entry is invalid'')"

text \<open>The status a node attempt must have next to an outcome that is not partial.\<close>

definition outcome_attempt_status :: "string \<Rightarrow> string" where
  "outcome_attempt_status s =
     (if s = ''completed'' then ''passed'' else if s = ''blocked'' then ''blocked'' else ''failed'')"

text \<open>Outcomes: the attempts, request ids and invocation ids seen, and each attempt's provider and status.\<close>

record outcome_scan =
  seen_outcomes :: "(string \<times> (string \<times> string)) list"
  seen_requests :: "string list"
  seen_invocations :: "string list"

definition check_outcome_payload :: "json \<Rightarrow> unit result" where
  "check_outcome_payload outcome =
     (let attribution = fld outcome ''failure_attribution''; status = as_str (fld outcome ''status'') in
      seqE (reject_if (\<not> is_obj attribution \<or>
          set (map fst (as_dict attribution)) \<noteq> set [''category'', ''summary''])
        (ContractError ''run-ledger adapter-outcome failure attribution is invalid''))
      (seqE (require_in (fld attribution ''category'')
          [''none'', ''code'', ''environment'', ''provider'', ''contract'']
          (ContractError ''run-ledger adapter-outcome failure category is invalid''))
      (seqE (reject_if (\<not> is_nonempty_str (fld attribution ''summary''))
        (ContractError ''run-ledger adapter-outcome failure summary is invalid''))
      (seqE (reject_if (\<not> is_list (fld outcome ''cleanup''))
        (ContractError ''run-ledger adapter-outcome cleanup is invalid''))
      (seqE (for_each check_ledger_cleanup (as_list (fld outcome ''cleanup'')))
      (seqE (reject_if (status \<in> set [''blocked'', ''failed''] \<and>
          fld attribution ''category'' = JStr ''none'')
        (ContractError ''run-ledger blocked or failed outcome requires failure attribution''))
      (reject_if (list_ex (\<lambda>i. fld i ''status'' = JStr ''failed'') (as_list (fld outcome ''cleanup'')) \<and>
          status \<notin> set [''blocked'', ''failed''])
        (ContractError ''run-ledger failed cleanup must block or fail the outcome''))))))))"

definition check_ledger_outcome :: "json list \<Rightarrow> outcome_scan \<Rightarrow> json \<Rightarrow> outcome_scan result" where
  "check_ledger_outcome attempts scan outcome =
     seqE (validate_ledger_object outcome
       [''attempt_id'', ''node_id'', ''provider'', ''request_id'', ''invocation_id'', ''status'',
        ''failure_attribution'', ''cleanup''] ''run-ledger.adapter-outcome'')
     (seqE (validate_attempt_node_reference outcome attempts ''adapter-outcome'')
     (seqE (require_in (fld outcome ''status'') [''completed'', ''partial'', ''blocked'', ''failed'']
       (ContractError ''run-ledger adapter-outcome status is invalid''))
     (let aid = as_str (fld outcome ''attempt_id''); status = as_str (fld outcome ''status'');
          rid = as_str (fld outcome ''request_id''); iid = as_str (fld outcome ''invocation_id'') in
      seqE (reject_if (aid \<in> fst ` set (seen_outcomes scan))
        (ContractError ''run-ledger allows only one adapter-outcome per attempt''))
      (seqE (reject_if (rid \<in> set (seen_requests scan))
        (ContractError ''run-ledger adapter request ids must be unique per attempt consumption''))
      (seqE (reject_if (iid \<in> set (seen_invocations scan))
        (ContractError ''run-ledger adapter invocation ids must be unique per attempt consumption''))
      (bindE (case attempt_by_id attempts (JStr aid) of
           None \<Rightarrow> Inl (KeyError aid) | Some a \<Rightarrow> getitem a ''status'') (\<lambda>attempt_status.
      seqE (if status = ''partial''
            then require_in attempt_status [''blocked'', ''skipped'']
              (ContractError ''run-ledger adapter-outcome status conflicts with node attempt'')
            else reject_if (attempt_status \<noteq> JStr (outcome_attempt_status status))
              (ContractError ''run-ledger adapter-outcome status conflicts with node attempt''))
      (seqE (check_outcome_payload outcome)
      (Inr \<lparr>seen_outcomes = (aid, (as_str (fld outcome ''provider''), status)) # seen_outcomes scan,
            seen_requests = rid # seen_requests scan,
            seen_invocations = iid # seen_invocations scan\<rparr>)))))))))"

text \<open>Evidence: the statuses seen per attempt.\<close>

definition check_ledger_evidence ::
    "json list \<Rightarrow> (string \<times> string) list \<Rightarrow> outcome_scan \<Rightarrow> (string \<times> string) list \<Rightarrow> json
     \<Rightarrow> (string \<times> string) list result" where
  "check_ledger_evidence attempts artifact_keys scan statuses item =
     seqE (validate_ledger_object item
       [''attempt_id'', ''node_id'', ''provider'', ''kind'', ''status'', ''summary'', ''data'', ''artifact_ids'']
       ''run-ledger.evidence'')
     (seqE (validate_attempt_node_reference item attempts ''adapter-evidence'')
     (let aid = as_str (fld item ''attempt_id''); refs = fld item ''artifact_ids'' in
      seqE (reject_if (aid \<notin> fst ` set (seen_outcomes scan))
        (ContractError ''run-ledger adapter-evidence references attempt without adapter-outcome''))
      (seqE (reject_if (case dict_get (seen_outcomes scan) aid of
            Some pq \<Rightarrow> fld item ''provider'' \<noteq> JStr (fst pq) | None \<Rightarrow> True)
        (ContractError ''run-ledger adapter-evidence provider does not match adapter-outcome''))
      (seqE (reject_if (\<not> is_obj (fld item ''data'') \<or> \<not> truthy (fld item ''data'') \<or> \<not> is_list refs)
        (ContractError ''run-ledger adapter-evidence payload is invalid''))
      (seqE (require_in (fld item ''kind'') [''validation'', ''review'', ''delivery'', ''diagnostic'']
        (ContractError ''run-ledger adapter-evidence kind is invalid''))
      (seqE (require_in (fld item ''status'') [''passed'', ''completed'', ''partial'', ''blocked'', ''failed'']
        (ContractError ''run-ledger adapter-evidence status is invalid''))
      (seqE (reject_if (list_ex (\<lambda>i. \<not> is_nonempty_str i) (as_list refs) \<or> has_duplicates (as_list refs))
        (ContractError ''run-ledger adapter-evidence artifact ids are invalid''))
      (seqE (reject_if (list_ex (\<lambda>i. (aid, as_str i) \<notin> set artifact_keys) (as_list refs))
        (ContractError ''run-ledger adapter-evidence references unknown artifact''))
      (Inr ((aid, as_str (fld item ''status'')) # statuses))))))))))"

definition has_validation_gap :: "json list \<Rightarrow> string \<Rightarrow> bool" where
  "has_validation_gap evidence aid =
     list_ex (\<lambda>item. fld item ''attempt_id'' = JStr aid \<and> fld item ''kind'' = JStr ''validation'' \<and>
       fld item ''status'' = JStr ''partial'' \<and>
       is_nonempty_str (fld (fld item ''data'') ''suggested_validation'')) evidence"

definition check_outcome_evidence ::
    "json list \<Rightarrow> json list \<Rightarrow> (string \<times> string) list \<Rightarrow> string \<times> (string \<times> string) \<Rightarrow> unit result" where
  "check_outcome_evidence attempts evidence evidence_statuses outcome =
     (let aid = fst outcome; status = snd (snd outcome);
          statuses = map snd (filter (\<lambda>p. fst p = aid) evidence_statuses);
          outside = (\<lambda>allowed. list_ex (\<lambda>s. s \<notin> set allowed) statuses) in
      seqE (reject_if (status = ''completed'' \<and> outside [''passed'', ''completed''])
        (ContractError ''run-ledger completed outcome conflicts with evidence status''))
      (seqE (reject_if (status = ''partial'' \<and> outside [''passed'', ''completed'', ''partial''])
        (ContractError ''run-ledger partial outcome conflicts with evidence status''))
      (seqE (reject_if (status = ''blocked'' \<and> ''failed'' \<in> set statuses)
        (ContractError ''run-ledger blocked outcome conflicts with failed evidence''))
      (seqE (reject_if (status = ''failed'' \<and> ''failed'' \<notin> set statuses)
        (ContractError ''run-ledger failed outcome requires failed evidence''))
      (reject_if (status = ''partial'' \<and>
          (case attempt_by_id attempts (JStr aid) of
             Some a \<Rightarrow> fld a ''status'' = JStr ''skipped'' | None \<Rightarrow> False) \<and>
          \<not> has_validation_gap evidence aid)
        (ContractError ''run-ledger skipped partial outcome requires validation gap evidence''))))))"

text \<open>The attempt numbers of each node, in ledger order.\<close>

definition numbers_of_node :: "json list \<Rightarrow> json \<Rightarrow> json list" where
  "numbers_of_node attempts node =
     map (\<lambda>a. fld a ''attempt_number'') (filter (\<lambda>a. py_eq (fld a ''node_id'') node) attempts)"

definition increasing_unique :: "json list \<Rightarrow> bool result" where
  "increasing_unique xs = bindE (ascending xs) (\<lambda>up. if \<not> up then Inr False else all_unique xs)"

definition validate_run_ledger :: "json \<Rightarrow> unit result" where
  "validate_run_ledger value =
     seqE (base value [''run_id'', ''plan_fingerprint'', ''node_attempts'', ''resource_events'',
       ''approval_records'', ''final_status''] ''run-ledger'')
     (let package_lock_hash = fld_or value ''package_lock_hash'' (JStr []) in
      seqE (reject_if (\<not> is_str package_lock_hash \<or>
          as_str package_lock_hash \<noteq> [] \<and> \<not> is_hex 64 (as_str package_lock_hash))
        (ContractError ''run-ledger package_lock_hash is invalid''))
      (bindE (iterate (fld value ''node_attempts'')) (\<lambda>attempts.
      seqE (for_each validate_node_attempt attempts)
      (bindE (iterate (fld value ''resource_events'')) (\<lambda>resource_events.
      seqE (for_each validate_resource_event resource_events)
      (bindE (iterate (fld value ''approval_records'')) (\<lambda>approvals.
      seqE (for_each validate_approval_record approvals)
      (let attempt_ids = map (\<lambda>a. fld a ''attempt_id'') attempts in
      seqE (reject_when (mapR Not (all_unique attempt_ids))
        (ContractError ''run-ledger attempt ids must be globally unique''))
      (seqE (reject_when (mapR Not (all_pairs_unique
          (map (\<lambda>a. (fld a ''node_id'', fld a ''attempt_number'')) attempts)))
        (ContractError ''run-ledger attempt numbers must be unique per node''))
      (seqE (reject_when (anyE (\<lambda>e. mapR Not (py_member (fld e ''attempt_id'') attempt_ids)) resource_events)
        (ContractError ''resource-event references unknown attempt''))
      (seqE (reject_when (anyE (\<lambda>r. mapR Not (py_member (fld r ''attempt_id'') attempt_ids)) approvals)
        (ContractError ''approval-record references unknown attempt''))
      (let artifacts = fld_or value ''artifact_hashes'' (JList []);
           outcomes = fld_or value ''adapter_outcomes'' (JList []);
           evidence = fld_or value ''evidence'' (JList []) in
      seqE (reject_if (\<not> is_list artifacts \<or> \<not> is_list outcomes \<or> \<not> is_list evidence)
        (ContractError ''run-ledger adapter collections must be arrays''))
      (bindE (foldE (check_ledger_artifact attempts) [] (as_list artifacts)) (\<lambda>artifact_keys.
      bindE (foldE (check_ledger_outcome attempts)
          \<lparr>seen_outcomes = [], seen_requests = [], seen_invocations = []\<rparr> (as_list outcomes)) (\<lambda>scan.
      bindE (foldE (check_ledger_evidence attempts artifact_keys scan) [] (as_list evidence)) (\<lambda>statuses.
      seqE (for_each (check_outcome_evidence attempts (as_list evidence) statuses)
          (rev (seen_outcomes scan)))
      (seqE (reject_when (mapR Not (increasing_unique (map (\<lambda>e. fld e ''sequence'') resource_events)))
        (ContractError ''resource-event sequences must be increasing and unique''))
      (reject_when (anyE (\<lambda>a. mapR Not (increasing_unique (numbers_of_node attempts (fld a ''node_id''))))
          attempts)
        (ContractError ''node attempt numbers must be strictly monotonic'')))))))))))))))))))"

end
