(* ===== verification/Ledger.thy ===== *)
theory Ledger
  imports Exec CanonicalFacts LedgerContracts
begin

text \<open>
  \<^verbatim>\<open>runtime/ledger.py\<close>: the append-only JSONL ledger with its materialized view. The state is the
  ledger object and the file at its path; the operations are state-passing, so an exception keeps
  what was written before it. \<open>replay\<close> reads the file back.
\<close>

section \<open>State\<close>

definition MAX_LEDGER_BYTES :: nat where "MAX_LEDGER_BYTES = 64 * 1024 * 1024"
definition MAX_LEDGER_EVENTS :: nat where "MAX_LEDGER_EVENTS = 100000"

text \<open>
  The file at the ledger's path: missing, a regular file with its bytes, or anything else (a link, a
  directory).
\<close>

datatype ledger_file = Absent | Regular string | Special

text \<open>\<open>self.value\<close>, with \<open>self.path\<close> (set or not) and \<open>self._event_count\<close>.\<close>

record run_ledger =
  path_set :: bool
  event_count :: nat
  approval_records :: "json list"
  artifact_hashes :: "json list"
  adapter_outcomes :: "json list"
  evidence :: "json list"
  final_status :: json
  node_attempts :: "json list"
  package_lock_hash :: json
  plan_fingerprint :: json
  resolved_policy_hash :: json
  resource_events :: "json list"
  run_id :: json

record store =
  led :: run_ledger
  disk :: ledger_file

definition new_ledger :: "bool \<Rightarrow> json \<Rightarrow> json \<Rightarrow> json \<Rightarrow> json \<Rightarrow> run_ledger" where
  "new_ledger has_path fingerprint lock_hash policy_hash rid =
     \<lparr>path_set = has_path, event_count = 0, approval_records = [], artifact_hashes = [],
      adapter_outcomes = [], evidence = [], final_status = JStr ''active'', node_attempts = [],
      package_lock_hash = lock_hash, plan_fingerprint = fingerprint,
      resolved_policy_hash = policy_hash, resource_events = [], run_id = rid\<rparr>"

text \<open>\<open>run_id or f"run-{uuid4().hex}"\<close>\<close>

definition run_id_or_new :: "world \<Rightarrow> nat \<Rightarrow> json \<Rightarrow> json" where
  "run_id_or_new w uid rid = (if truthy rid then rid else JStr (''run-'' @ uuid_hex w uid))"

definition ledger_value :: "run_ledger \<Rightarrow> json" where
  "ledger_value l = JObj [
     (''approval_records'', JList (approval_records l)),
     (''artifact_hashes'', JList (artifact_hashes l)),
     (''adapter_outcomes'', JList (adapter_outcomes l)),
     (''evidence'', JList (evidence l)),
     (''final_status'', final_status l),
     (''node_attempts'', JList (node_attempts l)),
     (''package_lock_hash'', package_lock_hash l),
     (''plan_fingerprint'', plan_fingerprint l),
     (''resolved_policy_hash'', resolved_policy_hash l),
     (''resource_events'', JList (resource_events l)),
     (''run_id'', run_id l),
     (''schema_version'', JStr ''1.0'')]"

section \<open>Appending events\<close>

definition supported_events :: "string list" where
  "supported_events = [''adapter-evidence'', ''adapter-outcome'', ''approval-record'', ''artifact-hash'',
     ''node-attempt'', ''resource-event'', ''run-blocked'', ''run-finalized'', ''run-resumed'',
     ''run-started'']"

definition ledger_event :: "run_ledger \<Rightarrow> json \<Rightarrow> json \<Rightarrow> json" where
  "ledger_event l event_type v =
     JObj [(''event_type'', event_type), (''run_id'', run_id l), (''value'', v)]"

definition too_many_bytes :: py_error where
  "too_many_bytes = ContractError (''runtime ledger has more than '' @ decimal MAX_LEDGER_BYTES @ '' bytes'')"

definition too_many_events :: py_error where
  "too_many_events = ContractError (''runtime ledger has more than '' @ decimal MAX_LEDGER_EVENTS @ '' events'')"

text \<open>Writing one line.\<close>

definition write_event :: "world \<Rightarrow> json \<Rightarrow> ledger_file \<Rightarrow> ledger_file result" where
  "write_event w event f =
     (case f of
        Special \<Rightarrow> Inl (ContractError ''runtime ledger path must be a regular file'')
      | Absent \<Rightarrow> mapR Regular (dumps w event)
      | Regular content \<Rightarrow>
          bindE (dumps w event) (\<lambda>encoded.
          if length content + length encoded > MAX_LEDGER_BYTES then Inl too_many_bytes
          else Inr (Regular (content @ encoded))))"

text \<open>The index of the snapshot of the same attempt, if there is one.\<close>

fun snapshot_index :: "json list \<Rightarrow> json \<Rightarrow> nat option result" where
  "snapshot_index [] v = Inr None"
| "snapshot_index (a # as) v =
     bindE (getitem a ''attempt_id'') (\<lambda>x. bindE (getitem v ''attempt_id'') (\<lambda>y.
     if py_eq x y then Inr (Some 0) else mapR (map_option Suc) (snapshot_index as v)))"

text \<open>The effect of an event on the view.\<close>

definition view_event :: "json \<Rightarrow> json \<Rightarrow> run_ledger \<Rightarrow> run_ledger result" where
  "view_event event_type v l =
     (if event_type = JStr ''node-attempt'' then
        bindE (snapshot_index (node_attempts l) v) (\<lambda>existing.
        Inr (case existing of
           None \<Rightarrow> l\<lparr>node_attempts := node_attempts l @ [v]\<rparr>
         | Some i \<Rightarrow> l\<lparr>node_attempts := (node_attempts l)[i := v]\<rparr>))
      else if event_type = JStr ''resource-event'' then
        Inr (l\<lparr>resource_events := resource_events l @ [v]\<rparr>)
      else if event_type = JStr ''approval-record'' then
        Inr (l\<lparr>approval_records := approval_records l @ [v]\<rparr>)
      else if event_type = JStr ''artifact-hash'' then
        Inr (l\<lparr>artifact_hashes := artifact_hashes l @ [v]\<rparr>)
      else if event_type = JStr ''adapter-evidence'' then
        Inr (l\<lparr>evidence := evidence l @ [v]\<rparr>)
      else if event_type = JStr ''adapter-outcome'' then
        Inr (l\<lparr>adapter_outcomes := adapter_outcomes l @ [v]\<rparr>)
      else if event_type = JStr ''run-finalized'' then
        bindE (getitem v ''status'') (\<lambda>s. Inr (l\<lparr>final_status := s\<rparr>))
      else if event_type = JStr ''run-started'' then
        bindE (getitem v ''plan_fingerprint'') (\<lambda>f.
        if \<not> py_eq f (plan_fingerprint l)
        then Inl (ContractError ''run-started fingerprint does not match ledger'')
        else bindE (get_default v ''package_lock_hash'' (JStr [])) (\<lambda>h.
        if \<not> py_eq h (package_lock_hash l)
        then Inl (ContractError ''run-started package lock does not match ledger'')
        else Inr l))
      else if event_type = JStr ''run-resumed'' then
        bindE (get_default v ''package_lock_hash'' (JStr [])) (\<lambda>h.
        if \<not> py_eq h (package_lock_hash l)
        then Inl (ContractError ''run-resumed package lock does not match ledger'')
        else Inr (l\<lparr>final_status := JStr ''active''\<rparr>))
      else Inr l)"

definition append_event :: "world \<Rightarrow> json \<Rightarrow> json \<Rightarrow> (store, unit) exec" where
  "append_event w event_type v s =
     (let l = led s in
      case not_in_strings event_type supported_events of
        Inl e \<Rightarrow> (Inl e, s)
      | Inr True \<Rightarrow> (Inl (ContractError (''unknown ledger event type: '' @ as_str event_type)), s)
      | Inr False \<Rightarrow>
          if event_count l \<ge> MAX_LEDGER_EVENTS then (Inl too_many_events, s)
          else
            case (if path_set l then write_event w (ledger_event l event_type v) (disk s) else Inr (disk s)) of
              Inl e \<Rightarrow> (Inl e, s)
            | Inr f \<Rightarrow>
                let l1 = l\<lparr>event_count := event_count l + 1\<rparr> in
                (case view_event event_type v l1 of
                   Inl e \<Rightarrow> (Inl e, \<lparr>led = l1, disk = f\<rparr>)
                 | Inr l2 \<Rightarrow> (Inr (), \<lparr>led = l2, disk = f\<rparr>)))"

definition finalize :: "world \<Rightarrow> json \<Rightarrow> (store, json) exec" where
  "finalize w status =
     thenS (append_event w (JStr ''run-finalized'') (JObj [(''status'', status)]))
     (bindS (reads (\<lambda>s. ledger_value (led s))) (\<lambda>v.
     thenS (liftE (validate_run_ledger v)) (ret v)))"

section \<open>replay\<close>

text \<open>
  \<open>read_text(...).splitlines()\<close>. Besides the newline that ends an event, text lines end at a carriage
  return, vertical tab, form feed, the separators \<open>0x1C\<close> to \<open>0x1E\<close>, next line (U+0085) and the
  line and paragraph separators (U+2028, U+2029).
\<close>

definition is_line_break :: "string \<Rightarrow> bool" where
  "is_line_break c \<longleftrightarrow>
     c \<in> set [[CHR 0x0A], [CHR 0x0B], [CHR 0x0C], [CHR 0x0D], [CHR 0x1C], [CHR 0x1D], [CHR 0x1E],
       [CHR 0xC2, CHR 0x85], [CHR 0xE2, CHR 0x80, CHR 0xA8], [CHR 0xE2, CHR 0x80, CHR 0xA9]]"

function lines_from :: "string \<Rightarrow> string list \<Rightarrow> string list" where
  "lines_from current [] = (if current = [] then [] else [current])"
| "lines_from current (c # cs) =
     (if c = [CHR 0x0D] then current # lines_from [] (if cs \<noteq> [] \<and> hd cs = [CHR 0x0A] then tl cs else cs)
      else if is_line_break c then current # lines_from [] cs
      else lines_from (current @ c) cs)"
  by pat_completeness auto
termination by (relation "measure (\<lambda>(_, cs). length cs)") auto

definition splitlines :: "string \<Rightarrow> string list" where
  "splitlines content = lines_from [] (chars_of content)"

definition parse_line :: "world \<Rightarrow> string \<Rightarrow> json result" where
  "parse_line w line =
     bindE (parse_json w line) (\<lambda>event. bindE (dumps w event) (\<lambda>_. Inr event))"

definition start_error :: py_error where
  "start_error = ContractError ''runtime ledger must begin with exactly one run-started event''"

definition is_started :: "json \<Rightarrow> bool result" where
  "is_started event = bindE (get_opt event ''event_type'') (\<lambda>t. Inr (t = JStr ''run-started''))"

text \<open>\<open>not events or events[0].get(...) != ... or sum(...) != 1\<close>\<close>

definition check_started :: "json list \<Rightarrow> unit result" where
  "check_started events =
     (case events of
        [] \<Rightarrow> Inl start_error
      | first # _ \<Rightarrow>
          bindE (is_started first) (\<lambda>b.
          if \<not> b then Inl start_error
          else bindE (mapE is_started events) (\<lambda>bs.
            reject_if (length (filter id bs) \<noteq> 1) start_error)))"

definition replay_event :: "world \<Rightarrow> run_ledger \<Rightarrow> json \<Rightarrow> run_ledger result" where
  "replay_event w l event =
     bindE (getitem event ''run_id'') (\<lambda>rid.
     if \<not> py_eq rid (run_id l) then Inl (ValueError ''ledger contains multiple run ids'')
     else bindE (getitem event ''event_type'') (\<lambda>t. bindE (getitem event ''value'') (\<lambda>v.
       (case append_event w t v \<lparr>led = l, disk = Absent\<rparr> of
          (Inl e, _) \<Rightarrow> Inl e
        | (Inr _, s) \<Rightarrow> Inr (led s)))))"

text \<open>\<open>fingerprint\<close> is the caller's plan fingerprint; \<open>uid\<close> numbers the UUID drawn for an empty run id.\<close>

definition replay :: "world \<Rightarrow> nat \<Rightarrow> ledger_file \<Rightarrow> json \<Rightarrow> run_ledger result" where
  "replay w uid f fingerprint =
     (case f of
        Regular content \<Rightarrow>
          if length content > MAX_LEDGER_BYTES then Inl too_many_bytes
          else
            bindE (mapE (parse_line w) (splitlines content)) (\<lambda>events.
            if length events > MAX_LEDGER_EVENTS then Inl too_many_events
            else
              seqE (check_started events)
              (let started = hd events in
               bindE (getitem started ''run_id'') (\<lambda>rid.
               bindE (getitem started ''value'') (\<lambda>v.
               bindE (getitem v ''plan_fingerprint'') (\<lambda>f.
               if \<not> py_eq f fingerprint
               then Inl (ContractError ''cannot resume ledger with a different plan fingerprint'')
               else
                 bindE (get_default v ''package_lock_hash'' (JStr [])) (\<lambda>lock.
                 bindE (foldE (replay_event w)
                     (new_ledger False fingerprint lock (JStr []) (run_id_or_new w uid rid)) events) (\<lambda>l.
                 seqE (validate_run_ledger (ledger_value l)) (Inr (l\<lparr>path_set := True\<rparr>))))))))
            )
      | _ \<Rightarrow> Inl (ContractError ''runtime ledger path must be a regular file''))"

end
