(* ===== verification/LedgerFacts.thy ===== *)
theory LedgerFacts
  imports Ledger
begin

text \<open>
  What the ledger promises: the file only grows, the view keeps one snapshot per attempt, and replaying
  the file gives back the view with the keys of every object in canonical order.
\<close>

section \<open>The view\<close>

lemma append_event_cases:
  assumes "append_event w t v s = (r, s')"
  obtains (refused) e where "r = Inl e" and "s' = s"
  | (bad_value) e f where "r = Inl e"
      and "s' = \<lparr>led = (led s)\<lparr>event_count := event_count (led s) + 1\<rparr>, disk = f\<rparr>"
      and "event_count (led s) < MAX_LEDGER_EVENTS"
      and "(if path_set (led s) then write_event w (ledger_event (led s) t v) (disk s) else Inr (disk s)) = Inr f"
  | (appended) l f where "r = Inr ()" and "s' = \<lparr>led = l, disk = f\<rparr>"
      and "not_in_strings t supported_events = Inr False" and "event_count (led s) < MAX_LEDGER_EVENTS"
      and "(if path_set (led s) then write_event w (ledger_event (led s) t v) (disk s) else Inr (disk s)) = Inr f"
      and "view_event t v ((led s)\<lparr>event_count := event_count (led s) + 1\<rparr>) = Inr l"
  using assms unfolding append_event_def Let_def
  by (auto split: sum.splits bool.splits if_splits)

lemma append_event_ok:
  "append_event w t v s = (Inr u, s') \<longleftrightarrow>
     not_in_strings t supported_events = Inr False \<and> event_count (led s) < MAX_LEDGER_EVENTS \<and>
     (\<exists>f l. (if path_set (led s) then write_event w (ledger_event (led s) t v) (disk s) else Inr (disk s)) = Inr f \<and>
        view_event t v ((led s)\<lparr>event_count := event_count (led s) + 1\<rparr>) = Inr l \<and>
        s' = \<lparr>led = l, disk = f\<rparr>)"
  unfolding append_event_def Let_def by (auto split: sum.splits bool.splits if_splits)

lemma view_event_keeps:
  assumes "view_event t v l = Inr l'"
  shows "event_count l' = event_count l" "run_id l' = run_id l" "path_set l' = path_set l"
    "package_lock_hash l' = package_lock_hash l" "plan_fingerprint l' = plan_fingerprint l"
    "resolved_policy_hash l' = resolved_policy_hash l"
  using assms unfolding view_event_def
  by (auto simp: result_simps split: if_splits option.splits)

lemma append_event_count:
  "append_event w t v s = (r, s') \<Longrightarrow>
   event_count (led s') \<le> event_count (led s) + 1 \<and>
   (event_count (led s) \<le> MAX_LEDGER_EVENTS \<longrightarrow> event_count (led s') \<le> MAX_LEDGER_EVENTS)"
  by (erule append_event_cases) (auto simp: view_event_keeps(1))

section \<open>The file\<close>

definition file_bytes :: "ledger_file \<Rightarrow> string" where
  "file_bytes f = (case f of Regular c \<Rightarrow> c | _ \<Rightarrow> [])"

lemma write_event_bytes:
  assumes "write_event w e f = Inr f'"
  shows "\<exists>line. dumps w e = Inr line \<and> f' = Regular (file_bytes f @ line) \<and>
    (f \<noteq> Absent \<longrightarrow> length (file_bytes f') \<le> MAX_LEDGER_BYTES)"
  using assms by (cases f) (auto simp: write_event_def result_simps file_bytes_def split: if_splits)

lemma append_event_file:
  assumes "append_event w t v s = (r, s')"
  shows "\<exists>line. file_bytes (disk s') = file_bytes (disk s) @ line \<and>
     (r = Inr () \<and> path_set (led s) \<longrightarrow> dumps w (ledger_event (led s) t v) = Inr line) \<and>
     (\<not> path_set (led s) \<longrightarrow> disk s' = disk s)"
  using assms
proof (cases rule: append_event_cases)
  case refused
  then show ?thesis by simp
next
  case (bad_value e f)
  then show ?thesis
    using write_event_bytes [of w "ledger_event (led s) t v" "disk s" f]
    by (auto simp: file_bytes_def split: if_splits)
next
  case (appended l f)
  then show ?thesis
    using write_event_bytes [of w "ledger_event (led s) t v" "disk s" f]
    by (auto simp: file_bytes_def split: if_splits)
qed

section \<open>One snapshot per attempt\<close>

definition attempt_key :: "json \<Rightarrow> string" where
  "attempt_key a = as_str (fld a ''attempt_id'')"

definition identified :: "json \<Rightarrow> bool" where
  "identified a \<longleftrightarrow> is_obj a \<and> has_key a ''attempt_id'' \<and> is_str (fld a ''attempt_id'')"

text \<open>Replace the snapshot with the same identity, or add one at the end.\<close>

fun record_attempt :: "json \<Rightarrow> json list \<Rightarrow> json list" where
  "record_attempt v [] = [v]"
| "record_attempt v (a # as) = (if attempt_key a = attempt_key v then v # as else a # record_attempt v as)"

lemma keys_record_attempt:
  "map attempt_key (record_attempt v as) =
     (if attempt_key v \<in> set (map attempt_key as) then map attempt_key as
      else map attempt_key as @ [attempt_key v])"
  by (induction as) auto

lemma record_attempt_fresh: "attempt_key v \<notin> attempt_key ` set as \<Longrightarrow> record_attempt v as = as @ [v]"
  by (induction as) auto

lemma record_attempt_set: "set (record_attempt v as) \<subseteq> insert v (set as)"
  by (induction as) auto

lemma record_attempt_in: "v \<in> set (record_attempt v as)"
  by (induction as) auto

lemma snapshot_index_identified:
  assumes "identified v" and "\<forall>a \<in> set as. identified a"
  shows "\<exists>i. snapshot_index as v = Inr i \<and>
     (case i of None \<Rightarrow> as @ [v] | Some j \<Rightarrow> as[j := v]) = record_attempt v as"
  using assms(2)
proof (induction as)
  case (Cons a as)
  then obtain i where i: "snapshot_index as v = Inr i"
      "(case i of None \<Rightarrow> as @ [v] | Some j \<Rightarrow> as[j := v]) = record_attempt v as" by auto
  have "getitem a ''attempt_id'' = Inr (fld a ''attempt_id'')" "getitem v ''attempt_id'' = Inr (fld v ''attempt_id'')"
    using Cons.prems assms(1) by (auto simp: getitem_eq_Inr identified_def)
  moreover have "py_eq (fld a ''attempt_id'') (fld v ''attempt_id'') = (attempt_key a = attempt_key v)"
    using Cons.prems assms(1) by (auto simp: identified_def attempt_key_def is_str_iff py_eq.simps)
  ultimately show ?case using i by (auto split: option.splits)
qed simp

lemma view_event_attempt:
  assumes "identified v" and "\<forall>a \<in> set (node_attempts l). identified a"
  shows "view_event (JStr ''node-attempt'') v l = Inr (l\<lparr>node_attempts := record_attempt v (node_attempts l)\<rparr>)"
proof -
  obtain i where "snapshot_index (node_attempts l) v = Inr i"
      "(case i of None \<Rightarrow> node_attempts l @ [v] | Some j \<Rightarrow> (node_attempts l)[j := v]) =
        record_attempt v (node_attempts l)"
    using snapshot_index_identified [OF assms] by blast
  then show ?thesis by (auto simp: view_event_def split: option.splits)
qed

definition one_snapshot :: "run_ledger \<Rightarrow> bool" where
  "one_snapshot l \<longleftrightarrow> (\<forall>a \<in> set (node_attempts l). identified a) \<and> distinct (map attempt_key (node_attempts l))"

lemma view_event_other_attempts:
  "view_event t v l = Inr l' \<Longrightarrow> t \<noteq> JStr ''node-attempt'' \<Longrightarrow> node_attempts l' = node_attempts l"
  unfolding view_event_def by (auto simp: result_simps split: if_splits)

lemma view_event_one_snapshot:
  assumes "one_snapshot l" and "t = JStr ''node-attempt'' \<Longrightarrow> identified v" and "view_event t v l = Inr l'"
  shows "one_snapshot l'"
proof (cases "t = JStr ''node-attempt''")
  case True
  with assms have l': "node_attempts l' = record_attempt v (node_attempts l)"
    using view_event_attempt [of v l] by (auto simp: one_snapshot_def)
  show ?thesis
    using assms(1) True assms(2) record_attempt_set [of v "node_attempts l"]
    unfolding one_snapshot_def l' keys_record_attempt by auto
next
  case False
  with assms(1,3) view_event_other_attempts show ?thesis by (simp add: one_snapshot_def)
qed

lemma append_one_snapshot:
  assumes "one_snapshot (led s)" and "t = JStr ''node-attempt'' \<Longrightarrow> identified v"
    and "append_event w t v s = (r, s')"
  shows "one_snapshot (led s')"
  using assms(3)
proof (cases rule: append_event_cases)
  case (appended l f)
  have "one_snapshot ((led s)\<lparr>event_count := event_count (led s) + 1\<rparr>)"
    using assms(1) by (simp add: one_snapshot_def)
  from view_event_one_snapshot [OF this assms(2) appended(6)] appended(2) show ?thesis by simp
qed (use assms(1) in \<open>simp_all add: one_snapshot_def\<close>)

end
