(* ===== verification/KeySorted.thy ===== *)
theory KeySorted
  imports CanonicalFacts LedgerContracts
begin

text \<open>
  Sorting the keys of every object changes nothing a program can observe through subscripts, Python
  equality, or the canonical writer.
\<close>

lemma map_of_sort_key: "map_of (sort_key fst kvs) k = map_of kvs k"
proof -
  have *: "map_of xs k = (case filter (\<lambda>p. fst p = k) xs of [] \<Rightarrow> None | x # _ \<Rightarrow> Some (snd x))" for xs
    by (induction xs) auto
  have "filter (\<lambda>p. fst p = k) (sort_key fst kvs) = filter (\<lambda>p. fst p = k) kvs"
    by (rule sort_key_stable)
  then show ?thesis by (simp only: *)
qed

lemma dict_get_key_sorted:
  "dict_get (as_dict (key_sorted (JObj kvs))) k = map_option key_sorted (dict_get kvs k)"
proof -
  have "map_of (map (\<lambda>kv. (fst kv, key_sorted (snd kv))) xs) k = map_option key_sorted (map_of xs k)" for xs
    by (induction xs) auto
  then show ?thesis by (simp add: key_sorted_JObj dict_get_def map_of_sort_key)
qed

lemma key_sorted_kind [simp]:
  "is_obj (key_sorted v) = is_obj v" "is_list (key_sorted v) = is_list v" "is_str (key_sorted v) = is_str v"
  "hashable (key_sorted v) = hashable v" "num_of (key_sorted v) = num_of v"
  by (cases v; simp add: key_sorted_JObj hashable_def)+

lemma key_sorted_JStr_iff [simp]: "key_sorted v = JStr s \<longleftrightarrow> v = JStr s" "JStr s = key_sorted v \<longleftrightarrow> v = JStr s"
  by (cases v; auto simp: key_sorted_JObj)+

lemma truthy_key_sorted [simp]: "truthy (key_sorted v) = truthy v"
proof (cases v)
  case (JObj kvs)
  have "set (sort_key fst kvs) = set kvs" by simp
  then have "sort_key fst kvs = [] \<longleftrightarrow> kvs = []" by (metis set_empty)
  with JObj show ?thesis by (simp add: key_sorted_JObj)
qed simp_all

lemma getitem_key_sorted: "getitem (key_sorted v) k = mapR key_sorted (getitem v k)"
proof (cases v)
  case (JObj kvs)
  then show ?thesis
    using dict_get_key_sorted [of kvs k] by (auto simp: key_sorted_JObj split: option.splits)
qed simp_all

lemma get_default_key_sorted: "get_default (key_sorted v) k (key_sorted d) = mapR key_sorted (get_default v k d)"
proof (cases v)
  case (JObj kvs)
  then show ?thesis
    using dict_get_key_sorted [of kvs k] by (auto simp: key_sorted_JObj split: option.splits)
qed simp_all

lemma children_key_sorted: "set (children (key_sorted v)) = key_sorted ` set (children v)"
  by (cases v) (auto simp: key_sorted_JObj image_image)

lemma limits_ok_key_sorted [simp]: "limits_ok (key_sorted v) d = limits_ok v d"
proof (induction v arbitrary: d)
  case (JObj kvs)
  have "limits_ok (key_sorted (JObj kvs)) d \<longleftrightarrow>
      Suc d \<le> MAX_CANONICAL_JSON_DEPTH \<and> (\<forall>kv \<in> set kvs. limits_ok (key_sorted (snd kv)) (Suc d))"
    by (auto simp: key_sorted_JObj image_image)
  also have "\<dots> = limits_ok (JObj kvs) d"
    using JObj by (auto simp: image_iff)
  finally show ?case .
qed auto

lemma has_nonfinite_key_sorted [simp]: "has_nonfinite (key_sorted v) = has_nonfinite v"
proof (induction v)
  case (JObj kvs)
  have "has_nonfinite (key_sorted (JObj kvs)) \<longleftrightarrow> (\<exists>kv \<in> set kvs. has_nonfinite (key_sorted (snd kv)))"
    by (auto simp: key_sorted_JObj list_ex_iff)
  also have "\<dots> = has_nonfinite (JObj kvs)"
  proof -
    have "has_nonfinite (key_sorted (snd kv)) = has_nonfinite (snd kv)" if "kv \<in> set kvs" for kv
      using JObj [OF that, of "snd kv"] by (cases kv) simp
    then show ?thesis by (simp add: list_ex_iff)
  qed
  finally show ?case .
qed (auto simp: list_ex_iff)

lemma dumps_key_sorted: "dumps w (key_sorted v) = Inr s \<longleftrightarrow> dumps w v = Inr s"
  by (simp add: dumps_eq_Inr key_sorted_text)

lemma sha256_key_sorted: "sha256 w (key_sorted v) = Inr h \<longleftrightarrow> sha256 w v = Inr h"
  by (auto simp: sha256_def bindE_eq_Inr dumps_key_sorted)

lemma set_zip_map2: "set (zip (map f xs) (map g ys)) = (\<lambda>p. (f (fst p), g (snd p))) ` set (zip xs ys)"
  by (induction xs ys rule: list_induct2') auto

lemma py_eq_key_sorted [simp]: "py_eq (key_sorted v) (key_sorted u) = py_eq v u"
proof (induction v u rule: py_eq.induct)
  case (1 v u)
  show ?case
  proof (cases "is_list v \<and> is_list u")
    case True
    then obtain xs ys where [simp]: "v = JList xs" "u = JList ys" by (auto simp: is_list_iff)
    have IH: "py_eq (key_sorted (fst p)) (key_sorted (snd p)) = py_eq (fst p) (snd p)"
      if "p \<in> set (zip xs ys)" "length xs = length ys" for p
      using "1.IH"(1) [of "JList xs" "JList ys" xs ys p] that by simp
    show ?thesis
      unfolding py_eq.simps [of "key_sorted v"] py_eq.simps [of v]
      using IH by (auto simp: set_zip_map2)
  next
    case F1: False
    show ?thesis
    proof (cases "is_obj v \<and> is_obj u")
      case True
      then obtain a b where [simp]: "v = JObj a" "u = JObj b" by (auto simp: is_obj_iff)
      have IH: "py_eq (key_sorted (snd kv)) (key_sorted y) = py_eq (snd kv) y"
        if "length a = length b" "kv \<in> set a" "dict_get b (fst kv) = Some y" for kv y
        using "1.IH"(2) [of "JObj a" "JObj b" a b kv y] that by simp
      have b: "dict_get (map (\<lambda>kv. (fst kv, key_sorted (snd kv))) (sort_key fst b)) k =
          map_option key_sorted (dict_get b k)" for k
        using dict_get_key_sorted [of b k] by (simp add: key_sorted_JObj)
      show ?thesis
      proof (cases "length a = length b")
        case len: True
        then show ?thesis
          unfolding py_eq.simps [of "key_sorted v"] py_eq.simps [of v]
          using IH by (auto simp: key_sorted_JObj b split: option.splits)
      next
        case False
        then show ?thesis
          unfolding py_eq.simps [of "key_sorted v"] py_eq.simps [of v] by (simp add: key_sorted_JObj)
      qed
    next
      case False
      with F1 show ?thesis
        unfolding py_eq.simps [of "key_sorted v"] py_eq.simps [of v]
        by (cases v; cases u) (simp_all add: key_sorted_JObj split: pyfloat.splits)
    qed
  qed
qed

end
