(* ===== verification/Text.thy ===== *)
theory Text
  imports CanonicalFacts
begin

text \<open>
  Texts as code points: how \<open>chars_of\<close> splits a concatenation, ASCII texts, and the splitting methods
  of Python strings.
\<close>

section \<open>Code points of a concatenation\<close>

lemma concat_chars_of [simp]: "concat (chars_of s) = s"
  by (induction s rule: chars_of.induct) auto

definition starts_char :: "string \<Rightarrow> bool" where
  "starts_char b \<longleftrightarrow> (b = [] \<or> \<not> is_cont (hd b))"

lemma takeWhile_cont_append: "starts_char b \<Longrightarrow>
    takeWhile is_cont (a @ b) = takeWhile is_cont a \<and> dropWhile is_cont (a @ b) = dropWhile is_cont a @ b"
  by (induction a) (cases b; auto simp: starts_char_def)+

lemma chars_of_append: "starts_char b \<Longrightarrow> chars_of (a @ b) = chars_of a @ chars_of b"
proof (induction a rule: chars_of.induct)
  case (2 c cs)
  then show ?case using takeWhile_cont_append [of b cs] by simp
qed simp

definition ascii :: "string \<Rightarrow> bool" where
  "ascii s \<longleftrightarrow> list_all (\<lambda>c. \<not> is_cont c) s"

lemma ascii_simps [simp]:
  "ascii []" "ascii (c # s) = (\<not> is_cont c \<and> ascii s)" "ascii (s @ t) = (ascii s \<and> ascii t)"
  by (simp_all add: ascii_def)

lemma ascii_subset: "set s \<subseteq> set t \<Longrightarrow> ascii t \<Longrightarrow> ascii s"
  by (auto simp: ascii_def list_all_iff)

lemma ascii_starts: "ascii s \<Longrightarrow> starts_char s"
  by (cases s) (simp_all add: starts_char_def)

lemma chars_of_ascii: "ascii s \<Longrightarrow> chars_of s = map (\<lambda>c. [c]) s"
proof (induction s)
  case (Cons c s)
  then have "takeWhile is_cont s = []" "dropWhile is_cont s = s" by (cases s; simp)+
  with Cons show ?case by simp
qed simp

lemma ascii_decimal: "ascii (decimal n)"
  by (rule ascii_subset [OF decimal_digits]) code_simp

section \<open>Splitting\<close>

text \<open>\<open>s.split(x)\<close> on code points\<close>

fun split_on :: "'a \<Rightarrow> 'a list \<Rightarrow> 'a list list" where
  "split_on x [] = [[]]"
| "split_on x (c # cs) =
     (if c = x then [] # split_on x cs
      else case split_on x cs of p # ps \<Rightarrow> (c # p) # ps | [] \<Rightarrow> [[c]])"

lemma split_on_single: "x \<notin> set a \<Longrightarrow> split_on x a = [a]"
  by (induction a) auto

lemma split_on_append: "x \<notin> set a \<Longrightarrow> split_on x (a @ x # b) = a # split_on x b"
  by (induction a) auto

text \<open>\<open>s.split()\<close>\<close>

fun split_spaces :: "string \<Rightarrow> string list \<Rightarrow> string list" where
  "split_spaces current [] = (if current = [] then [] else [current])"
| "split_spaces current (c # cs) =
     (if is_space c then (if current = [] then split_spaces [] cs else current # split_spaces [] cs)
      else split_spaces (current @ c) cs)"

definition split_words :: "string \<Rightarrow> string list" where
  "split_words s = split_spaces [] (chars_of s)"

lemma split_spaces_word:
  "list_all (\<lambda>c. \<not> is_space c) cs \<Longrightarrow> split_spaces current (cs @ rest) = split_spaces (current @ concat cs) rest"
  by (induction cs arbitrary: current) auto

definition word_text :: "string \<Rightarrow> bool" where
  "word_text s \<longleftrightarrow> ascii s \<and> s \<noteq> [] \<and> list_all (\<lambda>c. \<not> is_space [c]) s"

lemma split_words_two:
  assumes "word_text a" and "word_text b"
  shows "split_words (a @ '' '' @ b) = [a, b]"
proof -
  have sp: "is_space '' ''" "ascii '' ''" by code_simp+
  have c: "chars_of (a @ '' '' @ b) = map (\<lambda>c. [c]) a @ '' '' # map (\<lambda>c. [c]) b"
    using assms sp(2) by (subst chars_of_ascii) (simp_all add: word_text_def)
  have ab: "list_all (\<lambda>c. \<not> is_space c) (map (\<lambda>c. [c]) a)" "list_all (\<lambda>c. \<not> is_space c) (map (\<lambda>c. [c]) b)"
    using assms by (auto simp: word_text_def list_all_iff)
  have "split_spaces [] (map (\<lambda>c. [c]) a @ '' '' # map (\<lambda>c. [c]) b) = a # split_spaces [] (map (\<lambda>c. [c]) b @ [])"
    using assms(1) sp by (subst split_spaces_word [OF ab(1)]) (simp add: word_text_def)
  also have "\<dots> = [a, b]"
    using assms(2) by (subst split_spaces_word [OF ab(2)]) (simp add: word_text_def)
  finally show ?thesis unfolding split_words_def c .
qed

lemma not_blank_word:
  assumes "word_text a" and "starts_char s"
  shows "\<not> is_blank (a @ s)"
proof -
  have "chars_of (a @ s) = map (\<lambda>c. [c]) a @ chars_of s"
    using assms by (simp only: chars_of_append) (simp add: chars_of_ascii word_text_def)
  then show ?thesis using assms(1) by (cases a) (simp_all add: is_blank_def word_text_def)
qed

end
