(* ===== verification/LedgerReplay.thy ===== *)
theory LedgerReplay
  imports LedgerFacts KeySorted Text
begin

text \<open>
  Replaying the file of a ledger gives its view back, up to the order of the keys in objects, as long
  as no recorded text contains one of the further line separators of \<open>splitlines\<close>; with such a
  separator the line is cut in two.
\<close>

section \<open>Lines of a text\<close>

definition unbroken :: "string \<Rightarrow> bool" where
  "unbroken s \<longleftrightarrow> list_all (\<lambda>c. \<not> is_line_break c) (chars_of s)"

lemma lines_from_unbroken:
  "list_all (\<lambda>c. \<not> is_line_break c) cs \<Longrightarrow>
   lines_from current (cs @ [CHR 0x0A] # rest) = (current @ concat cs) # lines_from [] rest"
proof (induction cs arbitrary: current)
  case Nil
  then show ?case by (simp add: is_line_break_def)
next
  case (Cons c cs)
  then have "c \<noteq> [CHR 0x0D]" "\<not> is_line_break c" by (auto simp: is_line_break_def)
  with Cons show ?case by simp
qed

definition newline :: string where "newline = [CHR 0x0A]"

lemma splitlines_line:
  assumes "unbroken line" and "starts_char rest"
  shows "splitlines (line @ newline @ rest) = line # splitlines rest"
proof -
  have "\<not> is_cont (CHR 0x0A)" by (simp add: is_cont_def)
  then have "chars_of (newline @ rest) = [CHR 0x0A] # chars_of rest"
    using takeWhile_cont_append [OF assms(2), of "[]"] by (simp add: newline_def)
  moreover have "starts_char (newline @ rest)"
    using \<open>\<not> is_cont (CHR 0x0A)\<close> by (simp add: starts_char_def newline_def)
  ultimately have "chars_of (line @ newline @ rest) = chars_of line @ [CHR 0x0A] # chars_of rest"
    by (simp add: chars_of_append)
  then show ?thesis
    using lines_from_unbroken [of "chars_of line" "[]" "chars_of rest"] assms(1)
    by (simp add: splitlines_def unbroken_def)
qed

lemma splitlines_lines:
  assumes "\<forall>line \<in> set lines. unbroken line \<and> starts_char line \<and> line \<noteq> []"
  shows "splitlines (concat (map (\<lambda>line. line @ newline) lines)) = lines"
  using assms
proof (induction lines)
  case (Cons l ls)
  have "starts_char (concat (map (\<lambda>line. line @ newline) ls))"
    using Cons.prems by (cases ls) (auto simp: starts_char_def)
  with Cons show ?case using splitlines_line [of l] by simp
qed (simp add: splitlines_def)

section \<open>The view under sorted keys\<close>

definition sorted_ledger :: "run_ledger \<Rightarrow> run_ledger" where
  "sorted_ledger l =
     \<lparr>path_set = path_set l, event_count = event_count l,
      approval_records = map key_sorted (approval_records l),
      artifact_hashes = map key_sorted (artifact_hashes l),
      adapter_outcomes = map key_sorted (adapter_outcomes l),
      evidence = map key_sorted (evidence l), final_status = key_sorted (final_status l),
      node_attempts = map key_sorted (node_attempts l),
      package_lock_hash = key_sorted (package_lock_hash l),
      plan_fingerprint = key_sorted (plan_fingerprint l),
      resolved_policy_hash = key_sorted (resolved_policy_hash l),
      resource_events = map key_sorted (resource_events l), run_id = key_sorted (run_id l)\<rparr>"

lemma snapshot_index_key_sorted:
  "snapshot_index (map key_sorted as) (key_sorted v) = snapshot_index as v"
proof (induction as)
  case (Cons a as)
  then show ?case
    by (cases "getitem a ''attempt_id''"; cases "getitem v ''attempt_id''")
      (simp_all add: getitem_key_sorted)
qed simp

lemma get_lock_key_sorted:
  "get_default (key_sorted v) k (JStr []) = mapR key_sorted (get_default v k (JStr []))"
  using get_default_key_sorted [of v k "JStr []"] by simp

lemma mapR_if: "mapR f (if b then x else y) = (if b then mapR f x else mapR f y)"
  by simp

lemma mapR_bindE: "mapR f (bindE m g) = bindE m (\<lambda>x. mapR f (g x))"
  by (cases m) simp_all

lemma bindE_mapR: "bindE (mapR f m) g = bindE m (\<lambda>x. g (f x))"
  by (cases m) simp_all

lemma sorted_ledger_simps [simp]:
  "node_attempts (sorted_ledger l) = map key_sorted (node_attempts l)"
  "plan_fingerprint (sorted_ledger l) = key_sorted (plan_fingerprint l)"
  "package_lock_hash (sorted_ledger l) = key_sorted (package_lock_hash l)"
  "run_id (sorted_ledger l) = key_sorted (run_id l)"
  "event_count (sorted_ledger l) = event_count l"
  "path_set (sorted_ledger l) = path_set l"
  by (simp_all add: sorted_ledger_def)

lemma view_event_key_sorted:
  "view_event (JStr t) (key_sorted v) (sorted_ledger l) = mapR sorted_ledger (view_event (JStr t) v l)"
  unfolding view_event_def mapR_if mapR_bindE bindE_mapR getitem_key_sorted get_lock_key_sorted
    snapshot_index_key_sorted sorted_ledger_simps py_eq_key_sorted mapR_Inr mapR_Inl
  by (intro if_cong refl bindE_cong; simp add: sorted_ledger_def map_update split: option.splits)

text \<open>Whether the view writes a file, and the policy hash it was created with, do not matter.\<close>

definition detached :: "run_ledger \<Rightarrow> run_ledger" where
  "detached l = l\<lparr>path_set := False, resolved_policy_hash := JStr []\<rparr>"

lemma view_event_detached: "view_event t v (detached l) = mapR detached (view_event t v l)"
  unfolding view_event_def mapR_if mapR_bindE mapR_Inr mapR_Inl
  by (intro if_cong refl bindE_cong; simp add: detached_def split: option.splits)

section \<open>Round trip\<close>

definition record_events :: "world \<Rightarrow> (string \<times> json) list \<Rightarrow> (store, unit) exec" where
  "record_events w evs = foldS (\<lambda>_ e. append_event w (JStr (fst e)) (snd e)) () evs"

definition event_of :: "json \<Rightarrow> string \<times> json \<Rightarrow> json" where
  "event_of rid e = JObj [(''event_type'', JStr (fst e)), (''run_id'', rid), (''value'', snd e)]"

definition event_line :: "world \<Rightarrow> json \<Rightarrow> string \<times> json \<Rightarrow> string" where
  "event_line w rid e = json_text (float_text w) (event_of rid e)"

lemma getitem_sorted_event:
  "getitem (key_sorted (event_of rid e)) ''run_id'' = Inr (key_sorted rid)"
  "getitem (key_sorted (event_of rid e)) ''event_type'' = Inr (JStr (fst e))"
  "getitem (key_sorted (event_of rid e)) ''value'' = Inr (key_sorted (snd e))"
  "is_started (key_sorted (event_of rid e)) = Inr (fst e = ''run-started'')"
  using get_default_key_sorted [of "event_of rid e" "''event_type''" JNull]
  by (simp_all add: getitem_key_sorted is_started_def get_opt_def) (simp_all add: event_of_def)

definition same_view :: "run_ledger \<Rightarrow> run_ledger \<Rightarrow> bool" where
  "same_view l r \<longleftrightarrow> r = detached (sorted_ledger l)"

lemma replay_recorded_event:
  assumes "append_event w (JStr t) v s = (Inr (), s')" and "run_id (led s) = JStr rid"
    and "same_view (led s) r"
  shows "\<exists>r'. replay_event w r (key_sorted (event_of (JStr rid) (t, v))) = Inr r' \<and> same_view (led s') r'"
proof -
  from assms(1) obtain f l where ok: "not_in_strings (JStr t) supported_events = Inr False"
      "event_count (led s) < MAX_LEDGER_EVENTS"
      "view_event (JStr t) v ((led s)\<lparr>event_count := event_count (led s) + 1\<rparr>) = Inr l"
      "s' = \<lparr>led = l, disk = f\<rparr>"
    by (auto simp: append_event_ok)
  have r: "r = detached (sorted_ledger (led s))" using assms(3) by (simp add: same_view_def)
  have count: "r\<lparr>event_count := event_count (led s) + 1\<rparr> =
      detached (sorted_ledger ((led s)\<lparr>event_count := event_count (led s) + 1\<rparr>))"
    by (simp add: r detached_def sorted_ledger_def)
  have "view_event (JStr t) (key_sorted v) (r\<lparr>event_count := event_count (led s) + 1\<rparr>) =
      Inr (detached (sorted_ledger l))"
    unfolding count view_event_detached view_event_key_sorted ok(3) by simp
  moreover have "event_count r = event_count (led s)" "path_set r = False" "run_id r = JStr rid"
    using assms(2) by (simp_all add: r detached_def sorted_ledger_def)
  ultimately have "append_event w (JStr t) (key_sorted v) \<lparr>led = r, disk = Absent\<rparr> =
      (Inr (), \<lparr>led = detached (sorted_ledger l), disk = Absent\<rparr>)"
    using ok(1,2) by (simp add: append_event_ok)
  then have "replay_event w r (key_sorted (event_of (JStr rid) (t, v))) = Inr (detached (sorted_ledger l))"
    using \<open>run_id r = JStr rid\<close> by (simp add: replay_event_def getitem_sorted_event)
  then show ?thesis using ok(4) by (simp add: same_view_def)
qed

lemma record_events_Cons:
  "record_events w (e # es) s = (Inr (), s'') \<longleftrightarrow>
     (\<exists>s'. append_event w (JStr (fst e)) (snd e) s = (Inr (), s') \<and> record_events w es s' = (Inr (), s''))"
  by (auto simp: record_events_def bindS_def split: prod.splits sum.splits)

lemma record_events_Nil: "record_events w [] s = (Inr (), s') \<longleftrightarrow> s' = s"
  by (auto simp: record_events_def ret_def)

lemma append_event_keeps:
  assumes "append_event w t v s = (Inr (), s')"
  shows "run_id (led s') = run_id (led s)" "path_set (led s') = path_set (led s)"
    "event_count (led s') = event_count (led s) + 1"
    "package_lock_hash (led s') = package_lock_hash (led s)"
    "plan_fingerprint (led s') = plan_fingerprint (led s)"
  using assms by (auto simp: append_event_ok view_event_keeps)

lemma record_events_view:
  assumes "record_events w es s = (Inr (), s')" and "run_id (led s) = JStr rid" and "same_view (led s) r"
  shows "\<exists>r'. foldE (replay_event w) r (map (\<lambda>e. key_sorted (event_of (JStr rid) e)) es) = Inr r' \<and>
    same_view (led s') r'"
  using assms
proof (induction es arbitrary: s r)
  case (Cons e es)
  then obtain s1 where s1: "append_event w (JStr (fst e)) (snd e) s = (Inr (), s1)"
      "record_events w es s1 = (Inr (), s')"
    by (auto simp: record_events_Cons)
  from replay_recorded_event [OF s1(1) Cons.prems(2,3)] obtain r1 where
      "replay_event w r (key_sorted (event_of (JStr rid) e)) = Inr r1" "same_view (led s1) r1"
    by auto
  with Cons.IH [OF s1(2)] append_event_keeps(1) [OF s1(1)] Cons.prems(2) show ?case by simp
qed (simp add: record_events_Nil)

lemma record_events_file:
  assumes "record_events w es s = (Inr (), s')" and "run_id (led s) = rid" and "path_set (led s)"
  shows "file_bytes (disk s') = file_bytes (disk s) @ concat (map (\<lambda>e. event_line w rid e @ newline) es)"
    and "es \<noteq> [] \<Longrightarrow> disk s' = Regular (file_bytes (disk s'))"
    and "event_count (led s') = event_count (led s) + length es"
    and "\<forall>e \<in> set es. dumps w (event_of rid e) = Inr (event_line w rid e @ newline)"
    and "es \<noteq> [] \<Longrightarrow> event_count (led s') \<le> MAX_LEDGER_EVENTS"
    and "run_id (led s') = rid" and "path_set (led s')"
  using assms
proof (induction es arbitrary: s)
  case Nil
  { case 1 then show ?case by (simp add: record_events_Nil) next
    case 2 then show ?case by simp next
    case 3 then show ?case by (simp add: record_events_Nil) next
    case 4 then show ?case by simp next
    case 5 then show ?case by simp next
    case 6 then show ?case by (simp add: record_events_Nil) next
    case 7 then show ?case by (simp add: record_events_Nil) }
next
  case (Cons e es)
  have step: "\<exists>s1. append_event w (JStr (fst e)) (snd e) s = (Inr (), s1) \<and>
      record_events w es s1 = (Inr (), s') \<and> run_id (led s1) = rid \<and> path_set (led s1) \<and>
      dumps w (event_of rid e) = Inr (event_line w rid e @ newline) \<and>
      disk s1 = Regular (file_bytes (disk s) @ event_line w rid e @ newline) \<and>
      event_count (led s1) = event_count (led s) + 1 \<and> event_count (led s1) \<le> MAX_LEDGER_EVENTS"
    if "record_events w (e # es) s = (Inr (), s')" "run_id (led s) = rid" "path_set (led s)" for s
  proof -
    from that(1) obtain s1 where s1: "append_event w (JStr (fst e)) (snd e) s = (Inr (), s1)"
        "record_events w es s1 = (Inr (), s')"
      by (auto simp: record_events_Cons)
    have ev: "ledger_event (led s) (JStr (fst e)) (snd e) = event_of rid e"
      by (simp add: ledger_event_def event_of_def that(2))
    from s1(1) that(3) ev obtain f where f: "write_event w (event_of rid e) (disk s) = Inr f" "disk s1 = f"
      by (auto simp: append_event_ok)
    from write_event_bytes [OF f(1)] obtain line where
        "dumps w (event_of rid e) = Inr line" "f = Regular (file_bytes (disk s) @ line)" by blast
    moreover from this(1) have "line = event_line w rid e @ newline"
      by (simp add: dumps_eq_Inr event_line_def newline_def)
    ultimately show ?thesis
      using s1 f append_event_keeps [OF s1(1)] that append_event_ok [of w "JStr (fst e)" "snd e" s "()" s1]
      by auto
  qed
  { case 1 with step Cons.IH(1) show ?case by (fastforce simp: file_bytes_def) next
    case 2 with step Cons.IH(2) show ?case
      by (cases "es = []") (fastforce simp: file_bytes_def record_events_Nil)+ next
    case 3 with step Cons.IH(3) show ?case by fastforce next
    case 4 with step Cons.IH(4) show ?case by fastforce next
    case 5 with step Cons.IH(5) show ?case by (cases "es = []") (fastforce simp: record_events_Nil)+ next
    case 6 with step Cons.IH(6) show ?case by fastforce next
    case 7 with step Cons.IH(7) show ?case by fastforce }
qed

lemma mapE_map: "(\<And>x. x \<in> set xs \<Longrightarrow> f (g x) = Inr (h x)) \<Longrightarrow> mapE f (map g xs) = Inr (map h xs)"
  by (induction xs) auto

lemma event_line_starts: "starts_char (event_line w rid e)" "event_line w rid e \<noteq> []"
  by (simp_all add: event_line_def event_of_def json_text_JObj starts_char_def is_cont_def)

lemma check_started_sorted:
  assumes "fst e = ''run-started''" and "\<forall>e' \<in> set es. fst e' \<noteq> ''run-started''"
  shows "check_started (map (\<lambda>e. key_sorted (event_of rid e)) (e # es)) = Inr ()"
proof -
  have "mapE is_started (map (\<lambda>e. key_sorted (event_of rid e)) xs) = Inr (map (\<lambda>e. fst e = ''run-started'') xs)" for xs
    by (induction xs) (simp_all add: getitem_sorted_event)
  moreover have "filter id (map (\<lambda>e. fst e = ''run-started'') es) = []"
    using assms(2) by (auto simp: filter_empty_conv)
  ultimately show ?thesis using assms(1) by (simp add: check_started_def getitem_sorted_event)
qed

text \<open>
  The parser is only required to read back the recorded lines: it gives the value with its keys in the
  order of the text.
\<close>

definition parses_back :: "world \<Rightarrow> json \<Rightarrow> (string \<times> json) list \<Rightarrow> bool" where
  "parses_back w rid es \<longleftrightarrow>
     (\<forall>e \<in> set es. parse_json w (event_line w rid e) = Inr (key_sorted (event_of rid e)))"

definition lines_unbroken :: "world \<Rightarrow> json \<Rightarrow> (string \<times> json) list \<Rightarrow> bool" where
  "lines_unbroken w rid es \<longleftrightarrow> (\<forall>e \<in> set es. unbroken (event_line w rid e))"

definition start_value :: "string \<Rightarrow> string \<Rightarrow> json" where
  "start_value lock fingerprint =
     JObj [(''package_lock_hash'', JStr lock), (''plan_fingerprint'', JStr fingerprint)]"

lemma replay_recorded:
  assumes rec: "record_events w ((''run-started'', start_value lock fp) # es)
      \<lparr>led = new_ledger True (JStr fp) (JStr lock) policy (JStr rid), disk = Absent\<rparr> = (Inr (), s)"
    and rid: "rid \<noteq> []"
    and once: "\<forall>e \<in> set es. fst e \<noteq> ''run-started''"
    and parses: "parses_back w (JStr rid) ((''run-started'', start_value lock fp) # es)"
    and unbroken: "lines_unbroken w (JStr rid) ((''run-started'', start_value lock fp) # es)"
    and size: "length (file_bytes (disk s)) \<le> MAX_LEDGER_BYTES"
  shows "replay w uid (disk s) (JStr fp) =
     (let l = detached (sorted_ledger (led s)) in
      seqE (validate_run_ledger (ledger_value l)) (Inr (l\<lparr>path_set := True\<rparr>)))"
proof -
  let ?s0 = "\<lparr>led = new_ledger True (JStr fp) (JStr lock) policy (JStr rid), disk = Absent\<rparr>"
  let ?es = "(''run-started'', start_value lock fp) # es"
  let ?vals = "map (\<lambda>e. key_sorted (event_of (JStr rid) e)) ?es"
  have start: "run_id (led ?s0) = JStr rid" "path_set (led ?s0)"
    by (simp_all add: new_ledger_def)
  note written = record_events_file [OF rec start]
  have bytes: "file_bytes (disk s) = concat (map (\<lambda>l. l @ newline) (map (event_line w (JStr rid)) ?es))"
    unfolding written(1) by (simp add: file_bytes_def comp_def)
  have lines: "splitlines (file_bytes (disk s)) = map (event_line w (JStr rid)) ?es"
    unfolding bytes by (rule splitlines_lines)
      (use unbroken event_line_starts in \<open>auto simp: lines_unbroken_def\<close>)
  have "parse_line w (event_line w (JStr rid) e) = Inr (key_sorted (event_of (JStr rid) e))"
    if "e \<in> set ?es" for e
  proof -
    have "dumps w (event_of (JStr rid) e) = Inr (event_line w (JStr rid) e @ newline)"
      using written(4) that by blast
    then have "dumps w (key_sorted (event_of (JStr rid) e)) = Inr (event_line w (JStr rid) e @ newline)"
      by (simp only: dumps_key_sorted)
    moreover have "parse_json w (event_line w (JStr rid) e) = Inr (key_sorted (event_of (JStr rid) e))"
      using parses that unfolding parses_back_def by blast
    ultimately show ?thesis by (simp add: parse_line_def)
  qed
  then have parsed: "mapE (parse_line w) (splitlines (file_bytes (disk s))) = Inr ?vals"
    unfolding lines by (rule mapE_map)
  have count: "length ?vals \<le> MAX_LEDGER_EVENTS"
    using written(3,5) by (simp add: new_ledger_def)
  let ?r0 = "new_ledger False (JStr fp) (JStr lock) (JStr []) (JStr rid)"
  have "same_view (led ?s0) ?r0"
    by (simp add: same_view_def new_ledger_def detached_def sorted_ledger_def)
  from record_events_view [OF rec start(1) this]
  have fold: "foldE (replay_event w) ?r0 ?vals = Inr (detached (sorted_ledger (led s)))"
    by (auto simp: same_view_def)
  have head: "getitem (hd ?vals) ''run_id'' = Inr (JStr rid)"
      "getitem (hd ?vals) ''value'' = Inr (key_sorted (start_value lock fp))"
    by (simp_all add: getitem_sorted_event)
  have started: "getitem (key_sorted (start_value lock fp)) ''plan_fingerprint'' = Inr (JStr fp)"
      "get_default (key_sorted (start_value lock fp)) ''package_lock_hash'' (JStr []) = Inr (JStr lock)"
    by (simp_all add: getitem_key_sorted get_lock_key_sorted start_value_def)
  have "run_id_or_new w uid (JStr rid) = JStr rid" using rid by (simp add: run_id_or_new_def)
  moreover have "check_started ?vals = Inr ()" by (rule check_started_sorted) (use once in simp_all)
  ultimately have "replay w uid (Regular (file_bytes (disk s))) (JStr fp) =
     (let l = detached (sorted_ledger (led s)) in
      seqE (validate_run_ledger (ledger_value l)) (Inr (l\<lparr>path_set := True\<rparr>)))"
    using size count parsed head started fold
    unfolding replay_def by (simp add: Let_def not_less [symmetric] del: list.map(2) foldE.simps)
  moreover have "disk s = Regular (file_bytes (disk s))" by (rule written(2)) simp
  ultimately show ?thesis by (simp only: file_bytes_def ledger_file.case)
qed

section \<open>Line separators inside a text\<close>

lemma lines_from_count:
  "[CHR 0x0D] \<notin> set cs \<Longrightarrow>
   length (lines_from current (cs @ [[CHR 0x0A]])) = length (filter is_line_break cs) + 1"
proof (induction cs arbitrary: current)
  case Nil
  then show ?case by (simp add: is_line_break_def)
qed auto

lemma splitlines_count:
  assumes "[CHR 0x0D] \<notin> set (chars_of line)"
  shows "length (splitlines (line @ newline)) = length (filter is_line_break (chars_of line)) + 1"
proof -
  have "starts_char newline" by (simp add: starts_char_def newline_def is_cont_def)
  then have "chars_of (line @ newline) = chars_of line @ [[CHR 0x0A]]"
    by (simp add: chars_of_append) (simp add: newline_def)
  with lines_from_count [OF assms] show ?thesis by (simp add: splitlines_def)
qed

end
