(* ===== verification/Dag.thy ===== *)
theory Dag
  imports Json
begin

text \<open>
  Kahn's topological sort, as the plan compiler, the plan validator, the runtime preflight and the
  executor write it: the count of incoming edges per node, a queue of free nodes started in sorted
  order, and the targets of a finished node visited in sorted order.
\<close>

section \<open>The algorithm\<close>

type_synonym edges = "(string \<times> string) list"

text \<open>\<open>incoming = {id: 0 ...}; for edge: incoming[edge["to"]] += 1\<close>\<close>

definition count_edge :: "(string, int) dict \<Rightarrow> string \<times> string \<Rightarrow> (string, int) dict result" where
  "count_edge inc e =
     (case dict_get inc (snd e) of
        None \<Rightarrow> Inl (KeyError (snd e))
      | Some c \<Rightarrow> Inr (dict_set (snd e) (c + 1) inc))"

definition incoming_counts :: "string list \<Rightarrow> edges \<Rightarrow> (string, int) dict result" where
  "incoming_counts ids es = foldE count_edge (map (\<lambda>n. (n, 0)) ids) es"

definition outgoing :: "edges \<Rightarrow> string \<Rightarrow> string list" where
  "outgoing es n = map snd (filter (\<lambda>e. fst e = n) es)"

text \<open>\<open>for target in ...: incoming[target] -= 1; if incoming[target] == 0: queue.append(target)\<close>\<close>

fun relax :: "string list \<Rightarrow> (string, int) dict \<Rightarrow> string list \<Rightarrow> ((string, int) dict \<times> string list) result" where
  "relax [] inc q = Inr (inc, q)"
| "relax (t # ts) inc q =
     (case dict_get inc t of
        None \<Rightarrow> Inl (KeyError t)
      | Some c \<Rightarrow> relax ts (dict_set t (c - 1) inc) (if c - 1 = 0 then q @ [t] else q))"

definition positives :: "(string, int) dict \<Rightarrow> nat" where
  "positives inc = length (filter (\<lambda>kc. 0 < snd kc) inc)"

lemma positives_set:
  "dict_get inc t = Some c \<Longrightarrow>
   positives (dict_set t d inc) + (if 0 < c then 1 else 0) = positives inc + (if 0 < d then 1 else 0)"
  by (induction inc) (auto simp: positives_def split: if_splits)

lemma relax_bound:
  "relax ts inc q = Inr (inc', q') \<Longrightarrow> length q' + positives inc' \<le> length q + positives inc"
proof (induction ts arbitrary: inc q)
  case (Cons t ts)
  then obtain c where c: "dict_get inc t = Some c"
      and r: "relax ts (dict_set t (c - 1) inc) (if c - 1 = 0 then q @ [t] else q) = Inr (inc', q')"
    by (auto split: option.splits)
  from Cons.IH [OF r] positives_set [OF c, of "c - 1"] show ?case
    by (auto split: if_splits)
qed simp

function kahn_loop :: "edges \<Rightarrow> (string, int) dict \<Rightarrow> string list \<Rightarrow> string list \<Rightarrow> string list result" where
  "kahn_loop es inc [] res = Inr res"
| "kahn_loop es inc (n # q) res =
     bindE (relax (sort (outgoing es n)) inc q) (\<lambda>p. kahn_loop es (fst p) (snd p) (res @ [n]))"
  by pat_completeness auto
termination
  by (relation "measure (\<lambda>(es, inc, q, res). length q + positives inc)")
    (auto dest!: relax_bound)

definition kahn :: "string list \<Rightarrow> edges \<Rightarrow> string list result" where
  "kahn ids es =
     bindE (incoming_counts ids es) (\<lambda>inc.
     kahn_loop es inc (sort (map fst (filter (\<lambda>nc. snd nc = 0) inc))) [])"

section \<open>Specification\<close>

definition before :: "'a list \<Rightarrow> 'a \<Rightarrow> 'a \<Rightarrow> bool" where
  "before xs a b \<longleftrightarrow> (\<exists>i j. i < j \<and> j < length xs \<and> xs ! i = a \<and> xs ! j = b)"

definition topological :: "string list \<Rightarrow> edges \<Rightarrow> string list \<Rightarrow> bool" where
  "topological ids es xs \<longleftrightarrow>
     distinct xs \<and> set xs = set ids \<and> (\<forall>(a, b) \<in> set es. before xs a b)"

definition edges_within :: "string list \<Rightarrow> edges \<Rightarrow> bool" where
  "edges_within ids es \<longleftrightarrow> (\<forall>(a, b) \<in> set es. a \<in> set ids \<and> b \<in> set ids)"

text \<open>A prefix of a schedule: every predecessor of a listed node is listed earlier.\<close>

definition closed_prefix :: "edges \<Rightarrow> string list \<Rightarrow> bool" where
  "closed_prefix es xs \<longleftrightarrow>
     (\<forall>i < length xs. \<forall>a. (a, xs ! i) \<in> set es \<longrightarrow> a \<in> set (take i xs))"

text \<open>Edges into \<open>t\<close> whose source is not done yet.\<close>

definition remaining :: "edges \<Rightarrow> string list \<Rightarrow> string \<Rightarrow> nat" where
  "remaining es done t = length (filter (\<lambda>e. snd e = t \<and> fst e \<notin> set done) es)"

lemma remaining_0_iff: "remaining es done t = 0 \<longleftrightarrow> (\<forall>a. (a, t) \<in> set es \<longrightarrow> a \<in> set done)"
  by (auto simp: remaining_def filter_empty_conv)

lemma remaining_step:
  "n \<notin> set done \<Longrightarrow>
   remaining es done t = remaining es (done @ [n]) t + count_list (outgoing es n) t"
  by (induction es) (auto simp: remaining_def outgoing_def)

lemma closed_prefix_snoc:
  "closed_prefix es (xs @ [n]) \<longleftrightarrow> closed_prefix es xs \<and> (\<forall>a. (a, n) \<in> set es \<longrightarrow> a \<in> set xs)"
  by (auto simp: closed_prefix_def nth_append less_Suc_eq)

lemma closed_prefix_before:
  assumes "closed_prefix es xs" and "(a, b) \<in> set es" and "b \<in> set xs"
  shows "before xs a b"
proof -
  from assms(3) obtain j where j: "j < length xs" "xs ! j = b" by (auto simp: in_set_conv_nth)
  with assms(1,2) have "a \<in> set (take j xs)" by (auto simp: closed_prefix_def)
  then obtain i where "i < j" "xs ! i = a" using j by (auto simp: in_set_conv_nth)
  with j show ?thesis by (auto simp: before_def)
qed

lemma topological_acyclic:
  assumes "topological ids es xs"
  shows "acyclic (set es)"
proof -
  define pos where "pos x = length (takeWhile (\<lambda>y. y \<noteq> x) xs)" for x
  have pos_nth: "pos (xs ! i) = i" if "i < length xs" for i
  proof -
    have "distinct xs" using assms by (simp add: topological_def)
    then have "\<forall>y \<in> set (take i xs). y \<noteq> xs ! i"
      using that by (auto simp: in_set_conv_nth nth_eq_iff_index_eq)
    then have "takeWhile (\<lambda>y. y \<noteq> xs ! i) (take i xs @ drop i xs) = take i xs"
      using that by (simp add: Cons_nth_drop_Suc [symmetric] takeWhile_tail)
    then show ?thesis using that by (simp add: pos_def)
  qed
  have "set es \<subseteq> measure pos"
    using assms pos_nth by (fastforce simp: topological_def before_def)
  then show ?thesis by (intro wf_acyclic wf_subset [OF wf_measure])
qed

section \<open>Correctness of the algorithm\<close>

lemma incoming_counts_gen:
  assumes "\<forall>e \<in> set es. dict_get inc (snd e) \<noteq> None"
  shows "\<exists>inc'. foldE count_edge inc es = Inr inc' \<and>
     map fst inc' = map fst inc \<and>
     (\<forall>t. dict_get inc' t = map_option (\<lambda>c. c + int (remaining es [] t)) (dict_get inc t))"
  using assms
proof (induction es arbitrary: inc)
  case Nil
  then show ?case by (simp add: remaining_def option.map_ident)
next
  case (Cons e es)
  from Cons.prems obtain c where c: "dict_get inc (snd e) = Some c" by auto
  let ?inc = "dict_set (snd e) (c + 1) inc"
  have keys: "map fst ?inc = map fst inc"
    using c by (induction inc) (auto split: if_splits)
  have pre: "\<forall>e' \<in> set es. dict_get ?inc (snd e') \<noteq> None"
    using Cons.prems by (auto simp: dict_get_set)
  obtain inc' where inc': "foldE count_edge ?inc es = Inr inc'" "map fst inc' = map fst ?inc"
     "\<forall>t. dict_get inc' t = map_option (\<lambda>c. c + int (remaining es [] t)) (dict_get ?inc t)"
    using Cons.IH [OF pre] by blast
  have "dict_get inc' t = map_option (\<lambda>c. c + int (remaining (e # es) [] t)) (dict_get inc t)" for t
    using inc'(3) c by (cases "t = snd e") (auto simp: remaining_def)
  moreover have "count_edge inc e = Inr ?inc" using c by (simp add: count_edge_def)
  ultimately show ?case using inc'(1,2) keys by (intro exI [of _ inc']) simp
qed

lemma incoming_counts_ok:
  assumes "edges_within ids es"
  shows "\<exists>inc. incoming_counts ids es = Inr inc \<and> map fst inc = ids \<and>
    (\<forall>t. dict_get inc t = (if t \<in> set ids then Some (int (remaining es [] t)) else None))"
proof -
  have zero: "dict_get (map (\<lambda>n. (n, 0)) ids) t = (if t \<in> set ids then Some (0::int) else None)" for t
    by (induction ids) auto
  have "\<forall>e \<in> set es. dict_get (map (\<lambda>n. (n, 0)) ids) (snd e) \<noteq> (None :: int option)"
    using assms by (auto simp: zero edges_within_def)
  from incoming_counts_gen [OF this] show ?thesis
    by (auto simp: incoming_counts_def zero comp_def)
qed

lemma relax_spec:
  assumes "\<forall>t \<in> set ts. \<exists>c. dict_get inc t = Some c \<and> int (count_list ts t) \<le> c"
  shows "\<exists>inc' new. relax ts inc q = Inr (inc', q @ new) \<and>
    (\<forall>t. dict_get inc' t = map_option (\<lambda>c. c - int (count_list ts t)) (dict_get inc t)) \<and>
    distinct new \<and> set new = {t \<in> set ts. dict_get inc t = Some (int (count_list ts t))}"
  using assms
proof (induction ts arbitrary: inc q)
  case Nil
  then show ?case by (simp add: option.map_ident)
next
  case (Cons t ts)
  from Cons.prems obtain c where c: "dict_get inc t = Some c" "int (count_list ts t) + 1 \<le> c"
    by auto
  let ?inc = "dict_set t (c - 1) inc"
  let ?q = "if c - 1 = 0 then q @ [t] else q"
  have pre: "\<forall>s \<in> set ts. \<exists>d. dict_get ?inc s = Some d \<and> int (count_list ts s) \<le> d"
  proof
    fix s assume "s \<in> set ts"
    with Cons.prems c show "\<exists>d. dict_get ?inc s = Some d \<and> int (count_list ts s) \<le> d"
      by (cases "s = t") (auto simp: dict_get_set)
  qed
  obtain inc' new where r: "relax ts ?inc ?q = Inr (inc', ?q @ new)"
      and get: "\<forall>s. dict_get inc' s = map_option (\<lambda>d. d - int (count_list ts s)) (dict_get ?inc s)"
      and new: "distinct new" "set new = {s \<in> set ts. dict_get ?inc s = Some (int (count_list ts s))}"
    using Cons.IH [OF pre, of ?q] by blast
  have t_new: "t \<in> set new \<longleftrightarrow> t \<in> set ts \<and> c - 1 = int (count_list ts t)"
    using new(2) by auto
  have zero: "c - 1 = 0 \<Longrightarrow> count_list ts t = 0" using c(2) by simp
  have t_ts: "t \<in> set ts \<longleftrightarrow> count_list ts t \<noteq> 0" by (simp add: count_list_0_iff)
  let ?new = "(if c - 1 = 0 then [t] else []) @ new"
  have "relax (t # ts) inc q = Inr (inc', q @ ?new)"
    using r c(1) by auto
  moreover have "\<forall>s. dict_get inc' s =
      map_option (\<lambda>d. d - int (count_list (t # ts) s)) (dict_get inc s)"
    using get c(1) by (auto simp: dict_get_set)
  moreover have "distinct ?new"
    using new(1) t_new zero t_ts by auto
  moreover have "set ?new = {s \<in> set (t # ts). dict_get inc s = Some (int (count_list (t # ts) s))}"
  proof (rule set_eqI)
    fix s
    show "s \<in> set ?new \<longleftrightarrow>
        s \<in> {s \<in> set (t # ts). dict_get inc s = Some (int (count_list (t # ts) s))}"
    proof (cases "s = t")
      case True
      have "t \<in> set ?new \<longleftrightarrow> c = int (count_list (t # ts) t)"
        using t_new zero t_ts c(2) by (cases "c - 1 = 0") auto
      then show ?thesis by (simp add: True c(1))
    next
      case False
      then have "s \<in> set ?new \<longleftrightarrow> s \<in> set new" by simp
      also have "\<dots> \<longleftrightarrow> s \<in> set ts \<and> dict_get inc s = Some (int (count_list ts s))"
        unfolding new(2) using False by (simp add: dict_get_set)
      finally show ?thesis using False by simp
    qed
  qed
  ultimately show ?case by blast
qed

text \<open>What the loop keeps true.\<close>

definition kahn_inv :: "string list \<Rightarrow> edges \<Rightarrow> (string, int) dict \<Rightarrow> string list \<Rightarrow> string list \<Rightarrow> bool" where
  "kahn_inv ids es inc q res \<longleftrightarrow>
     (\<forall>t \<in> set ids. dict_get inc t = Some (int (remaining es res t))) \<and>
     distinct (res @ q) \<and>
     set (res @ q) = {t \<in> set ids. remaining es res t = 0} \<and>
     closed_prefix es res"

lemma count_list_sort: "count_list (sort xs) t = count_list xs t"
proof -
  have "count_list (insort x ys) t = count_list (x # ys) t" for x ys
    by (induction ys) auto
  then show ?thesis by (induction xs) auto
qed

text \<open>The order in which the targets of a node are visited does not matter.\<close>

lemma kahn_step_any:
  assumes inv: "kahn_inv ids es inc (n # q) res" and within: "edges_within ids es"
    and count: "\<And>t. count_list ts t = count_list (outgoing es n) t"
  shows "\<exists>inc' new. relax ts inc q0 = Inr (inc', q0 @ new) \<and> kahn_inv ids es inc' (q @ new) (res @ [n])"
proof -
  let ?ts = ts
  have fresh: "n \<notin> set res" and n: "n \<in> set ids" "remaining es res n = 0"
    using inv by (auto simp: kahn_inv_def)
  have step: "remaining es res t = remaining es (res @ [n]) t + count_list ?ts t" for t
    using remaining_step [OF fresh] count by simp
  have "set ?ts = set (outgoing es n)" using count by (metis count_list_0_iff subsetI subset_antisym)
  then have ts: "set ?ts \<subseteq> set ids"
    using within by (auto simp: outgoing_def edges_within_def)
  have "\<forall>t \<in> set ?ts. \<exists>c. dict_get inc t = Some c \<and> int (count_list ?ts t) \<le> c"
    using inv ts step by (fastforce simp: kahn_inv_def)
  from relax_spec [OF this, of q0] obtain inc' new where
      r: "relax ?ts inc q0 = Inr (inc', q0 @ new)"
      and get: "\<forall>t. dict_get inc' t = map_option (\<lambda>c. c - int (count_list ?ts t)) (dict_get inc t)"
      and new: "distinct new" "set new = {t \<in> set ?ts. dict_get inc t = Some (int (count_list ?ts t))}"
    by blast
  have new': "set new = {t \<in> set ids. remaining es res t \<noteq> 0 \<and> remaining es (res @ [n]) t = 0}"
  proof (rule set_eqI)
    fix t
    have "t \<in> set ?ts \<longleftrightarrow> count_list ?ts t \<noteq> 0" by (simp add: count_list_0_iff)
    then show "t \<in> set new \<longleftrightarrow>
        t \<in> {t \<in> set ids. remaining es res t \<noteq> 0 \<and> remaining es (res @ [n]) t = 0}"
      using new(2) inv ts step [of t] unfolding kahn_inv_def by auto
  qed
  have "\<forall>t \<in> set ids. dict_get inc' t = Some (int (remaining es (res @ [n]) t))"
    using inv get step unfolding kahn_inv_def by fastforce
  moreover have "distinct ((res @ [n]) @ (q @ new))"
    using inv new(1) new' unfolding kahn_inv_def by auto
  moreover have "set ((res @ [n]) @ (q @ new)) = {t \<in> set ids. remaining es (res @ [n]) t = 0}"
  proof -
    have "set ((res @ [n]) @ (q @ new)) = {t \<in> set ids. remaining es res t = 0} \<union> set new"
      using inv unfolding kahn_inv_def by auto
    also have "\<dots> = {t \<in> set ids. remaining es (res @ [n]) t = 0}"
      unfolding new' using step by auto
    finally show ?thesis .
  qed
  moreover have "closed_prefix es (res @ [n])"
    using inv n(2) by (simp add: kahn_inv_def closed_prefix_snoc remaining_0_iff)
  ultimately show ?thesis using r by (auto simp: kahn_inv_def)
qed

lemma kahn_step:
  assumes "kahn_inv ids es inc (n # q) res" and "edges_within ids es"
  shows "\<exists>inc' q'. relax (sort (outgoing es n)) inc q = Inr (inc', q') \<and>
    kahn_inv ids es inc' q' (res @ [n])"
  using kahn_step_any [OF assms count_list_sort] by blast

lemma kahn_loop_inv:
  assumes "kahn_inv ids es inc q res" and "edges_within ids es"
  shows "\<exists>xs inc'. kahn_loop es inc q res = Inr xs \<and> kahn_inv ids es inc' [] xs"
  using assms
proof (induction es inc q res rule: kahn_loop.induct)
  case (1 es inc res)
  then show ?case by auto
next
  case (2 es inc n q res)
  from kahn_step [OF "2.prems"] obtain inc' q' where
      s: "relax (sort (outgoing es n)) inc q = Inr (inc', q')"
         "kahn_inv ids es inc' q' (res @ [n])" by blast
  with "2.IH" [OF s(1)] "2.prems"(2) show ?case by simp
qed

lemma kahn_result:
  assumes "distinct ids" and "edges_within ids es"
  shows "\<exists>xs. kahn ids es = Inr xs \<and> distinct xs \<and> closed_prefix es xs \<and>
    set xs = {t \<in> set ids. remaining es xs t = 0}"
proof -
  from incoming_counts_ok [OF assms(2)] obtain inc where inc: "incoming_counts ids es = Inr inc"
      "map fst inc = ids"
      "\<forall>t. dict_get inc t = (if t \<in> set ids then Some (int (remaining es [] t)) else None)"
    by blast
  let ?q = "sort (map fst (filter (\<lambda>nc. snd nc = 0) inc))"
  have d: "dict_ok inc" using assms(1) inc(2) by (simp add: dict_ok_def)
  have "set ?q = {t. dict_get inc t = Some 0}"
    using d by (force dest: dict_get_SomeD dict_get_in)
  then have "set ?q = {t \<in> set ids. remaining es [] t = 0}" using inc(3) by auto
  moreover have "distinct ?q"
    using d by (simp add: dict_ok_def distinct_map_filter)
  ultimately have "kahn_inv ids es inc ?q []"
    using inc(3) by (simp add: kahn_inv_def closed_prefix_def)
  from kahn_loop_inv [OF this assms(2)] obtain xs inc' where
      "kahn_loop es inc ?q [] = Inr xs" "kahn_inv ids es inc' [] xs" by blast
  then show ?thesis by (auto simp: kahn_def inc(1) kahn_inv_def)
qed

lemma stuck_cyclic:
  assumes "acyclic (set es)" and "edges_within ids es" and "set xs = {t \<in> set ids. remaining es xs t = 0}"
  shows "set xs = set ids"
proof (rule ccontr)
  assume "set xs \<noteq> set ids"
  then obtain u where "u \<in> set ids - set xs" using assms(3) by blast
  moreover have "wf (set es)" using assms(1) by (intro finite_acyclic_wf) simp_all
  ultimately obtain z where z: "z \<in> set ids - set xs" "\<forall>y. (y, z) \<in> set es \<longrightarrow> y \<notin> set ids - set xs"
    by (metis wfE_min)
  then have "remaining es xs z = 0"
    using assms(2) by (auto simp: remaining_0_iff edges_within_def)
  with z(1) assms(3) show False by auto
qed

text \<open>A sorter that stops with such a result visits every node exactly when there is no cycle.\<close>

lemma sorted_prefix_complete:
  assumes "distinct ids" and "edges_within ids es" and "distinct xs" and "closed_prefix es xs"
    and "set xs = {t \<in> set ids. remaining es xs t = 0}"
  shows "length xs = length ids \<longleftrightarrow> acyclic (set es)" and "acyclic (set es) \<Longrightarrow> topological ids es xs"
proof -
  have complete: "topological ids es xs" if "set xs = set ids"
    using that assms(2-4) by (auto simp: topological_def edges_within_def intro: closed_prefix_before)
  show "acyclic (set es) \<Longrightarrow> topological ids es xs"
    using stuck_cyclic [OF _ assms(2,5)] complete by blast
  show "length xs = length ids \<longleftrightarrow> acyclic (set es)"
  proof
    assume "length xs = length ids"
    then have "card (set xs) = card (set ids)" using assms(1,3) by (simp add: distinct_card)
    moreover have "set xs \<subseteq> set ids" using assms(5) by blast
    ultimately have "set xs = set ids" by (simp add: card_subset_eq)
    then show "acyclic (set es)" using complete topological_acyclic by blast
  next
    assume "acyclic (set es)"
    then have "set xs = set ids" by (rule stuck_cyclic [OF _ assms(2,5)])
    then show "length xs = length ids" using assms(1,3) by (metis distinct_card)
  qed
qed

lemma kahn_complete_iff_acyclic:
  assumes "distinct ids" and "edges_within ids es" and "kahn ids es = Inr xs"
  shows "length xs = length ids \<longleftrightarrow> acyclic (set es)" and "acyclic (set es) \<Longrightarrow> topological ids es xs"
  using kahn_result [OF assms(1,2)] assms(3) sorted_prefix_complete [OF assms(1,2)] by auto

section \<open>The interface the runtime uses\<close>

text \<open>
  Callers rely on two laws: on a duplicate-free node list with edges among its nodes the sorter does
  not raise, and on an acyclic graph it returns a topological order.
\<close>

locale node_sorter =
  fixes sorter :: "string list \<Rightarrow> edges \<Rightarrow> string list result"
  assumes total: "distinct ids \<Longrightarrow> edges_within ids es \<Longrightarrow> \<exists>xs. sorter ids es = Inr xs"
    and sorts: "distinct ids \<Longrightarrow> edges_within ids es \<Longrightarrow> acyclic (set es) \<Longrightarrow>
      sorter ids es = Inr xs \<Longrightarrow> topological ids es xs"
begin

lemma predecessors_first:
  assumes "distinct ids" and "edges_within ids es" and "acyclic (set es)"
    and "sorter ids es = Inr (pre @ n # post)" and "(a, n) \<in> set es"
  shows "a \<in> set pre"
proof -
  let ?xs = "pre @ n # post"
  have t: "topological ids es ?xs" using assms(1-4) by (rule sorts)
  with assms(5) obtain i j where ij: "i < j" "j < length ?xs" "?xs ! i = a" "?xs ! j = n"
    by (auto simp: topological_def before_def)
  have "?xs ! length pre = n" by simp
  with ij t have "j = length pre"
    by (metis (no_types) topological_def nth_eq_iff_index_eq length_append length_Cons
        less_add_Suc1 add_Suc_right)
  with ij show ?thesis by (auto simp: nth_append)
qed

lemma covers_all:
  assumes "distinct ids" and "edges_within ids es" and "acyclic (set es)" and "sorter ids es = Inr xs"
  shows "set xs = set ids" and "distinct xs"
  using sorts [OF assms] by (simp_all add: topological_def)

end

interpretation kahn_sorter: node_sorter kahn
  by unfold_locales
    (use kahn_result in blast, rule kahn_complete_iff_acyclic(2))

end
