(* ===== verification/Approval.thy ===== *)
theory Approval
  imports CanonicalFacts LedgerContracts
begin

text \<open>
  \<^verbatim>\<open>runtime/approval.py\<close>: approval records bound to one attempt and one scope. A record is the
  dictionary the code builds; a decision changes its status in place, so the operations return the
  record they leave. The life of a record under any calls is one decision, and revocation of a
  grant only.
\<close>

section \<open>The gate\<close>

definition approval_record :: "string \<Rightarrow> json \<Rightarrow> json \<Rightarrow> json \<Rightarrow> string \<Rightarrow> string \<Rightarrow> json" where
  "approval_record attempt_id action reason scope scope_hash status =
     JObj [(''action'', action), (''attempt_id'', JStr attempt_id), (''reason'', reason),
       (''schema_version'', JStr ''1.0''), (''scope'', scope), (''scope_hash'', JStr scope_hash),
       (''status'', JStr status)]"

text \<open>\<open>request\<close>: the gate's records and the new one, which it appends.\<close>

definition request ::
    "world \<Rightarrow> string \<Rightarrow> json \<Rightarrow> json \<Rightarrow> json \<Rightarrow> json list \<Rightarrow> (json \<times> json list) result" where
  "request w attempt_id action reason scope records =
     bindE (sha256 w scope) (\<lambda>h.
     let record = approval_record attempt_id action reason scope h ''pending'' in
     Inr (record, records @ [record]))"

text \<open>\<open>decide(record, status, scope=None)\<close>\<close>

definition decide :: "world \<Rightarrow> json \<Rightarrow> string \<Rightarrow> json option \<Rightarrow> json result" where
  "decide w record status scope =
     (if status \<notin> set [''granted'', ''denied'', ''expired'']
      then Inl (ContractError (''invalid approval status: '' @ status))
      else
        seqE (case scope of
            None \<Rightarrow> Inr ()
          | Some sc \<Rightarrow> bindE (sha256 w sc) (\<lambda>h. bindE (getitem record ''scope_hash'') (\<lambda>rh.
              reject_if (rh \<noteq> JStr h) (ContractError ''approval scope cannot be expanded or changed''))))
        (bindE (getitem record ''status'') (\<lambda>st.
        if st \<noteq> JStr ''pending'' then Inl (ContractError ''approval has already been decided'')
        else Inr (put record ''status'' (JStr status)))))"

definition revoke :: "world \<Rightarrow> json \<Rightarrow> json \<Rightarrow> json result" where
  "revoke w record scope =
     bindE (get_opt record ''status'') (\<lambda>st.
     if st \<noteq> JStr ''granted'' then Inl (ContractError ''only a granted approval can be revoked'')
     else bindE (sha256 w scope) (\<lambda>h. bindE (get_opt record ''scope_hash'') (\<lambda>rh.
       if rh \<noteq> JStr h then Inl (ContractError ''approval revocation scope differs from the grant'')
       else Inr (put record ''status'' (JStr ''revoked'')))))"

text \<open>The conjuncts are evaluated from the left; the scope is hashed only when the others hold.\<close>

definition is_granted :: "world \<Rightarrow> json \<Rightarrow> string \<Rightarrow> json \<Rightarrow> bool result" where
  "is_granted w record attempt_id scope =
     bindE (get_opt record ''attempt_id'') (\<lambda>a.
     if a \<noteq> JStr attempt_id then Inr False
     else bindE (get_opt record ''status'') (\<lambda>st.
     if st \<noteq> JStr ''granted'' then Inr False
     else bindE (get_opt record ''scope_hash'') (\<lambda>rh. bindE (sha256 w scope) (\<lambda>h. Inr (rh = JStr h)))))"

section \<open>The life of a record\<close>

definition record_of :: "world \<Rightarrow> json \<Rightarrow> string \<Rightarrow> json \<Rightarrow> bool" where
  "record_of w r attempt_id scope \<longleftrightarrow>
     is_obj r \<and> fld r ''attempt_id'' = JStr attempt_id \<and> has_key r ''status'' \<and>
     has_key r ''scope_hash'' \<and> (\<exists>h. sha256 w scope = Inr h \<and> fld r ''scope_hash'' = JStr h)"

lemma approval_record_fields [simp]:
  "fld (approval_record a act re sc h st) ''attempt_id'' = JStr a"
  "fld (approval_record a act re sc h st) ''action'' = act"
  "fld (approval_record a act re sc h st) ''reason'' = re"
  "fld (approval_record a act re sc h st) ''scope'' = sc"
  "fld (approval_record a act re sc h st) ''scope_hash'' = JStr h"
  "fld (approval_record a act re sc h st) ''status'' = JStr st"
  "fld (approval_record a act re sc h st) ''schema_version'' = JStr ''1.0''"
  "is_obj (approval_record a act re sc h st)"
  "has_key (approval_record a act re sc h st) ''status''"
  "has_key (approval_record a act re sc h st) ''scope_hash''"
  by (simp_all add: approval_record_def fld_def has_key_def)

lemma approval_record_put [simp]:
  "put (approval_record a act re sc h st) ''status'' (JStr st') = approval_record a act re sc h st'"
  by (simp add: approval_record_def)

lemma approval_record_valid:
  "st \<in> set [''pending'', ''granted'', ''denied'', ''expired'', ''revoked''] \<Longrightarrow>
   validate_approval_record (approval_record a act re sc h st) = Inr ()"
  by (auto simp: validate_approval_record_def base_eq_Inr approval_record_def has_key_def fld_def
      getitem_eq_Inr bindE_eq_Inr seqE_eq_Inr require_in_eq_Inr)

lemma request_eq_Inr:
  "request w a act re sc rs = Inr (r, rs') \<longleftrightarrow>
     (\<exists>h. sha256 w sc = Inr h \<and> r = approval_record a act re sc h ''pending'' \<and> rs' = rs @ [r])"
  by (auto simp: request_def result_simps Let_def)

lemma decide_eq_Inr:
  "decide w r st scope = Inr r' \<longleftrightarrow>
     st \<in> set [''granted'', ''denied'', ''expired''] \<and>
     (\<forall>sc. scope = Some sc \<longrightarrow> (\<exists>h. sha256 w sc = Inr h \<and> is_obj r \<and> has_key r ''scope_hash'' \<and>
        fld r ''scope_hash'' = JStr h)) \<and>
     is_obj r \<and> has_key r ''status'' \<and> fld r ''status'' = JStr ''pending'' \<and>
     r' = put r ''status'' (JStr st)"
  by (cases scope) (auto simp: decide_def result_simps split: if_splits)

lemma revoke_eq_Inr:
  "revoke w r scope = Inr r' \<longleftrightarrow>
     is_obj r \<and> fld r ''status'' = JStr ''granted'' \<and>
     (\<exists>h. sha256 w scope = Inr h \<and> fld r ''scope_hash'' = JStr h) \<and>
     r' = put r ''status'' (JStr ''revoked'')"
  by (auto simp: revoke_def result_simps split: if_splits)

text \<open>The calls a record may see after the request, in any order and number; one that raises leaves the record as it is.\<close>

datatype approval_call = Decide string "json option" | Revoke json

definition perform :: "world \<Rightarrow> approval_call \<Rightarrow> json \<Rightarrow> json result" where
  "perform w c r = (case c of Decide st scope \<Rightarrow> decide w r st scope | Revoke scope \<Rightarrow> revoke w r scope)"

text \<open>The record after some calls, and the calls among them that succeeded, in order.\<close>

fun approval_life :: "world \<Rightarrow> json \<Rightarrow> approval_call list \<Rightarrow> json \<times> approval_call list" where
  "approval_life w r [] = (r, [])"
| "approval_life w r (c # cs) =
     (case perform w c r of
        Inl e \<Rightarrow> approval_life w r cs
      | Inr r' \<Rightarrow> (case approval_life w r' cs of (q, effective) \<Rightarrow> (q, c # effective)))"

lemma perform_keeps: "perform w c r = Inr r' \<Longrightarrow> k \<noteq> ''status'' \<Longrightarrow> fld r' k = fld r k"
  by (cases c) (auto simp: perform_def decide_eq_Inr revoke_eq_Inr fld_put)

lemma approval_life_keeps: "k \<noteq> ''status'' \<Longrightarrow> fld (fst (approval_life w r cs)) k = fld r k"
proof (induction cs arbitrary: r)
  case (Cons c cs)
  show ?case
  proof (cases "perform w c r")
    case (Inl e)
    then show ?thesis using Cons by simp
  next
    case (Inr q)
    then show ?thesis using Cons.IH [OF Cons.prems, of q] perform_keeps [OF Inr Cons.prems] by (simp add: case_prod_beta)
  qed
qed simp

text \<open>The record of a request in any status, and what may still happen to it.\<close>

lemma perform_record:
  "perform w c (approval_record a act re sc h st) = Inr r' \<longleftrightarrow>
     (\<exists>st' x. c = Decide st' x \<and> st = ''pending'' \<and> st' \<in> {''granted'', ''denied'', ''expired''} \<and>
        (\<forall>s. x = Some s \<longrightarrow> sha256 w s = Inr h) \<and> r' = approval_record a act re sc h st') \<or>
     (\<exists>x. c = Revoke x \<and> st = ''granted'' \<and> sha256 w x = Inr h \<and> r' = approval_record a act re sc h ''revoked'')"
  by (cases c) (auto simp: perform_def decide_eq_Inr revoke_eq_Inr)

lemma life_ended:
  "st \<notin> {''pending'', ''granted''} \<Longrightarrow> approval_life w (approval_record a act re sc h st) cs = (approval_record a act re sc h st, [])"
proof (induction cs)
  case (Cons c cs)
  then have "\<not> is_ok (perform w c (approval_record a act re sc h st))"
    by (auto simp: is_ok_def perform_record split: sum.splits)
  with Cons show ?case by (auto simp: is_ok_def split: sum.splits)
qed simp

lemma life_granted:
  assumes "approval_life w (approval_record a act re sc h ''granted'') cs = (r', effective)"
  shows "effective = [] \<and> r' = approval_record a act re sc h ''granted'' \<or>
    (\<exists>x. effective = [Revoke x] \<and> sha256 w x = Inr h \<and> r' = approval_record a act re sc h ''revoked'')"
  using assms
proof (induction cs)
  case (Cons c cs)
  show ?case
  proof (cases "perform w c (approval_record a act re sc h ''granted'')")
    case (Inl e)
    then show ?thesis using Cons by simp
  next
    case (Inr q)
    then obtain x where "c = Revoke x" "sha256 w x = Inr h" "q = approval_record a act re sc h ''revoked''"
      by (auto simp: perform_record)
    then show ?thesis using Cons.prems Inr by (auto simp: life_ended)
  qed
qed simp

lemma life_pending:
  assumes "approval_life w (approval_record a act re sc h ''pending'') cs = (r', effective)"
  shows "effective = [] \<and> r' = approval_record a act re sc h ''pending'' \<or>
    (\<exists>st x later. effective = Decide st x # later \<and> st \<in> {''granted'', ''denied'', ''expired''} \<and>
       (\<forall>s. x = Some s \<longrightarrow> sha256 w s = Inr h) \<and>
       (later = [] \<and> r' = approval_record a act re sc h st \<or>
        (\<exists>y. st = ''granted'' \<and> later = [Revoke y] \<and> sha256 w y = Inr h \<and> r' = approval_record a act re sc h ''revoked'')))"
  using assms
proof (induction cs)
  case (Cons c cs)
  show ?case
  proof (cases "perform w c (approval_record a act re sc h ''pending'')")
    case (Inl e)
    then show ?thesis using Cons by simp
  next
    case (Inr q)
    then obtain st x where c: "c = Decide st x" "st \<in> {''granted'', ''denied'', ''expired''}" "\<forall>s. x = Some s \<longrightarrow> sha256 w s = Inr h"
        and q: "q = approval_record a act re sc h st"
      by (auto simp: perform_record)
    obtain later where later: "approval_life w q cs = (r', later)" "effective = c # later"
      using Cons.prems Inr by (auto split: prod.splits)
    show ?thesis
    proof (cases "st = ''granted''")
      case True
      with life_granted [of w a act re sc h cs r' later] later q c show ?thesis by auto
    next
      case False
      then have "st \<notin> {''pending'', ''granted''}" using c(2) by auto
      with life_ended [of st w a act re sc h cs] later q c show ?thesis by auto
    qed
  qed
qed simp

end
