(* ===== verification/Scheduler.thy ===== *)
theory Scheduler
  imports LedgerContracts
begin

text \<open>
  \<^verbatim>\<open>runtime/scheduler.py\<close>: exclusive resource keys with an event log. The interface the executor
  relies on is a locale; the scheduler's model interprets it. The log is related to the owner table:
  replaying the events gives the owners, and no key is acquired while another attempt holds it.
\<close>

section \<open>The scheduler\<close>

record scheduler =
  owners :: "(string, string) dict"
  sched_events :: "json list"
  sched_sequence :: int

definition new_scheduler :: scheduler where
  "new_scheduler = \<lparr>owners = [], sched_events = [], sched_sequence = 0\<rparr>"

definition resource_event :: "string \<Rightarrow> string \<Rightarrow> string \<Rightarrow> int \<Rightarrow> json" where
  "resource_event attempt_id resource_key action sequence =
     JObj [(''action'', JStr action), (''attempt_id'', JStr attempt_id),
       (''resource_key'', JStr resource_key), (''schema_version'', JStr ''1.0''),
       (''sequence'', JInt sequence)]"

definition log_event :: "string \<Rightarrow> string \<Rightarrow> string \<Rightarrow> scheduler \<Rightarrow> scheduler" where
  "log_event attempt_id resource_key action s =
     s\<lparr>sched_events := sched_events s @ [resource_event attempt_id resource_key action (sched_sequence s)],
       sched_sequence := sched_sequence s + 1\<rparr>"

definition take_key :: "string \<Rightarrow> string \<Rightarrow> scheduler \<Rightarrow> scheduler" where
  "take_key attempt_id key s =
     log_event attempt_id key ''acquired'' (s\<lparr>owners := dict_set key attempt_id (owners s)\<rparr>)"

definition drop_key :: "string \<Rightarrow> string \<Rightarrow> string \<Rightarrow> scheduler \<Rightarrow> scheduler" where
  "drop_key attempt_id action key s =
     log_event attempt_id key action (s\<lparr>owners := dict_del key (owners s)\<rparr>)"

definition acquire :: "string \<Rightarrow> string list \<Rightarrow> scheduler \<Rightarrow> bool \<times> scheduler" where
  "acquire attempt_id resource_keys s =
     (let keys = sorted_set resource_keys;
          requested = fold (\<lambda>key. log_event attempt_id key ''requested'') keys s in
      if list_ex (\<lambda>key. \<exists>o' \<in> set_option (dict_get (owners requested) key). o' \<noteq> attempt_id) keys
      then (False, requested)
      else (True, fold (take_key attempt_id) keys requested))"

definition release :: "string \<Rightarrow> string \<Rightarrow> scheduler \<Rightarrow> scheduler result" where
  "release attempt_id action s =
     (if action \<notin> set [''released'', ''timed-out'', ''cancelled'']
      then Inl (ValueError (''invalid resource release action: '' @ action))
      else
        let keys = sort (map fst (filter (\<lambda>ko. snd ko = attempt_id) (owners s))) in
        Inr (fold (drop_key attempt_id action) keys s))"

definition owner :: "scheduler \<Rightarrow> string \<Rightarrow> string option" where
  "owner s resource_key = dict_get (owners s) resource_key"

definition seed_sequence :: "int \<Rightarrow> scheduler \<Rightarrow> scheduler result" where
  "seed_sequence next_sequence s =
     (if sched_events s \<noteq> [] \<or> next_sequence < sched_sequence s
      then Inl (ValueError ''resource sequence can only be seeded before scheduling'')
      else Inr (s\<lparr>sched_sequence := next_sequence\<rparr>))"

lemmas sched_ops = log_event_def take_key_def drop_key_def

section \<open>Owners after each operation\<close>

lemma owners_log_event [simp]: "owners (log_event a k act s) = owners s"
  by (simp add: log_event_def)

lemma owners_fold_log [simp]: "owners (fold (\<lambda>k. log_event a k act) ks s) = owners s"
  by (induction ks arbitrary: s) auto

lemma owner_take_key: "owner (take_key a k s) k' = (if k' = k then Some a else owner s k')"
  by (simp add: owner_def take_key_def dict_get_set)

lemma owner_fold_take: "owner (fold (take_key a) ks s) k = (if k \<in> set ks then Some a else owner s k)"
  by (induction ks arbitrary: s) (auto simp: owner_take_key)

lemma owner_drop_key: "owner (drop_key a act k s) k' = (if k' = k then None else owner s k')"
  by (simp add: owner_def drop_key_def dict_get_del)

lemma owner_fold_drop: "owner (fold (drop_key a act) ks s) k = (if k \<in> set ks then None else owner s k)"
  by (induction ks arbitrary: s) (auto simp: owner_drop_key)

lemma dict_ok_fold_take [simp]: "dict_ok (owners s) \<Longrightarrow> dict_ok (owners (fold (take_key a) ks s))"
  by (induction ks arbitrary: s) (auto simp: take_key_def)

lemma dict_ok_fold_drop [simp]: "dict_ok (owners s) \<Longrightarrow> dict_ok (owners (fold (drop_key a act) ks s))"
  by (induction ks arbitrary: s) (auto simp: drop_key_def)

definition conflict :: "scheduler \<Rightarrow> string \<Rightarrow> string list \<Rightarrow> bool" where
  "conflict s a ks \<longleftrightarrow> (\<exists>k \<in> set ks. \<exists>b. owner s k = Some b \<and> b \<noteq> a)"

lemma acquire_conflict:
  "acquire a ks s =
     (let requested = fold (\<lambda>key. log_event a key ''requested'') (sorted_set ks) s in
      if conflict s a ks then (False, requested)
      else (True, fold (take_key a) (sorted_set ks) requested))"
proof -
  have "list_ex (\<lambda>key. \<exists>o' \<in> set_option (dict_get (owners s) key). o' \<noteq> a) (sorted_set ks) = conflict s a ks"
    by (auto simp: list_ex_iff conflict_def owner_def)
  then show ?thesis by (simp add: acquire_def Let_def)
qed

lemma acquire_owner:
  assumes "acquire a ks s = (True, s')"
  shows "owner s' k = (if k \<in> set ks then Some a else owner s k)"
proof -
  have "s' = fold (take_key a) (sorted_set ks) (fold (\<lambda>key. log_event a key ''requested'') (sorted_set ks) s)"
    using assms by (simp add: acquire_conflict Let_def split: if_splits)
  then show ?thesis by (simp add: owner_fold_take) (simp add: owner_def)
qed

lemma acquire_refused_owner: "acquire a ks s = (False, s') \<Longrightarrow> owner s' k = owner s k"
  by (auto simp: acquire_conflict Let_def owner_def split: if_splits)

lemma release_owner:
  assumes "release a act s = Inr s'" and "dict_ok (owners s)"
  shows "owner s' k = (if owner s k = Some a then None else owner s k)"
proof -
  have s': "s' = fold (drop_key a act) (sort (map fst (filter (\<lambda>ko. snd ko = a) (owners s)))) s"
    using assms(1) by (simp add: release_def Let_def split: if_splits)
  have "k \<in> set (map fst (filter (\<lambda>ko. snd ko = a) (owners s))) \<longleftrightarrow> owner s k = Some a"
    using assms(2) by (force simp: owner_def dest: dict_get_SomeD dict_get_in)
  then show ?thesis unfolding s' by (simp add: owner_fold_drop)
qed

lemma acquire_dict_ok: "dict_ok (owners s) \<Longrightarrow> acquire a ks s = (b, s') \<Longrightarrow> dict_ok (owners s')"
  by (auto simp: acquire_conflict Let_def split: if_splits)

lemma release_dict_ok: "dict_ok (owners s) \<Longrightarrow> release a act s = Inr s' \<Longrightarrow> dict_ok (owners s')"
  by (auto simp: release_def Let_def split: if_splits)

section \<open>The interface of exclusive resources\<close>

text \<open>
  The operations the executor calls and what it relies on. Its lemmas are proved once, from the laws
  alone.
\<close>

locale exclusive_resources =
  fixes invar :: "'s \<Rightarrow> bool"
    and holder :: "'s \<Rightarrow> string \<Rightarrow> string option"
    and grab :: "string \<Rightarrow> string list \<Rightarrow> 's \<Rightarrow> bool \<times> 's"
    and free :: "string \<Rightarrow> string \<Rightarrow> 's \<Rightarrow> 's result"
    and free_action :: "string \<Rightarrow> bool"
  assumes grab_invar: "invar s \<Longrightarrow> grab a ks s = (b, s') \<Longrightarrow> invar s'"
    and free_invar: "invar s \<Longrightarrow> free a act s = Inr s' \<Longrightarrow> invar s'"
    and grab_iff: "grab a ks s = (b, s') \<Longrightarrow>
      b \<longleftrightarrow> \<not> (\<exists>k \<in> set ks. \<exists>c. holder s k = Some c \<and> c \<noteq> a)"
    and grab_holder: "grab a ks s = (True, s') \<Longrightarrow> holder s' k = (if k \<in> set ks then Some a else holder s k)"
    and grab_refused: "grab a ks s = (False, s') \<Longrightarrow> holder s' k = holder s k"
    and free_holder: "invar s \<Longrightarrow> free a act s = Inr s' \<Longrightarrow>
      holder s' k = (if holder s k = Some a then None else holder s k)"
    and free_ok: "free_action act \<Longrightarrow> \<exists>s'. free a act s = Inr s'"
begin

definition idle :: "'s \<Rightarrow> bool" where
  "idle s \<longleftrightarrow> (\<forall>k. holder s k = None)"

lemma grab_when_idle: "idle s \<Longrightarrow> \<exists>s'. grab a ks s = (True, s')"
  using grab_iff [of a ks s] by (cases "grab a ks s") (auto simp: idle_def)

lemma mutual_exclusion:
  assumes "grab a ks s = (True, s')" and "k \<in> set ks" and "k \<in> set ls" and "b \<noteq> a"
  shows "\<not> fst (grab b ls s')"
proof -
  have "holder s' k = Some a" using grab_holder [OF assms(1)] assms(2) by simp
  then have "\<exists>k \<in> set ls. \<exists>c. holder s' k = Some c \<and> c \<noteq> b" using assms(3,4) by metis
  then show ?thesis using grab_iff [of b ls s'] by (cases "grab b ls s'") simp
qed

lemma use_and_free:
  assumes "invar s" and "idle s" and "grab a ks s = (True, s1)" and "free a act s1 = Inr s2"
  shows "invar s2 \<and> idle s2"
proof -
  have "invar s1" using grab_invar [OF assms(1,3)] .
  moreover have "holder s1 k = None \<or> holder s1 k = Some a" for k
    using grab_holder [OF assms(3)] assms(2) by (simp add: idle_def)
  ultimately show ?thesis
    using free_invar [OF _ assms(4)] free_holder [OF _ assms(4)] unfolding idle_def
    by (metis option.distinct(1))
qed

end

definition sched_ok :: "scheduler \<Rightarrow> bool" where
  "sched_ok s \<longleftrightarrow> dict_ok (owners s)"

definition release_action :: "string \<Rightarrow> bool" where
  "release_action act \<longleftrightarrow> act \<in> set [''released'', ''timed-out'', ''cancelled'']"

lemma acquire_result_iff:
  "acquire a ks s = (b, s') \<Longrightarrow> b \<longleftrightarrow> \<not> (\<exists>k \<in> set ks. \<exists>c. owner s k = Some c \<and> c \<noteq> a)"
  by (simp add: acquire_conflict conflict_def [symmetric] Let_def split: if_splits)

lemma release_total: "release_action act \<Longrightarrow> \<exists>s'. release a act s = Inr s'"
  unfolding release_action_def release_def by simp

interpretation sched: exclusive_resources sched_ok owner acquire release release_action
proof (unfold_locales, goal_cases)
  case 1
  then show ?case unfolding sched_ok_def by (rule acquire_dict_ok)
next
  case 2
  then show ?case unfolding sched_ok_def by (rule release_dict_ok)
next
  case 3
  then show ?case by (rule acquire_result_iff)
next
  case 4
  then show ?case by (rule acquire_owner)
next
  case 5
  then show ?case by (rule acquire_refused_owner)
next
  case 6
  then show ?case unfolding sched_ok_def by (rule release_owner [rotated])
next
  case 7
  then show ?case by (rule release_total)
qed

section \<open>The event log\<close>

text \<open>The holder of a key according to the log.\<close>

definition event_is :: "json \<Rightarrow> string \<Rightarrow> bool" where
  "event_is e action \<longleftrightarrow> fld e ''action'' = JStr action"

definition apply_event :: "(string \<Rightarrow> string option) \<Rightarrow> json \<Rightarrow> (string \<Rightarrow> string option)" where
  "apply_event h e =
     (if event_is e ''requested'' then h
      else if event_is e ''acquired''
      then h(as_str (fld e ''resource_key'') := Some (as_str (fld e ''attempt_id'')))
      else h(as_str (fld e ''resource_key'') := None))"

definition log_holder :: "json list \<Rightarrow> string \<Rightarrow> string option" where
  "log_holder es = foldl apply_event (\<lambda>_. None) es"

text \<open>No key is acquired while another attempt holds it, and only the holder gives a key back.\<close>

fun exclusive_log :: "(string \<Rightarrow> string option) \<Rightarrow> json list \<Rightarrow> bool" where
  "exclusive_log h [] = True"
| "exclusive_log h (e # es) =
     ((event_is e ''acquired'' \<longrightarrow>
        h (as_str (fld e ''resource_key'')) \<in> {None, Some (as_str (fld e ''attempt_id''))}) \<and>
      (\<not> event_is e ''acquired'' \<and> \<not> event_is e ''requested'' \<longrightarrow>
        h (as_str (fld e ''resource_key'')) = Some (as_str (fld e ''attempt_id''))) \<and>
      exclusive_log (apply_event h e) es)"

lemma exclusive_log_append:
  "exclusive_log h (xs @ ys) = (exclusive_log h xs \<and> exclusive_log (foldl apply_event h xs) ys)"
  by (induction xs arbitrary: h) auto

lemma resource_event_fields [simp]:
  "fld (resource_event a k act n) ''action'' = JStr act"
  "fld (resource_event a k act n) ''attempt_id'' = JStr a"
  "fld (resource_event a k act n) ''resource_key'' = JStr k"
  "fld (resource_event a k act n) ''sequence'' = JInt n"
  by (simp_all add: resource_event_def fld_def)

text \<open>
  The invariant of a scheduler: replaying its log gives its owner table, the log is exclusive, and
  the sequence numbers count up to the next one to be used.
\<close>

definition log_inv :: "scheduler \<Rightarrow> bool" where
  "log_inv s \<longleftrightarrow> sched_ok s \<and> log_holder (sched_events s) = owner s \<and>
     exclusive_log (\<lambda>_. None) (sched_events s) \<and>
     map (\<lambda>e. fld e ''sequence'') (sched_events s) =
       map JInt [sched_sequence s - int (length (sched_events s)) .. sched_sequence s - 1]"

lemma log_inv_new: "log_inv new_scheduler"
  by (simp add: log_inv_def new_scheduler_def sched_ok_def log_holder_def owner_def fun_eq_iff)

lemma owner_log_event [simp]: "owner (log_event a k act s) = owner s"
  by (simp add: owner_def log_event_def fun_eq_iff)

lemma log_inv_log_event:
  assumes "log_inv s" and "owner (s\<lparr>owners := os\<rparr>) = apply_event (owner s) (resource_event a k act n)"
    and "exclusive_log (owner s) [resource_event a k act n]" and "dict_ok os"
    and "n = sched_sequence s"
  shows "log_inv (log_event a k act (s\<lparr>owners := os\<rparr>))"
proof -
  let ?len = "int (length (sched_events s))"
  have range: "[sched_sequence s - ?len .. sched_sequence s] =
      [sched_sequence s - ?len .. sched_sequence s - 1] @ [sched_sequence s]"
    by (simp add: upto_rec2)
  have ev: "sched_events (log_event a k act (s\<lparr>owners := os\<rparr>)) =
      sched_events s @ [resource_event a k act n]"
    using assms(5) by (simp add: log_event_def)
  have seq: "sched_sequence (log_event a k act (s\<lparr>owners := os\<rparr>)) = sched_sequence s + 1"
    by (simp add: log_event_def)
  have old: "log_holder (sched_events s) = owner s" "exclusive_log (\<lambda>_. None) (sched_events s)"
    using assms(1) by (simp_all add: log_inv_def)
  have "log_holder (sched_events s @ [resource_event a k act n]) = owner (s\<lparr>owners := os\<rparr>)"
    using old(1) assms(2) by (simp add: log_holder_def)
  moreover have "exclusive_log (\<lambda>_. None) (sched_events s @ [resource_event a k act n])"
    using old assms(3) by (simp only: exclusive_log_append log_holder_def)
  ultimately show ?thesis
    using assms(1,4,5) range unfolding log_inv_def ev seq owner_log_event
    by (simp add: sched_ok_def)
qed

lemma log_inv_requested: "log_inv s \<Longrightarrow> log_inv (log_event a k ''requested'' s)"
  using log_inv_log_event [of s "owners s" a k "''requested''"]
  by (simp add: log_inv_def sched_ok_def apply_event_def event_is_def)

lemma log_inv_take_key:
  "log_inv s \<Longrightarrow> owner s k \<in> {None, Some a} \<Longrightarrow> log_inv (take_key a k s)"
  unfolding take_key_def
  by (rule log_inv_log_event) (auto simp: apply_event_def event_is_def owner_def fun_eq_iff dict_get_set
      log_inv_def sched_ok_def)

lemma log_inv_drop_key:
  "log_inv s \<Longrightarrow> owner s k = Some a \<Longrightarrow> release_action act \<Longrightarrow> log_inv (drop_key a act k s)"
  unfolding drop_key_def
  by (rule log_inv_log_event) (auto simp: apply_event_def event_is_def owner_def fun_eq_iff dict_get_del
      log_inv_def sched_ok_def release_action_def)

lemma log_inv_fold_requested: "log_inv s \<Longrightarrow> log_inv (fold (\<lambda>k. log_event a k ''requested'') ks s)"
  by (induction ks arbitrary: s) (auto intro: log_inv_requested)

lemma log_inv_fold_take:
  "log_inv s \<Longrightarrow> \<forall>k \<in> set ks. owner s k \<in> {None, Some a} \<Longrightarrow> log_inv (fold (take_key a) ks s)"
proof (induction ks arbitrary: s)
  case (Cons k ks)
  have "log_inv (take_key a k s)" using Cons.prems by (auto intro: log_inv_take_key)
  moreover have "\<forall>k' \<in> set ks. owner (take_key a k s) k' \<in> {None, Some a}"
    using Cons.prems by (simp add: owner_take_key)
  ultimately show ?case using Cons.IH by simp
qed simp

lemma log_inv_fold_drop:
  "log_inv s \<Longrightarrow> release_action act \<Longrightarrow> distinct ks \<Longrightarrow> \<forall>k \<in> set ks. owner s k = Some a \<Longrightarrow>
   log_inv (fold (drop_key a act) ks s)"
proof (induction ks arbitrary: s)
  case (Cons k ks)
  have "log_inv (drop_key a act k s)" using Cons.prems by (auto intro: log_inv_drop_key)
  moreover have "\<forall>k' \<in> set ks. owner (drop_key a act k s) k' = Some a"
    using Cons.prems by (auto simp: owner_drop_key)
  ultimately show ?case using Cons.IH Cons.prems by simp
qed simp

lemma acquire_log_inv:
  assumes "log_inv s" and "acquire a ks s = (b, s')"
  shows "log_inv s'"
proof -
  let ?r = "fold (\<lambda>key. log_event a key ''requested'') (sorted_set ks) s"
  have r: "log_inv ?r" using assms(1) by (rule log_inv_fold_requested)
  show ?thesis
  proof (cases "conflict s a ks")
    case True
    with assms(2) r show ?thesis by (simp add: acquire_conflict Let_def)
  next
    case False
    then have "owner s k \<in> {None, Some a}" if "k \<in> set ks" for k
      using that by (cases "owner s k") (auto simp: conflict_def)
    moreover have "owner ?r = owner s" by (simp add: owner_def fun_eq_iff)
    ultimately have "\<forall>k \<in> set (sorted_set ks). owner ?r k \<in> {None, Some a}" by simp
    then have "log_inv (fold (take_key a) (sorted_set ks) ?r)" by (rule log_inv_fold_take [OF r])
    with assms(2) False show ?thesis by (simp add: acquire_conflict Let_def)
  qed
qed

lemma release_log_inv:
  assumes "log_inv s" and "release a act s = Inr s'"
  shows "log_inv s'"
proof -
  let ?ks = "sort (map fst (filter (\<lambda>ko. snd ko = a) (owners s)))"
  have act: "release_action act" and s': "s' = fold (drop_key a act) ?ks s"
    using assms(2) by (auto simp: release_def release_action_def Let_def split: if_splits)
  have ok: "dict_ok (owners s)" using assms(1) by (simp add: log_inv_def sched_ok_def)
  then have "distinct ?ks" by (simp add: dict_ok_def distinct_map_filter)
  moreover have "\<forall>k \<in> set ?ks. owner s k = Some a"
    using ok by (auto simp: owner_def dict_get_in)
  ultimately show ?thesis using log_inv_fold_drop [OF assms(1) act] s' by blast
qed

lemma seed_log_inv:
  assumes "log_inv s" and "seed_sequence n s = Inr s'"
  shows "log_inv s'"
  using assms by (auto simp: seed_sequence_def log_inv_def sched_ok_def owner_def split: if_splits)

text \<open>Schedulers reached by any sequence of calls.\<close>

inductive sched_reachable :: "scheduler \<Rightarrow> bool" where
  fresh: "sched_reachable new_scheduler"
| seeded: "sched_reachable s \<Longrightarrow> seed_sequence n s = Inr s' \<Longrightarrow> sched_reachable s'"
| acquired: "sched_reachable s \<Longrightarrow> acquire a ks s = (b, s') \<Longrightarrow> sched_reachable s'"
| released: "sched_reachable s \<Longrightarrow> release a act s = Inr s' \<Longrightarrow> sched_reachable s'"

lemma reachable_log_inv: "sched_reachable s \<Longrightarrow> log_inv s"
  by (induction rule: sched_reachable.induct)
    (auto intro: log_inv_new seed_log_inv acquire_log_inv release_log_inv)

section \<open>Event counts\<close>

lemma sched_events_fold_log:
  "length (sched_events (fold (\<lambda>k. log_event a k act) ks s)) = length (sched_events s) + length ks"
  by (induction ks arbitrary: s) (auto simp: log_event_def)

lemma sched_events_fold_take:
  "length (sched_events (fold (take_key a) ks s)) = length (sched_events s) + length ks"
  by (induction ks arbitrary: s) (auto simp: take_key_def log_event_def)

lemma sched_events_fold_drop:
  "length (sched_events (fold (drop_key a act) ks s)) = length (sched_events s) + length ks"
  by (induction ks arbitrary: s) (auto simp: drop_key_def log_event_def)

end
