(* ===== verification/FastText.thy ===== *)
theory FastText
  imports CanonicalFacts
begin

text \<open>
  Equations for evaluation: the classes of characters by their bits instead of their numbers, and the limits of
  canonical JSON without counting in unary. They change no definition; the samples evaluate by them.
\<close>

lemma of_char_bits:
  "(of_char (Char b0 b1 b2 b3 b4 b5 b6 b7) :: nat) =
     of_bool b0 + 2 * (of_bool b1 + 2 * (of_bool b2 + 2 * (of_bool b3 + 2 * (of_bool b4 + 2 * (of_bool b5 + 2 * (of_bool b6 + 2 * of_bool b7))))))"
  by (simp add: of_char_def horner_sum_simps)

lemma is_cont_code [code]: "is_cont (Char b0 b1 b2 b3 b4 b5 b6 b7) = (b7 \<and> \<not> b6)"
  unfolding is_cont_def Let_def of_char_bits
  by (cases b0; cases b1; cases b2; cases b3; cases b4; cases b5; cases b6; cases b7; simp)

lemma is_hex_digit_code [code]:
  "is_hex_digit (Char b0 b1 b2 b3 b4 b5 b6 b7) =
     (\<not> b7 \<and> b5 \<and> (if b6 then \<not> b4 \<and> \<not> b3 \<and> (b2 \<or> b1 \<or> b0) \<and> \<not> (b2 \<and> b1 \<and> b0) else b4 \<and> (\<not> b3 \<or> \<not> b2 \<and> \<not> b1)))"
  unfolding is_hex_digit_def
  by (cases b0; cases b1; cases b2; cases b3; cases b4; cases b5; cases b6; cases b7; simp)

definition escape_slow :: "char \<Rightarrow> string" where
  "escape_slow c = escape_char c"

lemma escape_slow_code [code]:
  "escape_slow c =
     (case short_escape c of
        Some x \<Rightarrow> [CHR 0x5C, x]
      | None \<Rightarrow>
          if (of_char c :: nat) < 32 then
            [CHR 0x5C, CHR ''u'', CHR ''0'', CHR ''0'', hex_digit (of_char c div 16), hex_digit (of_char c)]
          else [c])"
  by (simp add: escape_slow_def escape_char_def)

lemma escape_char_code [code]:
  "escape_char (Char b0 b1 b2 b3 b4 b5 b6 b7) =
     (let c = Char b0 b1 b2 b3 b4 b5 b6 b7 in
      if (b5 \<or> b6 \<or> b7) \<and> c \<noteq> CHR 0x22 \<and> c \<noteq> CHR 0x5C then [c] else escape_slow c)"
  unfolding escape_slow_def Let_def
  by (cases b5; cases b6; cases b7) (auto simp: escape_char_def short_escape_def of_char_bits split: if_splits)

text \<open>A sufficient condition for the limits, over integers.\<close>

fun small_value :: "int \<Rightarrow> json \<Rightarrow> bool" where
  "small_value d (JInt n) = (\<bar>n\<bar> < 1000000)"
| "small_value d (JList xs) = (d < 100 \<and> list_all (small_value (d + 1)) xs)"
| "small_value d (JObj kvs) = (d < 100 \<and> list_all (\<lambda>kv. small_value (d + 1) (snd kv)) kvs)"
| "small_value d _ = True"

lemma decimal_short: "n < 10 ^ Suc k \<Longrightarrow> length (decimal n) \<le> Suc k"
proof (induction k arbitrary: n)
  case 0
  then show ?case by (subst decimal.simps) simp
next
  case (Suc k)
  show ?case
  proof (cases "n < 10")
    case True
    then show ?thesis by (subst decimal.simps) simp
  next
    case False
    have "n div 10 < 10 ^ Suc k" using Suc.prems by (simp add: less_mult_imp_div_less mult.commute)
    with Suc.IH False show ?thesis by (subst decimal.simps) simp
  qed
qed

lemma small_value_limits: "small_value (int d) v \<Longrightarrow> limits_ok v d"
proof (induction v arbitrary: d rule: measure_induct_rule [where f = size])
  case (less v)
  have IH: "small_value (int d + 1) x \<Longrightarrow> limits_ok x (Suc d)" if "x \<in> set (children v)" for x d
    using less.IH [OF size_children [OF that], of "Suc d"] by (simp add: add.commute)
  show ?case
  proof (cases v)
    case (JInt n)
    then have "nat \<bar>n\<bar> < 10 ^ Suc 5" using less.prems by simp
    then have "length (decimal (nat \<bar>n\<bar>)) \<le> Suc 5" by (rule decimal_short)
    with JInt show ?thesis by (simp add: int_digits_def MAX_CANONICAL_INTEGER_DIGITS_def)
  next
    case (JList xs)
    then show ?thesis using less.prems IH by (auto simp: list_all_iff MAX_CANONICAL_JSON_DEPTH_def)
  next
    case (JObj kvs)
    then show ?thesis using less.prems IH by (force simp: list_all_iff MAX_CANONICAL_JSON_DEPTH_def)
  qed simp_all
qed

definition dumps_slow :: "world \<Rightarrow> json \<Rightarrow> string result" where
  "dumps_slow w value = dumps w value"

lemma dumps_slow_code [code]:
  "dumps_slow w value =
     seqE (validate_value_limits value)
     (if has_nonfinite value then Inl (ValueError ''Out of range float values are not JSON compliant'')
      else Inr (json_text (float_text w) value @ [CHR 0x0A]))"
  by (simp add: dumps_slow_def dumps_def)

lemma dumps_code [code]:
  "dumps w v =
     (if small_value 0 v \<and> \<not> has_nonfinite v then Inr (json_text (float_text w) v @ [CHR 0x0A])
      else dumps_slow w v)"
proof (cases "small_value 0 v \<and> \<not> has_nonfinite v")
  case True
  then have "validate_value_limits v = Inr ()" using small_value_limits [of 0 v] by (simp add: value_limits_iff)
  with True show ?thesis by (simp add: dumps_def)
qed (auto simp: dumps_slow_def)

end
