(* ===== verification/NodeMachine.thy ===== *)
theory NodeMachine
  imports LedgerContracts
begin

text \<open>
  \<^verbatim>\<open>runtime/state_machine.py\<close>: the fail-closed lifecycle of one node attempt. The attempt is the
  dictionary the code builds; the clock and the UUID are readings of the environment. The step
  relation and its invariants state what the transition table promises; the main lemmas show that
  the operations keep an attempt acceptable to the ledger's validator.
\<close>

section \<open>Transitions\<close>

fun ALLOWED_TRANSITIONS :: "NodeStatus \<Rightarrow> NodeStatus list" where
  "ALLOWED_TRANSITIONS PENDING = [READY, BLOCKED, SKIPPED, CANCELLED]"
| "ALLOWED_TRANSITIONS READY = [RUNNING, BLOCKED, CANCELLED, STALE]"
| "ALLOWED_TRANSITIONS RUNNING = [PASSED, FAILED, BLOCKED, SKIPPED, CANCELLED]"
| "ALLOWED_TRANSITIONS PASSED = [STALE]"
| "ALLOWED_TRANSITIONS FAILED = [STALE]"
| "ALLOWED_TRANSITIONS BLOCKED = [READY, STALE]"
| "ALLOWED_TRANSITIONS SKIPPED = [STALE]"
| "ALLOWED_TRANSITIONS CANCELLED = [STALE]"
| "ALLOWED_TRANSITIONS STALE = [READY]"

text \<open>\<open>datetime.max\<close> in microseconds since the epoch; a later deadline overflows.\<close>

definition MAX_DATETIME :: int where "MAX_DATETIME = 253402300799999999"

definition add_seconds :: "world \<Rightarrow> string \<Rightarrow> int \<Rightarrow> string result" where
  "add_seconds w now seconds =
     bindE (fromisoformat w now) (\<lambda>t.
     let d = t + seconds * 1000000 in
     if d > MAX_DATETIME then Inl (OverflowError ''date value out of range'') else Inr (isoformat w d))"

definition new_attempt :: "world \<Rightarrow> nat \<Rightarrow> nat \<Rightarrow> string \<Rightarrow> int \<Rightarrow> int \<Rightarrow> int \<Rightarrow> json result" where
  "new_attempt w tick uid node_id attempt_number max_retries timeout_seconds =
     (if attempt_number < 1 \<or> max_retries < 0 \<or> timeout_seconds \<le> 0
      then Inl (ContractError ''invalid attempt retry or timeout metadata'')
      else
        let now = isoformat w (now_at w tick) in
        bindE (add_seconds w now timeout_seconds) (\<lambda>deadline.
        Inr (JObj [
          (''attempt_id'', JStr (''attempt-'' @ uuid_hex w uid)),
          (''attempt_number'', JInt attempt_number),
          (''deadline'', JStr deadline),
          (''events'', JList [JObj [(''at'', JStr now), (''from'', JNull),
             (''reason'', JStr ''created''), (''to'', JStr (status_value PENDING))]]),
          (''max_retries'', JInt max_retries),
          (''node_id'', JStr node_id),
          (''schema_version'', JStr ''1.0''),
          (''status'', JStr (status_value PENDING)),
          (''timeout_seconds'', JInt timeout_seconds)])))"

definition transition_event :: "world \<Rightarrow> nat \<Rightarrow> NodeStatus \<Rightarrow> NodeStatus \<Rightarrow> string \<Rightarrow> json" where
  "transition_event w tick current target reason =
     JObj [(''at'', JStr (isoformat w (now_at w tick))), (''from'', JStr (status_value current)),
       (''reason'', JStr reason), (''to'', JStr (status_value target))]"

definition transition :: "world \<Rightarrow> nat \<Rightarrow> json \<Rightarrow> NodeStatus \<Rightarrow> string \<Rightarrow> json result" where
  "transition w tick attempt target reason =
     bindE (getitem attempt ''status'') (\<lambda>status.
     bindE (status_of status) (\<lambda>current.
     if target \<notin> set (ALLOWED_TRANSITIONS current)
     then Inl (ContractError (''illegal node transition: '' @ status_value current @ '' -> '' @ status_value target))
     else
       bindE (getitem attempt ''events'') (\<lambda>events.
       if \<not> is_list events then Inl (AttributeError ''append'')
       else Inr (put (put attempt ''events''
           (JList (as_list events @ [transition_event w tick current target reason])))
         ''status'' (JStr (status_value target))))))"

definition can_auto_retry :: "bool \<Rightarrow> int \<Rightarrow> int \<Rightarrow> bool" where
  "can_auto_retry idempotent attempt_count max_retries = (idempotent \<and> attempt_count \<le> max_retries)"

text \<open>\<open>has_timed_out(attempt, now=...)\<close> at an explicit instant.\<close>

definition has_timed_out :: "world \<Rightarrow> json \<Rightarrow> int \<Rightarrow> bool result" where
  "has_timed_out w attempt current =
     bindE (getitem attempt ''deadline'') (\<lambda>d.
     if \<not> is_str d then Inl (TypeError ''fromisoformat: argument must be str'')
     else bindE (fromisoformat w (as_str d)) (\<lambda>deadline. Inr (deadline \<le> current)))"

section \<open>The lifecycle as a step relation\<close>

inductive node_step :: "NodeStatus \<Rightarrow> NodeStatus \<Rightarrow> bool" where
  allowed: "t \<in> set (ALLOWED_TRANSITIONS s) \<Longrightarrow> node_step s t"

inductive_cases node_step_to: "node_step s PASSED" "node_step s FAILED" "node_step s RUNNING"
inductive_simps node_step_simps: "node_step s t"

lemma node_step_passed: "node_step s PASSED \<Longrightarrow> s = RUNNING"
  by (cases s) (auto elim!: node_step_to)

lemma node_step_failed: "node_step s FAILED \<Longrightarrow> s = RUNNING"
  by (cases s) (auto elim!: node_step_to)

lemma node_step_running: "node_step s RUNNING \<Longrightarrow> s = READY"
  by (cases s) (auto elim!: node_step_to)

text \<open>Every status leads on (to \<open>STALE\<close> and from there to \<open>READY\<close> in the terminal ones).\<close>

lemma node_step_progress: "\<exists>t. node_step s t"
  by (cases s) (auto simp: node_step_simps)

lemma no_step_back_to_pending: "\<not> node_step s PENDING"
  by (cases s) (simp_all add: node_step_simps)

text \<open>A path through the lifecycle.\<close>

fun legal_path :: "NodeStatus \<Rightarrow> NodeStatus list \<Rightarrow> bool" where
  "legal_path s [] = True"
| "legal_path s (t # ts) = (node_step s t \<and> legal_path t ts)"

lemma legal_path_append:
  "legal_path s (ts @ us) = (legal_path s ts \<and> legal_path (last (s # ts)) us)"
  by (induction s ts rule: legal_path.induct) auto

text \<open>An attempt that passed or failed was running before, and ready before that.\<close>

lemma legal_path_reaches:
  assumes "legal_path PENDING ts" and "last (PENDING # ts) \<in> {PASSED, FAILED}"
  shows "\<exists>us. ts = us @ [READY, RUNNING, last ts]"
proof -
  have ne: "ts \<noteq> []" using assms(2) by auto
  obtain us t where ts: "ts = us @ [t]" using ne by (metis append_butlast_last_id)
  with assms have "node_step (last (PENDING # us)) t" "t \<in> {PASSED, FAILED}"
    by (auto simp: legal_path_append)
  then have run: "last (PENDING # us) = RUNNING"
    using node_step_passed node_step_failed by blast
  then have "us \<noteq> []" by auto
  then obtain vs where us: "us = vs @ [RUNNING]" using run by (metis append_butlast_last_id last_ConsR)
  with assms(1) ts have "node_step (last (PENDING # vs)) RUNNING" by (auto simp: legal_path_append)
  then have rdy: "last (PENDING # vs) = READY" by (rule node_step_running)
  then have "vs \<noteq> []" by auto
  then obtain ws where "vs = ws @ [READY]" using rdy by (metis append_butlast_last_id last_ConsR)
  with us ts show ?thesis by auto
qed

section \<open>Agreement of the two transition tables\<close>

lemma transition_tables_agree:
  "LEGAL_NODE_TRANSITIONS (status_value s) = map status_value (ALLOWED_TRANSITIONS s)"
  by (cases s) (simp_all add: LEGAL_NODE_TRANSITIONS_def)

section \<open>Attempts stay valid\<close>

text \<open>
  The shape the operations produce: the fixed fields, and events that record a legal path from
  \<open>PENDING\<close> to the current status.
\<close>

definition event_entry :: "string \<Rightarrow> json \<Rightarrow> string \<Rightarrow> NodeStatus \<Rightarrow> json" where
  "event_entry tm source reason target = JObj [(''at'', JStr tm), (''from'', source),
     (''reason'', JStr reason), (''to'', JStr (status_value target))]"

fun event_trail :: "NodeStatus \<Rightarrow> (string \<times> string \<times> NodeStatus) list \<Rightarrow> json list" where
  "event_trail s [] = []"
| "event_trail s ((tm, reason, t) # rest) =
     event_entry tm (JStr (status_value s)) reason t # event_trail t rest"

definition attempt_keys :: "string list" where
  "attempt_keys = [''attempt_id'', ''node_id'', ''status'', ''events'', ''attempt_number'',
     ''max_retries'', ''timeout_seconds'', ''deadline'', ''schema_version'']"

definition attempt_header_ok :: "json \<Rightarrow> bool" where
  "attempt_header_ok a \<longleftrightarrow> is_obj a \<and> (\<forall>f \<in> set attempt_keys. has_key a f) \<and>
     fld a ''schema_version'' = JStr ''1.0'' \<and>
     is_str (fld a ''attempt_id'') \<and> is_str (fld a ''node_id'') \<and>
     is_strict_int (fld a ''attempt_number'') \<and> 1 \<le> as_int (fld a ''attempt_number'') \<and>
     is_strict_int (fld a ''max_retries'') \<and> 0 \<le> as_int (fld a ''max_retries'') \<and>
     is_strict_int (fld a ''timeout_seconds'') \<and> 0 < as_int (fld a ''timeout_seconds'')"

definition targets :: "(string \<times> string \<times> NodeStatus) list \<Rightarrow> NodeStatus list" where
  "targets rest = map (\<lambda>e. snd (snd e)) rest"

definition attempt_history_ok :: "json \<Rightarrow> bool" where
  "attempt_history_ok a \<longleftrightarrow>
     (\<exists>tm reason rest.
        fld a ''events'' = JList (event_entry tm JNull reason PENDING # event_trail PENDING rest) \<and>
        legal_path PENDING (targets rest) \<and>
        fld a ''status'' = JStr (status_value (last (PENDING # targets rest))))"

definition well_formed_attempt :: "json \<Rightarrow> bool" where
  "well_formed_attempt a \<longleftrightarrow> attempt_header_ok a \<and> attempt_history_ok a"

lemma targets_simps [simp]:
  "targets [] = []" "targets ((tm, r, t) # es) = t # targets es" "targets (xs @ ys) = targets xs @ targets ys"
  by (simp_all add: targets_def)

lemma event_trail_append:
  "event_trail s (xs @ ys) = event_trail s xs @ event_trail (last (s # targets xs)) ys"
  by (induction s xs rule: event_trail.induct) auto

lemma event_entry_fields [simp]:
  "fld (event_entry tm s r t) ''to'' = JStr (status_value t)"
  "fld (event_entry tm s r t) ''from'' = s"
  "is_obj (event_entry tm s r t)"
  "has_key (event_entry tm s r t) ''to''" "has_key (event_entry tm s r t) ''from''"
  "has_key (event_entry tm s r t) ''at''" "has_key (event_entry tm s r t) ''reason''"
  by (simp_all add: event_entry_def fld_def has_key_def)

lemma check_event_entry:
  "check_attempt_event None (event_entry tm s r t) = Inr (Some (JStr (status_value t)))"
  "node_step u t \<Longrightarrow> check_attempt_event (Some (JStr (status_value u)))
     (event_entry tm (JStr (status_value u)) r t) = Inr (Some (JStr (status_value t)))"
proof -
  have req: "require_in (JStr (status_value t)) (map status_value all_statuses) e = Inr ()" for e t
    by (auto simp: result_simps)
  have fs: "require_fields (event_entry tm s r t) [''at'', ''from'', ''to'', ''reason''] k = Inr ()" for s k
    by (simp add: result_simps)
  have get: "getitem (event_entry tm s r t) ''to'' = Inr (JStr (status_value t))"
      "getitem (event_entry tm s r t) ''from'' = Inr s" for s
    by (simp_all add: getitem_eq_Inr)
  show "check_attempt_event None (event_entry tm s r t) = Inr (Some (JStr (status_value t)))"
    by (simp add: check_attempt_event_def req fs get)
  assume "node_step u t"
  then have "status_value t \<in> set (LEGAL_NODE_TRANSITIONS (status_value u))"
    by (simp add: transition_tables_agree node_step_simps)
  then show "check_attempt_event (Some (JStr (status_value u)))
     (event_entry tm (JStr (status_value u)) r t) = Inr (Some (JStr (status_value t)))"
    by (simp add: check_attempt_event_def req fs get)
qed

lemma check_event_trail:
  "legal_path s (targets rest) \<Longrightarrow>
   foldE check_attempt_event (Some (JStr (status_value s))) (event_trail s rest) =
     Inr (Some (JStr (status_value (last (s # targets rest)))))"
  by (induction s rest rule: event_trail.induct) (auto simp: check_event_entry)

lemma well_formed_attempt_valid:
  assumes "well_formed_attempt a"
  shows "validate_node_attempt a = Inr ()"
proof -
  have hdr: "attempt_header_ok a" and "attempt_history_ok a"
    using assms by (simp_all add: well_formed_attempt_def)
  then obtain tm reason rest where
    ev: "fld a ''events'' = JList (event_entry tm JNull reason PENDING # event_trail PENDING rest)"
    and path: "legal_path PENDING (targets rest)"
    and st: "fld a ''status'' = JStr (status_value (last (PENDING # targets rest)))"
    by (auto simp: attempt_history_ok_def)
  obtain n r t where num: "fld a ''attempt_number'' = JInt n" "1 \<le> n"
      "fld a ''max_retries'' = JInt r" "0 \<le> r" "fld a ''timeout_seconds'' = JInt t" "0 < t"
    using hdr by (auto simp: attempt_header_ok_def json_kinds)
  have b: "base a [''attempt_id'', ''node_id'', ''status'', ''events'', ''attempt_number'',
        ''max_retries'', ''timeout_seconds'', ''deadline''] ''node-attempt'' = Inr ()"
    using hdr by (simp add: base_eq_Inr attempt_header_ok_def attempt_keys_def)
  have get: "getitem a ''status'' = Inr (fld a ''status'')" "getitem a ''events'' = Inr (fld a ''events'')"
    using hdr by (simp_all add: getitem_eq_Inr attempt_header_ok_def attempt_keys_def)
  have "foldE check_attempt_event None (event_entry tm JNull reason PENDING # event_trail PENDING rest) =
      Inr (Some (fld a ''status''))"
    using check_event_trail [OF path] st check_event_entry(1) [of tm JNull reason PENDING] by simp
  moreover have "get_opt (event_entry tm JNull reason PENDING) ''from'' = Inr JNull"
      "get_opt (event_entry tm JNull reason PENDING) ''to'' = Inr (JStr ''pending'')"
    by (simp_all add: get_opt_eq_Inr)
  moreover have "is_ok (status_of (fld a ''status''))" by (simp add: st)
  ultimately show ?thesis
    using num by (simp add: validate_node_attempt_def b get ev reject_when_def)
qed

lemma new_attempt_well_formed:
  assumes "new_attempt w tick uid node_id n r t = Inr a"
  shows "well_formed_attempt a \<and> fld a ''status'' = JStr (status_value PENDING)"
proof -
  from assms obtain d where c: "1 \<le> n" "0 \<le> r" "0 < t" and a: "a = JObj [
          (''attempt_id'', JStr (''attempt-'' @ uuid_hex w uid)),
          (''attempt_number'', JInt n),
          (''deadline'', JStr d),
          (''events'', JList [JObj [(''at'', JStr (isoformat w (now_at w tick))), (''from'', JNull),
             (''reason'', JStr ''created''), (''to'', JStr (status_value PENDING))]]),
          (''max_retries'', JInt r),
          (''node_id'', JStr node_id),
          (''schema_version'', JStr ''1.0''),
          (''status'', JStr (status_value PENDING)),
          (''timeout_seconds'', JInt t)]"
    by (auto simp: new_attempt_def Let_def result_simps split: if_splits)
  have "fld a ''events'' = JList (event_entry (isoformat w (now_at w tick)) JNull ''created'' PENDING
      # event_trail PENDING [])"
    unfolding a by (simp add: fld_def event_entry_def)
  moreover have st: "fld a ''status'' = JStr (status_value PENDING)" unfolding a by (simp add: fld_def)
  ultimately have "attempt_history_ok a"
    unfolding attempt_history_ok_def by (intro exI conjI) (assumption, simp_all)
  moreover have "attempt_header_ok a"
    using c unfolding a attempt_header_ok_def attempt_keys_def by (simp add: fld_def has_key_def)
  ultimately show ?thesis using st by (simp add: well_formed_attempt_def)
qed

lemma transition_eq_Inr:
  "transition w tick a target reason = Inr a' \<longleftrightarrow>
     (\<exists>current es. is_obj a \<and> has_key a ''status'' \<and> has_key a ''events'' \<and>
        fld a ''status'' = JStr (status_value current) \<and> node_step current target \<and>
        fld a ''events'' = JList es \<and>
        a' = put (put a ''events'' (JList (es @ [transition_event w tick current target reason])))
          ''status'' (JStr (status_value target)))"
  by (auto simp: transition_def result_simps node_step_simps json_kinds split: if_splits)

lemma transition_keeps_fields:
  assumes "transition w tick a target reason = Inr a'" and "k \<noteq> ''status''" and "k \<noteq> ''events''"
  shows "fld a' k = fld a k"
  using assms by (auto simp: transition_eq_Inr fld_put)

lemma transition_well_formed:
  assumes "well_formed_attempt a" and "transition w tick a target reason = Inr a'"
  shows "well_formed_attempt a' \<and> fld a' ''status'' = JStr (status_value target)"
proof -
  obtain tm reason0 rest where
    ev: "fld a ''events'' = JList (event_entry tm JNull reason0 PENDING # event_trail PENDING rest)"
    and path: "legal_path PENDING (targets rest)"
    and st: "fld a ''status'' = JStr (status_value (last (PENDING # targets rest)))"
    using assms(1) by (auto simp: well_formed_attempt_def attempt_history_ok_def)
  let ?cur = "last (PENDING # targets rest)"
  let ?rest = "rest @ [(isoformat w (now_at w tick), reason, target)]"
  obtain es current where a: "is_obj a" "fld a ''status'' = JStr (status_value current)"
      "node_step current target" "fld a ''events'' = JList es"
      "a' = put (put a ''events'' (JList (es @ [transition_event w tick current target reason])))
          ''status'' (JStr (status_value target))"
    using assms(2) by (auto simp: transition_eq_Inr)
  have cur: "current = ?cur" using a(2) st by (simp add: status_value_inj)
  have entry: "transition_event w tick current target reason =
      event_entry (isoformat w (now_at w tick)) (JStr (status_value ?cur)) reason target"
    by (simp add: transition_event_def event_entry_def cur)
  have "fld a' ''events'' = JList (event_entry tm JNull reason0 PENDING # event_trail PENDING ?rest)"
    using a(1,4,5) ev by (simp add: fld_put entry event_trail_append)
  moreover have "legal_path PENDING (targets ?rest)"
    using path a(3) cur by (simp add: legal_path_append)
  moreover have st': "fld a' ''status'' = JStr (status_value target)"
    using a(1,5) by (simp add: fld_put)
  ultimately have "attempt_history_ok a'"
    unfolding attempt_history_ok_def by (intro exI conjI) (assumption, assumption, simp)
  moreover have "is_obj a'" "\<And>k. has_key a' k \<longleftrightarrow> k = ''status'' \<or> k = ''events'' \<or> has_key a k"
    using a(1,5) by (auto simp: has_key_put)
  then have "attempt_header_ok a'"
    using assms(1) transition_keeps_fields [OF assms(2)]
    by (simp add: well_formed_attempt_def attempt_header_ok_def)
  ultimately show ?thesis using st' by (simp add: well_formed_attempt_def)
qed

lemma transition_step:
  assumes "transition w tick a target reason = Inr a'"
  shows "\<exists>s. fld a ''status'' = JStr (status_value s) \<and> node_step s target \<and>
    fld a' ''status'' = JStr (status_value target)"
  using assms by (auto simp: transition_eq_Inr fld_put)

lemma new_attempt_fields:
  assumes "new_attempt w tick uid node_id n r t = Inr a"
  shows "fld a ''attempt_id'' = JStr (''attempt-'' @ uuid_hex w uid)" "fld a ''node_id'' = JStr node_id"
    "fld a ''attempt_number'' = JInt n"
  using assms by (auto simp: new_attempt_def Let_def result_simps fld_def split: if_splits)

end
