(* ===== verification/Executor.thy ===== *)
theory Executor
  imports LedgerFacts Approval Dag NodeMachine Scheduler
begin

text \<open>
  \<^verbatim>\<open>runtime/executor.py\<close>: the preflight of a workflow plan and the run of its nodes. The executor's
  methods are state-passing over the ledger, the scheduler, the approval records, the clock and UUID
  readings and the state of the adapter hooks. The hooks are a record, as the class's overridable
  methods are; \<^verbatim>\<open>FakeAdapterExecutor\<close> is one instance.

  A plan and its nodes are the dictionaries the code reads. The preflight establishes that node ids
  are unique non-empty texts, that edges connect known nodes, and the types of the numbers and resource
  keys, so the run reads these with total accessors.
\<close>

section \<open>State and hooks\<close>

record 'h xstate =
  x_store :: store
  x_sched :: scheduler
  x_gate :: "json list"
  x_ticks :: nat
  x_uids :: nat
  x_hook :: 'h

type_synonym ('h, 'a) xexec = "('h xstate, 'a) exec"

record 'h hooks =
  prepare_adapter :: "json \<Rightarrow> json \<Rightarrow> json \<Rightarrow> ('h, unit) xexec"
  record_contract_failure :: "json \<Rightarrow> json \<Rightarrow> json \<Rightarrow> py_error \<Rightarrow> ('h, unit) xexec"
  adapter_outcome :: "json \<Rightarrow> json \<Rightarrow> json \<Rightarrow> ('h, json) xexec"
  reusable_status :: "json \<Rightarrow> json \<Rightarrow> NodeStatus option \<Rightarrow> ('h, NodeStatus option) xexec"
  can_retry :: "json \<Rightarrow> json \<Rightarrow> bool result"
  additional_event_budget :: "json \<Rightarrow> int result"
  adjust_final_status :: "string \<Rightarrow> run_ledger \<Rightarrow> string result"

text \<open>What a run is configured with.\<close>

record run_config =
  has_path :: bool
  package_lock :: "json option"
  lock_check :: "json \<Rightarrow> json \<Rightarrow> unit result"
  resume :: bool
  approval_decisions :: "(string, string) dict"

section \<open>Lookups\<close>

text \<open>\<open>d.get(k)\<close> for a dictionary with text keys and any value as the key.\<close>

definition lookup_json :: "(string, 'v) dict \<Rightarrow> json \<Rightarrow> 'v option result" where
  "lookup_json d k =
     (case k of JStr s \<Rightarrow> Inr (dict_get d s)
      | _ \<Rightarrow> if hashable k then Inr None else Inl (TypeError ''unhashable type''))"

text \<open>A dictionary keyed by arbitrary hashable values.\<close>

fun keyed_set :: "json \<Rightarrow> 'v \<Rightarrow> (json \<times> 'v) list \<Rightarrow> (json \<times> 'v) list" where
  "keyed_set k v [] = [(k, v)]"
| "keyed_set k v (p # d) = (if py_eq (fst p) k then (fst p, v) # d else p # keyed_set k v d)"

definition keyed_get :: "(json \<times> 'v) list \<Rightarrow> json \<Rightarrow> 'v option" where
  "keyed_get d k = map_option snd (find (\<lambda>p. py_eq (fst p) k) d)"

definition latest_attempts :: "json list \<Rightarrow> (json \<times> json) list result" where
  "latest_attempts attempts =
     foldE (\<lambda>d a. bindE (getitem a ''node_id'') (\<lambda>n.
       if hashable n then Inr (keyed_set n a d) else Inl (TypeError ''unhashable type''))) [] attempts"

definition latest_attempt :: "json list \<Rightarrow> json \<Rightarrow> json option result" where
  "latest_attempt attempts node_id = bindE (latest_attempts attempts) (\<lambda>d. Inr (keyed_get d node_id))"

definition latest_statuses :: "json list \<Rightarrow> (json \<times> NodeStatus) list result" where
  "latest_statuses attempts =
     bindE (latest_attempts attempts) (\<lambda>d.
     mapE (\<lambda>p. bindE (getitem (snd p) ''status'') (\<lambda>s. bindE (status_of s) (\<lambda>st. Inr (fst p, st)))) d)"

definition approval_for_attempt :: "json list \<Rightarrow> json option \<Rightarrow> json option result" where
  "approval_for_attempt records attempt =
     (case attempt of
        None \<Rightarrow> Inr None
      | Some a \<Rightarrow>
          if \<not> truthy a then Inr None
          else
            bindE (mapE (\<lambda>r. bindE (getitem r ''attempt_id'') (\<lambda>i. bindE (getitem a ''attempt_id'') (\<lambda>j.
              Inr (py_eq i j, r)))) records) (\<lambda>ps.
            let matching = map snd (filter fst ps) in
            Inr (if matching = [] then None else Some (last matching))))"

section \<open>The graph of a plan\<close>

definition plan_nodes :: "json \<Rightarrow> json list" where
  "plan_nodes plan = as_list (fld plan ''nodes'')"

definition node_id :: "json \<Rightarrow> string" where
  "node_id node = as_str (fld node ''id'')"

definition node_ids :: "json \<Rightarrow> string list" where
  "node_ids plan = map node_id (plan_nodes plan)"

definition plan_edges :: "json \<Rightarrow> edges" where
  "plan_edges plan =
     map (\<lambda>e. (as_str (fld e ''from''), as_str (fld e ''to''))) (as_list (fld plan ''edges''))"

definition MAX_RUNTIME_NODES :: nat where "MAX_RUNTIME_NODES = 16384"
definition MAX_RUNTIME_EDGES :: nat where "MAX_RUNTIME_EDGES = 65536"
definition MAX_RUNTIME_LEDGER_EVENTS :: int where "MAX_RUNTIME_LEDGER_EVENTS = 100000"

definition max_retries :: "json \<Rightarrow> json" where
  "max_retries node = fld_or node ''max_retries'' (JInt 0)"

definition timeout_seconds :: "json \<Rightarrow> json" where
  "timeout_seconds node = fld_or node ''timeout_seconds'' (JInt 300)"

definition resource_keys :: "json \<Rightarrow> json" where
  "resource_keys node = fld_or node ''resource_keys'' (JList [])"

definition resource_list :: "json \<Rightarrow> string list" where
  "resource_list node = map as_str (as_list (resource_keys node))"

text \<open>The events one node may append: each attempt logs every resource three times and itself once.\<close>

definition node_event_budget :: "json \<Rightarrow> int" where
  "node_event_budget node =
     (let attempts = (if truthy (fld node ''idempotent'') then as_int (max_retries node) + 1 else 1) in
      attempts * (3 * int (length (remdups (resource_list node))) + 1)
      + (if truthy (fld node ''approval'') then 2 else 0))"

definition projected_overflow :: py_error where
  "projected_overflow = ContractError ''workflow runtime projected events exceed maximum 100000''"

definition check_runtime_node :: "int \<Rightarrow> json \<Rightarrow> int result" where
  "check_runtime_node projected node =
     seqE (reject_if (\<not> is_obj node) (ContractError ''workflow runtime node must be an object''))
     (seqE (reject_if (\<not> is_strict_int (max_retries node) \<or> as_int (max_retries node) < 0 \<or>
          \<not> is_strict_int (timeout_seconds node) \<or> as_int (timeout_seconds node) \<le> 0)
        (ContractError ''workflow runtime retry or timeout metadata is invalid''))
     (seqE (reject_if (\<not> is_list (resource_keys node) \<or>
          list_ex (\<lambda>i. \<not> is_str i) (as_list (resource_keys node)))
        (ContractError ''workflow runtime resource keys are invalid''))
     (let projected' = projected + node_event_budget node in
      if projected' > MAX_RUNTIME_LEDGER_EVENTS then Inl projected_overflow else Inr projected')))"

definition check_runtime_edge :: "string list \<Rightarrow> json \<Rightarrow> unit result" where
  "check_runtime_edge known e =
     (if \<not> is_obj e then Inl (ContractError ''workflow runtime edge references unknown node'')
      else
        seqE (require_in (fld e ''from'') known
          (ContractError ''workflow runtime edge references unknown node''))
        (require_in (fld e ''to'') known
          (ContractError ''workflow runtime edge references unknown node'')))"

definition preflight :: "json \<Rightarrow> int result" where
  "preflight plan =
     bindE (get_opt plan ''nodes'') (\<lambda>nodes. bindE (get_opt plan ''edges'') (\<lambda>edges.
     seqE (reject_if (\<not> is_list nodes \<or> \<not> is_list edges)
       (ContractError ''workflow runtime requires node and edge arrays''))
     (seqE (reject_if (length (as_list nodes) > MAX_RUNTIME_NODES)
       (ContractError ''workflow runtime nodes exceed maximum 16384''))
     (seqE (reject_if (length (as_list edges) > MAX_RUNTIME_EDGES)
       (ContractError ''workflow runtime edges exceed maximum 65536''))
     (let ids = map (\<lambda>n. if is_obj n then fld n ''id'' else JNull) (as_list nodes);
          names = map as_str ids in
      seqE (reject_if (list_ex (\<lambda>i. \<not> is_nonempty_str i) ids \<or> has_duplicates names)
        (ContractError ''workflow runtime node ids must be non-empty and unique''))
      (seqE (for_each (check_runtime_edge names) (as_list edges))
      (bindE (kahn names (plan_edges plan)) (\<lambda>visited.
      seqE (reject_if (length visited \<noteq> length names)
        (ContractError ''workflow runtime contains dependency cycle''))
      (foldE check_runtime_node
        (if fld plan ''status'' = JStr ''blocked'' then 3 else 2) (as_list nodes)))))))))) "

section \<open>Small steps of the executor\<close>

definition on_store :: "(store, 'a) exec \<Rightarrow> ('h, 'a) xexec" where
  "on_store m s = (case m (x_store s) of (r, st) \<Rightarrow> (r, s\<lparr>x_store := st\<rparr>))"

definition log :: "world \<Rightarrow> string \<Rightarrow> json \<Rightarrow> ('h, unit) xexec" where
  "log w event_type v = on_store (append_event w (JStr event_type) v)"

definition ledger :: "'h xstate \<Rightarrow> run_ledger" where
  "ledger s = led (x_store s)"

definition move :: "world \<Rightarrow> json \<Rightarrow> NodeStatus \<Rightarrow> string \<Rightarrow> ('h, json) xexec" where
  "move w attempt target reason s =
     (case transition w (x_ticks s) attempt target reason of
        Inl e \<Rightarrow> (Inl e, s)
      | Inr a \<Rightarrow> (Inr a, s\<lparr>x_ticks := x_ticks s + 1\<rparr>))"

definition fresh_attempt :: "world \<Rightarrow> json \<Rightarrow> ('h, json) xexec" where
  "fresh_attempt w node s =
     (case bindE (mapE (\<lambda>a. bindE (getitem a ''node_id'') (\<lambda>n. Inr (py_eq n (JStr (node_id node)))))
         (node_attempts (ledger s))) (\<lambda>same.
        new_attempt w (x_ticks s) (x_uids s) (node_id node) (int (length (filter id same)) + 1)
          (as_int (max_retries node)) (as_int (timeout_seconds node))) of
        Inl e \<Rightarrow> (Inl e, s)
      | Inr a \<Rightarrow> (Inr a, s\<lparr>x_ticks := x_ticks s + 1, x_uids := x_uids s + 1\<rparr>))"

text \<open>\<open>_flush_resource_events\<close>\<close>

definition flush :: "world \<Rightarrow> nat \<Rightarrow> ('h, nat) xexec" where
  "flush w cursor =
     bindS (reads (\<lambda>s. sched_events (x_sched s))) (\<lambda>evs.
     thenS (foldS (\<lambda>_ e. log w ''resource-event'' e) () (drop cursor evs))
     (ret (length evs)))"

definition acquire_keys :: "json \<Rightarrow> json \<Rightarrow> ('h, bool) xexec" where
  "acquire_keys attempt node s =
     (case acquire (as_str (fld attempt ''attempt_id'')) (resource_list node) (x_sched s) of
        (b, sc) \<Rightarrow> (Inr b, s\<lparr>x_sched := sc\<rparr>))"

definition release_keys :: "json \<Rightarrow> string \<Rightarrow> ('h, unit) xexec" where
  "release_keys attempt action s =
     (case release (as_str (fld attempt ''attempt_id'')) action (x_sched s) of
        Inl e \<Rightarrow> (Inl e, s)
      | Inr sc \<Rightarrow> (Inr (), s\<lparr>x_sched := sc\<rparr>))"

type_synonym preds = "(string, NodeStatus list) dict"

definition preds_of :: "preds \<Rightarrow> string \<Rightarrow> NodeStatus list" where
  "preds_of p n = (case dict_get p n of Some xs \<Rightarrow> xs | None \<Rightarrow> [])"

definition record_successors :: "json \<Rightarrow> string \<Rightarrow> NodeStatus \<Rightarrow> preds \<Rightarrow> preds" where
  "record_successors plan n st p =
     fold (\<lambda>e p. if fst e = n then dict_set (snd e) (preds_of p (snd e) @ [st]) p else p)
       (plan_edges plan) p"

section \<open>Approval\<close>

text \<open>\<open>record\<close> is the gate's last one, so a decision replaces it there too.\<close>

definition request_approval ::
    "world \<Rightarrow> json \<Rightarrow> json \<Rightarrow> string option \<Rightarrow> ('h, json) xexec" where
  "request_approval w attempt approval decision s =
     (case bindE (getitem approval ''action'') (\<lambda>action. bindE (getitem approval ''reason'') (\<lambda>reason.
           bindE (get_default approval ''scope'' (JObj [])) (\<lambda>scope.
           bindE (request w (as_str (fld attempt ''attempt_id'')) action reason scope (x_gate s)) (\<lambda>p.
           Inr (p, scope))))) of
        Inl e \<Rightarrow> (Inl e, s)
      | Inr ((record, gate), scope) \<Rightarrow>
          (case decision of
             None \<Rightarrow> (Inr record, s\<lparr>x_gate := gate\<rparr>)
           | Some d \<Rightarrow>
               (case decide w record d (Some scope) of
                  Inl e \<Rightarrow> (Inl e, s\<lparr>x_gate := gate\<rparr>)
                | Inr record' \<Rightarrow> (Inr record', s\<lparr>x_gate := butlast gate @ [record']\<rparr>))))"

definition resume_approval ::
    "world \<Rightarrow> json \<Rightarrow> json \<Rightarrow> json \<Rightarrow> string option \<Rightarrow> ('h, json \<times> json) xexec" where
  "resume_approval w approval attempt record decision =
     bindS (liftE (getitem record ''status'')) (\<lambda>st.
     bindS (case decision of
         Some d \<Rightarrow>
           if st = JStr ''pending'' then
             bindS (liftE (bindE (get_default approval ''scope'' (JObj [])) (\<lambda>scope.
               decide w record d (Some scope)))) (\<lambda>record'.
             thenS (log w ''approval-record'' record') (ret record'))
           else ret record
       | None \<Rightarrow> ret record) (\<lambda>record'.
     bindS (liftE (getitem record' ''status'')) (\<lambda>st'.
     if st' = JStr ''granted''
     then bindS (move w attempt READY ''approval-granted-on-resume'') (\<lambda>a. ret (a, JStr ''granted''))
     else ret (attempt, st'))))"

definition nonempty :: "string option \<Rightarrow> string option" where
  "nonempty d = (if d = Some [] then None else d)"

definition prepare_approval :: "world \<Rightarrow> run_config \<Rightarrow> json \<Rightarrow> ('h, json \<times> json) xexec" where
  "prepare_approval w cfg node =
     (let approval = fld node ''approval'' in
      bindS (reads ledger) (\<lambda>l.
      bindS (liftE (latest_attempt (node_attempts l) (JStr (node_id node)))) (\<lambda>previous_attempt.
      bindS (liftE (approval_for_attempt (approval_records l) previous_attempt)) (\<lambda>previous_record.
      bindS (liftE (bindE (getitem node ''capability'') (lookup_json (approval_decisions cfg)))) (\<lambda>decision.
      bindS (case (previous_attempt, previous_record) of
          (Some a, Some r) \<Rightarrow>
            if truthy approval \<and> resume cfg \<and> truthy a \<and> truthy r
            then liftE (bindE (getitem a ''status'') (\<lambda>st.
              Inr (if st = JStr ''blocked'' then Some (a, r) else None)))
            else ret None
        | _ \<Rightarrow> ret None) (\<lambda>prior.
      case prior of
        Some (a, r) \<Rightarrow> resume_approval w approval a r (nonempty decision)
      | None \<Rightarrow>
          bindS (fresh_attempt w node) (\<lambda>a0.
          bindS (move w a0 READY ''dependencies-satisfied'') (\<lambda>a1.
          if \<not> truthy approval then ret (a1, JStr ''not-required'')
          else
            bindS (request_approval w a1 approval (nonempty decision)) (\<lambda>record.
            thenS (log w ''approval-record'' record)
            (bindS (liftE (getitem record ''status'')) (\<lambda>st.
             if st \<noteq> JStr ''granted''
             then bindS (move w a1 BLOCKED (''approval-'' @ as_str st)) (\<lambda>a2.
               thenS (log w ''node-attempt'' a2) (ret (a2, st)))
             else ret (a1, st)))))))))))) "

section \<open>One node\<close>

definition reported_target :: "json \<Rightarrow> NodeStatus" where
  "reported_target behavior =
     (case status_of behavior of
        Inl _ \<Rightarrow> FAILED
      | Inr t \<Rightarrow> if t \<in> {PASSED, FAILED, BLOCKED, SKIPPED, CANCELLED} then t else FAILED)"

text \<open>The target status and the reason of the transition.\<close>

definition outcome_target :: "world \<Rightarrow> json \<Rightarrow> json \<Rightarrow> (NodeStatus \<times> string) result" where
  "outcome_target w attempt behavior =
     (if behavior = JStr ''timed-out'' then
        bindE (getitem attempt ''deadline'') (\<lambda>d.
        if \<not> is_str d then Inl (TypeError ''fromisoformat: argument must be str'')
        else bindE (fromisoformat w (as_str d)) (\<lambda>deadline.
        bindE (has_timed_out w attempt deadline) (\<lambda>b.
        if \<not> b then Inl (AssertionError ''deadline must be timed out at its own instant'')
        else Inr (BLOCKED, ''fake-adapter-timed-out''))))
      else Inr (reported_target behavior, ''fake-adapter-'' @ status_value (reported_target behavior)))"

definition release_action_of :: "json \<Rightarrow> NodeStatus \<Rightarrow> string" where
  "release_action_of behavior target =
     (if behavior = JStr ''timed-out'' then ''timed-out''
      else if target = CANCELLED then ''cancelled'' else ''released'')"

text \<open>One acquired attempt: from \<open>READY\<close> to its recorded outcome.\<close>

definition perform_attempt ::
    "world \<Rightarrow> 'h hooks \<Rightarrow> json \<Rightarrow> json \<Rightarrow> json \<Rightarrow> nat \<Rightarrow> ('h, json \<times> json \<times> NodeStatus \<times> nat) xexec" where
  "perform_attempt w hk plan node attempt cursor =
     bindS (flush w cursor) (\<lambda>c1.
     bindS (move w attempt RUNNING ''fake-adapter-started'') (\<lambda>a2.
     bindS (adapter_outcome hk plan node a2) (\<lambda>behavior.
     bindS (liftE (outcome_target w a2 behavior)) (\<lambda>tr.
     bindS (move w a2 (fst tr) (snd tr)) (\<lambda>a3.
     thenS (release_keys a3 (release_action_of behavior (fst tr)))
     (bindS (flush w c1) (\<lambda>c2.
      thenS (log w ''node-attempt'' a3) (ret (a3, behavior, fst tr, c2)))))))))"

text \<open>\<open>_prepare_adapter\<close> with the handler of its contract errors.\<close>

definition guarded_prepare :: "world \<Rightarrow> 'h hooks \<Rightarrow> json \<Rightarrow> json \<Rightarrow> json \<Rightarrow> ('h, unit) xexec" where
  "guarded_prepare w hk plan node attempt =
     catch_contract (prepare_adapter hk plan node attempt) (\<lambda>e.
       bindS (move w attempt BLOCKED ''adapter-contract-invalid'') (\<lambda>a2.
       thenS (log w ''node-attempt'' a2)
       (thenS (record_contract_failure hk plan node a2 e) (throw e))))"

text \<open>The \<open>while True\<close> loop over the attempts of a node; \<open>fuel\<close> bounds its iterations.\<close>

fun attempt_loop ::
    "nat \<Rightarrow> world \<Rightarrow> 'h hooks \<Rightarrow> json \<Rightarrow> json \<Rightarrow> json \<Rightarrow> nat \<Rightarrow> ('h, NodeStatus \<times> nat) xexec" where
  "attempt_loop 0 w hk plan node attempt cursor = throw OutOfFuel"
| "attempt_loop (Suc fuel) w hk plan node attempt cursor =
     bindS (if fld attempt ''status'' = JStr (status_value PENDING)
            then move w attempt READY ''dependencies-satisfied'' else ret attempt) (\<lambda>a1.
     thenS (guarded_prepare w hk plan node a1)
     (bindS (acquire_keys a1 node) (\<lambda>acquired.
      if \<not> acquired then
        bindS (move w a1 BLOCKED ''resource-unavailable'') (\<lambda>a2.
        thenS (log w ''node-attempt'' a2) (ret (BLOCKED, cursor)))
      else
        bindS (perform_attempt w hk plan node a1 cursor) (\<lambda>(a3, behavior, target, c2).
        if target \<noteq> FAILED \<and> behavior \<noteq> JStr ''timed-out'' then ret (target, c2)
        else
          bindS (liftE (can_retry hk node a3)) (\<lambda>again.
          if \<not> again then ret (target, c2)
          else bindS (fresh_attempt w node) (\<lambda>a4. attempt_loop fuel w hk plan node a4 c2))))))"

definition loop_fuel :: "json \<Rightarrow> nat" where
  "loop_fuel node = nat (as_int (max_retries node)) + 2"

text \<open>An attempt that never starts: \<open>upstream-not-passed\<close> or \<open>capability-provider-missing\<close>.\<close>

definition close_attempt :: "world \<Rightarrow> json \<Rightarrow> NodeStatus \<Rightarrow> string \<Rightarrow> ('h, unit) xexec" where
  "close_attempt w node target reason =
     bindS (fresh_attempt w node) (\<lambda>a0.
     bindS (move w a0 target reason) (\<lambda>a1. log w ''node-attempt'' a1))"

text \<open>The body of \<open>for node_id in order\<close>: the status recorded for the successors, and the cursor.\<close>

definition run_node ::
    "world \<Rightarrow> 'h hooks \<Rightarrow> run_config \<Rightarrow> json \<Rightarrow> (json \<times> NodeStatus) list \<Rightarrow> json
     \<Rightarrow> NodeStatus list \<Rightarrow> nat \<Rightarrow> ('h, NodeStatus \<times> nat) xexec" where
  "run_node w hk cfg plan latest node incoming cursor =
     bindS (reusable_status hk plan node (keyed_get latest (JStr (node_id node)))) (\<lambda>reusable.
     case reusable of
       Some st \<Rightarrow> ret (st, cursor)
     | None \<Rightarrow>
         if list_ex (\<lambda>st. st \<notin> {PASSED, SKIPPED}) incoming then
           thenS (close_attempt w node BLOCKED ''upstream-not-passed'') (ret (BLOCKED, cursor))
         else if \<not> truthy (fld node ''provider'') then
           (let target = (if truthy (fld node ''mandatory'') then BLOCKED else SKIPPED) in
            thenS (close_attempt w node target ''capability-provider-missing'') (ret (target, cursor)))
         else
           bindS (prepare_approval w cfg node) (\<lambda>p.
           if snd p \<in> {JStr ''pending'', JStr ''denied'', JStr ''expired''} then ret (BLOCKED, cursor)
           else attempt_loop (loop_fuel node) w hk plan node (fst p) cursor))"

definition node_by_id :: "json \<Rightarrow> string \<Rightarrow> json" where
  "node_by_id plan n = (case find (\<lambda>x. node_id x = n) (plan_nodes plan) of Some x \<Rightarrow> x | None \<Rightarrow> JNull)"

definition run_step ::
    "world \<Rightarrow> 'h hooks \<Rightarrow> run_config \<Rightarrow> json \<Rightarrow> (json \<times> NodeStatus) list
     \<Rightarrow> preds \<times> nat \<Rightarrow> string \<Rightarrow> ('h, preds \<times> nat) xexec" where
  "run_step w hk cfg plan latest loc n =
     bindS (run_node w hk cfg plan latest (node_by_id plan n) (preds_of (fst loc) n) (snd loc)) (\<lambda>r.
     ret (record_successors plan n (fst r) (fst loc), snd r))"

definition final_of :: "json \<Rightarrow> NodeStatus list \<Rightarrow> string" where
  "final_of plan statuses =
     (if statuses \<noteq> [] \<and> list_all (\<lambda>st. st \<in> {PASSED, SKIPPED}) statuses then
        (if fld plan ''status'' = JStr ''degraded'' \<or> SKIPPED \<in> set statuses then ''partial'' else ''completed'')
      else if CANCELLED \<in> set statuses then ''cancelled''
      else if BLOCKED \<in> set statuses then ''blocked''
      else ''partial'')"

section \<open>The run\<close>

definition lock_hash_of :: "json \<Rightarrow> json" where
  "lock_hash_of plan = fld_or plan ''package_lock_hash'' (JStr [])"

definition check_lock :: "run_config \<Rightarrow> json \<Rightarrow> unit result" where
  "check_lock cfg plan =
     (if fld plan ''package_lock_hash'' \<noteq> JNull then
        (case package_lock cfg of
           None \<Rightarrow> Inl (ContractError ''locked workflow execution requires the current package Lockfile'')
         | Some lock \<Rightarrow> lock_check cfg plan lock)
      else
        reject_if (package_lock cfg \<noteq> None)
          (ContractError ''workflow plan is not frozen to the supplied package Lockfile''))"

definition plan_header :: "json \<Rightarrow> json result" where
  "plan_header plan =
     bindE (getitem plan ''fingerprint'') (\<lambda>f.
     Inr (JObj [(''package_lock_hash'', lock_hash_of plan), (''plan_fingerprint'', f)]))"

definition set_ledger :: "run_ledger \<Rightarrow> ('h, unit) xexec" where
  "set_ledger l = updates (\<lambda>s. s\<lparr>x_store := (x_store s)\<lparr>led := l\<rparr>\<rparr>)"

definition open_resumed :: "world \<Rightarrow> run_config \<Rightarrow> json \<Rightarrow> int \<Rightarrow> ('h, unit) xexec" where
  "open_resumed w cfg plan required =
     bindS (reads (\<lambda>s. (disk (x_store s), x_uids s))) (\<lambda>(f, uid).
     if \<not> has_path cfg \<or> f = Absent then throw (ValueError ''resume requires an existing ledger path'')
     else
       bindS (liftE (bindE (getitem plan ''fingerprint'') (replay w uid f))) (\<lambda>l.
       if \<not> py_eq (Ledger.package_lock_hash l) (lock_hash_of plan)
       then throw (ContractError ''cannot resume ledger with a different package lock'')
       else if int (event_count l) + required > MAX_RUNTIME_LEDGER_EVENTS
       then throw (ContractError ''workflow runtime cannot reserve events within maximum 100000'')
       else
         thenS (set_ledger l)
         (bindS (liftE (plan_header plan)) (\<lambda>v. log w ''run-resumed'' v))))"

definition open_fresh :: "world \<Rightarrow> run_config \<Rightarrow> json \<Rightarrow> ('h, unit) xexec" where
  "open_fresh w cfg plan =
     bindS (liftE (getitem plan ''fingerprint'')) (\<lambda>f.
     bindS (reads x_uids) (\<lambda>uid.
     thenS (updates (\<lambda>s. s\<lparr>x_uids := uid + 1\<rparr>))
     (thenS (set_ledger (new_ledger (has_path cfg) f (lock_hash_of plan) (JStr []) (run_id_or_new w uid JNull)))
     (bindS (liftE (plan_header plan)) (\<lambda>v. log w ''run-started'' v)))))"

definition finish :: "world \<Rightarrow> string \<Rightarrow> ('h, json) xexec" where
  "finish w status = on_store (finalize w (JStr status))"

text \<open>\<open>max((event["sequence"] ...), default=-1) + 1\<close>; the sequences of a ledger are integers.\<close>

definition next_sequence :: "json list \<Rightarrow> int result" where
  "next_sequence evs =
     bindE (mapE (\<lambda>e. getitem e ''sequence'') evs) (\<lambda>ns.
     if list_all is_int ns then Inr (case map as_int ns of [] \<Rightarrow> 0 | n # ms \<Rightarrow> fold max ms n + 1)
     else Inl (TypeError ''sequence''))"

definition seed :: "('h, unit) xexec" where
  "seed s =
     (case bindE (next_sequence (resource_events (ledger s))) (\<lambda>n. seed_sequence n (x_sched s)) of
        Inl e \<Rightarrow> (Inl e, s)
      | Inr sc \<Rightarrow> (Inr (), s\<lparr>x_sched := sc\<rparr>))"

definition run_nodes :: "world \<Rightarrow> 'h hooks \<Rightarrow> run_config \<Rightarrow> json \<Rightarrow> ('h, json) xexec" where
  "run_nodes w hk cfg plan =
     thenS seed
     (bindS (liftE (kahn (node_ids plan) (plan_edges plan))) (\<lambda>order.
      bindS (reads ledger) (\<lambda>l.
      bindS (liftE (latest_statuses (node_attempts l))) (\<lambda>latest.
      bindS (foldS (run_step w hk cfg plan latest) ([], 0) order) (\<lambda>loc.
      bindS (reads ledger) (\<lambda>l'.
      bindS (liftE (latest_statuses (node_attempts l'))) (\<lambda>statuses.
      bindS (liftE (adjust_final_status hk (final_of plan (map snd statuses)) l')) (\<lambda>final.
      finish w final))))))))"

definition run :: "world \<Rightarrow> 'h hooks \<Rightarrow> run_config \<Rightarrow> json \<Rightarrow> ('h, json) xexec" where
  "run w hk cfg plan =
     bindS (liftE (bindE (preflight plan) (\<lambda>n. bindE (additional_event_budget hk plan) (\<lambda>m. Inr (n + m)))))
       (\<lambda>required.
     if required > MAX_RUNTIME_LEDGER_EVENTS then throw projected_overflow
     else
       thenS (liftE (check_lock cfg plan))
       (thenS (if resume cfg then open_resumed w cfg plan required else open_fresh w cfg plan)
       (if fld plan ''status'' = JStr ''blocked'' then
          thenS (log w ''run-blocked'' (JObj [(''missing_capabilities'',
            fld_or plan ''missing_capabilities'' (JList []))]))
          (finish w ''blocked'')
        else run_nodes w hk cfg plan)))"

section \<open>FakeAdapterExecutor\<close>

type_synonym cursors = "(string, nat) dict"

definition next_behavior :: "(string, json) dict \<Rightarrow> json \<Rightarrow> (cursors, json) xexec" where
  "next_behavior behaviors capability s =
     (case lookup_json behaviors capability of
        Inl e \<Rightarrow> (Inl e, s)
      | Inr None \<Rightarrow> (Inr (JStr ''passed''), s)
      | Inr (Some configured) \<Rightarrow>
          if is_str configured then (Inr configured, s)
          else
            let k = as_str capability;
                cursor = (case dict_get (x_hook s) k of Some c \<Rightarrow> c | None \<Rightarrow> 0);
                xs = as_list configured in
            (Inr (if xs \<noteq> [] then xs ! min cursor (length xs - 1) else JStr ''passed''),
             s\<lparr>x_hook := dict_set k (cursor + 1) (x_hook s)\<rparr>))"

definition fake_can_retry :: "json \<Rightarrow> json \<Rightarrow> bool result" where
  "fake_can_retry node attempt =
     bindE (getitem attempt ''attempt_number'') (\<lambda>n.
     Inr (can_auto_retry (truthy (fld node ''idempotent'')) (as_int n) (as_int (max_retries node))))"

definition fake_hooks :: "(string, json) dict \<Rightarrow> cursors hooks" where
  "fake_hooks behaviors =
     \<lparr>prepare_adapter = (\<lambda>_ _ _. ret ()),
      record_contract_failure = (\<lambda>_ _ _ _. ret ()),
      adapter_outcome = (\<lambda>_ node _. bindS (liftE (getitem node ''capability'')) (next_behavior behaviors)),
      reusable_status = (\<lambda>_ _ latest. ret (if latest = Some PASSED then Some PASSED else None)),
      can_retry = fake_can_retry,
      additional_event_budget = (\<lambda>_. Inr 0),
      adjust_final_status = (\<lambda>status _. Inr status)\<rparr>"

end
