(* ===== verification/Sample.thy ===== *)
theory Sample
  imports FastText Executor
begin

text \<open>
  A concrete environment, on which the witnesses evaluate: a constant digest, exact fractions as float
  texts, a stopped clock and decimal UUIDs.
\<close>

definition sample_world :: world where
  "sample_world =
     \<lparr>digest = (\<lambda>_. replicate 64 (CHR ''0'')), float_text = fraction_text,
      parse_json = (\<lambda>_. Inl (ValueError ''no parser'')), now_at = (\<lambda>_. 0), isoformat = (\<lambda>_. ''2026-01-01T00:00:00+00:00''),
      fromisoformat = (\<lambda>_. Inr 0), uuid_hex = decimal\<rparr>"

lemma sample_world_simps [simp]:
  "float_text sample_world = fraction_text" "now_at sample_world n = 0"
  "fromisoformat sample_world s = Inr 0" "uuid_hex sample_world = decimal"
  "digest sample_world s = replicate 64 (CHR ''0'')" "isoformat sample_world t = ''2026-01-01T00:00:00+00:00''"
  by (simp_all add: sample_world_def)

lemma sample_uuid_inj: "inj (uuid_hex sample_world)"
  by (simp add: inj_def)

section \<open>Evaluating the size limits\<close>

text \<open>Comparisons with the limits are evaluated over the integers, whose numerals are binary.\<close>

lemma limits_on_int [code_unfold]:
  "MAX_RUNTIME_NODES < n \<longleftrightarrow> 16384 < int n" "MAX_RUNTIME_EDGES < n \<longleftrightarrow> 65536 < int n"
  "MAX_LEDGER_EVENTS \<le> n \<longleftrightarrow> 100000 \<le> int n" "MAX_LEDGER_EVENTS < n \<longleftrightarrow> 100000 < int n"
  "MAX_LEDGER_BYTES < n \<longleftrightarrow> 67108864 < int n" "MAX_CONTRACT_JSON_BYTES < n \<longleftrightarrow> 67108864 < int n"
  "MAX_CANONICAL_INTEGER_DIGITS < n \<longleftrightarrow> 4300 < int n" "MAX_CANONICAL_JSON_DEPTH < n \<longleftrightarrow> 512 < int n"
  by (auto simp: MAX_RUNTIME_NODES_def MAX_RUNTIME_EDGES_def MAX_LEDGER_EVENTS_def MAX_LEDGER_BYTES_def
      MAX_CONTRACT_JSON_BYTES_def MAX_CANONICAL_INTEGER_DIGITS_def MAX_CANONICAL_JSON_DEPTH_def)

lemma limit_digits [code_unfold]:
  "decimal MAX_LEDGER_EVENTS = ''100000''" "decimal MAX_LEDGER_BYTES = ''67108864''"
  "decimal MAX_CONTRACT_JSON_BYTES = ''67108864''" "decimal MAX_CANONICAL_INTEGER_DIGITS = ''4300''"
  "decimal MAX_CANONICAL_JSON_DEPTH = ''512''"
  by (simp_all add: decimal.simps digit_char_def MAX_LEDGER_EVENTS_def MAX_LEDGER_BYTES_def
      MAX_CONTRACT_JSON_BYTES_def MAX_CANONICAL_INTEGER_DIGITS_def MAX_CANONICAL_JSON_DEPTH_def)

end
