(* ===== verification/CoreSpec.thy ===== *)
theory CoreSpec
  imports LedgerReplay Dag Approval Scheduler Sample
begin

text \<open>
  The properties of the runtime's parts taken one by one: canonical JSON, the topological order of the
  plan, the life of a node attempt, the resource scheduler, the approval gate and the append-only ledger.
\<close>

section \<open>Canonical JSON\<close>

text \<open>C31: canonical text identifies the value: two values that \<open>dumps\<close> accepts have the same text
  exactly when they are equal up to the order of object keys.\<close>

theorem canonical_text_identifies:
  assumes "float_text_ok (float_text w)" and "dumps w v = Inr s" and "dumps w u = Inr t"
  shows "s = t \<longleftrightarrow> key_sorted v = key_sorted u"
proof
  assume "s = t"
  with assms(3) have "dumps w u = Inr s" by simp
  then show "key_sorted v = key_sorted u" by (rule dumps_determines_value [OF assms(1,2)])
next
  assume "key_sorted v = key_sorted u"
  then have "json_text (float_text w) v = json_text (float_text w) u" by (rule same_key_sorted_text)
  with assms(2,3) show "s = t" by (simp add: dumps_eq_Inr)
qed

definition small_value :: json where
  "small_value = JObj [(''b'', JInt (- 7)), (''a'', JList [JStr ''x'', JNull])]"

definition small_text :: string where
  "small_text = CHR ''{'' # CHR 0x22 # CHR ''a'' # CHR 0x22 # CHR '':'' # CHR ''['' # CHR 0x22 # CHR ''x'' # CHR 0x22
     # '',null],'' @ [CHR 0x22] @ ''b'' @ [CHR 0x22] @ '':-7}'' @ [CHR 0x0A]"

lemma small_dumps: "dumps sample_world small_value = Inr small_text"
  by code_simp

lemma canonical_text_identifies_sample:
  "(small_text = small_text) = (key_sorted small_value = key_sorted (JObj [(''a'', JList [JStr ''x'', JNull]), (''b'', JInt (- 7))]))"
proof -
  have "dumps sample_world (JObj [(''a'', JList [JStr ''x'', JNull]), (''b'', JInt (- 7))]) = Inr small_text"
    by code_simp
  from canonical_text_identifies [OF _ small_dumps this] show ?thesis by (simp add: fraction_text_ok)
qed

text \<open>Canonical text passes the scanner that guards every contract input: whatever \<open>dumps\<close>
  writes, \<open>validate_text_limits\<close> accepts.\<close>

theorem canonical_text_is_accepted:
  assumes "float_text_ok (float_text w)" and "dumps w v = Inr s"
  shows "validate_text_limits s = Inr ()"
  by (rule dumps_passes_scanner [OF assms])

lemma canonical_text_is_accepted_sample: "validate_text_limits small_text = Inr ()"
  by (rule canonical_text_is_accepted [OF _ small_dumps]) (simp add: fraction_text_ok)

section \<open>Topological order\<close>

text \<open>C30: on a duplicate-free node list with edges among its nodes, the sorter does not raise; it visits
  every node exactly when the graph has no cycle, and then each edge's source comes before its target.\<close>

theorem kahn_sorts:
  assumes "distinct ids" and "edges_within ids es"
  shows "\<exists>xs. kahn ids es = Inr xs \<and> distinct xs \<and> (length xs = length ids \<longleftrightarrow> acyclic (set es)) \<and>
    (acyclic (set es) \<longrightarrow> topological ids es xs)"
  using kahn_result [OF assms] kahn_complete_iff_acyclic [OF assms] by blast

lemma kahn_sorts_sample:
  "\<exists>xs. kahn [''c'', ''a'', ''b''] [(''a'', ''b''), (''b'', ''c'')] = Inr xs \<and> distinct xs \<and>
     (length xs = length [''c'', ''a'', ''b''] \<longleftrightarrow> acyclic (set [(''a'', ''b''), (''b'', ''c'')]))"
  using kahn_sorts [of "[''c'', ''a'', ''b'']" "[(''a'', ''b''), (''b'', ''c'')]"]
  by (simp add: edges_within_def) blast

section \<open>The life of a node attempt\<close>

text \<open>Attempts as the state machine makes them: created, then moved.\<close>

inductive attempt_made :: "world \<Rightarrow> json \<Rightarrow> bool" for w where
  created: "new_attempt w tick uid n k r t = Inr a \<Longrightarrow> attempt_made w a"
| moved: "attempt_made w a \<Longrightarrow> transition w tick a target reason = Inr a' \<Longrightarrow> attempt_made w a'"

lemma attempt_made_well_formed: "attempt_made w a \<Longrightarrow> well_formed_attempt a"
  by (induction rule: attempt_made.induct) (blast dest: new_attempt_well_formed transition_well_formed)+

lemma well_formed_finished:
  assumes "well_formed_attempt a" and "fld a ''status'' \<in> {JStr ''passed'', JStr ''failed''}"
  shows "\<exists>es e1 e2 e3. fld a ''events'' = JList (es @ [e1, e2, e3]) \<and>
    fld e1 ''to'' = JStr ''ready'' \<and> fld e2 ''to'' = JStr ''running'' \<and> fld e3 ''to'' = fld a ''status''"
proof -
  obtain tm reason rest where ev: "fld a ''events'' = JList (event_entry tm JNull reason PENDING # event_trail PENDING rest)"
      and path: "legal_path PENDING (targets rest)"
      and st: "fld a ''status'' = JStr (status_value (last (PENDING # targets rest)))"
    using assms(1) by (auto simp: well_formed_attempt_def attempt_history_ok_def)
  have "status_value (last (PENDING # targets rest)) = ''passed'' \<or> status_value (last (PENDING # targets rest)) = ''failed''"
    using assms(2) st by auto
  then have fin: "last (PENDING # targets rest) \<in> {PASSED, FAILED}"
    by (cases "last (PENDING # targets rest)") simp_all
  define f where "f = last (targets rest)"
  obtain us where us: "targets rest = us @ [READY, RUNNING, f]"
    using legal_path_reaches [OF path fin] by (auto simp: f_def)
  then have "last (PENDING # targets rest) = f" by simp
  then have st': "fld a ''status'' = JStr (status_value f)" using st by simp
  obtain r0 r' where r0: "rest = r0 @ r'" "map (\<lambda>e. snd (snd e)) r' = [READY, RUNNING, f]"
    using us unfolding targets_def by (metis map_eq_append_conv)
  obtain x1 x2 y1 y2 z1 z2 where r': "r' = [(x1, x2, READY), (y1, y2, RUNNING), (z1, z2, f)]"
    using r0(2) by (auto simp: map_eq_Cons_conv)
  let ?s = "last (PENDING # targets r0)"
  have "event_trail PENDING rest = event_trail PENDING r0 @
      [event_entry x1 (JStr (status_value ?s)) x2 READY, event_entry y1 (JStr ''ready'') y2 RUNNING,
       event_entry z1 (JStr ''running'') z2 f]"
    by (simp add: r0(1) r' event_trail_append)
  then have "fld a ''events'' = JList ((event_entry tm JNull reason PENDING # event_trail PENDING r0) @
      [event_entry x1 (JStr (status_value ?s)) x2 READY, event_entry y1 (JStr ''ready'') y2 RUNNING,
       event_entry z1 (JStr ''running'') z2 f])"
    unfolding ev by simp
  then show ?thesis unfolding st' by (intro exI conjI) (assumption, simp_all)
qed

text \<open>C7: every attempt the state machine makes, by any sequence of transitions, is accepted by the
  attempt validator, and one that passed or failed went through \<open>ready\<close> and \<open>running\<close> just before.\<close>

theorem attempts_stay_valid:
  assumes "attempt_made w a"
  shows "validate_node_attempt a = Inr () \<and>
    (fld a ''status'' \<in> {JStr ''passed'', JStr ''failed''} \<longrightarrow>
      (\<exists>es e1 e2 e3. fld a ''events'' = JList (es @ [e1, e2, e3]) \<and> fld e1 ''to'' = JStr ''ready'' \<and>
         fld e2 ''to'' = JStr ''running'' \<and> fld e3 ''to'' = fld a ''status''))"
  using well_formed_attempt_valid well_formed_finished attempt_made_well_formed [OF assms] by blast

definition small_attempt :: json where
  "small_attempt = projr (new_attempt sample_world 0 0 ''n'' 1 0 300)"

lemma small_attempt_made: "attempt_made sample_world small_attempt"
proof -
  have "new_attempt sample_world 0 0 ''n'' 1 0 300 = Inr small_attempt" by code_simp
  then show ?thesis by (rule attempt_made.created)
qed

lemma attempts_stay_valid_sample: "validate_node_attempt small_attempt = Inr ()"
  using attempts_stay_valid [OF small_attempt_made] by blast

text \<open>A transition succeeds exactly when the table allows it from the attempt's status, and is refused
  with a contract error otherwise.\<close>

theorem transition_follows_table:
  assumes "well_formed_attempt a"
  shows "\<exists>current. fld a ''status'' = JStr (status_value current) \<and>
    (if target \<in> set (ALLOWED_TRANSITIONS current)
     then \<exists>a'. transition w tick a target reason = Inr a' \<and> fld a' ''status'' = JStr (status_value target)
     else transition w tick a target reason = Inl (ContractError
       (''illegal node transition: '' @ status_value current @ '' -> '' @ status_value target)))"
proof -
  obtain tm reason0 rest where ev: "fld a ''events'' = JList (event_entry tm JNull reason0 PENDING # event_trail PENDING rest)"
      and st: "fld a ''status'' = JStr (status_value (last (PENDING # targets rest)))"
    using assms by (auto simp: well_formed_attempt_def attempt_history_ok_def)
  have "is_obj a" "has_key a ''status''" "has_key a ''events''"
    using assms by (auto simp: well_formed_attempt_def attempt_header_ok_def attempt_keys_def)
  then have "getitem a ''status'' = Inr (JStr (status_value (last (PENDING # targets rest))))"
      "\<exists>es. getitem a ''events'' = Inr (JList es)"
    using ev st by (auto simp: getitem_eq_Inr)
  with \<open>is_obj a\<close> st show ?thesis
    by (intro exI [of _ "last (PENDING # targets rest)"]) (auto simp: transition_def fld_put)
qed

lemma transition_follows_table_sample:
  "\<exists>current. fld small_attempt ''status'' = JStr (status_value current) \<and>
    (if RUNNING \<in> set (ALLOWED_TRANSITIONS current)
     then \<exists>a'. transition sample_world 1 small_attempt RUNNING ''go'' = Inr a' \<and> fld a' ''status'' = JStr (status_value RUNNING)
     else transition sample_world 1 small_attempt RUNNING ''go'' = Inl (ContractError
       (''illegal node transition: '' @ status_value current @ '' -> '' @ status_value RUNNING)))"
  by (rule transition_follows_table [OF attempt_made_well_formed [OF small_attempt_made]])

text \<open>The transition table of the state machine and the one of the contract validator are the same
  table.\<close>

theorem transition_tables_are_equal:
  "LEGAL_NODE_TRANSITIONS (status_value s) = map status_value (ALLOWED_TRANSITIONS s)"
  by (rule transition_tables_agree)

section \<open>Resources\<close>

text \<open>Whatever calls a scheduler has seen, once an attempt acquired keys no other attempt gets one of
  them before they are released.\<close>

theorem resources_are_exclusive:
  assumes "sched_reachable s" and "acquire a ks s = (True, s')" and "k \<in> set ks" and "k \<in> set ls" and "b \<noteq> a"
  shows "fst (acquire b ls s') = False \<and> owner s' k = Some a"
  using sched.mutual_exclusion [OF assms(2-5)] sched.grab_holder [OF assms(2), of k] assms(3) by simp

lemma resources_are_exclusive_sample:
  "fst (acquire ''b'' [''tree'', ''db''] (snd (acquire ''a'' [''tree''] new_scheduler))) = False \<and>
   owner (snd (acquire ''a'' [''tree''] new_scheduler)) ''tree'' = Some ''a''"
proof -
  have "acquire ''a'' [''tree''] new_scheduler = (True, snd (acquire ''a'' [''tree''] new_scheduler))"
    by code_simp
  from resources_are_exclusive [OF sched_reachable.fresh this, of "''tree''" "[''tree'', ''db'']" "''b''"]
  show ?thesis by simp
qed

text \<open>C8: after any calls, replaying the scheduler's log of events from the empty table gives its table of
  owners, no key was acquired while another attempt held it, and the events are numbered without gaps.\<close>

theorem resource_log_replays:
  assumes "sched_reachable s"
  shows "log_holder (sched_events s) = owner s \<and> exclusive_log (\<lambda>_. None) (sched_events s) \<and>
    map (\<lambda>e. fld e ''sequence'') (sched_events s) =
      map JInt [sched_sequence s - int (length (sched_events s)) .. sched_sequence s - 1]"
  using reachable_log_inv [OF assms] by (simp add: log_inv_def)

lemma resource_log_replays_sample:
  "log_holder (sched_events (snd (acquire ''a'' [''tree''] new_scheduler))) = owner (snd (acquire ''a'' [''tree''] new_scheduler))"
  using resource_log_replays [OF sched_reachable.acquired [OF sched_reachable.fresh surjective_pairing]] by blast

section \<open>Approvals\<close>

text \<open>C32: whatever calls follow the request of an approval, of those that change it the first is a decision to
  granted, denied or expired; a second one occurs only after a grant and is a revocation, and there is no third. A scope given
  with them hashes to the requested scope, and every field but the status stays as it was requested.\<close>

theorem approvals_are_decided_once:
  assumes "request w attempt_id action reason scope records = Inr (r, records')"
    and "approval_life w r calls = (r', changes)"
  shows "(changes = [] \<and> r' = r \<or>
      (\<exists>st sc. changes = [Decide st sc] \<and> st \<in> {''granted'', ''denied'', ''expired''} \<and> fld r' ''status'' = JStr st \<and>
         (\<forall>s. sc = Some s \<longrightarrow> sha256 w s = sha256 w scope)) \<or>
      (\<exists>sc s. changes = [Decide ''granted'' sc, Revoke s] \<and> fld r' ''status'' = JStr ''revoked'' \<and>
         (\<forall>s. sc = Some s \<longrightarrow> sha256 w s = sha256 w scope) \<and> sha256 w s = sha256 w scope)) \<and>
    fld r ''status'' = JStr ''pending'' \<and> fld r ''attempt_id'' = JStr attempt_id \<and> fld r ''action'' = action \<and> fld r ''scope'' = scope \<and>
    (\<forall>k. k \<noteq> ''status'' \<longrightarrow> fld r' k = fld r k)"
proof -
  obtain h where h: "sha256 w scope = Inr h" and r: "r = approval_record attempt_id action reason scope h ''pending''"
    using assms(1) by (auto simp: request_eq_Inr)
  have "fld r' k = fld r k" if "k \<noteq> ''status''" for k
    using approval_life_keeps [OF that, of w r calls] assms(2) by simp
  then show ?thesis using life_pending [OF assms(2) [unfolded r]] h by (auto simp: r)
qed

definition small_request :: json where
  "small_request = approval_record ''attempt-1'' (JStr ''ship'') (JStr ''r'') (JObj []) (replicate 64 (CHR ''0'')) ''pending''"

definition small_calls :: "approval_call list" where
  "small_calls = [Revoke (JObj []), Decide ''granted'' None, Decide ''denied'' None, Revoke (JObj []), Decide ''granted'' None]"

lemma small_life:
  "approval_life sample_world small_request small_calls =
     (put small_request ''status'' (JStr ''revoked''), [Decide ''granted'' None, Revoke (JObj [])])"
  by code_simp

lemma approvals_are_decided_once_sample:
  "fst (approval_life sample_world small_request small_calls) \<noteq> small_request \<and>
   fld (fst (approval_life sample_world small_request small_calls)) ''scope'' = JObj []"
proof -
  have hash: "sha256 sample_world (JObj []) = Inr (replicate 64 (CHR ''0''))" by code_simp
  have req: "request sample_world ''attempt-1'' (JStr ''ship'') (JStr ''r'') (JObj []) [] = Inr (small_request, [small_request])"
    by (simp add: request_eq_Inr hash small_request_def)
  have "put small_request ''status'' (JStr ''revoked'') \<noteq> small_request" by (simp add: small_request_def approval_record_def)
  with approvals_are_decided_once [OF req small_life] show ?thesis unfolding small_life fst_conv by auto
qed

section \<open>The ledger\<close>

text \<open>C33: whatever is appended, and whether it is accepted or refused, the ledger file only grows: its old
  content is a prefix of the new one, and an accepted event is one canonical line at its end.\<close>

theorem ledger_file_is_append_only:
  assumes "append_event w t v s = (r, s')"
  shows "\<exists>line. file_bytes (disk s') = file_bytes (disk s) @ line \<and>
    (r = Inr () \<and> path_set (led s) \<longrightarrow> dumps w (ledger_event (led s) t v) = Inr line) \<and>
    (\<not> path_set (led s) \<longrightarrow> disk s' = disk s) \<and>
    event_count (led s') \<le> event_count (led s) + 1"
  using append_event_file [OF assms] append_event_count [OF assms] by blast

definition small_store :: store where
  "small_store = \<lparr>led = new_ledger True (JStr ''f'') (JStr []) (JStr []) (JStr ''run-1''), disk = Absent\<rparr>"

definition small_append :: "unit result \<times> store" where
  "small_append = append_event sample_world (JStr ''resource-event'') (JObj []) small_store"

lemma ledger_file_is_append_only_sample:
  "\<exists>line. file_bytes (disk (snd small_append)) = file_bytes (disk small_store) @ line"
  using ledger_file_is_append_only [of sample_world "JStr ''resource-event''" "JObj []" small_store "fst small_append" "snd small_append"]
  by (auto simp: small_append_def)

text \<open>The ledger keeps one snapshot per attempt identity: appending any event, an attempt among them
  when it carries an identity, leaves the recorded attempts with distinct identities.\<close>

theorem ledger_snapshots_are_unique:
  assumes "one_snapshot (led s)" and "list_all (\<lambda>e. fst e = ''node-attempt'' \<longrightarrow> identified (snd e)) es"
    and "record_events w es s = (r, s')"
  shows "one_snapshot (led s')"
  using assms
proof (induction es arbitrary: s)
  case Nil
  then show ?case by (simp add: record_events_def ret_def)
next
  case (Cons e es)
  obtain r1 s1 where s1: "append_event w (JStr (fst e)) (snd e) s = (r1, s1)" by fastforce
  have one: "one_snapshot (led s1)"
    by (rule append_one_snapshot [OF Cons.prems(1) _ s1]) (use Cons.prems(2) in auto)
  show ?case
  proof (cases r1)
    case (Inl x)
    then show ?thesis using Cons.prems(3) s1 one by (simp add: record_events_def bindS_def)
  next
    case (Inr u)
    then have "record_events w es s1 = (r, s')" using Cons.prems(3) s1 by (simp add: record_events_def bindS_def)
    with Cons.IH one Cons.prems(2) show ?thesis by simp
  qed
qed

lemma ledger_snapshots_are_unique_sample:
  "one_snapshot (led (snd (record_events sample_world [(''node-attempt'', small_attempt), (''node-attempt'', small_attempt)] small_store)))"
proof (rule ledger_snapshots_are_unique)
  show "one_snapshot (led small_store)" by (simp add: small_store_def new_ledger_def one_snapshot_def)
  show "list_all (\<lambda>e. fst e = ''node-attempt'' \<longrightarrow> identified (snd e))
      [(''node-attempt'', small_attempt), (''node-attempt'', small_attempt)]" by code_simp
qed (rule surjective_pairing)

text \<open>C6: a run's ledger file, written by a start event and any further events that were all accepted, replays to the ledger in
  memory with sorted object keys and an empty policy hash (no event records the hash). It is required that the JSON parser reads
  each written line back, that no line holds a line separator besides its end, that the file keeps to the size limit, that
  there is one start event, and that the validator accepts the restored ledger.\<close>

theorem ledger_replay_restores:
  assumes "record_events w ((''run-started'', start_value lock fp) # es)
      \<lparr>led = new_ledger True (JStr fp) (JStr lock) policy (JStr rid), disk = Absent\<rparr> = (Inr (), s)"
    and "rid \<noteq> []" and "\<forall>e \<in> set es. fst e \<noteq> ''run-started''"
    and "parses_back w (JStr rid) ((''run-started'', start_value lock fp) # es)"
    and "lines_unbroken w (JStr rid) ((''run-started'', start_value lock fp) # es)"
    and "length (file_bytes (disk s)) \<le> MAX_LEDGER_BYTES"
    and "restored = (sorted_ledger (led s))\<lparr>resolved_policy_hash := JStr []\<rparr>"
    and "validate_run_ledger (ledger_value restored) = Inr ()"
  shows "replay w uid (disk s) (JStr fp) = Inr restored"
proof -
  have "path_set (led s)" using record_events_file(7) [OF assms(1), of "JStr rid"] by (simp add: new_ledger_def)
  then have r: "(detached (sorted_ledger (led s)))\<lparr>path_set := True\<rparr> = restored"
    by (simp add: assms(7) detached_def sorted_ledger_def)
  have "ledger_value (detached (sorted_ledger (led s))) = ledger_value restored"
    by (simp add: assms(7) detached_def ledger_value_def)
  with replay_recorded [OF assms(1-6), of uid] assms(8) r show ?thesis by (simp add: Let_def)
qed

text \<open>A file of three lines, and a parser that knows exactly these.\<close>

definition small_events :: "(string \<times> json) list" where
  "small_events = [(''node-attempt'', small_attempt), (''run-finalized'', JObj [(''status'', JStr ''cancelled'')])]"

definition small_history :: "(string \<times> json) list" where
  "small_history = (''run-started'', start_value [] ''f'') # small_events"

definition small_world :: world where
  "small_world = sample_world\<lparr>parse_json := (\<lambda>s.
     case find (\<lambda>e. event_line sample_world (JStr ''run-1'') e = s) small_history of
       Some e \<Rightarrow> Inr (key_sorted (event_of (JStr ''run-1'') e))
     | None \<Rightarrow> Inl (ValueError ''not a line of the file''))\<rparr>"

definition small_file :: store where
  "small_file = snd (record_events small_world small_history small_store)"

definition small_restored :: run_ledger where
  "small_restored = (sorted_ledger (led small_file))\<lparr>resolved_policy_hash := JStr []\<rparr>"

lemma small_recorded: "record_events small_world small_history small_store = (Inr (), small_file)"
proof -
  have "fst (record_events small_world small_history small_store) = Inr ()" by code_simp
  then show ?thesis by (simp add: small_file_def prod_eq_iff)
qed

lemma small_lines:
  "list_all (\<lambda>e. parse_json small_world (event_line small_world (JStr ''run-1'') e) = Inr (key_sorted (event_of (JStr ''run-1'') e)) \<and>
     unbroken (event_line small_world (JStr ''run-1'') e)) small_history"
  by code_simp

lemma small_restored_valid: "validate_run_ledger (ledger_value small_restored) = Inr ()"
  by code_simp

lemma ledger_replay_restores_sample:
  "replay small_world 0 (disk small_file) (JStr ''f'') = Inr small_restored \<and> length (node_attempts small_restored) = 1"
proof
  show "replay small_world 0 (disk small_file) (JStr ''f'') = Inr small_restored"
  proof (rule ledger_replay_restores)
    show "record_events small_world ((''run-started'', start_value [] ''f'') # small_events)
        \<lparr>led = new_ledger True (JStr ''f'') (JStr []) (JStr []) (JStr ''run-1''), disk = Absent\<rparr> = (Inr (), small_file)"
      using small_recorded by (simp add: small_store_def small_history_def)
    show "parses_back small_world (JStr ''run-1'') ((''run-started'', start_value [] ''f'') # small_events)"
      and "lines_unbroken small_world (JStr ''run-1'') ((''run-started'', start_value [] ''f'') # small_events)"
      using small_lines by (auto simp: small_history_def parses_back_def lines_unbroken_def list_all_iff)
    have "int (length (file_bytes (disk small_file))) \<le> 5000" by code_simp
    then show "length (file_bytes (disk small_file)) \<le> MAX_LEDGER_BYTES" by (simp add: MAX_LEDGER_BYTES_def)
    show "\<forall>e \<in> set small_events. fst e \<noteq> ''run-started''" by (simp add: small_events_def)
    show "small_restored = (sorted_ledger (led small_file))\<lparr>resolved_policy_hash := JStr []\<rparr>" by (simp add: small_restored_def)
    show "validate_run_ledger (ledger_value small_restored) = Inr ()" by (rule small_restored_valid)
  qed simp
  show "length (node_attempts small_restored) = 1" by code_simp
qed

text \<open>A line of the ledger file with \<open>n\<close> line separators in it (U+2028 for one, which canonical JSON
  does not escape) is read back by \<open>replay\<close> as \<open>n + 1\<close> lines.\<close>

theorem separators_split_ledger_lines:
  assumes "[CHR 0x0D] \<notin> set (chars_of line)"
  shows "length (splitlines (line @ newline)) = length (filter is_line_break (chars_of line)) + 1"
  by (rule splitlines_count [OF assms])

lemma separators_split_ledger_lines_sample:
  "length (splitlines ((''a'' @ [CHR 0xE2, CHR 0x80, CHR 0xA8] @ ''b'') @ newline)) =
   length (filter is_line_break (chars_of (''a'' @ [CHR 0xE2, CHR 0x80, CHR 0xA8] @ ''b''))) + 1"
  by (rule separators_split_ledger_lines) code_simp

end
