(* ===== verification/RuntimeSteps.thy ===== *)
theory RuntimeSteps
  imports Executor
begin

text \<open>
  The effect of the executor's small steps on a run whose ledger is kept in memory: one rule per step,
  stated as total correctness. \<open>synced\<close> is the condition between two nodes: every resource is free and
  every scheduler event is in the ledger.
\<close>

section \<open>Entries of the scheduler's log\<close>

definition event_actions :: "string list" where
  "event_actions = [''requested'', ''acquired'', ''released'', ''timed-out'', ''cancelled'']"

definition log_entry :: "string set \<Rightarrow> json \<Rightarrow> bool" where
  "log_entry as e \<longleftrightarrow> (\<exists>a k act n. e = resource_event a k act n \<and> a \<in> as \<and> act \<in> set event_actions)"

definition logs :: "string \<Rightarrow> nat \<Rightarrow> scheduler \<Rightarrow> scheduler \<Rightarrow> bool" where
  "logs a m s s' \<longleftrightarrow> (\<exists>evs. sched_events s' = sched_events s @ evs \<and> length evs = m \<and>
     (\<forall>e \<in> set evs. log_entry {a} e))"

lemma log_entry_mono: "log_entry as e \<Longrightarrow> as \<subseteq> bs \<Longrightarrow> log_entry bs e"
  unfolding log_entry_def by blast

lemma logs_refl: "logs a 0 s s"
  by (simp add: logs_def)

lemma logs_trans: "logs a m s t \<Longrightarrow> logs a n t u \<Longrightarrow> logs a (m + n) s u"
  unfolding logs_def by (elim exE conjE) (rule_tac x = "evs @ evsa" in exI, auto)

lemma logs_event: "act \<in> set event_actions \<Longrightarrow> sched_events s1 = sched_events s \<Longrightarrow>
    logs a 1 s (log_event a k act s1)"
  unfolding logs_def by (rule exI [of _ "[resource_event a k act (sched_sequence s1)]"])
    (auto simp: log_event_def log_entry_def)

lemma logs_fold:
  assumes "\<And>k s. logs a 1 s (f k s)"
  shows "logs a (length ks) s (fold f ks s)"
proof (induction ks arbitrary: s)
  case (Cons k ks)
  have "logs a 1 s (f k s)" by (rule assms)
  from logs_trans [OF this Cons.IH] show ?case by simp
qed (simp add: logs_refl)

lemma requested_action: "''requested'' \<in> set event_actions" "''acquired'' \<in> set event_actions"
  by (simp_all add: event_actions_def)

lemma release_action_event: "release_action act \<Longrightarrow> act \<in> set event_actions"
  unfolding release_action_def event_actions_def by auto

lemma acquire_idle:
  assumes "log_inv s" and "sched.idle s"
  obtains s' where "acquire a ks s = (True, s')" and "log_inv s'"
    and "logs a (2 * length (remdups ks)) s s'" and "\<And>k. owner s' k = (if k \<in> set ks then Some a else None)"
proof -
  obtain s' where s': "acquire a ks s = (True, s')" using sched.grab_when_idle [OF assms(2)] by blast
  have len: "length (sorted_set ks) = length (remdups ks)" by (simp add: sorted_set_def)
  have no: "\<not> conflict s a ks" using assms(2) by (simp add: conflict_def sched.idle_def)
  have "logs a (length (sorted_set ks)) s (fold (\<lambda>key. log_event a key ''requested'') (sorted_set ks) s)"
    by (rule logs_fold) (rule logs_event [OF requested_action(1) refl])
  moreover have "logs a (length (sorted_set ks)) t (fold (take_key a) (sorted_set ks) t)" for t
    by (rule logs_fold) (unfold take_key_def, rule logs_event [OF requested_action(2)], simp)
  ultimately have "logs a (length (sorted_set ks) + length (sorted_set ks)) s
      (fold (take_key a) (sorted_set ks) (fold (\<lambda>key. log_event a key ''requested'') (sorted_set ks) s))"
    by (rule logs_trans)
  then have "logs a (2 * length (remdups ks)) s s'"
    using s' no by (simp add: acquire_conflict Let_def len mult_2)
  with that s' acquire_log_inv [OF assms(1) s'] acquire_owner [OF s'] assms(2) show ?thesis
    by (auto simp: sched.idle_def)
qed

lemma release_all:
  assumes "log_inv s" and "\<And>k. owner s k = (if k \<in> set ks then Some a else None)" and "release_action act"
  obtains s' where "release a act s = Inr s'" and "log_inv s'" and "logs a (length (remdups ks)) s s'"
    and "sched.idle s'"
proof -
  obtain s' where s': "release a act s = Inr s'" using sched.free_ok [OF assms(3)] by blast
  have ok: "dict_ok (owners s)" using assms(1) by (simp add: log_inv_def sched_ok_def)
  let ?ms = "map fst (filter (\<lambda>ko. snd ko = a) (owners s))"
  have "distinct ?ms" using ok by (simp add: dict_ok_def distinct_map_filter)
  moreover have "set ?ms = set ks"
  proof -
    have "k \<in> set ?ms \<longleftrightarrow> owner s k = Some a" for k
      using ok by (force simp: owner_def dest: dict_get_SomeD dict_get_in)
    then have "k \<in> set ?ms \<longleftrightarrow> k \<in> set ks" for k using assms(2) [of k] by (simp split: if_splits)
    then show ?thesis by blast
  qed
  ultimately have len: "length ?ms = length (remdups ks)"
    by (metis distinct_card length_remdups_card_conv)
  have "s' = fold (drop_key a act) (sort ?ms) s"
    using s' assms(3) by (simp add: release_def release_action_def Let_def split: if_splits)
  moreover have "logs a (length (sort ?ms)) s (fold (drop_key a act) (sort ?ms) s)"
    by (rule logs_fold) (unfold drop_key_def, rule logs_event [OF release_action_event [OF assms(3)]], simp)
  ultimately have "logs a (length (remdups ks)) s s'" using len by simp
  moreover have "sched.idle s'"
    using release_owner [OF s' ok] assms(2) by (auto simp: sched.idle_def)
  ultimately show ?thesis using that s' release_log_inv [OF assms(1) s'] by blast
qed

section \<open>Steps on the ledger\<close>

definition upd_ledger :: "(run_ledger \<Rightarrow> run_ledger) \<Rightarrow> 'h xstate \<Rightarrow> 'h xstate" where
  "upd_ledger f s = s\<lparr>x_store := (x_store s)\<lparr>led := f (led (x_store s))\<rparr>\<rparr>"

lemma upd_ledger_simps [simp]:
  "ledger (upd_ledger f s) = f (ledger s)" "x_sched (upd_ledger f s) = x_sched s"
  "x_gate (upd_ledger f s) = x_gate s" "x_ticks (upd_ledger f s) = x_ticks s"
  "x_uids (upd_ledger f s) = x_uids s" "x_hook (upd_ledger f s) = x_hook s"
  "upd_ledger f (upd_ledger g s) = upd_ledger (\<lambda>l. f (g l)) s"
  by (simp_all add: upd_ledger_def ledger_def)

lemma ledger_frame [simp]:
  "ledger (s\<lparr>x_sched := c\<rparr>) = ledger s" "ledger (s\<lparr>x_ticks := n\<rparr>) = ledger s"
  "ledger (s\<lparr>x_uids := n\<rparr>) = ledger s" "ledger (s\<lparr>x_hook := h\<rparr>) = ledger s"
  "ledger (s\<lparr>x_gate := g\<rparr>) = ledger s"
  by (simp_all add: ledger_def)

definition in_memory :: "'h xstate \<Rightarrow> nat \<Rightarrow> bool" where
  "in_memory s m \<longleftrightarrow> \<not> path_set (ledger s) \<and> event_count (ledger s) + m \<le> MAX_LEDGER_EVENTS"

lemma runs_log:
  assumes "in_memory s 1" and "t \<in> set supported_events"
    and "view_event (JStr t) v ((ledger s)\<lparr>event_count := event_count (ledger s) + 1\<rparr>) = Inr l"
    and "Q () (upd_ledger (\<lambda>_. l) s)"
  shows "runs (log w t v) s Q"
proof -
  have "append_event w (JStr t) v (x_store s) = (Inr (), \<lparr>led = l, disk = disk (x_store s)\<rparr>)"
    using assms(1-3)
    by (auto simp: append_event_ok in_memory_def ledger_def not_in_strings_def in_strings_def hashable_def)
  then have "log w t v s = (Inr (), s\<lparr>x_store := \<lparr>led = l, disk = disk (x_store s)\<rparr>\<rparr>)"
    by (simp add: log_def on_store_def)
  moreover have "\<lparr>led = l, disk = disk (x_store s)\<rparr> = (x_store s)\<lparr>led := l\<rparr>" by simp
  ultimately show ?thesis using assms(4) by (simp add: runs_def upd_ledger_def)
qed

definition add_resource_events :: "json list \<Rightarrow> run_ledger \<Rightarrow> run_ledger" where
  "add_resource_events es l =
     l\<lparr>event_count := event_count l + length es, resource_events := resource_events l @ es\<rparr>"

definition add_attempt :: "json \<Rightarrow> run_ledger \<Rightarrow> run_ledger" where
  "add_attempt a l = l\<lparr>event_count := event_count l + 1, node_attempts := node_attempts l @ [a]\<rparr>"

definition add_approval :: "json \<Rightarrow> run_ledger \<Rightarrow> run_ledger" where
  "add_approval r l = l\<lparr>event_count := event_count l + 1, approval_records := approval_records l @ [r]\<rparr>"

lemma runs_log_attempt:
  assumes "in_memory s 1" and "one_snapshot (ledger s)" and "identified a"
    and "attempt_key a \<notin> attempt_key ` set (node_attempts (ledger s))"
    and "Q () (upd_ledger (add_attempt a) s)"
  shows "runs (log w ''node-attempt'' a) s Q"
proof (rule runs_log [OF assms(1)])
  let ?l = "(ledger s)\<lparr>event_count := event_count (ledger s) + 1\<rparr>"
  have "view_event (JStr ''node-attempt'') a ?l = Inr (?l\<lparr>node_attempts := record_attempt a (node_attempts ?l)\<rparr>)"
    by (rule view_event_attempt) (use assms(2,3) in \<open>simp_all add: one_snapshot_def\<close>)
  then show "view_event (JStr ''node-attempt'') a ?l = Inr (add_attempt a (ledger s))"
    by (simp add: record_attempt_fresh [OF assms(4)] add_attempt_def)
  show "Q () (upd_ledger (\<lambda>_. add_attempt a (ledger s)) s)"
    using assms(5) by (simp add: upd_ledger_def ledger_def)
qed (simp add: supported_events_def)

lemma runs_log_approval:
  assumes "in_memory s 1" and "Q () (upd_ledger (add_approval r) s)"
  shows "runs (log w ''approval-record'' r) s Q"
  using assms
  by (intro runs_log [where l = "add_approval r (ledger s)"])
    (simp_all add: supported_events_def view_event_def add_approval_def upd_ledger_def ledger_def)

lemma runs_log_resources:
  assumes "in_memory s (length es)" and "Q () (upd_ledger (add_resource_events es) s)"
  shows "runs (foldS (\<lambda>_ e. log w ''resource-event'' e) () es) s Q"
  using assms
proof (induction es arbitrary: s)
  case Nil
  have "upd_ledger (add_resource_events []) s = s"
    by (simp add: upd_ledger_def add_resource_events_def ledger_def)
  with Nil show ?case by simp
next
  case (Cons e es)
  let ?s = "upd_ledger (add_resource_events [e]) s"
  have "in_memory ?s (length es)" using Cons.prems(1) by (simp add: in_memory_def add_resource_events_def)
  moreover have "upd_ledger (add_resource_events es) ?s = upd_ledger (add_resource_events (e # es)) s"
    by (simp add: upd_ledger_def add_resource_events_def ledger_def)
  ultimately have "runs (foldS (\<lambda>_ e. log w ''resource-event'' e) () es) ?s Q"
    using Cons.prems(2) by (intro Cons.IH) simp_all
  then have "runs (log w ''resource-event'' e) s
      (\<lambda>x s'. runs (foldS (\<lambda>_ e. log w ''resource-event'' e) () es) s' Q)"
    using Cons.prems(1)
    by (intro runs_log [where l = "add_resource_events [e] (ledger s)"])
      (simp_all add: in_memory_def supported_events_def view_event_def add_resource_events_def
        upd_ledger_def ledger_def)
  then show ?case by (simp add: runs_mono)
qed

lemma runs_flush:
  assumes "sched_events (x_sched s) = resource_events (ledger s) @ es"
    and "c = length (resource_events (ledger s))" and "in_memory s (length es)"
    and "Q (length (sched_events (x_sched s))) (upd_ledger (add_resource_events es) s)"
  shows "runs (flush w c) s Q"
  unfolding flush_def using assms by (simp add: runs_log_resources)

section \<open>Steps on an attempt\<close>

lemma runs_move:
  assumes "well_formed_attempt a" and "fld a ''status'' = JStr (status_value st)" and "node_step st t"
    and "\<And>a'. transition w (x_ticks s) a t r = Inr a' \<Longrightarrow> well_formed_attempt a' \<Longrightarrow>
      fld a' ''status'' = JStr (status_value t) \<Longrightarrow> Q a' (s\<lparr>x_ticks := x_ticks s + 1\<rparr>)"
  shows "runs (move w a t r) s Q"
proof -
  have "is_obj a" "has_key a ''status''" "has_key a ''events''"
    using assms(1) by (simp_all add: well_formed_attempt_def attempt_header_ok_def attempt_keys_def)
  moreover obtain es where "fld a ''events'' = JList es"
    using assms(1) by (auto simp: well_formed_attempt_def attempt_history_ok_def)
  ultimately obtain a' where a': "transition w (x_ticks s) a t r = Inr a'"
    using assms(2,3) by (auto simp: transition_eq_Inr)
  from transition_well_formed [OF assms(1) a'] assms(4) [OF a'] show ?thesis
    by (simp add: runs_def move_def a')
qed

end
