(* ===== verification/RuntimeNode.thy ===== *)
theory RuntimeNode
  imports RuntimeSteps
begin

text \<open>
  What the run of one node does to a run in memory: it returns, records the attempts of that node with
  consecutive numbers, stays within the preflight's budget of events, and leaves every resource free.
\<close>

section \<open>Attempts in hand\<close>

definition attempt_name :: "world \<Rightarrow> nat \<Rightarrow> string" where
  "attempt_name w i = ''attempt-'' @ uuid_hex w i"

definition deadline_ok :: "world \<Rightarrow> json \<Rightarrow> bool" where
  "deadline_ok w a \<longleftrightarrow> has_key a ''deadline'' \<and>
     (\<exists>d t. fld a ''deadline'' = JStr d \<and> fromisoformat w d = Inr t)"

text \<open>A deadline can be computed at every reading of the clock, and read back.\<close>

definition time_ok :: "world \<Rightarrow> json \<Rightarrow> bool" where
  "time_ok w node \<longleftrightarrow>
     (\<forall>i. \<exists>d t. add_seconds w (isoformat w (now_at w i)) (as_int (timeout_seconds node)) = Inr d \<and>
        fromisoformat w d = Inr t)"

definition node_typed :: "json \<Rightarrow> bool" where
  "node_typed node \<longleftrightarrow> is_obj node \<and>
     is_strict_int (max_retries node) \<and> 0 \<le> as_int (max_retries node) \<and>
     is_strict_int (timeout_seconds node) \<and> 0 < as_int (timeout_seconds node) \<and>
     is_list (resource_keys node) \<and> list_all is_str (as_list (resource_keys node))"

definition in_hand :: "world \<Rightarrow> json \<Rightarrow> nat \<Rightarrow> nat \<Rightarrow> json \<Rightarrow> bool" where
  "in_hand w node k u a \<longleftrightarrow> well_formed_attempt a \<and> attempt_key a = attempt_name w u \<and>
     fld a ''node_id'' = JStr (node_id node) \<and> fld a ''attempt_number'' = JInt (int k) \<and> deadline_ok w a"

definition has_status :: "json \<Rightarrow> NodeStatus \<Rightarrow> bool" where
  "has_status a st \<longleftrightarrow> fld a ''status'' = JStr (status_value st)"

lemma well_formed_has_key: "well_formed_attempt a \<Longrightarrow> f \<in> set attempt_keys \<Longrightarrow> has_key a f"
  unfolding well_formed_attempt_def attempt_header_ok_def by blast

lemma well_formed_identified: "well_formed_attempt a \<Longrightarrow> identified a"
  unfolding well_formed_attempt_def attempt_header_ok_def identified_def attempt_keys_def by simp

lemma transition_in_hand:
  assumes "in_hand w node k u a" and "transition w i a t r = Inr a'"
  shows "in_hand w node k u a'"
proof -
  have "well_formed_attempt a'" using assms(1) transition_well_formed [OF _ assms(2)] by (simp add: in_hand_def)
  moreover have "fld a' f = fld a f" if "f \<noteq> ''status''" "f \<noteq> ''events''" for f
    by (rule transition_keeps_fields [OF assms(2) that])
  moreover have "has_key a' ''deadline''"
    using well_formed_has_key [OF \<open>well_formed_attempt a'\<close>] by (simp add: attempt_keys_def)
  ultimately show ?thesis
    using assms(1) by (simp add: in_hand_def attempt_key_def deadline_ok_def)
qed

text \<open>Whether an attempt was ever running, by its events.\<close>

definition ran :: "json \<Rightarrow> bool" where
  "ran a \<longleftrightarrow> list_ex (\<lambda>e. fld e ''to'' = JStr (status_value RUNNING)) (as_list (fld a ''events''))"

lemma transition_ran: "transition w i a t r = Inr a' \<Longrightarrow> ran a' \<longleftrightarrow> ran a \<or> t = RUNNING"
  by (cases t) (auto simp: transition_eq_Inr ran_def fld_put transition_event_def fld_JObj_Cons)

lemma runs_move_in_hand:
  assumes "in_hand w node k u a" and "has_status a st" and "node_step st t"
    and "\<And>a'. in_hand w node k u a' \<Longrightarrow> has_status a' t \<Longrightarrow> ran a' = (ran a \<or> t = RUNNING) \<Longrightarrow>
      Q a' (s\<lparr>x_ticks := x_ticks s + 1\<rparr>)"
  shows "runs (move w a t r) s Q"
proof (rule runs_move)
  show "well_formed_attempt a" using assms(1) by (simp add: in_hand_def)
  show "fld a ''status'' = JStr (status_value st)" using assms(2) by (simp add: has_status_def)
  fix a'
  assume "transition w (x_ticks s) a t r = Inr a'" and "fld a' ''status'' = JStr (status_value t)"
  then show "Q a' (s\<lparr>x_ticks := x_ticks s + 1\<rparr>)"
    by (intro assms(4) transition_in_hand [OF assms(1)] transition_ran) (simp_all add: has_status_def)
qed (rule assms(3))

section \<open>Recorded attempts\<close>

definition of_node :: "string \<Rightarrow> json \<Rightarrow> bool" where
  "of_node n a \<longleftrightarrow> fld a ''node_id'' = JStr n"

definition node_numbers :: "string \<Rightarrow> json list \<Rightarrow> json list" where
  "node_numbers n as = map (\<lambda>a. fld a ''attempt_number'') (filter (of_node n) as)"

definition counted :: "nat \<Rightarrow> nat \<Rightarrow> json list" where
  "counted k m = map (\<lambda>i. JInt (int i)) [k..<k + m]"

text \<open>
  Between nodes (and between the attempts of a node) the scheduler is idle, its log is in the ledger,
  and the recorded attempts are well formed with distinct, already drawn identities.
\<close>

definition synced :: "world \<Rightarrow> 'h xstate \<Rightarrow> bool" where
  "synced w s \<longleftrightarrow> resource_events (ledger s) = sched_events (x_sched s) \<and>
     log_inv (x_sched s) \<and> sched.idle (x_sched s) \<and> \<not> path_set (ledger s) \<and>
     one_snapshot (ledger s) \<and> (\<forall>a \<in> set (node_attempts (ledger s)). well_formed_attempt a) \<and>
     attempt_key ` set (node_attempts (ledger s)) \<subseteq> attempt_name w ` {..<x_uids s}"

definition rest_of :: "run_ledger \<Rightarrow> run_ledger" where
  "rest_of l = l\<lparr>event_count := 0, node_attempts := [], approval_records := [], resource_events := []\<rparr>"

text \<open>\<open>s'\<close> has the new attempts and approvals of node \<open>n\<close>, the first attempt numbered \<open>k\<close>.\<close>

definition grows :: "string \<Rightarrow> nat \<Rightarrow> 'h xstate \<Rightarrow> 'h xstate \<Rightarrow> json list \<Rightarrow> json list \<Rightarrow> bool" where
  "grows n k s s' new apps \<longleftrightarrow>
     node_attempts (ledger s') = node_attempts (ledger s) @ new \<and>
     approval_records (ledger s') = approval_records (ledger s) @ apps \<and>
     (\<forall>a \<in> set new. of_node n a) \<and>
     map (\<lambda>a. fld a ''attempt_number'') new = counted k (length new) \<and>
     (\<exists>evs. sched_events (x_sched s') = sched_events (x_sched s) @ evs \<and>
        (\<forall>e \<in> set evs. log_entry (attempt_key ` set new) e) \<and>
        event_count (ledger s') = event_count (ledger s) + length evs + length new + length apps) \<and>
     rest_of (ledger s') = rest_of (ledger s) \<and> x_uids s \<le> x_uids s'"

lemma counted_add: "counted k (m + n) = counted k m @ counted (k + m) n"
  unfolding counted_def add.assoc [symmetric] by (subst upt_add_eq_append) simp_all

lemma grows_trans:
  assumes "grows n k s t new1 apps1" and "grows n (k + length new1) t u new2 apps2"
  shows "grows n k s u (new1 @ new2) (apps1 @ apps2)"
proof -
  obtain evs1 where e1: "sched_events (x_sched t) = sched_events (x_sched s) @ evs1"
      "\<forall>e \<in> set evs1. log_entry (attempt_key ` set new1) e"
      "event_count (ledger t) = event_count (ledger s) + length evs1 + length new1 + length apps1"
    using assms(1) by (auto simp: grows_def)
  obtain evs2 where e2: "sched_events (x_sched u) = sched_events (x_sched t) @ evs2"
      "\<forall>e \<in> set evs2. log_entry (attempt_key ` set new2) e"
      "event_count (ledger u) = event_count (ledger t) + length evs2 + length new2 + length apps2"
    using assms(2) by (auto simp: grows_def)
  have "\<forall>e \<in> set (evs1 @ evs2). log_entry (attempt_key ` set (new1 @ new2)) e"
  proof
    have sub: "attempt_key ` set new1 \<subseteq> attempt_key ` set (new1 @ new2)"
      "attempt_key ` set new2 \<subseteq> attempt_key ` set (new1 @ new2)" by auto
    fix e
    assume "e \<in> set (evs1 @ evs2)"
    then have "e \<in> set evs1 \<or> e \<in> set evs2" by simp
    then show "log_entry (attempt_key ` set (new1 @ new2)) e"
      using e1(2) e2(2) log_entry_mono [OF _ sub(1)] log_entry_mono [OF _ sub(2)] by blast
  qed
  then have "\<exists>evs. sched_events (x_sched u) = sched_events (x_sched s) @ evs \<and>
      (\<forall>e \<in> set evs. log_entry (attempt_key ` set (new1 @ new2)) e) \<and>
      event_count (ledger u) = event_count (ledger s) + length evs + length (new1 @ new2) + length (apps1 @ apps2)"
    using e1(1,3) e2(1,3) by (intro exI [of _ "evs1 @ evs2"]) simp
  then show ?thesis using assms unfolding grows_def by (auto simp: counted_add)
qed

lemma grows_refl: "grows n k s s [] []"
  by (simp add: grows_def counted_def)

section \<open>A new attempt\<close>

lemma runs_fresh_attempt:
  assumes "node_typed node" and "time_ok w node" and "synced w s"
    and "node_numbers (node_id node) (node_attempts (ledger s)) = counted 1 m"
    and "\<And>a. in_hand w node (m + 1) (x_uids s) a \<Longrightarrow> has_status a PENDING \<Longrightarrow> \<not> ran a \<Longrightarrow>
      Q a (s\<lparr>x_ticks := x_ticks s + 1, x_uids := x_uids s + 1\<rparr>)"
  shows "runs (fresh_attempt w node) s Q"
proof -
  let ?as = "node_attempts (ledger s)" and ?n = "node_id node"
  have wf: "\<forall>a \<in> set ?as. well_formed_attempt a" using assms(3) by (simp add: synced_def)
  have "mapE (\<lambda>a. bindE (getitem a ''node_id'') (\<lambda>x. Inr (py_eq x (JStr ?n)))) xs =
      Inr (map (of_node ?n) xs)" if "set xs \<subseteq> set ?as" for xs
    using that
  proof (induction xs)
    case (Cons a xs)
    then have "well_formed_attempt a" using wf by simp
    then have "getitem a ''node_id'' = Inr (fld a ''node_id'')" "is_str (fld a ''node_id'')"
      unfolding getitem_eq_Inr well_formed_attempt_def attempt_header_ok_def attempt_keys_def by simp_all
    then show ?case using Cons by (auto simp: of_node_def is_str_iff)
  qed simp
  then have count: "mapE (\<lambda>a. bindE (getitem a ''node_id'') (\<lambda>x. Inr (py_eq x (JStr ?n)))) ?as =
      Inr (map (of_node ?n) ?as)" by simp
  have "length (filter id (map (of_node ?n) xs)) = length (filter (of_node ?n) xs)" for xs
    by (induction xs) auto
  moreover have "length (filter (of_node ?n) ?as) = m"
    using arg_cong [OF assms(4), of length] by (simp add: node_numbers_def counted_def)
  ultimately have m: "length (filter id (map (of_node ?n) ?as)) = m" by simp
  obtain d t where d: "add_seconds w (isoformat w (now_at w (x_ticks s))) (as_int (timeout_seconds node)) = Inr d"
      "fromisoformat w d = Inr t"
    using assms(2) unfolding time_ok_def by blast
  have "0 \<le> as_int (max_retries node)" "0 < as_int (timeout_seconds node)"
    using assms(1) by (simp_all add: node_typed_def)
  with d obtain a where a: "new_attempt w (x_ticks s) (x_uids s) ?n (int m + 1) (as_int (max_retries node))
      (as_int (timeout_seconds node)) = Inr a" and "fld a ''deadline'' = JStr d" "has_key a ''deadline''"
      "\<not> ran a"
    unfolding new_attempt_def Let_def by (simp add: fld_def has_key_def ran_def)
  have "deadline_ok w a" using d(2) \<open>fld a ''deadline'' = JStr d\<close> \<open>has_key a ''deadline''\<close>
    by (simp add: deadline_ok_def)
  then have "in_hand w node (m + 1) (x_uids s) a"
    using new_attempt_well_formed [OF a] new_attempt_fields [OF a]
    by (simp add: in_hand_def attempt_key_def attempt_name_def)
  moreover have "has_status a PENDING"
    using new_attempt_well_formed [OF a] by (simp add: has_status_def)
  moreover have "fresh_attempt w node s = (Inr a, s\<lparr>x_ticks := x_ticks s + 1, x_uids := x_uids s + 1\<rparr>)"
    unfolding fresh_attempt_def count bindE_Inr m a by simp
  ultimately show ?thesis using assms(5) \<open>\<not> ran a\<close> by (simp add: runs_def)
qed

section \<open>Hooks that leave the run alone\<close>

text \<open>
  What the run of a node relies on from the overridable methods: they touch nothing but their own
  state, nothing is reusable before a node has an attempt, and a retry stays within the node's bound.
\<close>

locale quiet_hooks =
  fixes hk :: "'h hooks" and fit :: "json \<Rightarrow> bool"
  assumes prepare_quiet: "fit node \<Longrightarrow>
      runs (prepare_adapter hk plan node a) s (\<lambda>_ s'. \<exists>h. s' = s\<lparr>x_hook := h\<rparr>)"
    and outcome_quiet: "fit node \<Longrightarrow>
      runs (adapter_outcome hk plan node a) s (\<lambda>_ s'. \<exists>h. s' = s\<lparr>x_hook := h\<rparr>)"
    and nothing_reusable: "reusable_status hk plan node None s = (Inr None, s)"
    and retry_total: "is_obj a \<Longrightarrow> has_key a ''attempt_number'' \<Longrightarrow> \<exists>b. can_retry hk node a = Inr b"
    and retry_bounded: "can_retry hk node a = Inr True \<Longrightarrow>
      truthy (fld node ''idempotent'') \<and> as_int (fld a ''attempt_number'') \<le> as_int (max_retries node)"

lemma outcome_target_ok:
  assumes "deadline_ok w a"
  shows "\<exists>t r. outcome_target w a b = Inr (t, r) \<and> t \<in> {PASSED, FAILED, BLOCKED, SKIPPED, CANCELLED}"
proof (cases "b = JStr ''timed-out''")
  case True
  from assms obtain d x where "is_obj a" "has_key a ''deadline''" "fld a ''deadline'' = JStr d" "fromisoformat w d = Inr x"
    by (cases a) (auto simp: deadline_ok_def has_key_def)
  then have "getitem a ''deadline'' = Inr (JStr d)" "fromisoformat w d = Inr x"
    by (simp_all add: getitem_eq_Inr)
  with True show ?thesis by (simp add: outcome_target_def has_timed_out_def)
next
  case False
  have "reported_target b \<in> {PASSED, FAILED, BLOCKED, SKIPPED, CANCELLED}"
    by (auto simp: reported_target_def split: sum.splits)
  with False show ?thesis by (simp add: outcome_target_def)
qed

lemma release_action_of_ok: "release_action (release_action_of b t)"
  by (simp add: release_action_def release_action_of_def)

text \<open>Recording the last snapshot of a fresh attempt.\<close>

lemma synced_add_attempt:
  assumes "well_formed_attempt a" and "one_snapshot l" and "\<forall>x \<in> set (node_attempts l). well_formed_attempt x"
    and "attempt_key a \<notin> attempt_key ` set (node_attempts l)"
  shows "one_snapshot (add_attempt a l)" "\<forall>x \<in> set (node_attempts (add_attempt a l)). well_formed_attempt x"
  using assms well_formed_identified [OF assms(1)] by (auto simp: one_snapshot_def add_attempt_def)

definition resource_count :: "json \<Rightarrow> nat" where
  "resource_count node = length (remdups (resource_list node))"

definition fresh_for :: "world \<Rightarrow> 'h xstate \<Rightarrow> nat \<Rightarrow> bool" where
  "fresh_for w s u \<longleftrightarrow> attempt_key ` set (node_attempts (ledger s)) \<subseteq> attempt_name w ` {..<u} \<and> u < x_uids s"

lemma fresh_for_notin: "inj (uuid_hex w) \<Longrightarrow> fresh_for w s u \<Longrightarrow>
    attempt_name w u \<notin> attempt_key ` set (node_attempts (ledger s))"
  by (auto simp: fresh_for_def attempt_name_def inj_eq dest!: subsetD)

text \<open>What one acquired attempt leaves: its recorded snapshot, with the reported status.\<close>

definition performed ::
    "world \<Rightarrow> json \<Rightarrow> nat \<Rightarrow> nat \<Rightarrow> 'h xstate \<Rightarrow> json \<times> json \<times> NodeStatus \<times> nat \<Rightarrow> 'h xstate \<Rightarrow> bool" where
  "performed w node k u s p s' \<longleftrightarrow> (case p of (a, b, t, c) \<Rightarrow>
     in_hand w node k u a \<and> has_status a t \<and> synced w s' \<and> c = length (resource_events (ledger s')) \<and>
     grows (node_id node) k s s' [a] [] \<and> x_uids s' = x_uids s \<and>
     event_count (ledger s') = event_count (ledger s) + 3 * resource_count node + 1)"

text \<open>The scheduler \<open>sc\<close> holds the node's keys for attempt \<open>u\<close>, having logged \<open>es\<close> since \<open>s\<close>.\<close>

definition acquired_by :: "world \<Rightarrow> json \<Rightarrow> nat \<Rightarrow> 'h xstate \<Rightarrow> json list \<Rightarrow> scheduler \<Rightarrow> bool" where
  "acquired_by w node u s es sc \<longleftrightarrow> inj (uuid_hex w) \<and> synced w s \<and> fresh_for w s u \<and>
     in_memory s (3 * resource_count node + 1) \<and> log_inv sc \<and>
     sched_events sc = resource_events (ledger s) @ es \<and> length es = 2 * resource_count node \<and>
     (\<forall>e \<in> set es. log_entry {attempt_name w u} e) \<and>
     (\<forall>k. owner sc k = (if k \<in> set (resource_list node) then Some (attempt_name w u) else None))"

definition holding :: "'h xstate \<Rightarrow> json list \<Rightarrow> scheduler \<Rightarrow> 'h xstate \<Rightarrow> bool" where
  "holding s es sc s' \<longleftrightarrow>
     ledger s' = add_resource_events es (ledger s) \<and> x_uids s' = x_uids s \<and> x_sched s' = sc"

definition record_outcome :: "world \<Rightarrow> nat \<Rightarrow> json \<Rightarrow> json \<Rightarrow> NodeStatus \<Rightarrow> ('h, json \<times> json \<times> NodeStatus \<times> nat) xexec" where
  "record_outcome w c1 a b t =
     bindS (flush w c1) (\<lambda>c2. thenS (log w ''node-attempt'' a) (ret (a, b, t, c2)))"

lemma runs_record_outcome:
  assumes h: "acquired_by w node u s es sc" and a: "in_hand w node k u a" "has_status a t"
    and s6: "ledger s6 = add_resource_events es (ledger s)" "x_uids s6 = x_uids s"
    and r: "log_inv (x_sched s6)" "sched.idle (x_sched s6)"
      "logs (attempt_name w u) (resource_count node) sc (x_sched s6)"
  shows "runs (record_outcome w (length (sched_events sc)) a b t) s6 (performed w node k u s)"
proof -
  let ?n = "attempt_name w u"
  have s: "inj (uuid_hex w)" "synced w s" "fresh_for w s u" "in_memory s (3 * resource_count node + 1)"
    and es: "sched_events sc = resource_events (ledger s) @ es" "length es = 2 * resource_count node"
      "\<forall>e \<in> set es. log_entry {?n} e"
    using h by (simp_all add: acquired_by_def)
  from r(3) obtain fs where fs: "sched_events (x_sched s6) = sched_events sc @ fs"
      "length fs = resource_count node" "\<forall>e \<in> set fs. log_entry {?n} e"
    by (auto simp: logs_def)
  let ?s7 = "upd_ledger (add_resource_events fs) s6"
  let ?s8 = "upd_ledger (add_attempt a) ?s7"
  have key: "attempt_key a = ?n" and wf: "well_formed_attempt a" and node: "of_node (node_id node) a"
      and num: "fld a ''attempt_number'' = JInt (int k)"
    using a(1) by (simp_all add: in_hand_def of_node_def)
  have l7: "ledger ?s7 = add_resource_events (es @ fs) (ledger s)"
    by (simp add: s6(1) add_resource_events_def)
  have snap: "one_snapshot (ledger ?s7)" "\<forall>x \<in> set (node_attempts (ledger ?s7)). well_formed_attempt x"
    using s(2) unfolding l7 by (simp_all add: add_resource_events_def synced_def one_snapshot_def)
  have new: "attempt_key a \<notin> attempt_key ` set (node_attempts (ledger ?s7))"
    using fresh_for_notin [OF s(1,3)] unfolding l7 by (simp add: add_resource_events_def key)
  have l8: "ledger ?s8 = add_attempt a (add_resource_events (es @ fs) (ledger s))"
    by (simp add: s6(1) add_resource_events_def add.assoc)
  have ev: "sched_events (x_sched s6) = resource_events (ledger s) @ es @ fs" using fs(1) es(1) by simp
  have "attempt_key ` set (node_attempts (ledger ?s8)) \<subseteq> attempt_name w ` {..<x_uids ?s8}"
    using s(3) key unfolding l8 by (auto simp: s6(2) add_resource_events_def add_attempt_def fresh_for_def)
  then have synced: "synced w ?s8"
    using synced_add_attempt [OF wf snap new] r(1,2) s(4) ev unfolding synced_def l7 l8
    by (simp add: add_resource_events_def add_attempt_def in_memory_def)
  have "grows (node_id node) k s ?s8 [a] []"
    unfolding grows_def l8 using s(2) ev es(3) fs(3) node num
    by (simp add: s6(2) add_resource_events_def add_attempt_def rest_of_def counted_def key synced_def ball_Un)
  then have "performed w node k u s (a, b, t, length (sched_events (x_sched s6))) ?s8"
    using a synced ev es(2) fs(2) s6(2)
    unfolding performed_def l8 by (simp add: add_resource_events_def add_attempt_def)
  then have "runs (log w ''node-attempt'' a) ?s7
      (\<lambda>_. performed w node k u s (a, b, t, length (sched_events (x_sched s6))))"
    by (intro runs_log_attempt [OF _ snap(1) well_formed_identified [OF wf] new])
      (use s(4) es(2) fs(2) in \<open>simp_all add: in_memory_def s6(1) add_resource_events_def\<close>)
  then show ?thesis
    unfolding record_outcome_def runs_bind runs_then runs_ret
    by (intro runs_flush [where es = fs])
      (use s(4) es fs in \<open>simp_all add: in_memory_def s6(1) add_resource_events_def\<close>)
qed

lemma runs_release_outcome:
  assumes h: "acquired_by w node u s es sc" and a: "in_hand w node k u a" "has_status a t"
    and m: "holding s es sc s5" and act: "release_action act"
  shows "runs (thenS (release_keys a act) (record_outcome w (length (sched_events sc)) a b t)) s5
    (performed w node k u s)"
proof -
  have sc: "log_inv sc" "\<And>k. owner sc k = (if k \<in> set (resource_list node) then Some (attempt_name w u) else None)"
    using h by (simp_all add: acquired_by_def)
  from release_all [OF sc act] obtain sc' where sc': "release (attempt_name w u) act sc = Inr sc'" "log_inv sc'"
      "logs (attempt_name w u) (resource_count node) sc sc'" "sched.idle sc'"
    unfolding resource_count_def by blast
  have "as_str (fld a ''attempt_id'') = attempt_name w u"
    using a(1) by (simp add: in_hand_def attempt_key_def)
  then have "release_keys a act s5 = (Inr (), s5\<lparr>x_sched := sc'\<rparr>)"
    using m sc'(1) by (simp add: release_keys_def holding_def)
  note step = runs_eq [of "release_keys a act", OF this]
  show ?thesis
    unfolding runs_then step
    by (rule runs_record_outcome [OF h a]) (use m sc' in \<open>simp_all add: holding_def\<close>)
qed

context quiet_hooks
begin

lemma runs_outcome:
  assumes h: "acquired_by w node u s es sc" and fit: "fit node"
    and a: "in_hand w node k u a" "has_status a RUNNING" and m: "holding s es sc s3"
  shows "runs (bindS (adapter_outcome hk plan node a) (\<lambda>b. bindS (liftE (outcome_target w a b)) (\<lambda>tr.
      bindS (move w a (fst tr) (snd tr)) (\<lambda>a3. thenS (release_keys a3 (release_action_of b (fst tr)))
      (record_outcome w (length (sched_events sc)) a3 b (fst tr)))))) s3 (performed w node k u s)"
  unfolding runs_bind [of "adapter_outcome hk plan node a"] using outcome_quiet [OF fit]
proof (rule runs_mono)
  fix b s4
  assume "\<exists>h. s4 = s3\<lparr>x_hook := h\<rparr>"
  then have s4: "holding s es sc s4" using m by (auto simp: holding_def)
  have "deadline_ok w a" using a(1) by (simp add: in_hand_def)
  from outcome_target_ok [OF this, of b]
  obtain t r where tr: "outcome_target w a b = Inr (t, r)" "t \<in> {PASSED, FAILED, BLOCKED, SKIPPED, CANCELLED}" by blast
  have "runs (move w a t r) s4 (\<lambda>a3 s5. runs (thenS (release_keys a3 (release_action_of b t))
      (record_outcome w (length (sched_events sc)) a3 b t)) s5 (performed w node k u s))"
  proof (rule runs_move_in_hand [OF a])
    show "node_step RUNNING t" using tr(2) by (auto simp: node_step_simps)
    fix a3
    assume "in_hand w node k u a3" "has_status a3 t"
    then show "runs (thenS (release_keys a3 (release_action_of b t))
        (record_outcome w (length (sched_events sc)) a3 b t)) (s4\<lparr>x_ticks := x_ticks s4 + 1\<rparr>) (performed w node k u s)"
      by (rule runs_release_outcome [OF h]) (use s4 release_action_of_ok in \<open>simp_all add: holding_def\<close>)
  qed
  then show "runs (bindS (liftE (outcome_target w a b)) (\<lambda>tr.
      bindS (move w a (fst tr) (snd tr)) (\<lambda>a3. thenS (release_keys a3 (release_action_of b (fst tr)))
      (record_outcome w (length (sched_events sc)) a3 b (fst tr))))) s4 (performed w node k u s)"
    by (simp only: runs_bind runs_liftE_Inr tr(1) fst_conv snd_conv)
qed

lemma runs_perform:
  assumes inj: "inj (uuid_hex w)" and fit: "fit node"
    and a: "in_hand w node k u a" "has_status a READY" and s: "synced w s" and u: "fresh_for w s u"
    and mem: "in_memory s (3 * resource_count node + 1)"
  shows "runs (acquire_keys a node) s (\<lambda>b s1. b \<and>
    runs (perform_attempt w hk plan node a (length (resource_events (ledger s)))) s1 (performed w node k u s))"
proof -
  let ?ks = "resource_list node" and ?key = "attempt_name w u"
  have key: "as_str (fld a ''attempt_id'') = ?key" using a(1) by (simp add: in_hand_def attempt_key_def)
  have li: "log_inv (x_sched s)" "sched.idle (x_sched s)" using s by (simp_all add: synced_def)
  obtain sc where sc: "acquire ?key ?ks (x_sched s) = (True, sc)" "log_inv sc"
      "logs ?key (2 * length (remdups ?ks)) (x_sched s) sc" "\<And>k. owner sc k = (if k \<in> set ?ks then Some ?key else None)"
    using acquire_idle [OF li] by blast
  from sc(3) obtain es where es: "sched_events sc = resource_events (ledger s) @ es"
      "length es = 2 * resource_count node" "\<forall>e \<in> set es. log_entry {?key} e"
    using s by (auto simp: logs_def resource_count_def synced_def)
  have h: "acquired_by w node u s es sc"
    unfolding acquired_by_def using inj s u mem sc(2,4) es by simp
  let ?s2 = "upd_ledger (add_resource_events es) (s\<lparr>x_sched := sc\<rparr>)"
  have "runs (move w a RUNNING ''fake-adapter-started'') ?s2 (\<lambda>a2 s3.
      runs (bindS (adapter_outcome hk plan node a2) (\<lambda>b. bindS (liftE (outcome_target w a2 b)) (\<lambda>tr.
      bindS (move w a2 (fst tr) (snd tr)) (\<lambda>a3. thenS (release_keys a3 (release_action_of b (fst tr)))
      (record_outcome w (length (sched_events sc)) a3 b (fst tr)))))) s3 (performed w node k u s))"
    by (rule runs_move_in_hand [OF a], simp add: node_step_simps, rule runs_outcome [OF h fit])
      (simp_all add: holding_def)
  then have start: "runs (perform_attempt w hk plan node a (length (resource_events (ledger s)))) (s\<lparr>x_sched := sc\<rparr>)
      (performed w node k u s)"
    unfolding perform_attempt_def record_outcome_def runs_bind [of "flush w (length (resource_events (ledger s)))"]
      runs_bind [of "move w a RUNNING ''fake-adapter-started''"]
    by (intro runs_flush [where es = es]) (use es mem in \<open>simp_all add: in_memory_def\<close>)
  have "acquire_keys a node s = (Inr True, s\<lparr>x_sched := sc\<rparr>)" using sc(1) key by (simp add: acquire_keys_def)
  then show ?thesis using start by (simp only: runs_eq [of "acquire_keys a node"] simp_thms)
qed

end

end
