(* ===== verification/RuntimeLoop.thy ===== *)
theory RuntimeLoop
  imports RuntimeNode
begin

text \<open>
  The retry loop ends within its fuel and records at most as many attempts as the node may make; then
  the whole body of the executor's loop over the nodes.
\<close>

section \<open>States that differ in readings only\<close>

definition same_run :: "'h xstate \<Rightarrow> 'h xstate \<Rightarrow> bool" where
  "same_run s s' \<longleftrightarrow> ledger s' = ledger s \<and> x_sched s' = x_sched s \<and> x_uids s' = x_uids s"

lemma same_run_refl [simp]: "same_run s s"
  by (simp add: same_run_def)

lemma same_run_frame [simp]:
  "same_run s (s\<lparr>x_ticks := n\<rparr>)" "same_run s (s\<lparr>x_hook := h\<rparr>)" "same_run s (s\<lparr>x_gate := g\<rparr>)"
  by (simp_all add: same_run_def)

lemma same_run_trans: "same_run s t \<Longrightarrow> same_run t u \<Longrightarrow> same_run s u"
  by (simp add: same_run_def)

lemma same_run_transfer:
  assumes "same_run s s'"
  shows "synced w s' = synced w s" "fresh_for w s' u = fresh_for w s u" "in_memory s' m = in_memory s m"
    "grows n k s' t new apps = grows n k s t new apps"
  using assms by (simp_all add: same_run_def synced_def fresh_for_def in_memory_def grows_def)

lemma grows_weaken:
  assumes "grows n k s t new apps" and "ledger s = ledger r" and "x_sched s = x_sched r" and "x_uids r \<le> x_uids s"
  shows "grows n k r t new apps"
  using assms by (simp add: grows_def)

lemma grows_path:
  assumes "grows n k s t new apps"
  shows "path_set (ledger t) = path_set (ledger s)"
proof -
  have "path_set (rest_of (ledger t)) = path_set (rest_of (ledger s))" using assms by (simp add: grows_def)
  then show ?thesis by (simp add: rest_of_def)
qed

section \<open>The bound on attempts\<close>

definition max_attempts :: "json \<Rightarrow> nat" where
  "max_attempts node = (if truthy (fld node ''idempotent'') then nat (as_int (max_retries node)) + 1 else 1)"

definition attempt_budget :: "json \<Rightarrow> nat" where
  "attempt_budget node = 3 * resource_count node + 1"

lemma node_event_budget_nat:
  assumes "node_typed node"
  shows "node_event_budget node =
     int (max_attempts node * attempt_budget node + (if truthy (fld node ''approval'') then 2 else 0))"
  using assms by (simp add: node_event_budget_def Let_def max_attempts_def attempt_budget_def resource_count_def
      node_typed_def algebra_simps)

lemma node_numbers_grow:
  assumes "node_numbers n (node_attempts (ledger s)) = counted 1 m" and "grows n (Suc m) s s' new apps"
  shows "node_numbers n (node_attempts (ledger s')) = counted 1 (m + length new)"
proof -
  have "filter (of_node n) new = new" using assms(2) by (simp add: grows_def filter_id_conv)
  then show ?thesis using assms by (simp add: grows_def node_numbers_def counted_add)
qed

text \<open>What the loop leaves: the attempts it recorded, the last one with the status it reports.\<close>

definition node_result :: "world \<Rightarrow> json \<Rightarrow> nat \<Rightarrow> nat \<Rightarrow> nat \<Rightarrow> 'h xstate \<Rightarrow> NodeStatus \<times> nat \<Rightarrow> 'h xstate \<Rightarrow> bool" where
  "node_result w node m u bound s r s' \<longleftrightarrow>
     (\<exists>new. new \<noteq> [] \<and> attempt_key (hd new) = attempt_name w u \<and> has_status (last new) (fst r) \<and> synced w s' \<and>
        snd r = length (resource_events (ledger s')) \<and> grows (node_id node) (Suc m) s s' new [] \<and>
        event_count (ledger s') \<le> event_count (ledger s) + bound \<and> m + length new \<le> max_attempts node)"

lemma node_result_one:
  assumes "performed w node (Suc m) u s (a, b, t, c) s1" and "attempt_budget node \<le> bound" and "m < max_attempts node"
  shows "node_result w node m u bound s (t, c) s1"
  using assms unfolding performed_def node_result_def attempt_budget_def in_hand_def
  by (intro exI [of _ "[a]"]) simp

lemma node_result_more:
  assumes "performed w node (Suc m) u s (a, b, t, c) s1" and "node_result w node (Suc m) u' rest q r s'"
    and "ledger q = ledger s1" and "x_sched q = x_sched s1" and "x_uids s1 \<le> x_uids q"
  shows "node_result w node m u (attempt_budget node + rest) s r s'"
proof -
  have g: "grows (node_id node) (Suc m) s s1 [a] []" "attempt_key a = attempt_name w u"
      "event_count (ledger s1) = event_count (ledger s) + attempt_budget node"
    using assms(1) by (simp_all add: performed_def attempt_budget_def in_hand_def)
  obtain new where new: "new \<noteq> []" "has_status (last new) (fst r)" "synced w s'"
      "snd r = length (resource_events (ledger s'))" "grows (node_id node) (Suc (Suc m)) q s' new []"
      "event_count (ledger s') \<le> event_count (ledger q) + rest" "Suc m + length new \<le> max_attempts node"
    using assms(2) unfolding node_result_def by blast
  have "grows (node_id node) (Suc m + length [a]) s1 s' new []"
    by (rule grows_weaken [where s = q]) (use new(5) assms(3-5) in simp_all)
  from grows_trans [OF g(1) this] have "grows (node_id node) (Suc m) s s' (a # new) []" by simp
  then show ?thesis
    unfolding node_result_def using new g(2,3) assms(3) by (intro exI [of _ "a # new"]) simp
qed

lemma node_result_same_run:
  assumes "node_result w node m u bound s r s'" and "same_run s0 s"
  shows "node_result w node m u bound s0 r s'"
  using assms same_run_transfer(4) [OF assms(2)] by (simp add: node_result_def same_run_def)

context quiet_hooks
begin

lemma runs_guarded_prepare:
  assumes "fit node"
  shows "runs (guarded_prepare w hk plan node a) s (\<lambda>_ s'. same_run s s')"
  unfolding guarded_prepare_def using prepare_quiet [OF assms]
  by (intro runs_catch, rule runs_mono) auto

text \<open>After one attempt: stop, or go round again.\<close>

lemma runs_retry:
  assumes p: "performed w node (Suc m) u s (a, b, t, c) s1"
    and typed: "node_typed node" "time_ok w node"
    and numbers: "node_numbers (node_id node) (node_attempts (ledger s)) = counted 1 m"
    and mem: "in_memory s (attempt_budget node + rest)" and left: "m < max_attempts node" and budget: "rest = (max_attempts node - Suc m) * attempt_budget node"
    and again: "\<And>a' s2. Suc m < max_attempts node \<Longrightarrow> in_hand w node (Suc (Suc m)) (x_uids s1) a' \<Longrightarrow>
      has_status a' PENDING \<Longrightarrow> synced w s2 \<Longrightarrow> fresh_for w s2 (x_uids s1) \<Longrightarrow>
      node_numbers (node_id node) (node_attempts (ledger s2)) = counted 1 (Suc m) \<Longrightarrow> in_memory s2 rest \<Longrightarrow>
      runs (attempt_loop fuel w hk plan node a' (length (resource_events (ledger s2)))) s2
        (node_result w node (Suc m) (x_uids s1) rest s2)"
  shows "runs (if t \<noteq> FAILED \<and> b \<noteq> JStr ''timed-out'' then ret (t, c)
      else bindS (liftE (can_retry hk node a)) (\<lambda>again. if \<not> again then ret (t, c)
        else bindS (fresh_attempt w node) (\<lambda>a'. attempt_loop fuel w hk plan node a' c))) s1
      (node_result w node m u (attempt_budget node + rest) s)"
proof -
  have s1: "synced w s1" "c = length (resource_events (ledger s1))" "grows (node_id node) (Suc m) s s1 [a] []"
      "event_count (ledger s1) = event_count (ledger s) + attempt_budget node" "in_hand w node (Suc m) u a"
    using p by (simp_all add: performed_def attempt_budget_def)
  have stop: "node_result w node m u (attempt_budget node + rest) s (t, c) s1"
    by (rule node_result_one [OF p]) (use left in simp_all)
  have wf: "well_formed_attempt a" using s1(5) by (simp add: in_hand_def)
  then have "is_obj a" "has_key a ''attempt_number''"
    using well_formed_has_key [OF wf] by (simp_all add: well_formed_attempt_def attempt_header_ok_def attempt_keys_def)
  then obtain r where r: "can_retry hk node a = Inr r" using retry_total by blast
  have more: "Suc m < max_attempts node" if r
    using retry_bounded [of node a] r that s1(5) by (auto simp: max_attempts_def in_hand_def)
  have "runs (fresh_attempt w node) s1 (\<lambda>a' s2. runs (attempt_loop fuel w hk plan node a' c) s2
      (node_result w node m u (attempt_budget node + rest) s))" if r
  proof (rule runs_fresh_attempt [OF typed s1(1)])
    show numbers1: "node_numbers (node_id node) (node_attempts (ledger s1)) = counted 1 (Suc m)"
      using node_numbers_grow [OF numbers s1(3)] by simp
    fix a'
    let ?s2 = "s1\<lparr>x_ticks := x_ticks s1 + 1, x_uids := x_uids s1 + 1\<rparr>"
    assume a': "in_hand w node (Suc m + 1) (x_uids s1) a'" "has_status a' PENDING"
    have s2: "synced w ?s2" "fresh_for w ?s2 (x_uids s1)"
      using s1(1) by (auto simp: synced_def fresh_for_def)
    have mem2: "in_memory ?s2 rest" using mem s1(4) grows_path [OF s1(3)] by (simp add: in_memory_def)
    have "runs (attempt_loop fuel w hk plan node a' (length (resource_events (ledger ?s2)))) ?s2
        (node_result w node (Suc m) (x_uids s1) rest ?s2)"
      by (rule again [OF more [OF that] _ a'(2) s2 _ mem2]) (use a'(1) numbers1 in simp_all)
    then have "runs (attempt_loop fuel w hk plan node a' c) ?s2 (node_result w node (Suc m) (x_uids s1) rest ?s2)"
      using s1(2) by simp
    then show "runs (attempt_loop fuel w hk plan node a' c) ?s2 (node_result w node m u (attempt_budget node + rest) s)"
      by (rule runs_mono) (rule node_result_more [OF p, where q = ?s2], simp_all)
  qed
  then show ?thesis using stop r by (auto simp: runs_liftE)
qed

lemma runs_attempt_loop:
  assumes fixed: "inj (uuid_hex w)" "fit node" "node_typed node" "time_ok w node"
    and "in_hand w node (Suc m) u a" "has_status a st" "st \<in> {PENDING, READY}"
    and "synced w s" "fresh_for w s u"
    and "node_numbers (node_id node) (node_attempts (ledger s)) = counted 1 m"
    and "m < max_attempts node" "max_attempts node \<le> fuel + m"
    and "in_memory s ((max_attempts node - m) * attempt_budget node)"
  shows "runs (attempt_loop fuel w hk plan node a (length (resource_events (ledger s)))) s
    (node_result w node m u ((max_attempts node - m) * attempt_budget node) s)"
  using assms(5-)
proof (induction fuel arbitrary: m u a st s)
  case (Suc fuel)
  let ?rest = "(max_attempts node - Suc m) * attempt_budget node"
  let ?c = "length (resource_events (ledger s))"
  let ?Post = "node_result w node m u (attempt_budget node + ?rest) s"
  have "max_attempts node - m = Suc (max_attempts node - Suc m)" using Suc.prems(7) by simp
  then have left: "(max_attempts node - m) * attempt_budget node = attempt_budget node + ?rest" by simp
  have mem: "in_memory s (attempt_budget node + ?rest)" using Suc.prems(9) by (simp only: left)
  then have mem1: "in_memory s (3 * resource_count node + 1)"
    by (simp add: in_memory_def attempt_budget_def)
  let ?K = "\<lambda>a1 acquired. if \<not> acquired then bindS (move w a1 BLOCKED ''resource-unavailable'') (\<lambda>a2.
          thenS (log w ''node-attempt'' a2) (ret (BLOCKED, ?c)))
        else bindS (perform_attempt w hk plan node a1 ?c) (\<lambda>(a3, behavior, target, c2).
          if target \<noteq> FAILED \<and> behavior \<noteq> JStr ''timed-out'' then ret (target, c2)
          else bindS (liftE (can_retry hk node a3)) (\<lambda>again. if \<not> again then ret (target, c2)
            else bindS (fresh_attempt w node) (\<lambda>a4. attempt_loop fuel w hk plan node a4 c2)))"
  have core: "runs (guarded_prepare w hk plan node a1) s0 (\<lambda>_ s0. runs (acquire_keys a1 node) s0 (\<lambda>acquired s0.
      runs (?K a1 acquired) s0 ?Post))"
    if a1: "in_hand w node (Suc m) u a1" "has_status a1 READY" and s0: "same_run s s0" for a1 s0
    using runs_guarded_prepare [OF fixed(2)]
  proof (rule runs_mono)
    fix x s0'
    assume "same_run s0 s0'"
    with s0 have tr: "same_run s s0'" by (rule same_run_trans)
    note t = same_run_transfer [OF tr]
    have led: "ledger s0' = ledger s" using tr by (simp add: same_run_def)
    have "runs (acquire_keys a1 node) s0' (\<lambda>b s1. b \<and>
        runs (perform_attempt w hk plan node a1 ?c) s1 (performed w node (Suc m) u s0'))"
      using runs_perform [OF fixed(1,2) a1, of s0' plan] Suc.prems(4,5) mem1 t led by simp
    then show "runs (acquire_keys a1 node) s0' (\<lambda>acquired s0. runs (?K a1 acquired) s0 ?Post)"
    proof (rule runs_mono)
      fix acquired s1
      assume h: "acquired \<and> runs (perform_attempt w hk plan node a1 ?c) s1 (performed w node (Suc m) u s0')"
      then have "runs (perform_attempt w hk plan node a1 ?c) s1 (performed w node (Suc m) u s0')" by simp
      then have "runs (perform_attempt w hk plan node a1 ?c) s1 (\<lambda>p s2.
          runs (case p of (a3, behavior, target, c2) \<Rightarrow>
            if target \<noteq> FAILED \<and> behavior \<noteq> JStr ''timed-out'' then ret (target, c2)
            else bindS (liftE (can_retry hk node a3)) (\<lambda>again. if \<not> again then ret (target, c2)
              else bindS (fresh_attempt w node) (\<lambda>a4. attempt_loop fuel w hk plan node a4 c2))) s2 ?Post)"
      proof (rule runs_mono)
        fix p s2
        assume p: "performed w node (Suc m) u s0' p s2"
        obtain a3 b tgt c2 where [simp]: "p = (a3, b, tgt, c2)" by (cases p)
        have "runs (if tgt \<noteq> FAILED \<and> b \<noteq> JStr ''timed-out'' then ret (tgt, c2)
            else bindS (liftE (can_retry hk node a3)) (\<lambda>again. if \<not> again then ret (tgt, c2)
              else bindS (fresh_attempt w node) (\<lambda>a4. attempt_loop fuel w hk plan node a4 c2))) s2
            (node_result w node m u (attempt_budget node + ?rest) s0')"
        proof (rule runs_retry [OF _ fixed(3,4)])
          fix a' and s2' :: "'h xstate"
          assume "Suc m < max_attempts node" "in_hand w node (Suc (Suc m)) (x_uids s2) a'" "has_status a' PENDING"
            "synced w s2'" "fresh_for w s2' (x_uids s2)"
            "node_numbers (node_id node) (node_attempts (ledger s2')) = counted 1 (Suc m)" "in_memory s2' ?rest"
          then show "runs (attempt_loop fuel w hk plan node a' (length (resource_events (ledger s2')))) s2'
              (node_result w node (Suc m) (x_uids s2) ?rest s2')"
            using Suc.prems(8) by (intro Suc.IH [where st = PENDING]) simp_all
        qed (use p Suc.prems(6,7) mem t led in simp_all)
        then have "runs (if tgt \<noteq> FAILED \<and> b \<noteq> JStr ''timed-out'' then ret (tgt, c2)
            else bindS (liftE (can_retry hk node a3)) (\<lambda>again. if \<not> again then ret (tgt, c2)
              else bindS (fresh_attempt w node) (\<lambda>a4. attempt_loop fuel w hk plan node a4 c2))) s2 ?Post"
          by (rule runs_mono) (rule node_result_same_run [OF _ tr])
        then show "runs (case p of (a3, behavior, target, c2) \<Rightarrow>
            if target \<noteq> FAILED \<and> behavior \<noteq> JStr ''timed-out'' then ret (target, c2)
            else bindS (liftE (can_retry hk node a3)) (\<lambda>again. if \<not> again then ret (target, c2)
              else bindS (fresh_attempt w node) (\<lambda>a4. attempt_loop fuel w hk plan node a4 c2))) s2 ?Post"
          by simp
      qed
      then show "runs (?K a1 acquired) s1 ?Post" using h by simp
    qed
  qed
  show ?case
  proof (cases "st = PENDING")
    case True
    then have "fld a ''status'' = JStr (status_value PENDING)" using Suc.prems(2) by (simp add: has_status_def)
    then show ?thesis unfolding attempt_loop.simps runs_bind runs_then left
    proof (simp only: if_True simp_thms, intro runs_move_in_hand [OF Suc.prems(1,2)])
      show "node_step st READY" using True by (simp add: node_step_simps)
      fix a'
      assume "in_hand w node (Suc m) u a'" "has_status a' READY"
      then show "runs (guarded_prepare w hk plan node a') (s\<lparr>x_ticks := x_ticks s + 1\<rparr>)
        (\<lambda>_ s0. runs (acquire_keys a' node) s0 (\<lambda>acquired s0. runs (?K a' acquired) s0 ?Post))"
        by (rule core) simp
    qed
  next
    case False
    then have rdy: "has_status a READY" using Suc.prems(2,3) by auto
    then have "fld a ''status'' \<noteq> JStr (status_value PENDING)" by (simp add: has_status_def)
    then show ?thesis unfolding attempt_loop.simps runs_bind runs_then left
      using core [OF Suc.prems(1) rdy, of s] by (simp only: if_False runs_ret same_run_refl simp_thms)
  qed
qed simp

end

end
