(* ===== verification/RuntimeApproval.thy ===== *)
theory RuntimeApproval
  imports RuntimeLoop
begin

text \<open>
  The approval step of a fresh run, the nodes that never start, and the whole body of the executor's
  loop over the nodes.
\<close>

section \<open>The latest attempt of a node\<close>

lemma keyed_get_set:
  "keyed_get (keyed_set (JStr k) v (map (\<lambda>p. (JStr (fst p), snd p)) d)) (JStr k') =
     (if k' = k then Some v else keyed_get (map (\<lambda>p. (JStr (fst p), snd p)) d) (JStr k'))"
  by (induction d) (auto simp: keyed_get_def)

lemma keyed_set_map:
  "keyed_set (JStr k) v (map (\<lambda>p. (JStr (fst p), snd p)) d) = map (\<lambda>p. (JStr (fst p), snd p)) (dict_set k v d)"
  by (induction d) auto

lemma keyed_get_map: "keyed_get (map (\<lambda>p. (JStr (fst p), snd p)) d) (JStr k) = dict_get d k"
  by (induction d) (auto simp: keyed_get_def)

definition node_of :: "json \<Rightarrow> string" where
  "node_of a = as_str (fld a ''node_id'')"

definition latest_of :: "json list \<Rightarrow> string \<Rightarrow> json option" where
  "latest_of as n = (let xs = filter (of_node n) as in if xs = [] then None else Some (last xs))"

text \<open>The dictionary of latest attempts, keyed by the node's text.\<close>

definition latest_dict :: "json list \<Rightarrow> (string, json) dict" where
  "latest_dict as = foldl (\<lambda>d a. dict_set (node_of a) a d) [] as"

lemma wf_node: "well_formed_attempt a \<Longrightarrow> getitem a ''node_id'' = Inr (JStr (node_of a)) \<and> of_node (node_of a) a"
  unfolding getitem_eq_Inr well_formed_attempt_def attempt_header_ok_def attempt_keys_def of_node_def node_of_def
  by (auto simp: is_str_iff)

lemma of_node_iff: "well_formed_attempt a \<Longrightarrow> of_node n a \<longleftrightarrow> node_of a = n"
  using wf_node [of a] by (auto simp: of_node_def)

lemma latest_attempts_eq:
  assumes "\<forall>a \<in> set as. well_formed_attempt a"
  shows "latest_attempts as = Inr (map (\<lambda>p. (JStr (fst p), snd p)) (latest_dict as))"
proof -
  have "foldE (\<lambda>d a. bindE (getitem a ''node_id'') (\<lambda>n. if hashable n then Inr (keyed_set n a d)
      else Inl (TypeError ''unhashable type''))) (map (\<lambda>p. (JStr (fst p), snd p)) d) xs =
      Inr (map (\<lambda>p. (JStr (fst p), snd p)) (foldl (\<lambda>d a. dict_set (node_of a) a d) d xs))"
    if "set xs \<subseteq> set as" for d xs
    using that
  proof (induction xs arbitrary: d)
    case (Cons a xs)
    then have "well_formed_attempt a" using assms by auto
    with Cons wf_node [of a] show ?case by (simp add: hashable_def keyed_set_map)
  qed simp
  from this [of as "[]"] show ?thesis by (simp add: latest_attempts_def latest_dict_def)
qed

lemma latest_dict_get:
  assumes "\<forall>a \<in> set as. well_formed_attempt a"
  shows "dict_get (latest_dict as) n = latest_of as n" "dict_ok (latest_dict as)"
proof -
  have "dict_get (latest_dict as) n = latest_of as n \<and> dict_ok (latest_dict as)"
    using assms
  proof (induction as rule: rev_induct)
    case (snoc a as)
    then have "of_node n a = (n = node_of a)" using of_node_iff [of a n] by auto
    with snoc show ?case by (simp add: latest_dict_def latest_of_def dict_get_set Let_def)
  qed (simp add: latest_dict_def latest_of_def)
  then show "dict_get (latest_dict as) n = latest_of as n" "dict_ok (latest_dict as)" by simp_all
qed

lemma latest_attempt_eq:
  "\<forall>a \<in> set as. well_formed_attempt a \<Longrightarrow> latest_attempt as (JStr n) = Inr (latest_of as n)"
  by (simp add: latest_attempt_def latest_attempts_eq keyed_get_map latest_dict_get)

lemma wf_status: "well_formed_attempt a \<Longrightarrow> \<exists>st. getitem a ''status'' = Inr (JStr (status_value st)) \<and> has_status a st"
proof -
  assume wf: "well_formed_attempt a"
  then have "is_obj a" and "has_key a ''status''"
    using well_formed_has_key [of a "''status''"]
    by (simp_all add: well_formed_attempt_def attempt_header_ok_def attempt_keys_def)
  moreover obtain st where "fld a ''status'' = JStr (status_value st)"
    using wf unfolding well_formed_attempt_def attempt_history_ok_def by blast
  ultimately show ?thesis unfolding getitem_eq_Inr has_status_def by metis
qed

lemma latest_of_in: "latest_of as n = Some a \<Longrightarrow> a \<in> set as \<and> of_node n a"
proof -
  assume "latest_of as n = Some a"
  then have "filter (of_node n) as \<noteq> []" "a = last (filter (of_node n) as)"
    by (auto simp: latest_of_def Let_def split: if_splits)
  then have "a \<in> set (filter (of_node n) as)" using last_in_set by metis
  then show ?thesis by simp
qed

lemma latest_statuses_ok:
  assumes "\<forall>a \<in> set as. well_formed_attempt a"
  shows "\<exists>ss. latest_statuses as = Inr ss \<and>
    (\<forall>n st. (JStr n, st) \<in> set ss \<longleftrightarrow> (\<exists>a. latest_of as n = Some a \<and> has_status a st)) \<and>
    (\<forall>p \<in> set ss. is_str (fst p)) \<and> (as = [] \<longrightarrow> ss = [])"
proof -
  let ?d = "latest_dict as"
  have in_d: "(n, a) \<in> set ?d \<longleftrightarrow> latest_of as n = Some a" for n a
    using latest_dict_get [OF assms] dict_get_SomeD dict_get_in by metis
  have st: "\<exists>st. getitem (snd p) ''status'' = Inr (JStr (status_value st)) \<and> has_status (snd p) st"
    if "p \<in> set ?d" for p
    using that in_d [of "fst p" "snd p"] latest_of_in assms wf_status by auto
  define f where "f p = (SOME st. getitem (snd p) ''status'' = Inr (JStr (status_value st)) \<and> has_status (snd p) st)"
    for p :: "string \<times> json"
  have f: "getitem (snd p) ''status'' = Inr (JStr (status_value (f p)))" "has_status (snd p) (f p)"
    if "p \<in> set ?d" for p
    using someI_ex [OF st [OF that]] unfolding f_def by blast+
  have "mapE (\<lambda>p. bindE (getitem (snd p) ''status'') (\<lambda>s. bindE (status_of s) (\<lambda>st. Inr (fst p, st))))
      (map (\<lambda>p. (JStr (fst p), snd p)) xs) = Inr (map (\<lambda>p. (JStr (fst p), f p)) xs)" if "set xs \<subseteq> set ?d" for xs
    using that by (induction xs) (auto simp: f)
  then have "latest_statuses as = Inr (map (\<lambda>p. (JStr (fst p), f p)) ?d)"
    by (simp add: latest_statuses_def latest_attempts_eq [OF assms])
  moreover have "(JStr n, st) \<in> set (map (\<lambda>p. (JStr (fst p), f p)) ?d) \<longleftrightarrow> (\<exists>a. latest_of as n = Some a \<and> has_status a st)"
    for n st
  proof
    assume "(JStr n, st) \<in> set (map (\<lambda>p. (JStr (fst p), f p)) ?d)"
    then obtain a where "(n, a) \<in> set ?d" "st = f (n, a)" by auto
    then show "\<exists>a. latest_of as n = Some a \<and> has_status a st" using f(2) in_d by force
  next
    assume "\<exists>a. latest_of as n = Some a \<and> has_status a st"
    then obtain a where a: "(n, a) \<in> set ?d" "has_status a st" using in_d by blast
    then have "st = f (n, a)" using f(2) [OF a(1)] by (simp add: has_status_def status_value_inj)
    then show "(JStr n, st) \<in> set (map (\<lambda>p. (JStr (fst p), f p)) ?d)" using a(1) by force
  qed
  moreover have "as = [] \<longrightarrow> map (\<lambda>p. (JStr (fst p), f p)) ?d = []" by (simp add: latest_dict_def)
  ultimately show ?thesis by (intro exI conjI) auto
qed

section \<open>Nodes that never start\<close>

definition gate_entry :: "string set \<Rightarrow> json \<Rightarrow> bool" where
  "gate_entry ks r \<longleftrightarrow> (\<exists>a act re sc h st. r = approval_record a act re sc h st \<and> a \<in> ks \<and>
     st \<in> set [''pending'', ''granted'', ''denied'', ''expired''])"

text \<open>The effect of a whole node.\<close>

definition node_effect :: "world \<Rightarrow> json \<Rightarrow> bool \<Rightarrow> 'h xstate \<Rightarrow> NodeStatus \<times> nat \<Rightarrow> 'h xstate \<Rightarrow> bool" where
  "node_effect w node allowed s r s' \<longleftrightarrow>
     (\<exists>new apps. new \<noteq> [] \<and> has_status (last new) (fst r) \<and> synced w s' \<and>
        snd r = length (resource_events (ledger s')) \<and> grows (node_id node) 1 s s' new apps \<and>
        (\<forall>r \<in> set apps. gate_entry (attempt_key ` set new) r) \<and> length new \<le> max_attempts node \<and>
        (\<not> allowed \<longrightarrow> (\<forall>a \<in> set new. \<not> ran a)) \<and>
        int (event_count (ledger s')) \<le> int (event_count (ledger s)) + node_event_budget node)"

lemma max_attempts_pos: "0 < max_attempts node"
  by (simp add: max_attempts_def)

lemma budget_ge:
  assumes "node_typed node"
  shows "int (attempt_budget node) + (if truthy (fld node ''approval'') then 2 else 0) \<le> node_event_budget node"
proof -
  have "attempt_budget node \<le> max_attempts node * attempt_budget node" using max_attempts_pos [of node] by simp
  then have "int (attempt_budget node) \<le> int (max_attempts node * attempt_budget node)" by (rule zle_int [THEN iffD2])
  then show ?thesis unfolding node_event_budget_nat [OF assms] by simp
qed

lemma grows_attempt:
  assumes "in_hand w node k u a" and "synced w s" and "resource_events (ledger s') = resource_events (ledger s)"
    and "x_sched s' = x_sched s" and "ledger s' = add_attempt a (ledger s)" and "x_uids s \<le> x_uids s'"
  shows "grows (node_id node) k s s' [a] []"
  using assms by (simp add: grows_def in_hand_def of_node_def add_attempt_def rest_of_def counted_def)

text \<open>Recording an attempt that holds no resource.\<close>

lemma runs_record_idle:
  assumes inj: "inj (uuid_hex w)" and a: "in_hand w node k u a" and s: "synced w s" "fresh_for w s u"
    and mem: "in_memory s 1"
    and Q: "\<And>s'. ledger s' = add_attempt a (ledger s) \<Longrightarrow> x_sched s' = x_sched s \<Longrightarrow> x_uids s' = x_uids s \<Longrightarrow>
      synced w s' \<Longrightarrow> grows (node_id node) k s s' [a] [] \<Longrightarrow> Q () s'"
  shows "runs (log w ''node-attempt'' a) s Q"
proof -
  let ?s' = "upd_ledger (add_attempt a) s"
  have wf: "well_formed_attempt a" and key: "attempt_key a = attempt_name w u" using a by (simp_all add: in_hand_def)
  have snap: "one_snapshot (ledger s)" "\<forall>x \<in> set (node_attempts (ledger s)). well_formed_attempt x"
    using s(1) by (simp_all add: synced_def)
  have new: "attempt_key a \<notin> attempt_key ` set (node_attempts (ledger s))"
    using fresh_for_notin [OF inj s(2)] by (simp add: key)
  have "attempt_key ` set (node_attempts (ledger ?s')) \<subseteq> attempt_name w ` {..<x_uids ?s'}"
    using s(2) key by (auto simp: add_attempt_def fresh_for_def)
  then have "synced w ?s'"
    using synced_add_attempt [OF wf snap new] s(1) unfolding synced_def by (simp add: add_attempt_def)
  moreover have "grows (node_id node) k s ?s' [a] []"
    by (rule grows_attempt [OF a s(1)]) (simp_all add: add_attempt_def)
  ultimately show ?thesis
    by (intro runs_log_attempt [OF mem snap(1) well_formed_identified [OF wf] new] Q) simp_all
qed

lemma fresh_for_next: "synced w s \<Longrightarrow> x_uids s' = x_uids s + 1 \<Longrightarrow> ledger s' = ledger s \<Longrightarrow> fresh_for w s' (x_uids s)"
  by (simp add: fresh_for_def synced_def)

lemma synced_next: "synced w s \<Longrightarrow> x_uids s \<le> x_uids s' \<Longrightarrow> ledger s' = ledger s \<Longrightarrow> x_sched s' = x_sched s \<Longrightarrow> synced w s'"
  unfolding synced_def using image_mono [of "{..<x_uids s}" "{..<x_uids s'}" "attempt_name w"]
  by (simp, blast)

text \<open>\<open>upstream-not-passed\<close> and \<open>capability-provider-missing\<close>.\<close>

lemma runs_close_attempt:
  assumes inj: "inj (uuid_hex w)" and typed: "node_typed node" "time_ok w node" and s: "synced w s"
    and none: "node_numbers (node_id node) (node_attempts (ledger s)) = counted 1 0"
    and mem: "in_memory s 1" and t: "t \<in> {BLOCKED, SKIPPED}"
  shows "runs (close_attempt w node t r) s
    (\<lambda>_ s'. node_effect w node False s (t, length (resource_events (ledger s))) s')"
  unfolding close_attempt_def runs_bind
proof (rule runs_fresh_attempt [OF typed s none])
  fix a
  let ?s1 = "s\<lparr>x_ticks := x_ticks s + 1, x_uids := x_uids s + 1\<rparr>"
  assume a: "in_hand w node (0 + 1) (x_uids s) a" "has_status a PENDING" "\<not> ran a"
  show "runs (move w a t r) ?s1 (\<lambda>a' s2. runs (log w ''node-attempt'' a') s2
      (\<lambda>_ s'. node_effect w node False s (t, length (resource_events (ledger s))) s'))"
  proof (rule runs_move_in_hand [OF a(1,2)])
    show "node_step PENDING t" using t by (auto simp: node_step_simps)
    fix a'
    let ?s2 = "?s1\<lparr>x_ticks := x_ticks ?s1 + 1\<rparr>"
    assume a': "in_hand w node (0 + 1) (x_uids s) a'" "has_status a' t" "ran a' = (ran a \<or> t = RUNNING)"
    have s2: "synced w ?s2" "fresh_for w ?s2 (x_uids s)"
      by (rule synced_next [OF s], simp_all) (rule fresh_for_next [OF s], simp_all)
    show "runs (log w ''node-attempt'' a') ?s2
      (\<lambda>_ s'. node_effect w node False s (t, length (resource_events (ledger s))) s')"
    proof (rule runs_record_idle [OF inj a'(1) s2])
      show "in_memory ?s2 1" using mem by (simp add: in_memory_def)
      fix s'
      assume s': "ledger s' = add_attempt a' (ledger ?s2)" "synced w s'" "grows (node_id node) (0 + 1) ?s2 s' [a'] []"
      have g: "grows (node_id node) 1 s s' [a'] []"
        by (rule grows_weaken [where s = ?s2]) (use s'(3) in simp_all)
      have "\<not> ran a'" using a(3) a'(3) t by auto
      moreover have "int (attempt_budget node) \<le> node_event_budget node"
        using budget_ge [OF typed(1)] by (simp split: if_splits)
      ultimately show "node_effect w node False s (t, length (resource_events (ledger s))) s'"
        unfolding node_effect_def using a'(2) s' g
        by (intro exI [of _ "[a']"] exI [of _ "[]"]) (simp add: add_attempt_def attempt_budget_def max_attempts_def)
    qed
  qed
qed

section \<open>Approval\<close>

definition approval_ready :: "world \<Rightarrow> run_config \<Rightarrow> json \<Rightarrow> bool" where
  "approval_ready w cfg node \<longleftrightarrow>
     (let approval = fld node ''approval'' in
      truthy approval \<longrightarrow> is_obj approval \<and> has_key approval ''action'' \<and> has_key approval ''reason'' \<and>
        (\<exists>h. sha256 w (fld_or approval ''scope'' (JObj [])) = Inr h) \<and>
        (case nonempty (dict_get (approval_decisions cfg) (as_str (fld node ''capability''))) of
           None \<Rightarrow> True | Some d \<Rightarrow> d \<in> set [''granted'', ''denied'', ''expired'']))"

definition node_ready :: "world \<Rightarrow> run_config \<Rightarrow> json \<Rightarrow> bool" where
  "node_ready w cfg node \<longleftrightarrow> node_typed node \<and> time_ok w node \<and> has_key node ''capability'' \<and>
     is_str (fld node ''capability'') \<and> approval_ready w cfg node"

definition approvals_added :: "'h xstate \<Rightarrow> 'h xstate \<Rightarrow> json list \<Rightarrow> bool" where
  "approvals_added s s' apps \<longleftrightarrow> ledger s' = (ledger s)\<lparr>event_count := event_count (ledger s) + length apps,
       approval_records := approval_records (ledger s) @ apps\<rparr> \<and>
     x_sched s' = x_sched s \<and> x_uids s \<le> x_uids s'"

lemma approvals_added_synced: "approvals_added s s' apps \<Longrightarrow> synced w s \<Longrightarrow> synced w s'"
  unfolding synced_def approvals_added_def one_snapshot_def
  using image_mono [of "{..<x_uids s}" "{..<x_uids s'}" "attempt_name w"] by (simp, blast)

lemma approvals_added_grows:
  assumes "approvals_added s t apps" and "grows n k t u new []"
  shows "grows n k s u new apps"
  using assms by (auto simp: grows_def approvals_added_def rest_of_def)

lemma request_approval_ok:
  assumes t: "truthy (fld node ''approval'')" and rdy: "approval_ready w cfg node"
    and d: "decision = nonempty (dict_get (approval_decisions cfg) (as_str (fld node ''capability'')))"
  shows "\<exists>r s' st. request_approval w a (fld node ''approval'') decision s = (Inr r, s') \<and>
    gate_entry {as_str (fld a ''attempt_id'')} r \<and> getitem r ''status'' = Inr (JStr st) \<and>
    st \<in> {''pending'', ''granted'', ''denied'', ''expired''} \<and> same_run s s'"
proof -
  let ?ap = "fld node ''approval''" and ?id = "as_str (fld a ''attempt_id'')"
  let ?sc = "fld_or ?ap ''scope'' (JObj [])"
  obtain h where h: "sha256 w ?sc = Inr h" and ap: "is_obj ?ap" "has_key ?ap ''action''" "has_key ?ap ''reason''"
    and dec: "case decision of None \<Rightarrow> True | Some d \<Rightarrow> d \<in> set [''granted'', ''denied'', ''expired'']"
    using t rdy d by (auto simp: approval_ready_def Let_def)
  let ?r = "approval_record ?id (fld ?ap ''action'') (fld ?ap ''reason'') ?sc h"
  have req: "bindE (getitem ?ap ''action'') (\<lambda>action. bindE (getitem ?ap ''reason'') (\<lambda>reason.
      bindE (get_default ?ap ''scope'' (JObj [])) (\<lambda>scope.
      bindE (request w ?id action reason scope (x_gate s)) (\<lambda>p. Inr (p, scope))))) =
      Inr ((?r ''pending'', x_gate s @ [?r ''pending'']), ?sc)"
    using ap h by (simp add: bindE_eq_Inr getitem_eq_Inr get_default_eq_Inr request_eq_Inr)
  have entry: "gate_entry {?id} (?r st) \<and> getitem (?r st) ''status'' = Inr (JStr st)"
    if "st \<in> {''pending'', ''granted'', ''denied'', ''expired''}" for st
    using that unfolding gate_entry_def getitem_eq_Inr
    by (intro conjI exI [of _ ?id] exI [of _ "fld ?ap ''action''"] exI [of _ "fld ?ap ''reason''"] exI [of _ ?sc]
      exI [of _ h] exI [of _ st]) simp_all
  show ?thesis
  proof (cases decision)
    case None
    then have "request_approval w a ?ap decision s = (Inr (?r ''pending''), s\<lparr>x_gate := x_gate s @ [?r ''pending'']\<rparr>)"
      unfolding request_approval_def req by simp
    with entry [of "''pending''"] show ?thesis
      by (intro exI [of _ "?r ''pending''"] exI [of _ "s\<lparr>x_gate := x_gate s @ [?r ''pending'']\<rparr>"]
        exI [of _ "''pending''"]) simp
  next
    case (Some dc)
    then have dc: "dc \<in> {''granted'', ''denied'', ''expired''}" using dec by simp
    have "decide w (?r ''pending'') dc (Some ?sc) = Inr (?r dc)"
      using dc h by (simp add: decide_eq_Inr)
    then have "request_approval w a ?ap decision s = (Inr (?r dc), s\<lparr>x_gate := x_gate s @ [?r dc]\<rparr>)"
      unfolding request_approval_def req using Some by simp
    with entry [of dc] dc show ?thesis
      by (intro exI [of _ "?r dc"] exI [of _ "s\<lparr>x_gate := x_gate s @ [?r dc]\<rparr>"] exI [of _ dc]) simp
  qed
qed

text \<open>What the approval step of a fresh run leaves: an attempt that may start, or a blocked node.\<close>

definition approval_outcome :: "world \<Rightarrow> json \<Rightarrow> 'h xstate \<Rightarrow> json \<times> json \<Rightarrow> 'h xstate \<Rightarrow> bool" where
  "approval_outcome w node s p s' \<longleftrightarrow>
     (if snd p \<in> {JStr ''pending'', JStr ''denied'', JStr ''expired''}
      then node_effect w node False s (BLOCKED, length (resource_events (ledger s))) s'
      else in_hand w node 1 (x_uids s) (fst p) \<and> has_status (fst p) READY \<and> synced w s' \<and>
        fresh_for w s' (x_uids s) \<and>
        (\<exists>apps. approvals_added s s' apps \<and> (\<forall>r \<in> set apps. gate_entry {attempt_name w (x_uids s)} r) \<and>
           length apps \<le> (if truthy (fld node ''approval'') then 1 else 0)))"

lemma fresh_for_approvals: "approvals_added s s' apps \<Longrightarrow> x_uids s < x_uids s' \<Longrightarrow> synced w s \<Longrightarrow> fresh_for w s' (x_uids s)"
  by (simp add: fresh_for_def approvals_added_def synced_def)

lemma runs_new_approval:
  assumes inj: "inj (uuid_hex w)" and rdy: "node_ready w cfg node" and s: "synced w s"
    and none: "node_numbers (node_id node) (node_attempts (ledger s)) = counted 1 0"
    and mem: "in_memory s 2"
    and d: "decision = nonempty (dict_get (approval_decisions cfg) (as_str (fld node ''capability'')))"
    and t: "truthy (fld node ''approval'')"
    and a1: "in_hand w node (Suc 0) (x_uids s) a1" "has_status a1 READY" "\<not> ran a1"
    and s2: "ledger s2 = ledger s" "x_sched s2 = x_sched s" "x_uids s2 = x_uids s + 1"
  shows "runs (bindS (request_approval w a1 (fld node ''approval'') decision) (\<lambda>record.
      thenS (log w ''approval-record'' record) (bindS (liftE (getitem record ''status'')) (\<lambda>st.
        if st \<noteq> JStr ''granted'' then bindS (move w a1 BLOCKED (''approval-'' @ as_str st)) (\<lambda>a2.
          thenS (log w ''node-attempt'' a2) (ret (a2, st)))
        else ret (a1, st))))) s2 (approval_outcome w node s)"
proof -
  have typed: "node_typed node" "approval_ready w cfg node" using rdy by (simp_all add: node_ready_def)
  have key: "as_str (fld a1 ''attempt_id'') = attempt_name w (x_uids s)"
    using a1(1) by (simp add: in_hand_def attempt_key_def)
  obtain r s3 st where r: "request_approval w a1 (fld node ''approval'') decision s2 = (Inr r, s3)"
      "gate_entry {attempt_name w (x_uids s)} r" "getitem r ''status'' = Inr (JStr st)"
      "st \<in> {''pending'', ''granted'', ''denied'', ''expired''}" "same_run s2 s3"
    using request_approval_ok [OF t typed(2) d, of a1 s2] key by auto
  have s3: "ledger s3 = ledger s" "x_sched s3 = x_sched s" "x_uids s3 = x_uids s + 1"
    using r(5) s2 by (simp_all add: same_run_def)
  let ?s4 = "upd_ledger (add_approval r) s3"
  have added: "approvals_added s ?s4 [r]"
    using s3 by (simp add: approvals_added_def add_approval_def)
  have s4: "synced w ?s4" "fresh_for w ?s4 (x_uids s)"
    using approvals_added_synced [OF added s] fresh_for_approvals [OF added _ s] s3 by simp_all
  have mem3: "in_memory s3 1" "in_memory ?s4 1" using mem s3 by (simp_all add: in_memory_def add_approval_def)
  have "runs (log w ''approval-record'' r) s3 (\<lambda>_ s4. runs (if JStr st \<noteq> JStr ''granted''
        then bindS (move w a1 BLOCKED (''approval-'' @ as_str (JStr st))) (\<lambda>a2.
          thenS (log w ''node-attempt'' a2) (ret (a2, JStr st)))
        else ret (a1, JStr st)) s4 (approval_outcome w node s))"
  proof (rule runs_log_approval [OF mem3(1)], cases "st = ''granted''")
    case True
    have "approval_outcome w node s (a1, JStr st) ?s4"
      unfolding approval_outcome_def using a1 s4 added r(2) t True by (auto intro!: exI [of _ "[r]"])
    then show "runs (if JStr st \<noteq> JStr ''granted'' then bindS (move w a1 BLOCKED (''approval-'' @ as_str (JStr st)))
        (\<lambda>a2. thenS (log w ''node-attempt'' a2) (ret (a2, JStr st))) else ret (a1, JStr st)) ?s4 (approval_outcome w node s)"
      using True by simp
  next
    case False
    then have st: "JStr st \<in> {JStr ''pending'', JStr ''denied'', JStr ''expired''}" using r(4) by auto
    have "runs (move w a1 BLOCKED (''approval-'' @ st)) ?s4 (\<lambda>a2 s5. runs (log w ''node-attempt'' a2) s5
        (\<lambda>_ s6. approval_outcome w node s (a2, JStr st) s6))"
    proof (rule runs_move_in_hand [OF a1(1,2)])
      show "node_step READY BLOCKED" by (simp add: node_step_simps)
      fix a2
      let ?s5 = "?s4\<lparr>x_ticks := x_ticks ?s4 + 1\<rparr>"
      assume a2: "in_hand w node (Suc 0) (x_uids s) a2" "has_status a2 BLOCKED" "ran a2 = (ran a1 \<or> BLOCKED = RUNNING)"
      have s5: "synced w ?s5" "fresh_for w ?s5 (x_uids s)" "in_memory ?s5 1"
        using s4 mem3(2) same_run_transfer [of ?s4 ?s5] by simp_all
      show "runs (log w ''node-attempt'' a2) ?s5 (\<lambda>_ s6. approval_outcome w node s (a2, JStr st) s6)"
      proof (rule runs_record_idle [OF inj a2(1) s5])
        fix s'
        assume s': "ledger s' = add_attempt a2 (ledger ?s5)" "synced w s'" "grows (node_id node) (Suc 0) ?s5 s' [a2] []"
        have "grows (node_id node) (Suc 0) ?s4 s' [a2] []"
          by (rule grows_weaken [where s = ?s5]) (use s'(3) in simp_all)
        then have g: "grows (node_id node) 1 s s' [a2] [r]"
          using approvals_added_grows [OF added] by simp
        have "int (attempt_budget node) + 2 \<le> node_event_budget node" using budget_ge [OF typed(1)] t by simp
        moreover have "attempt_key a2 = attempt_name w (x_uids s)" using a2(1) by (simp add: in_hand_def)
        ultimately have "node_effect w node False s (BLOCKED, length (resource_events (ledger s))) s'"
          unfolding node_effect_def using a2 a1(3) s' g r(2) s3
          by (intro exI [of _ "[a2]"] exI [of _ "[r]"]) (simp add: add_attempt_def add_approval_def attempt_budget_def max_attempts_def)
        then show "approval_outcome w node s (a2, JStr st) s'" using st by (simp add: approval_outcome_def)
      qed
    qed
    then show "runs (if JStr st \<noteq> JStr ''granted'' then bindS (move w a1 BLOCKED (''approval-'' @ as_str (JStr st)))
        (\<lambda>a2. thenS (log w ''node-attempt'' a2) (ret (a2, JStr st))) else ret (a1, JStr st)) ?s4 (approval_outcome w node s)"
      using False by simp
  qed
  then show ?thesis
    unfolding runs_bind runs_then runs_eq [of "request_approval w a1 (fld node ''approval'') decision", OF r(1)] r(3)
      runs_liftE_Inr .
qed

lemma runs_prepare_approval:
  assumes inj: "inj (uuid_hex w)" and fresh: "\<not> resume cfg" and rdy: "node_ready w cfg node" and s: "synced w s"
    and none: "node_numbers (node_id node) (node_attempts (ledger s)) = counted 1 0"
    and mem: "truthy (fld node ''approval'') \<Longrightarrow> in_memory s 2"
  shows "runs (prepare_approval w cfg node) s (approval_outcome w node s)"
proof -
  let ?d = "nonempty (dict_get (approval_decisions cfg) (as_str (fld node ''capability'')))"
  have typed: "node_typed node" "time_ok w node" using rdy by (simp_all add: node_ready_def)
  have "filter (of_node (node_id node)) (node_attempts (ledger s)) = []"
    using none by (simp add: node_numbers_def counted_def)
  then have latest: "latest_attempt (node_attempts (ledger s)) (JStr (node_id node)) = Inr None"
    using latest_attempt_eq s by (simp add: synced_def latest_of_def)
  obtain cap where cap: "getitem node ''capability'' = Inr (JStr cap)" "as_str (fld node ''capability'') = cap"
    using rdy by (auto simp: node_ready_def node_typed_def getitem_eq_Inr is_str_iff)
  have "runs (bindS (fresh_attempt w node) (\<lambda>a0. bindS (move w a0 READY ''dependencies-satisfied'') (\<lambda>a1.
      if \<not> truthy (fld node ''approval'') then ret (a1, JStr ''not-required'')
      else bindS (request_approval w a1 (fld node ''approval'') ?d) (\<lambda>record.
        thenS (log w ''approval-record'' record) (bindS (liftE (getitem record ''status'')) (\<lambda>st.
          if st \<noteq> JStr ''granted'' then bindS (move w a1 BLOCKED (''approval-'' @ as_str st)) (\<lambda>a2.
            thenS (log w ''node-attempt'' a2) (ret (a2, st)))
          else ret (a1, st))))))) s (approval_outcome w node s)"
    unfolding runs_bind [of "fresh_attempt w node"]
  proof (rule runs_fresh_attempt [OF typed s none])
    fix a0
    let ?s1 = "s\<lparr>x_ticks := x_ticks s + 1, x_uids := x_uids s + 1\<rparr>"
    assume a0: "in_hand w node (0 + 1) (x_uids s) a0" "has_status a0 PENDING" "\<not> ran a0"
    show "runs (bindS (move w a0 READY ''dependencies-satisfied'') (\<lambda>a1.
      if \<not> truthy (fld node ''approval'') then ret (a1, JStr ''not-required'')
      else bindS (request_approval w a1 (fld node ''approval'') ?d) (\<lambda>record.
        thenS (log w ''approval-record'' record) (bindS (liftE (getitem record ''status'')) (\<lambda>st.
          if st \<noteq> JStr ''granted'' then bindS (move w a1 BLOCKED (''approval-'' @ as_str st)) (\<lambda>a2.
            thenS (log w ''node-attempt'' a2) (ret (a2, st)))
          else ret (a1, st)))))) ?s1 (approval_outcome w node s)"
      unfolding runs_bind [of "move w a0 READY ''dependencies-satisfied''"]
    proof (rule runs_move_in_hand [OF a0(1,2)])
      show "node_step PENDING READY" by (simp add: node_step_simps)
      fix a1
      let ?s2 = "?s1\<lparr>x_ticks := x_ticks ?s1 + 1\<rparr>"
      assume a1: "in_hand w node (0 + 1) (x_uids s) a1" "has_status a1 READY" "ran a1 = (ran a0 \<or> READY = RUNNING)"
      have s2: "synced w ?s2" "fresh_for w ?s2 (x_uids s)"
        by (rule synced_next [OF s], simp_all) (rule fresh_for_next [OF s], simp_all)
      have "approval_outcome w node s (a1, JStr ''not-required'') ?s2" if "\<not> truthy (fld node ''approval'')"
        unfolding approval_outcome_def using a1 s2 that
        by (auto simp: approvals_added_def intro!: exI [of _ "[]"])
      moreover note runs_new_approval [OF inj rdy s none mem refl, of a1 ?s2]
      ultimately show "runs (if \<not> truthy (fld node ''approval'') then ret (a1, JStr ''not-required'')
      else bindS (request_approval w a1 (fld node ''approval'') ?d) (\<lambda>record.
        thenS (log w ''approval-record'' record) (bindS (liftE (getitem record ''status'')) (\<lambda>st.
          if st \<noteq> JStr ''granted'' then bindS (move w a1 BLOCKED (''approval-'' @ as_str st)) (\<lambda>a2.
            thenS (log w ''node-attempt'' a2) (ret (a2, st)))
          else ret (a1, st))))) ?s2 (approval_outcome w node s)"
        using a0(3) a1 by simp
    qed
  qed
  then show ?thesis
    unfolding prepare_approval_def Let_def runs_bind [of "reads ledger"] runs_reads
      runs_bind [of "liftE (latest_attempt (node_attempts (ledger s)) (JStr (node_id node)))"] latest runs_liftE_Inr
    by (simp only: approval_for_attempt_def option.case runs_bind [of "liftE (Inr _)"] runs_liftE_Inr cap bindE_Inr
        lookup_json_def json.case prod.case runs_bind [of "ret None"] runs_ret)
qed

section \<open>The body of the loop over the nodes\<close>

definition upstream_ok :: "NodeStatus list \<Rightarrow> bool" where
  "upstream_ok incoming \<longleftrightarrow> list_all (\<lambda>st. st \<in> {PASSED, SKIPPED}) incoming"

lemma node_effect_mono: "node_effect w node False s r s' \<Longrightarrow> node_effect w node b s r s'"
  unfolding node_effect_def by blast

lemma gate_entry_mono: "gate_entry A r \<Longrightarrow> A \<subseteq> B \<Longrightarrow> gate_entry B r"
  unfolding gate_entry_def by (elim exE conjE) (intro exI conjI, assumption, erule (1) subsetD [rotated], assumption)

lemma loop_effect:
  assumes added: "approvals_added s s1 apps" and apps: "\<forall>r \<in> set apps. gate_entry {attempt_name w u} r"
    "length apps \<le> (if truthy (fld node ''approval'') then 1 else 0)"
    and typed: "node_typed node" and res: "node_result w node 0 u (max_attempts node * attempt_budget node) s1 r s'"
  shows "node_effect w node True s r s'"
proof -
  obtain new where new: "new \<noteq> []" "attempt_key (hd new) = attempt_name w u" "has_status (last new) (fst r)"
      "synced w s'" "snd r = length (resource_events (ledger s'))" "grows (node_id node) (Suc 0) s1 s' new []"
      "event_count (ledger s') \<le> event_count (ledger s1) + max_attempts node * attempt_budget node"
      "0 + length new \<le> max_attempts node"
    using res unfolding node_result_def by blast
  have "{attempt_name w u} \<subseteq> attempt_key ` set new" using new(1,2) by (metis hd_in_set imageI empty_subsetI insert_subset)
  then have "\<forall>r \<in> set apps. gate_entry (attempt_key ` set new) r"
    using apps(1) gate_entry_mono by blast
  moreover have "int (event_count (ledger s')) \<le> int (event_count (ledger s)) + node_event_budget node"
  proof -
    let ?m = "max_attempts node * attempt_budget node"
    have "event_count (ledger s') \<le> event_count (ledger s) + length apps + ?m"
      using new(7) added by (simp add: approvals_added_def)
    also have "\<dots> \<le> event_count (ledger s) + (?m + (if truthy (fld node ''approval'') then 2 else 0))"
      using apps(2) by (simp split: if_splits)
    finally show ?thesis
      unfolding node_event_budget_nat [OF typed] of_nat_add [symmetric] by (simp only: of_nat_le_iff)
  qed
  moreover have "grows (node_id node) 1 s s' new apps" using approvals_added_grows [OF added new(6)] by simp
  ultimately show ?thesis unfolding node_effect_def using new by (intro exI [of _ new] exI [of _ apps]) simp
qed

context quiet_hooks
begin

lemma runs_run_node:
  assumes inj: "inj (uuid_hex w)" and fresh: "\<not> resume cfg" and rdy: "node_ready w cfg node" and fit: "fit node"
    and s: "synced w s"
    and none: "node_numbers (node_id node) (node_attempts (ledger s)) = counted 1 0"
    and mem: "int (event_count (ledger s)) + node_event_budget node \<le> int MAX_LEDGER_EVENTS"
    and c: "c = length (resource_events (ledger s))" and latest: "keyed_get latest (JStr (node_id node)) = None"
  shows "runs (run_node w hk cfg plan latest node incoming c) s
    (node_effect w node (upstream_ok incoming \<and> truthy (fld node ''provider'')) s)"
proof -
  have typed: "node_typed node" "time_ok w node" using rdy by (simp_all add: node_ready_def)
  have "\<not> path_set (ledger s)" using s by (simp add: synced_def)
  then have mem1: "in_memory s 1"
    using mem budget_ge [OF typed(1)] by (simp add: in_memory_def attempt_budget_def split: if_splits)
  have mem_app: "in_memory s 2" if "truthy (fld node ''approval'')"
    using mem budget_ge [OF typed(1)] that \<open>\<not> path_set (ledger s)\<close> by (simp add: in_memory_def attempt_budget_def)
  have mem_loop: "in_memory s1 (max_attempts node * attempt_budget node)"
    if "approvals_added s s1 apps" "length apps \<le> (if truthy (fld node ''approval'') then 1 else 0)" for s1 apps
  proof -
    let ?m = "max_attempts node * attempt_budget node"
    have "event_count (ledger s) + (?m + (if truthy (fld node ''approval'') then 2 else 0)) \<le> MAX_LEDGER_EVENTS"
      using mem unfolding node_event_budget_nat [OF typed(1)] of_nat_add [symmetric] by (simp only: of_nat_le_iff)
    then show ?thesis using that s by (simp add: in_memory_def approvals_added_def synced_def split: if_splits)
  qed
  let ?eff = "node_effect w node (upstream_ok incoming \<and> truthy (fld node ''provider'')) s"
  have go: "runs (if snd p \<in> {JStr ''pending'', JStr ''denied'', JStr ''expired''} then ret (BLOCKED, c)
      else attempt_loop (loop_fuel node) w hk plan node (fst p) c) s1 ?eff"
    if p: "approval_outcome w node s p s1" and ok: "upstream_ok incoming" "truthy (fld node ''provider'')" for p s1
  proof (cases "snd p \<in> {JStr ''pending'', JStr ''denied'', JStr ''expired''}")
    case True
    then have "node_effect w node False s (BLOCKED, c) s1" using p c by (simp add: approval_outcome_def)
    then have "?eff (BLOCKED, c) s1" by (rule node_effect_mono)
    then show ?thesis using True by simp
  next
    case False
    with p obtain apps where a: "in_hand w node (Suc 0) (x_uids s) (fst p)" "has_status (fst p) READY"
        and s1: "synced w s1" "fresh_for w s1 (x_uids s)" "approvals_added s s1 apps"
        and apps: "\<forall>r \<in> set apps. gate_entry {attempt_name w (x_uids s)} r"
          "length apps \<le> (if truthy (fld node ''approval'') then 1 else 0)"
      by (auto simp: approval_outcome_def)
    have l1: "resource_events (ledger s1) = resource_events (ledger s)" "node_attempts (ledger s1) = node_attempts (ledger s)"
      using s1(3) by (simp_all add: approvals_added_def)
    have fuel: "max_attempts node \<le> loop_fuel node + 0" by (simp add: max_attempts_def loop_fuel_def)
    have "runs (attempt_loop (loop_fuel node) w hk plan node (fst p) c) s1
        (node_result w node 0 (x_uids s) ((max_attempts node - 0) * attempt_budget node) s1)"
      using runs_attempt_loop [OF inj fit typed a _ s1(1,2) _ max_attempts_pos fuel] none mem_loop [OF s1(3) apps(2)] c l1
      by simp
    then have "runs (attempt_loop (loop_fuel node) w hk plan node (fst p) c) s1 ?eff"
      by (rule runs_mono) (use loop_effect [OF s1(3) apps typed(1)] ok in simp)
    then show ?thesis using False by simp
  qed
  have none_reusable: "runs (reusable_status hk plan node (keyed_get latest (JStr (node_id node)))) s Q = Q None s" for Q
    unfolding latest using nothing_reusable by (rule runs_eq)
  have upstream: "list_ex (\<lambda>st. st \<notin> {PASSED, SKIPPED}) incoming \<longleftrightarrow> \<not> upstream_ok incoming"
    by (simp add: upstream_ok_def list_ex_iff list_all_iff)
  have closed: "runs (thenS (close_attempt w node t r) (ret (t, c))) s (node_effect w node b s)"
    if "t \<in> {BLOCKED, SKIPPED}" for t r b
    unfolding runs_then runs_ret using runs_close_attempt [OF inj typed s none mem1 that, of r]
    by (rule runs_mono) (simp only: c, rule node_effect_mono)
  have prep: "runs (prepare_approval w cfg node) s (approval_outcome w node s)"
    by (rule runs_prepare_approval [OF inj fresh rdy s none mem_app])
  show ?thesis
  proof (cases "upstream_ok incoming \<and> truthy (fld node ''provider'')")
    case True
    have "runs (prepare_approval w cfg node) s (\<lambda>p s1.
        runs (if snd p \<in> {JStr ''pending'', JStr ''denied'', JStr ''expired''} then ret (BLOCKED, c)
          else attempt_loop (loop_fuel node) w hk plan node (fst p) c) s1 ?eff)"
      using prep by (rule runs_mono) (rule go, use True in simp_all)
    then show ?thesis unfolding run_node_def runs_bind none_reusable upstream using True by simp
  next
    case False
    then show ?thesis
      unfolding run_node_def runs_bind none_reusable upstream using closed by (simp add: Let_def)
  qed
qed

end

end
