(* ===== verification/RuntimeOrder.thy ===== *)
theory RuntimeOrder
  imports RuntimeApproval
begin

text \<open>
  The run of all nodes: what the preflight guarantees, the invariant of the loop over the topological
  order, and its preservation by each node.
\<close>

section \<open>What the preflight guarantees\<close>

lemma check_runtime_node_ok:
  "check_runtime_node p node = Inr q \<longleftrightarrow>
     node_typed node \<and> q = p + node_event_budget node \<and> q \<le> MAX_RUNTIME_LEDGER_EVENTS"
  by (auto simp: check_runtime_node_def result_simps Let_def node_typed_def list_ex_iff list_all_iff
      not_less split: if_splits)

lemma check_runtime_nodes_ok:
  "foldE check_runtime_node p nodes = Inr q \<Longrightarrow> p \<le> MAX_RUNTIME_LEDGER_EVENTS \<Longrightarrow>
   (\<forall>n \<in> set nodes. node_typed n) \<and> q = p + sum_list (map node_event_budget nodes) \<and> q \<le> MAX_RUNTIME_LEDGER_EVENTS"
proof (induction nodes arbitrary: p)
  case (Cons a nodes)
  then have a: "node_typed a" "p + node_event_budget a \<le> MAX_RUNTIME_LEDGER_EVENTS"
      "foldE check_runtime_node (p + node_event_budget a) nodes = Inr q"
    by (auto simp: bindE_eq_Inr check_runtime_node_ok)
  from Cons.IH [OF a(3,2)] a(1) show ?case by simp
qed simp

lemma fld_not_obj: "\<not> is_obj v \<Longrightarrow> fld v k = JNull"
  by (cases v) (auto simp: fld_def)

lemma preflight_ok:
  assumes "preflight plan = Inr q"
  shows "distinct (node_ids plan)" "edges_within (node_ids plan) (plan_edges plan)" "acyclic (set (plan_edges plan))"
    "\<forall>n \<in> set (plan_nodes plan). node_typed n" "is_obj plan"
    "q = (if fld plan ''status'' = JStr ''blocked'' then 3 else 2) + sum_list (map node_event_budget (plan_nodes plan))"
    "q \<le> MAX_RUNTIME_LEDGER_EVENTS"
proof -
  let ?nodes = "fld plan ''nodes''" and ?edges = "fld plan ''edges''"
  let ?ids = "map (\<lambda>n. if is_obj n then fld n ''id'' else JNull) (as_list ?nodes)"
  let ?names = "map as_str ?ids"
  obtain visited where o: "is_obj plan" and l: "is_list ?nodes" "is_list ?edges"
    and ids: "\<not> list_ex (\<lambda>i. \<not> is_nonempty_str i) ?ids" "distinct ?names"
    and edges: "\<forall>e \<in> set (as_list ?edges). check_runtime_edge ?names e = Inr ()"
    and visited: "kahn ?names (plan_edges plan) = Inr visited" "length visited = length ?names"
    and nodes: "foldE check_runtime_node (if fld plan ''status'' = JStr ''blocked'' then 3 else 2) (as_list ?nodes) = Inr q"
    using assms by (auto simp: preflight_def bindE_eq_Inr seqE_eq_Inr get_opt_eq_Inr Let_def for_each_eq_Inr)
  show obj: "is_obj plan" by (rule o)
  have names: "?names = node_ids plan"
    by (auto simp: node_ids_def plan_nodes_def node_id_def fld_not_obj)
  note ids(2) edges visited
  then have d: "distinct (node_ids plan)"
    and ev: "\<forall>e \<in> set (as_list ?edges). check_runtime_edge (node_ids plan) e = Inr ()"
    and v: "kahn (node_ids plan) (plan_edges plan) = Inr visited" "length visited = length (node_ids plan)"
    unfolding names by simp_all
  show "distinct (node_ids plan)" by (rule d)
  show w: "edges_within (node_ids plan) (plan_edges plan)"
  proof -
    have "as_str (fld e ''from'') \<in> set (node_ids plan) \<and> as_str (fld e ''to'') \<in> set (node_ids plan)"
      if "e \<in> set (as_list ?edges)" for e
      using ev that by (fastforce simp: check_runtime_edge_def seqE_eq_Inr require_in_eq_Inr split: if_splits)
    then show ?thesis by (auto simp: edges_within_def plan_edges_def)
  qed
  show "acyclic (set (plan_edges plan))" using kahn_complete_iff_acyclic(1) [OF d w v(1)] v(2) by simp
  have "(if fld plan ''status'' = JStr ''blocked'' then 3 else 2 :: int) \<le> MAX_RUNTIME_LEDGER_EVENTS"
    by (simp add: MAX_RUNTIME_LEDGER_EVENTS_def)
  from check_runtime_nodes_ok [OF nodes this]
  show "\<forall>n \<in> set (plan_nodes plan). node_typed n"
    "q = (if fld plan ''status'' = JStr ''blocked'' then 3 else 2) + sum_list (map node_event_budget (plan_nodes plan))"
    "q \<le> MAX_RUNTIME_LEDGER_EVENTS"
    by (simp_all add: plan_nodes_def)
qed

lemma node_by_id_in:
  assumes "n \<in> set (node_ids plan)"
  shows "node_by_id plan n \<in> set (plan_nodes plan)" "node_id (node_by_id plan n) = n"
proof -
  obtain x where x: "find (\<lambda>x. node_id x = n) (plan_nodes plan) = Some x"
    using assms by (cases "find (\<lambda>x. node_id x = n) (plan_nodes plan)") (auto simp: node_ids_def find_None_iff)
  then have "node_by_id plan n = x" by (simp add: node_by_id_def)
  moreover have "x \<in> set (plan_nodes plan)" "node_id x = n" using x by (auto simp: find_Some_iff)
  ultimately show "node_by_id plan n \<in> set (plan_nodes plan)" "node_id (node_by_id plan n) = n"
    by simp_all
qed

lemma node_by_id_node:
  assumes "distinct (node_ids plan)" and "x \<in> set (plan_nodes plan)"
  shows "node_by_id plan (node_id x) = x"
proof -
  have "inj_on node_id (set (plan_nodes plan))" using assms(1) by (simp add: node_ids_def distinct_map)
  moreover have "node_id x \<in> set (node_ids plan)" using assms(2) by (simp add: node_ids_def)
  ultimately show ?thesis using node_by_id_in [of "node_id x" plan] assms(2) by (meson inj_onD)
qed

section \<open>Statuses of the predecessors\<close>

lemma preds_of_set: "preds_of (dict_set k xs p) k' = (if k' = k then xs else preds_of p k')"
  by (simp add: preds_of_def dict_get_set)

lemma record_successors_set:
  "set (preds_of (record_successors plan n st p) k) =
     set (preds_of p k) \<union> (if (n, k) \<in> set (plan_edges plan) then {st} else {})"
proof -
  have "set (preds_of (fold (\<lambda>e p. if fst e = n then dict_set (snd e) (preds_of p (snd e) @ [st]) p else p) es p) k) =
      set (preds_of p k) \<union> (if (n, k) \<in> set es then {st} else {})" for es
    by (induction es arbitrary: p) (auto simp: preds_of_set)
  then show ?thesis by (simp add: record_successors_def)
qed

definition latest_is :: "json list \<Rightarrow> string \<Rightarrow> NodeStatus \<Rightarrow> bool" where
  "latest_is as n st \<longleftrightarrow> (\<exists>a. latest_of as n = Some a \<and> has_status a st)"

lemma latest_is_unique: "latest_is as n st \<Longrightarrow> latest_is as n st' \<Longrightarrow> st = st'"
  by (auto simp: latest_is_def has_status_def status_value_inj)

lemma latest_of_append:
  assumes "\<forall>a \<in> set new. of_node n a" and "new \<noteq> []"
  shows "latest_of (as @ new) n = Some (last new)" "m \<noteq> n \<Longrightarrow> latest_of (as @ new) m = latest_of as m"
proof -
  have "filter (of_node n) new = new" using assms(1) by (simp add: filter_id_conv)
  then show "latest_of (as @ new) n = Some (last new)" using assms(2) by (simp add: latest_of_def Let_def)
  assume "m \<noteq> n"
  then have "filter (of_node m) new = []" using assms(1) by (auto simp: filter_empty_conv of_node_def)
  then show "latest_of (as @ new) m = latest_of as m" by (simp add: latest_of_def Let_def)
qed

section \<open>The invariant of the loop\<close>

text \<open>
  After the nodes \<open>D\<close>: the attempts are those of \<open>D\<close>, numbered from 1; the statuses handed to the
  successors are the latest ones; every log and approval entry belongs to a recorded attempt; an
  attempt ran only when the predecessors of its node had passed or were skipped.
\<close>

definition owned :: "run_ledger \<Rightarrow> bool" where
  "owned l \<longleftrightarrow> (\<forall>e \<in> set (resource_events l). log_entry (attempt_key ` set (node_attempts l)) e) \<and>
     (\<forall>r \<in> set (approval_records l). gate_entry (attempt_key ` set (node_attempts l)) r)"

definition numbered :: "run_ledger \<Rightarrow> string list \<Rightarrow> bool" where
  "numbered l D \<longleftrightarrow> (\<forall>a \<in> set (node_attempts l). node_of a \<in> set D) \<and>
     (\<forall>n \<in> set D. \<exists>m. 0 < m \<and> node_numbers n (node_attempts l) = counted 1 m)"

definition ran_after_predecessors :: "json \<Rightarrow> json list \<Rightarrow> bool" where
  "ran_after_predecessors plan as \<longleftrightarrow>
     (\<forall>a \<in> set as. ran a \<longrightarrow> truthy (fld (node_by_id plan (node_of a)) ''provider'') \<and>
        (\<forall>m. (m, node_of a) \<in> set (plan_edges plan) \<longrightarrow> latest_is as m PASSED \<or> latest_is as m SKIPPED))"

definition attempts_bounded :: "json \<Rightarrow> json list \<Rightarrow> bool" where
  "attempts_bounded plan as \<longleftrightarrow>
     (\<forall>n. length (filter (of_node n) as) \<le> max_attempts (node_by_id plan n))"

definition progress :: "world \<Rightarrow> json \<Rightarrow> run_ledger \<Rightarrow> preds \<times> nat \<Rightarrow> string list \<Rightarrow> 'h xstate \<Rightarrow> bool" where
  "progress w plan l0 loc D s \<longleftrightarrow>
     synced w s \<and> snd loc = length (resource_events (ledger s)) \<and> numbered (ledger s) D \<and> owned (ledger s) \<and>
     (\<forall>k. set (preds_of (fst loc) k) =
        {st. \<exists>m \<in> set D. (m, k) \<in> set (plan_edges plan) \<and> latest_is (node_attempts (ledger s)) m st}) \<and>
     ran_after_predecessors plan (node_attempts (ledger s)) \<and>
     attempts_bounded plan (node_attempts (ledger s)) \<and> rest_of (ledger s) = rest_of l0 \<and>
     int (event_count (ledger s)) \<le> int (event_count l0) + sum_list (map (\<lambda>n. node_event_budget (node_by_id plan n)) D)"

lemma progress_latest:
  assumes "progress w plan l0 loc D s" and "m \<in> set D"
  shows "\<exists>st. latest_is (node_attempts (ledger s)) m st"
proof -
  let ?as = "node_attempts (ledger s)"
  obtain k where "0 < k" "node_numbers m ?as = counted 1 k"
    using assms by (auto simp: progress_def numbered_def)
  then have "filter (of_node m) ?as \<noteq> []" by (auto simp: node_numbers_def counted_def)
  then obtain a where a: "latest_of ?as m = Some a" by (simp add: latest_of_def Let_def)
  then have "well_formed_attempt a" using latest_of_in assms(1) by (simp add: progress_def synced_def)
  then show ?thesis using wf_status a by (auto simp: latest_is_def)
qed

lemma node_effect_progress:
  assumes p: "progress w plan l0 loc D s" and n: "n \<notin> set D" "n \<in> set (node_ids plan)"
    and preds: "\<forall>m. (m, n) \<in> set (plan_edges plan) \<longrightarrow> m \<in> set D"
    and self: "(n, n) \<notin> set (plan_edges plan)"
    and e: "node_effect w (node_by_id plan n) (upstream_ok (preds_of (fst loc) n) \<and>
      truthy (fld (node_by_id plan n) ''provider'')) s r s'"
    and later: "\<forall>m \<in> set D. (n, m) \<notin> set (plan_edges plan)"
  shows "progress w plan l0 (record_successors plan n (fst r) (fst loc), snd r) (D @ [n]) s'"
proof -
  let ?as = "node_attempts (ledger s)" and ?as' = "node_attempts (ledger s')"
  let ?ok = "upstream_ok (preds_of (fst loc) n) \<and> truthy (fld (node_by_id plan n) ''provider'')"
  have id: "node_id (node_by_id plan n) = n" using node_by_id_in(2) [OF n(2)] .
  obtain new apps where new: "new \<noteq> []" "has_status (last new) (fst r)" "synced w s'"
      "snd r = length (resource_events (ledger s'))" "grows n 1 s s' new apps"
      "\<forall>r \<in> set apps. gate_entry (attempt_key ` set new) r" "\<not> ?ok \<longrightarrow> (\<forall>a \<in> set new. \<not> ran a)"
      "int (event_count (ledger s')) \<le> int (event_count (ledger s)) + node_event_budget (node_by_id plan n)"
      "length new \<le> max_attempts (node_by_id plan n)"
    using e unfolding node_effect_def id by blast
  from new(5) obtain evs where g: "?as' = ?as @ new" "approval_records (ledger s') = approval_records (ledger s) @ apps"
      "\<forall>a \<in> set new. of_node n a" "map (\<lambda>a. fld a ''attempt_number'') new = counted 1 (length new)"
      "sched_events (x_sched s') = sched_events (x_sched s) @ evs"
      "\<forall>e \<in> set evs. log_entry (attempt_key ` set new) e" "rest_of (ledger s') = rest_of (ledger s)"
    unfolding grows_def by blast
  have evs: "resource_events (ledger s') = resource_events (ledger s) @ evs"
    using g(5) new(3) p by (simp add: synced_def progress_def)
  have nof: "\<forall>a \<in> set new. node_of a = n" using g(3) by (auto simp: of_node_def node_of_def)
  note latest = latest_of_append [OF g(3) new(1), where as = ?as]
  have is_n: "latest_is ?as' n st \<longleftrightarrow> st = fst r" for st
    using latest(1) new(2) by (auto simp: latest_is_def g(1) has_status_def status_value_inj)
  have is_m: "m \<noteq> n \<Longrightarrow> latest_is ?as' m st \<longleftrightarrow> latest_is ?as m st" for m st
    using latest(2) by (simp add: latest_is_def g(1))
  have none: "filter (of_node n) ?as = []"
    using p n(1) by (auto simp: progress_def numbered_def filter_empty_conv of_node_def node_of_def)
  have numbered: "numbered (ledger s') (D @ [n])"
  proof -
    have "node_numbers n ?as' = counted 1 (length new)"
      using g(3,4) none by (simp add: g(1) node_numbers_def filter_id_conv)
    moreover have "node_numbers m ?as' = node_numbers m ?as" if "m \<noteq> n" for m
      using g(3) that by (auto simp: g(1) node_numbers_def filter_empty_conv of_node_def)
    ultimately show ?thesis
    proof -
      assume own: "node_numbers n ?as' = counted 1 (length new)"
        and other: "\<And>m. m \<noteq> n \<Longrightarrow> node_numbers m ?as' = node_numbers m ?as"
      have old: "numbered (ledger s) D" using p by (simp add: progress_def)
      have "\<exists>k. 0 < k \<and> node_numbers m ?as' = counted 1 k" if "m \<in> set (D @ [n])" for m
      proof (cases "m = n")
        case True
        then show ?thesis using own new(1) by (intro exI [of _ "length new"]) simp
      next
        case False
        then show ?thesis using other old that by (auto simp: numbered_def)
      qed
      then show ?thesis using old nof by (auto simp: numbered_def g(1))
    qed
  qed
  have owned: "owned (ledger s')"
  proof -
    have sub: "attempt_key ` set ?as \<subseteq> attempt_key ` set ?as'" "attempt_key ` set new \<subseteq> attempt_key ` set ?as'"
      by (auto simp: g(1))
    show ?thesis
      using p g(6) new(6) log_entry_mono [OF _ sub(1)] log_entry_mono [OF _ sub(2)]
        gate_entry_mono [OF _ sub(1)] gate_entry_mono [OF _ sub(2)]
      unfolding owned_def progress_def evs g(2) by (simp add: ball_Un)
  qed
  have preds': "set (preds_of (record_successors plan n (fst r) (fst loc)) k) =
      {st. \<exists>m \<in> set (D @ [n]). (m, k) \<in> set (plan_edges plan) \<and> latest_is ?as' m st}" for k
  proof -
    have "set (preds_of (fst loc) k) = {st. \<exists>m \<in> set D. (m, k) \<in> set (plan_edges plan) \<and> latest_is ?as m st}"
      using p by (simp add: progress_def)
    moreover have "latest_is ?as m st \<longleftrightarrow> latest_is ?as' m st" if "m \<in> set D" for m st
      using is_m [of m st] that n(1) by auto
    ultimately show ?thesis using is_n by (auto simp: record_successors_set)
  qed
  have safe: "ran_after_predecessors plan ?as'"
  proof -
    have "truthy (fld (node_by_id plan n) ''provider'') \<and>
        (\<forall>m. (m, n) \<in> set (plan_edges plan) \<longrightarrow> latest_is ?as' m PASSED \<or> latest_is ?as' m SKIPPED)"
      if "a \<in> set new" "ran a" for a
    proof -
      have ok: ?ok using new(7) that by blast
      have "latest_is ?as m PASSED \<or> latest_is ?as m SKIPPED" if m: "(m, n) \<in> set (plan_edges plan)" for m
      proof -
        have "m \<in> set D" using preds m by blast
        then obtain st where st: "latest_is ?as m st"
          using progress_latest [OF p] by blast
        then have "st \<in> set (preds_of (fst loc) n)" using p \<open>m \<in> set D\<close> m by (auto simp: progress_def)
        then have "st \<in> {PASSED, SKIPPED}" using ok by (auto simp: upstream_ok_def list_all_iff)
        with st show ?thesis by auto
      qed
      moreover have "m \<noteq> n" if "(m, n) \<in> set (plan_edges plan)" for m using self that by blast
      ultimately show ?thesis using ok is_m by blast
    qed
    moreover have "(m, node_of a) \<in> set (plan_edges plan) \<longrightarrow> m \<noteq> n" if "a \<in> set ?as" for a m
      using that p later by (auto simp: progress_def numbered_def)
    ultimately show ?thesis
      using p nof is_m unfolding ran_after_predecessors_def progress_def g(1) by (simp add: ball_Un)
  qed
  have "attempts_bounded plan ?as'"
  proof -
    have "filter (of_node n) new = new" "\<And>m. m \<noteq> n \<Longrightarrow> filter (of_node m) new = []"
      using g(3) by (auto simp: filter_id_conv filter_empty_conv of_node_def)
    then have "length (filter (of_node m) ?as') \<le> max_attempts (node_by_id plan m)" for m
      using p none new(9) by (cases "m = n") (simp_all add: g(1) progress_def attempts_bounded_def)
    then show ?thesis by (simp add: attempts_bounded_def)
  qed
  then show ?thesis
    unfolding progress_def using new(3,4,8) numbered owned preds' safe g(7) p by (simp add: progress_def)
qed

end
