(* ===== verification/RuntimeRun.thy ===== *)
theory RuntimeRun
  imports RuntimeOrder
begin

text \<open>
  A fresh run in memory returns a ledger that the ledger's validator accepts, within the projected
  number of events, with the guarantees of the loop's invariant.
\<close>

section \<open>The validator on the run's ledger\<close>

lemma py_eq_JInt [simp]: "py_eq (JInt a) (JInt b) = (a = b)"
  by (simp add: py_eq.simps)

lemma py_distinct_strings: "py_distinct py_eq (map JStr ss) = distinct ss"
  by (induction ss) auto

lemma py_distinct_pairs:
  "py_distinct pair_eq (map (\<lambda>p. (JStr (fst p), JInt (snd p))) ps) = distinct ps"
  by (induction ps) (auto simp: pair_eq_def)

lemma distinct_groups:
  "(\<And>n. distinct (map g (filter (\<lambda>a. f a = n) xs))) \<Longrightarrow> distinct (map (\<lambda>a. (f a, g a)) xs)"
proof (induction xs)
  case (Cons a xs)
  have "distinct (map g (filter (\<lambda>b. f b = n) xs))" for n
    using Cons.prems [of n] by (simp split: if_splits)
  moreover have "g a \<notin> g ` set (filter (\<lambda>b. f b = f a) xs)" using Cons.prems [of "f a"] by simp
  ultimately show ?case using Cons.IH by (auto simp: image_iff)
qed simp

lemma increasing_ints:
  "sorted_wrt (<) xs \<Longrightarrow> increasing_unique (map JInt xs) = Inr True"
proof -
  assume s: "sorted_wrt (<) xs"
  have "ascending (map JInt xs) = Inr True"
    using s by (induction xs rule: induct_list012) auto
  moreover have "py_distinct py_eq (map JInt xs)"
    using s by (induction xs) auto
  ultimately show ?thesis
    by (simp add: increasing_unique_def all_unique_def list_all_iff hashable_def)
qed

lemma counted_sorted: "counted k m = map JInt (map int [k..<k + m])" "sorted_wrt (<) (map int [k..<k + m])"
  by (simp_all add: counted_def comp_def sorted_wrt_map)

definition node_number :: "json \<Rightarrow> int" where
  "node_number a = as_int (fld a ''attempt_number'')"

lemma wf_attempt_fields:
  assumes "well_formed_attempt a"
  shows "fld a ''attempt_id'' = JStr (attempt_key a)" "fld a ''node_id'' = JStr (node_of a)"
    "fld a ''attempt_number'' = JInt (node_number a)"
  using assms
  by (auto simp: well_formed_attempt_def attempt_header_ok_def attempt_key_def node_of_def node_number_def
      is_str_iff is_strict_int_iff)

lemma ledger_value_fields [simp]:
  "is_obj (ledger_value l)"
  "fld (ledger_value l) ''node_attempts'' = JList (node_attempts l)"
  "fld (ledger_value l) ''resource_events'' = JList (resource_events l)"
  "fld (ledger_value l) ''approval_records'' = JList (approval_records l)"
  "fld (ledger_value l) ''final_status'' = final_status l"
  "fld_or (ledger_value l) ''package_lock_hash'' d = Ledger.package_lock_hash l"
  "fld_or (ledger_value l) ''artifact_hashes'' d = JList (artifact_hashes l)"
  "fld_or (ledger_value l) ''adapter_outcomes'' d = JList (adapter_outcomes l)"
  "fld_or (ledger_value l) ''evidence'' d = JList (evidence l)"
  by (simp_all add: ledger_value_def fld_def fld_or_def)

lemma ledger_value_base:
  "base (ledger_value l) [''run_id'', ''plan_fingerprint'', ''node_attempts'', ''resource_events'',
     ''approval_records'', ''final_status''] k = Inr ()"
  by (simp add: base_eq_Inr ledger_value_def has_key_def fld_def)

lemma anyE_False: "(\<And>x. x \<in> set xs \<Longrightarrow> p x = Inr False) \<Longrightarrow> anyE p xs = Inr False"
  by (induction xs) auto

lemma numbers_of_node_eq:
  assumes "\<forall>a \<in> set as. well_formed_attempt a"
  shows "numbers_of_node as (JStr n) = node_numbers n as"
proof -
  have "filter (\<lambda>a. py_eq (fld a ''node_id'') (JStr n)) as = filter (of_node n) as"
    by (rule filter_cong) (use assms wf_attempt_fields(2) in \<open>auto simp: of_node_def\<close>)
  then show ?thesis by (simp add: numbers_of_node_def node_numbers_def)
qed

lemma log_entry_valid:
  assumes "log_entry ks e"
  shows "validate_resource_event e = Inr ()" "\<exists>a \<in> ks. fld e ''attempt_id'' = JStr a"
proof -
  obtain a k act n where e: "e = resource_event a k act n" "a \<in> ks" "act \<in> set event_actions"
    using assms unfolding log_entry_def by blast
  then show "\<exists>a \<in> ks. fld e ''attempt_id'' = JStr a" by auto
  have "base e [''sequence'', ''attempt_id'', ''resource_key'', ''action''] k' = Inr ()" for k'
    unfolding e(1) by (simp add: base_eq_Inr resource_event_def has_key_def fld_def)
  moreover have "require_in (JStr act) event_actions err = Inr ()" for err
    unfolding require_in_eq_Inr using e(3) by blast
  ultimately show "validate_resource_event e = Inr ()"
    unfolding validate_resource_event_def e(1) resource_event_fields event_actions_def [symmetric] by simp
qed

lemma gate_entry_valid:
  assumes "gate_entry ks r"
  shows "validate_approval_record r = Inr ()" "\<exists>a \<in> ks. fld r ''attempt_id'' = JStr a"
proof -
  obtain a act re sc h st where r: "r = approval_record a act re sc h st" "a \<in> ks"
      "st \<in> set [''pending'', ''granted'', ''denied'', ''expired'']"
    using assms unfolding gate_entry_def by blast
  from r(1,2) show "\<exists>a \<in> ks. fld r ''attempt_id'' = JStr a" by auto
  have "st \<in> set [''pending'', ''granted'', ''denied'', ''expired'', ''revoked'']"
    using r(3) by (rule rev_subsetD) simp
  then show "validate_approval_record r = Inr ()" unfolding r(1) by (rule approval_record_valid)
qed

lemma ledger_valid:
  assumes wf: "\<forall>a \<in> set (node_attempts l). well_formed_attempt a" and snap: "one_snapshot l" and own: "owned l"
    and nums: "\<forall>a \<in> set (node_attempts l). \<exists>m. node_numbers (node_of a) (node_attempts l) = counted 1 m"
    and seqs: "map (\<lambda>e. fld e ''sequence'') (resource_events l) = map JInt [i .. j]"
    and plain: "Ledger.package_lock_hash l = JStr []" "artifact_hashes l = []" "adapter_outcomes l = []" "evidence l = []"
  shows "validate_run_ledger (ledger_value l) = Inr ()"
proof -
  let ?as = "node_attempts l"
  have ids: "map (\<lambda>a. fld a ''attempt_id'') ?as = map JStr (map attempt_key ?as)"
    using wf wf_attempt_fields(1) by simp
  have uniq: "all_unique (map (\<lambda>a. fld a ''attempt_id'') ?as) = Inr True"
    unfolding ids all_unique_def using snap py_distinct_strings [of "map attempt_key ?as"]
    by (simp add: one_snapshot_def list_all_iff hashable_def comp_def)
  have pairs: "map (\<lambda>a. (fld a ''node_id'', fld a ''attempt_number'')) ?as =
      map (\<lambda>p. (JStr (fst p), JInt (snd p))) (map (\<lambda>a. (node_of a, node_number a)) ?as)"
    using wf wf_attempt_fields(2,3) by simp
  have "distinct (map node_number (filter (\<lambda>a. node_of a = n) ?as))" for n
  proof (cases "\<exists>a \<in> set ?as. node_of a = n")
    case True
    then obtain m where m: "node_numbers n ?as = counted 1 m" using nums by blast
    have "filter (\<lambda>a. node_of a = n) ?as = filter (of_node n) ?as"
      by (rule filter_cong) (use wf of_node_iff in auto)
    then have "map JInt (map node_number (filter (\<lambda>a. node_of a = n) ?as)) = node_numbers n ?as"
      using wf wf_attempt_fields(3) by (auto simp: node_numbers_def)
    then have "map JInt (map node_number (filter (\<lambda>a. node_of a = n) ?as)) = map JInt (map int [1..<1 + m])"
      using m by (simp add: counted_sorted)
    then have "map node_number (filter (\<lambda>a. node_of a = n) ?as) = map int [1..<1 + m]"
      by (rule map_injective) (simp add: inj_def)
    then show ?thesis by (simp add: distinct_map)
  qed (simp add: filter_empty_conv)
  then have "distinct (map (\<lambda>a. (node_of a, node_number a)) ?as)" by (rule distinct_groups)
  then have pairs_unique: "all_pairs_unique (map (\<lambda>a. (fld a ''node_id'', fld a ''attempt_number'')) ?as) = Inr True"
    unfolding pairs all_pairs_unique_def py_distinct_pairs by (simp add: list_all_iff hashable_def)
  have member: "py_member (JStr k) (map (\<lambda>a. fld a ''attempt_id'') ?as) = Inr True"
    if "k \<in> attempt_key ` set ?as" for k
    using that unfolding ids py_member_def by (auto simp: hashable_def)
  have ev: "log_entry (attempt_key ` set ?as) e" if "e \<in> set (resource_events l)" for e
    using own that by (simp add: owned_def)
  have ap: "gate_entry (attempt_key ` set ?as) r" if "r \<in> set (approval_records l)" for r
    using own that by (simp add: owned_def)
  have known: "mapR Not (py_member x (map (\<lambda>a. fld a ''attempt_id'') ?as)) = Inr False"
    if "\<exists>k \<in> attempt_key ` set ?as. x = JStr k" for x
    using that member by auto
  have events: "for_each validate_resource_event (resource_events l) = Inr ()"
    "anyE (\<lambda>e. mapR Not (py_member (fld e ''attempt_id'') (map (\<lambda>a. fld a ''attempt_id'') ?as))) (resource_events l) = Inr False"
    using log_entry_valid [OF ev] by (simp add: for_each_eq_Inr, intro anyE_False known) blast
  have approvals: "for_each validate_approval_record (approval_records l) = Inr ()"
    "anyE (\<lambda>r. mapR Not (py_member (fld r ''attempt_id'') (map (\<lambda>a. fld a ''attempt_id'') ?as))) (approval_records l) = Inr False"
    using gate_entry_valid [OF ap] by (simp add: for_each_eq_Inr, intro anyE_False known) blast
  have "sorted_wrt (<) [i .. j]" by simp
  then have "increasing_unique (map (\<lambda>e. fld e ''sequence'') (resource_events l)) = Inr True"
    unfolding seqs by (rule increasing_ints)
  moreover have "anyE (\<lambda>a. mapR Not (increasing_unique (numbers_of_node ?as (fld a ''node_id'')))) ?as = Inr False"
  proof (rule anyE_False)
    fix a
    assume a: "a \<in> set ?as"
    then obtain m where m: "node_numbers (node_of a) ?as = counted 1 m" using nums by blast
    have "numbers_of_node ?as (fld a ''node_id'') = counted 1 m"
      using numbers_of_node_eq [OF wf] wf_attempt_fields(2) wf a m by simp
    then show "mapR Not (increasing_unique (numbers_of_node ?as (fld a ''node_id''))) = Inr False"
      using increasing_ints [OF counted_sorted(2) [of 1 m]] by (simp add: counted_sorted(1))
  qed
  moreover have "for_each validate_node_attempt ?as = Inr ()"
    using wf well_formed_attempt_valid by (simp add: for_each_eq_Inr)
  ultimately show ?thesis
    unfolding validate_run_ledger_def ledger_value_base ledger_value_fields plain
    by (simp add: events approvals uniq pairs_unique Let_def reject_when_def)
qed

section \<open>Opening and closing the ledger\<close>

definition started_ledger :: "world \<Rightarrow> nat \<Rightarrow> json \<Rightarrow> run_ledger" where
  "started_ledger w uid plan =
     (new_ledger False (fld plan ''fingerprint'') (JStr []) (JStr []) (run_id_or_new w uid JNull))\<lparr>event_count := 1\<rparr>"

definition plain_plan :: "json \<Rightarrow> bool" where
  "plain_plan plan \<longleftrightarrow> is_obj plan \<and> has_key plan ''fingerprint'' \<and> is_str (fld plan ''fingerprint'') \<and>
     \<not> has_key plan ''package_lock_hash''"

lemma plain_plan_lock: "plain_plan plan \<Longrightarrow> lock_hash_of plan = JStr [] \<and> fld plan ''package_lock_hash'' = JNull"
  by (auto simp: plain_plan_def lock_hash_of_def fld_or_no_key) (simp add: fld_def has_key_def)

lemma runs_open_fresh:
  assumes "plain_plan plan" and "\<not> has_path cfg"
    and "\<And>s'. ledger s' = started_ledger w (x_uids s) plan \<Longrightarrow> x_sched s' = x_sched s \<Longrightarrow> Q () s'"
  shows "runs (open_fresh w cfg plan) s Q"
proof -
  let ?l0 = "new_ledger False (fld plan ''fingerprint'') (JStr []) (JStr []) (run_id_or_new w (x_uids s) JNull)"
  obtain f where f: "fld plan ''fingerprint'' = JStr f" "getitem plan ''fingerprint'' = Inr (JStr f)"
    using assms(1) by (auto simp: plain_plan_def getitem_eq_Inr is_str_iff)
  have header: "plan_header plan = Inr (JObj [(''package_lock_hash'', JStr []), (''plan_fingerprint'', JStr f)])"
    using plain_plan_lock [OF assms(1)] by (simp add: plan_header_def f(2))
  let ?s1 = "(s\<lparr>x_uids := x_uids s + 1\<rparr>)\<lparr>x_store := (x_store (s\<lparr>x_uids := x_uids s + 1\<rparr>))\<lparr>led := ?l0\<rparr>\<rparr>"
  have l1: "ledger ?s1 = ?l0" by (simp add: ledger_def)
  have "runs (log w ''run-started'' (JObj [(''package_lock_hash'', JStr []), (''plan_fingerprint'', JStr f)])) ?s1 Q"
  proof (rule runs_log [where l = "?l0\<lparr>event_count := 1\<rparr>"])
    show "in_memory ?s1 1" unfolding in_memory_def l1 by (simp add: new_ledger_def MAX_LEDGER_EVENTS_def)
    show "''run-started'' \<in> set supported_events" by (simp add: supported_events_def)
    show "view_event (JStr ''run-started'') (JObj [(''package_lock_hash'', JStr []), (''plan_fingerprint'', JStr f)])
        ((ledger ?s1)\<lparr>event_count := event_count (ledger ?s1) + 1\<rparr>) = Inr (?l0\<lparr>event_count := 1\<rparr>)"
      unfolding l1 by (simp add: view_event_def new_ledger_def f(1))
    show "Q () (upd_ledger (\<lambda>_. ?l0\<lparr>event_count := 1\<rparr>) ?s1)"
      by (rule assms(3)) (simp_all add: started_ledger_def)
  qed
  then show ?thesis
    using plain_plan_lock [OF assms(1)] assms(2)
    by (simp add: open_fresh_def runs_liftE f header set_ledger_def)
qed

lemma runs_finish:
  assumes "in_memory s 1"
    and "validate_run_ledger (ledger_value ((ledger s)\<lparr>event_count := event_count (ledger s) + 1,
      final_status := JStr st\<rparr>)) = Inr ()"
    and "\<And>s'. ledger s' = (ledger s)\<lparr>event_count := event_count (ledger s) + 1, final_status := JStr st\<rparr> \<Longrightarrow>
      x_sched s' = x_sched s \<Longrightarrow> Q (ledger_value (ledger s')) s'"
  shows "runs (finish w st) s Q"
proof -
  let ?l = "(ledger s)\<lparr>event_count := event_count (ledger s) + 1, final_status := JStr st\<rparr>"
  let ?st = "\<lparr>led = ?l, disk = disk (x_store s)\<rparr>"
  have "append_event w (JStr ''run-finalized'') (JObj [(''status'', JStr st)]) (x_store s) = (Inr (), ?st)"
    using assms(1)
    by (simp add: append_event_ok not_in_strings_def in_strings_def hashable_def supported_events_def
        in_memory_def ledger_def view_event_def)
  then have "finalize w (JStr st) (x_store s) = (Inr (ledger_value ?l), ?st)"
    using assms(2) by (simp add: finalize_def thenS_def bindS_def reads_def liftE_def ret_def)
  then have "finish w st s = (Inr (ledger_value ?l), s\<lparr>x_store := ?st\<rparr>)"
    by (simp add: finish_def on_store_def)
  moreover have "Q (ledger_value (ledger (s\<lparr>x_store := ?st\<rparr>))) (s\<lparr>x_store := ?st\<rparr>)"
    by (rule assms(3)) (simp_all add: ledger_def)
  ultimately show ?thesis by (simp add: runs_def ledger_def)
qed

section \<open>The whole run\<close>

locale closed_hooks = quiet_hooks hk fit for hk :: "'h hooks" and fit +
  assumes no_extra_budget: "additional_event_budget hk plan = Inr 0"
    and adjust_total: "\<exists>st'. adjust_final_status hk st l = Inr st'"

definition run_ready :: "world \<Rightarrow> run_config \<Rightarrow> json \<Rightarrow> bool" where
  "run_ready w cfg plan \<longleftrightarrow> inj (uuid_hex w) \<and> \<not> resume cfg \<and> \<not> has_path cfg \<and>
     Executor.package_lock cfg = None \<and> plain_plan plan \<and> fld plan ''status'' \<noteq> JStr ''blocked'' \<and>
     (\<forall>n \<in> set (plan_nodes plan). node_ready w cfg n)"

text \<open>What the run promises of the ledger it returns.\<close>

definition run_promise :: "'h hooks \<Rightarrow> json \<Rightarrow> int \<Rightarrow> run_ledger \<Rightarrow> bool" where
  "run_promise hk plan projected l \<longleftrightarrow>
     validate_run_ledger (ledger_value l) = Inr () \<and> int (event_count l) \<le> projected \<and>
     numbered l (node_ids plan) \<and> ran_after_predecessors plan (node_attempts l) \<and>
     attempts_bounded plan (node_attempts l) \<and>
     (\<exists>ss l'. (\<forall>st. st \<in> set ss \<longleftrightarrow> (\<exists>n. latest_is (node_attempts l) n st)) \<and>
        adjust_final_status hk (final_of plan ss) l' = Inr (as_str (final_status l)))"

lemma sum_order:
  assumes "distinct (node_ids plan)" and "distinct order" and "set order = set (node_ids plan)"
  shows "sum_list (map (\<lambda>n. node_event_budget (node_by_id plan n)) order) = sum_list (map node_event_budget (plan_nodes plan))"
proof -
  let ?f = "\<lambda>n. node_event_budget (node_by_id plan n)"
  have "sum_list (map ?f order) = sum ?f (set order)" using assms(2) by (simp add: sum_list_distinct_conv_sum_set)
  also have "\<dots> = sum_list (map ?f (node_ids plan))"
    using assms(1,3) by (simp add: sum_list_distinct_conv_sum_set)
  also have "map ?f (node_ids plan) = map node_event_budget (plan_nodes plan)"
    using node_by_id_node [OF assms(1)] by (simp add: node_ids_def)
  finally show ?thesis .
qed

context closed_hooks
begin

lemma runs_all_nodes:
  assumes rdy: "run_ready w cfg plan" and pre: "preflight plan = Inr q" and fit: "\<forall>n \<in> set (plan_nodes plan). fit n"
    and order: "kahn (node_ids plan) (plan_edges plan) = Inr order"
    and s: "ledger s = started_ledger w uid plan" "log_inv (x_sched s)" "sched.idle (x_sched s)"
      "sched_events (x_sched s) = []"
  shows "runs (foldS (run_step w hk cfg plan []) ([], 0) order) s (\<lambda>loc s'. progress w plan (ledger s) loc order s')"
proof -
  note p = preflight_ok [OF pre]
  have ord: "set order = set (node_ids plan)" "distinct order"
    using kahn_sorter.covers_all [OF p(1-3) order] by simp_all
  have l0: "ledger s = (new_ledger False (fld plan ''fingerprint'') (JStr []) (JStr []) (run_id_or_new w uid JNull))\<lparr>event_count := 1\<rparr>"
    using s(1) by (simp add: started_ledger_def)
  have init: "progress w plan (ledger s) ([], 0) [] s"
    using s(2-4)
    by (simp add: l0 progress_def synced_def new_ledger_def one_snapshot_def numbered_def owned_def preds_of_def
        ran_after_predecessors_def attempts_bounded_def)
  have "runs (foldS (run_step w hk cfg plan []) ([], 0) order) s
      (\<lambda>loc s'. progress w plan (ledger s) loc ([] @ order) s')"
  proof (rule runs_foldS [where I = "\<lambda>loc D s'. progress w plan (ledger s) loc D s'"])
    show "progress w plan (ledger s) ([], 0) [] s" by (rule init)
    fix loc D n post and s1 :: "'h xstate"
    assume split: "order = D @ n # post" and pr: "progress w plan (ledger s) loc ([] @ D) s1"
    then have pr': "progress w plan (ledger s) loc D s1" by simp
    let ?node = "node_by_id plan n"
    have n: "n \<notin> set D" "n \<in> set (node_ids plan)" using ord split by auto
    note node = node_by_id_in [OF n(2)]
    have first: "\<forall>m. (m, n) \<in> set (plan_edges plan) \<longrightarrow> m \<in> set D"
      using kahn_sorter.predecessors_first [OF p(1-3)] order split by blast
    have self: "(n, n) \<notin> set (plan_edges plan)" using p(3) by (auto simp: acyclic_def)
    have later: "\<forall>m \<in> set D. (n, m) \<notin> set (plan_edges plan)"
    proof (intro ballI notI)
      fix m
      assume "m \<in> set D" "(n, m) \<in> set (plan_edges plan)"
      moreover from this(1) obtain us vs where "D = us @ m # vs" by (auto simp: in_set_conv_decomp)
      ultimately have "n \<in> set us"
        using kahn_sorter.predecessors_first [OF p(1-3), of us m "vs @ n # post" n] order split by simp
      with \<open>D = us @ m # vs\<close> n(1) show False by simp
    qed
    have nonneg: "0 \<le> node_event_budget x" if "x \<in> set (plan_nodes plan)" for x
      using p(4) that node_event_budget_nat by force
    have "sum_list (map (\<lambda>n. node_event_budget (node_by_id plan n)) (D @ n # post)) = q - 2"
      using sum_order [OF p(1) ord(2,1)] p(6) rdy split by (simp add: run_ready_def)
    moreover have "0 \<le> sum_list (map (\<lambda>n. node_event_budget (node_by_id plan n)) post)"
      by (rule sum_list_nonneg) (use split ord(1) nonneg node_by_id_in(1) in auto)
    ultimately have room: "int (event_count (ledger s1)) + node_event_budget ?node \<le> int MAX_LEDGER_EVENTS"
      using pr' p(7) by (simp add: progress_def l0 MAX_LEDGER_EVENTS_def MAX_RUNTIME_LEDGER_EVENTS_def)
    have none: "node_numbers (node_id ?node) (node_attempts (ledger s1)) = counted 1 0"
      using pr' n(1) unfolding node(2)
      by (auto simp: progress_def numbered_def node_numbers_def counted_def filter_empty_conv of_node_def node_of_def)
    have "runs (run_node w hk cfg plan [] ?node (preds_of (fst loc) n) (snd loc)) s1
        (node_effect w ?node (upstream_ok (preds_of (fst loc) n) \<and> truthy (fld ?node ''provider'')) s1)"
      by (rule runs_run_node) (use rdy node fit pr' none room in \<open>auto simp: run_ready_def progress_def keyed_get_def\<close>)
    then show "runs (run_step w hk cfg plan [] loc n) s1 (\<lambda>loc' s'. progress w plan (ledger s) loc' ([] @ D @ [n]) s')"
      unfolding run_step_def runs_bind runs_ret
      by (rule runs_mono) (simp, rule node_effect_progress [OF pr' n first self _ later])
  qed
  then show ?thesis by simp
qed

lemma progress_promise:
  assumes p: "progress w plan (started_ledger w uid plan) loc order s" and ord: "set order = set (node_ids plan)"
    and room: "int (event_count (ledger s)) < q"
    and ss: "\<forall>st. st \<in> set ss \<longleftrightarrow> (\<exists>n. latest_is (node_attempts (ledger s)) n st)"
    and st: "adjust_final_status hk (final_of plan ss) (ledger s) = Inr st"
  shows "run_promise hk plan q ((ledger s)\<lparr>event_count := event_count (ledger s) + 1, final_status := JStr st\<rparr>)"
proof -
  let ?l = "ledger s" and ?l' = "(ledger s)\<lparr>event_count := event_count (ledger s) + 1, final_status := JStr st\<rparr>"
  have sy: "synced w s" "numbered ?l order" "owned ?l" "ran_after_predecessors plan (node_attempts ?l) \<and> attempts_bounded plan (node_attempts ?l)"
      "rest_of ?l = rest_of (started_ledger w uid plan)"
    using p by (simp_all add: progress_def)
  have rest: "Ledger.package_lock_hash (rest_of ?l) = JStr []" "artifact_hashes (rest_of ?l) = []"
      "adapter_outcomes (rest_of ?l) = []" "evidence (rest_of ?l) = []"
    unfolding sy(5) by (simp_all add: rest_of_def started_ledger_def new_ledger_def)
  obtain i j where "map (\<lambda>e. fld e ''sequence'') (resource_events ?l) = map JInt [i .. j]"
    using sy(1) by (auto simp: synced_def log_inv_def)
  moreover have "\<exists>m. node_numbers (node_of a) (node_attempts ?l) = counted 1 m" if "a \<in> set (node_attempts ?l)" for a
    using sy(2) that by (auto simp: numbered_def)
  moreover have "one_snapshot ?l'" "owned ?l'" using sy by (simp_all add: synced_def one_snapshot_def owned_def)
  ultimately have "validate_run_ledger (ledger_value ?l') = Inr ()"
    using sy(1) rest by (intro ledger_valid [of ?l' i j]) (simp_all add: synced_def rest_of_def)
  moreover have "numbered ?l' (node_ids plan)" using sy(2) ord by (simp add: numbered_def)
  ultimately show ?thesis
    using room sy(4) ss st unfolding run_promise_def by auto
qed

lemma runs_fresh_run:
  assumes rdy: "run_ready w cfg plan" and pre: "preflight plan = Inr q" and fit: "\<forall>n \<in> set (plan_nodes plan). fit n"
    and s: "x_sched s = new_scheduler"
  shows "runs (run w hk cfg plan) s (\<lambda>v s'. v = ledger_value (ledger s') \<and> run_promise hk plan q (ledger s') \<and>
    sched.idle (x_sched s'))"
proof -
  let ?Q = "\<lambda>v s'. v = ledger_value (ledger s') \<and> run_promise hk plan q (ledger s') \<and> sched.idle (x_sched s')"
  note p = preflight_ok [OF pre]
  obtain order where order: "kahn (node_ids plan) (plan_edges plan) = Inr order"
    using kahn_sorter.total [OF p(1,2)] by blast
  have ord: "set order = set (node_ids plan)" "distinct order"
    using kahn_sorter.covers_all [OF p(1-3) order] by simp_all
  have budget: "q = 2 + sum_list (map (\<lambda>n. node_event_budget (node_by_id plan n)) order)"
    using sum_order [OF p(1) ord(2,1)] p(6) rdy by (simp add: run_ready_def)
  have plain: "plain_plan plan" "\<not> has_path cfg" "\<not> resume cfg" "fld plan ''status'' \<noteq> JStr ''blocked''"
    using rdy by (simp_all add: run_ready_def)
  have lock: "check_lock cfg plan = Inr ()"
    using rdy plain_plan_lock [OF plain(1)] by (simp add: check_lock_def run_ready_def)
  have nodes: "runs (run_nodes w hk cfg plan) s1 ?Q"
    if s1: "ledger s1 = started_ledger w (x_uids s) plan" "x_sched s1 = x_sched s" for s1
  proof -
    have evs: "resource_events (ledger s1) = []" "node_attempts (ledger s1) = []"
      using s1(1) by (simp_all add: started_ledger_def new_ledger_def)
    let ?s2 = "s1\<lparr>x_sched := new_scheduler\<rparr>"
    have sd: "seed s1 = (Inr (), ?s2)"
      by (simp add: seed_def evs next_sequence_def s1(2) s seed_sequence_def new_scheduler_def)
    have empty: "latest_statuses [] = Inr []" by (simp add: latest_statuses_def latest_attempts_def)
    have s2: "ledger ?s2 = started_ledger w (x_uids s) plan" "log_inv (x_sched ?s2)" "sched.idle (x_sched ?s2)"
      "sched_events (x_sched ?s2) = []"
      using s1(1) log_inv_new by (simp_all add: sched.idle_def owner_def new_scheduler_def)
    have fin: "runs (bindS (liftE (latest_statuses (node_attempts (ledger s3)))) (\<lambda>statuses.
        bindS (liftE (adjust_final_status hk (final_of plan (map snd statuses)) (ledger s3))) (finish w))) s3 ?Q"
      if pr: "progress w plan (started_ledger w (x_uids s) plan) loc order s3" for loc s3
    proof -
      have wf: "\<forall>a \<in> set (node_attempts (ledger s3)). well_formed_attempt a" using pr by (simp add: progress_def synced_def)
      obtain ss where ss: "latest_statuses (node_attempts (ledger s3)) = Inr ss"
          "\<And>n st. (JStr n, st) \<in> set ss \<longleftrightarrow> latest_is (node_attempts (ledger s3)) n st" "\<forall>p \<in> set ss. is_str (fst p)"
        using latest_statuses_ok [OF wf] unfolding latest_is_def by blast
      have sts: "\<forall>st. st \<in> set (map snd ss) \<longleftrightarrow> (\<exists>n. latest_is (node_attempts (ledger s3)) n st)"
        using ss(2,3) by (force simp: is_str_iff)
      obtain st where st: "adjust_final_status hk (final_of plan (map snd ss)) (ledger s3) = Inr st"
        using adjust_total by blast
      have count: "int (event_count (ledger s3)) < q"
        using pr budget by (simp add: progress_def started_ledger_def)
      then have "in_memory s3 1"
        using pr p(7) by (simp add: in_memory_def progress_def synced_def MAX_LEDGER_EVENTS_def
            MAX_RUNTIME_LEDGER_EVENTS_def)
      moreover note promise = progress_promise [OF pr ord(1) count sts st]
      ultimately have "runs (finish w st) s3 ?Q"
        using pr by (intro runs_finish) (simp_all add: run_promise_def progress_def synced_def)
      then show ?thesis by (simp add: ss(1) st)
    qed
    have "runs (foldS (run_step w hk cfg plan []) ([], 0) order) ?s2
        (\<lambda>loc s'. progress w plan (started_ledger w (x_uids s) plan) loc order s')"
      using runs_all_nodes [OF rdy pre fit order s2] s2(1) by simp
    then have "runs (foldS (run_step w hk cfg plan []) ([], 0) order) ?s2 (\<lambda>loc s3.
        runs (bindS (liftE (latest_statuses (node_attempts (ledger s3)))) (\<lambda>statuses.
        bindS (liftE (adjust_final_status hk (final_of plan (map snd statuses)) (ledger s3))) (finish w))) s3 ?Q)"
      by (rule runs_mono) (rule fin)
    then show ?thesis
      using evs empty unfolding run_nodes_def runs_then runs_eq [of seed, OF sd] runs_bind order runs_liftE_Inr
        runs_reads by (simp only: ledger_frame empty runs_liftE_Inr)
  qed
  have "runs (open_fresh w cfg plan) s (\<lambda>_ s1. runs (run_nodes w hk cfg plan) s1 ?Q)"
    by (rule runs_open_fresh [OF plain(1,2)]) (rule nodes)
  then show ?thesis
    using plain p(7) by (simp add: run_def pre no_extra_budget lock)
qed

end

end
