(* ===== verification/FakeExecutor.thy ===== *)
theory FakeExecutor
  imports RuntimeRun Sample
begin

text \<open>
  \<^verbatim>\<open>FakeAdapterExecutor\<close>, the executor whose adapters answer with configured statuses: its hooks keep
  the laws of \<open>closed_hooks\<close>, so a fresh run of a preflighted plan always returns, and the returned
  ledger keeps the promises of the runtime.
\<close>

section \<open>The hooks keep the laws\<close>

definition has_capability :: "json \<Rightarrow> bool" where
  "has_capability node \<longleftrightarrow> is_obj node \<and> has_key node ''capability'' \<and> is_str (fld node ''capability'')"

lemma same_hook [simp]: "\<exists>h. s = s\<lparr>x_hook := h\<rparr>"
  by (rule exI [of _ "x_hook s"]) simp

lemma next_behavior_quiet: "\<exists>b h. next_behavior behaviors (JStr c) s = (Inr b, s\<lparr>x_hook := h\<rparr>)"
  unfolding next_behavior_def lookup_json_def by (simp add: Let_def split: option.splits) blast

interpretation fake: closed_hooks "fake_hooks behaviors" has_capability for behaviors
proof (unfold_locales, goal_cases)
  case (1 node plan a s)
  have "s = s\<lparr>x_hook := x_hook s\<rparr>" by simp
  then show ?case by (auto simp: fake_hooks_def intro: exI [of _ "x_hook s"])
next
  case (2 node plan a s)
  then obtain c where c: "getitem node ''capability'' = Inr (JStr c)"
    by (auto simp: has_capability_def getitem_eq_Inr is_str_iff)
  obtain b h where "next_behavior behaviors (JStr c) s = (Inr b, s\<lparr>x_hook := h\<rparr>)"
    using next_behavior_quiet by blast
  then show ?case by (auto simp: fake_hooks_def c runs_eq [of "next_behavior behaviors (JStr c)"])
next
  case (3 plan node s)
  show ?case by (simp add: fake_hooks_def ret_def)
next
  case (4 a node)
  then show ?case by (auto simp: fake_hooks_def fake_can_retry_def bindE_eq_Inr getitem_eq_Inr)
next
  case (5 node a)
  then show ?case by (auto simp: fake_hooks_def fake_can_retry_def bindE_eq_Inr getitem_eq_Inr can_auto_retry_def)
next
  case (6 plan)
  show ?case by (simp add: fake_hooks_def)
next
  case (7 st l)
  show ?case by (simp add: fake_hooks_def)
qed

lemma node_ready_capability: "node_ready w cfg node \<Longrightarrow> has_capability node"
  by (simp add: node_ready_def node_typed_def has_capability_def)

lemma fake_run:
  assumes "run_ready w cfg plan" and "preflight plan = Inr q" and "x_sched s = new_scheduler"
  shows "runs (run w (fake_hooks behaviors) cfg plan) s (\<lambda>v s'. v = ledger_value (ledger s') \<and>
    run_promise (fake_hooks behaviors) plan q (ledger s') \<and> sched.idle (x_sched s'))"
  using assms(1) by (intro fake.runs_fresh_run [OF assms(1,2) _ assms(3)]) (auto simp: run_ready_def node_ready_capability)

lemma fake_run_promise:
  assumes "run_ready w cfg plan" and "preflight plan = Inr q" and "x_sched s = new_scheduler"
    and "run w (fake_hooks behaviors) cfg plan s = (Inr v, s')"
  shows "run_promise (fake_hooks behaviors) plan q (ledger s')" "sched.idle (x_sched s')" "v = ledger_value (ledger s')"
  using fake_run [OF assms(1-3), of behaviors] assms(4) by (simp_all add: runs_def)

section \<open>A sample plan\<close>

text \<open>
  Two nodes in a row that share a resource: the first may be retried once, the second one needs an
  approval. The adapter of the first node fails, then passes.
\<close>

definition sample_node :: "string \<Rightarrow> string \<Rightarrow> (string \<times> json) list \<Rightarrow> json" where
  "sample_node i c extra = JObj ([(''id'', JStr i), (''capability'', JStr c), (''provider'', JStr ''core''),
     (''mandatory'', JBool True), (''resource_keys'', JList [JStr ''tree''])] @ extra)"

definition sample_edge :: "string \<Rightarrow> string \<Rightarrow> json" where
  "sample_edge a b = JObj [(''from'', JStr a), (''to'', JStr b)]"

definition sample_plan :: json where
  "sample_plan = JObj [
     (''fingerprint'', JStr ''f''), (''status'', JStr ''ready''),
     (''nodes'', JList [
        sample_node ''a'' ''x.test'' [(''idempotent'', JBool True), (''max_retries'', JInt 1)],
        sample_node ''b'' ''x.ship'' [(''approval'', JObj [(''action'', JStr ''ship''), (''reason'', JStr ''r''),
          (''scope'', JObj [])])]]),
     (''edges'', JList [sample_edge ''a'' ''b''])]"

definition sample_config :: run_config where
  "sample_config = \<lparr>has_path = False, package_lock = None, lock_check = (\<lambda>_ _. Inr ()), resume = False,
     approval_decisions = [(''x.ship'', ''granted'')]\<rparr>"

definition sample_behaviors :: "(string, json) dict" where
  "sample_behaviors = [(''x.test'', JList [JStr ''failed'', JStr ''passed''])]"

definition sample_state :: "cursors xstate" where
  "sample_state = \<lparr>x_store = \<lparr>led = new_ledger False JNull JNull JNull JNull, disk = Absent\<rparr>,
     x_sched = new_scheduler, x_gate = [], x_ticks = 0, x_uids = 0, x_hook = []\<rparr>"

definition sample_run :: "json result \<times> cursors xstate" where
  "sample_run = run sample_world (fake_hooks sample_behaviors) sample_config sample_plan sample_state"

lemma sample_preflight: "preflight sample_plan = Inr 16"
  by code_simp

lemma sample_run_value:
  "case sample_run of (r, s) \<Rightarrow> is_ok r \<and> as_str (final_status (ledger s)) = ''completed'' \<and>
     map (\<lambda>a. (node_of a, as_str (fld a ''status''), ran a)) (node_attempts (ledger s)) =
       [(''a'', ''failed'', True), (''a'', ''passed'', True), (''b'', ''passed'', True)]"
  by code_simp

lemma sample_run_evaluated:
  "is_ok (fst sample_run) \<and> as_str (final_status (ledger (snd sample_run))) = ''completed'' \<and>
   map (\<lambda>a. (node_of a, as_str (fld a ''status''), ran a)) (node_attempts (ledger (snd sample_run))) =
     [(''a'', ''failed'', True), (''a'', ''passed'', True), (''b'', ''passed'', True)]"
  using sample_run_value by (simp add: case_prod_beta)

end
