(* ===== verification/RuntimeSpec.thy ===== *)
theory RuntimeSpec
  imports FakeExecutor LedgerReplay
begin

text \<open>
  The properties of the runtime: what a run of a preflighted plan promises, what the append-only ledger
  keeps, and the life of attempts, resources and approvals. They rest on the component theories.
\<close>

section \<open>Helpers\<close>

lemma promise_facts:
  assumes "run_promise hk plan q l"
  shows "validate_run_ledger (ledger_value l) = Inr ()" "int (event_count l) \<le> q"
    "numbered l (node_ids plan)" "ran_after_predecessors plan (node_attempts l)"
    "attempts_bounded plan (node_attempts l)"
  using assms by (simp_all add: run_promise_def)

lemma final_of_completed:
  "final_of plan ss = ''completed'' \<longleftrightarrow> ss \<noteq> [] \<and> (\<forall>st \<in> set ss. st = PASSED) \<and> fld plan ''status'' \<noteq> JStr ''degraded''"
  by (auto simp: final_of_def list_all_iff)

lemma completed_all_passed:
  assumes "run_promise (fake_hooks b) plan q l" and "as_str (final_status l) = ''completed''" and "latest_is (node_attempts l) n st"
  shows "st = PASSED"
proof -
  obtain ss l' where ss: "\<forall>st. st \<in> set ss \<longleftrightarrow> (\<exists>n. latest_is (node_attempts l) n st)"
      and "adjust_final_status (fake_hooks b) (final_of plan ss) l' = Inr (as_str (final_status l))"
    using assms(1) by (auto simp: run_promise_def)
  then have "final_of plan ss = ''completed''" using assms(2) by (simp add: fake_hooks_def)
  moreover have "st \<in> set ss" using ss assms(3) by blast
  ultimately show ?thesis by (simp add: final_of_completed)
qed

lemma attempts_of_node:
  assumes "numbered l D" and "attempts_bounded plan (node_attempts l)" and "n \<in> set D"
  shows "\<exists>m. 0 < m \<and> m \<le> max_attempts (node_by_id plan n) \<and> node_numbers n (node_attempts l) = counted 1 m"
proof -
  obtain m where m: "0 < m" "node_numbers n (node_attempts l) = counted 1 m"
    using assms(1,3) by (auto simp: numbered_def)
  have "length (counted 1 m) = m" by (simp add: counted_def)
  then have "m \<le> max_attempts (node_by_id plan n)"
    using assms(2) m(2) by (metis attempts_bounded_def length_map node_numbers_def)
  with m show ?thesis by blast
qed

section \<open>The sample run\<close>

lemma sample_edges: "plan_edges sample_plan = [(''a'', ''b'')]"
  by (simp add: plan_edges_def sample_plan_def sample_edge_def fld_def)

lemma sample_nodes: "plan_nodes sample_plan = [
        sample_node ''a'' ''x.test'' [(''idempotent'', JBool True), (''max_retries'', JInt 1)],
        sample_node ''b'' ''x.ship'' [(''approval'', JObj [(''action'', JStr ''ship''), (''reason'', JStr ''r''),
          (''scope'', JObj [])])]]"
  by (simp add: plan_nodes_def sample_plan_def fld_def)

lemma sample_ids: "node_ids sample_plan = [''a'', ''b'']"
  by (simp add: node_ids_def sample_nodes node_id_def sample_node_def fld_def)

lemma sample_time: "as_int (timeout_seconds node) \<le> 1000 \<Longrightarrow> time_ok sample_world node"
  by (simp add: time_ok_def add_seconds_def Let_def MAX_DATETIME_def)

lemma sample_hash: "\<exists>h. sha256 sample_world (JObj []) = Inr h"
  by (simp add: sha256_def dumps_def validate_value_limits_def check_stack.simps MAX_CANONICAL_JSON_DEPTH_def)

lemma sample_typed:
  "list_all (\<lambda>n. node_typed n \<and> has_key n ''capability'' \<and> is_str (fld n ''capability'') \<and>
     as_int (timeout_seconds n) \<le> 1000) (plan_nodes sample_plan)"
  by code_simp

lemma sample_approval: "\<forall>n \<in> set (plan_nodes sample_plan). approval_ready sample_world sample_config n"
  unfolding sample_nodes
  by (simp add: approval_ready_def sample_node_def sample_config_def nonempty_def fld_def fld_or_def has_key_def
      sample_hash Let_def)

lemma sample_ready: "run_ready sample_world sample_config sample_plan"
proof -
  have "node_ready sample_world sample_config n" if "n \<in> set (plan_nodes sample_plan)" for n
    using that sample_typed sample_approval sample_time by (auto simp: node_ready_def list_all_iff)
  moreover have "plain_plan sample_plan" "fld sample_plan ''status'' = JStr ''ready''"
    by (simp_all add: plain_plan_def sample_plan_def has_key_def fld_def)
  ultimately show ?thesis using sample_uuid_inj by (simp add: run_ready_def sample_config_def)
qed

lemma sample_start: "x_sched sample_state = new_scheduler"
  by (simp add: sample_state_def)

lemma sample_result:
  "\<exists>v. run sample_world (fake_hooks sample_behaviors) sample_config sample_plan sample_state = (Inr v, snd sample_run)"
  using sample_run_evaluated by (cases sample_run) (auto simp: sample_run_def is_ok_def split: sum.splits)

lemma sample_attempts:
  "\<exists>a \<in> set (node_attempts (ledger (snd sample_run))). node_of a = ''b'' \<and> ran a"
proof -
  have "(''b'', ''passed'', True) \<in>
      set (map (\<lambda>a. (node_of a, as_str (fld a ''status''), ran a)) (node_attempts (ledger (snd sample_run))))"
    unfolding conjunct2 [OF conjunct2 [OF sample_run_evaluated]] by simp
  then show ?thesis by auto
qed

lemma sample_completed: "as_str (final_status (ledger (snd sample_run))) = ''completed''"
  using sample_run_evaluated by blast

section \<open>A run of a preflighted plan\<close>

text \<open>C1: a run in memory of a plan that passed the preflight returns, whatever statuses the adapters
  are configured to answer; its result is the ledger's value, the ledger validator accepts it, and it has
  at most as many events as the preflight projected.\<close>

theorem fake_run_returns:
  assumes "run_ready w cfg plan" and "preflight plan = Inr q" and "x_sched s = new_scheduler"
  shows "\<exists>v s'. run w (fake_hooks behaviors) cfg plan s = (Inr v, s') \<and> v = ledger_value (ledger s') \<and>
    validate_run_ledger v = Inr () \<and> int (event_count (ledger s')) \<le> q"
  using runs_D [OF fake_run [OF assms]] promise_facts(1,2) by blast

lemma fake_run_returns_sample:
  "\<exists>v s'. run sample_world (fake_hooks sample_behaviors) sample_config sample_plan sample_state = (Inr v, s') \<and>
     v = ledger_value (ledger s') \<and> validate_run_ledger v = Inr () \<and> int (event_count (ledger s')) \<le> 16"
  by (rule fake_run_returns [OF sample_ready sample_preflight sample_start])

text \<open>C2: in the ledger of a run, an attempt entered \<open>running\<close> only if the latest attempt of every
  predecessor of its node had passed or was skipped.\<close>

theorem fake_run_respects_dependencies:
  assumes "run_ready w cfg plan" and "preflight plan = Inr q" and "x_sched s = new_scheduler"
    and "run w (fake_hooks behaviors) cfg plan s = (Inr v, s')"
    and "a \<in> set (node_attempts (ledger s'))" and "ran a" and "(m, node_of a) \<in> set (plan_edges plan)"
  shows "latest_is (node_attempts (ledger s')) m PASSED \<or> latest_is (node_attempts (ledger s')) m SKIPPED"
  using promise_facts(4) [OF fake_run_promise(1) [OF assms(1-4)]] assms(5-7)
  by (auto simp: ran_after_predecessors_def)

lemma fake_run_respects_dependencies_sample:
  "latest_is (node_attempts (ledger (snd sample_run))) ''a'' PASSED \<or>
   latest_is (node_attempts (ledger (snd sample_run))) ''a'' SKIPPED"
proof -
  obtain v where "run sample_world (fake_hooks sample_behaviors) sample_config sample_plan sample_state = (Inr v, snd sample_run)"
    using sample_result by blast
  moreover obtain a where "a \<in> set (node_attempts (ledger (snd sample_run)))" "node_of a = ''b''" "ran a"
    using sample_attempts by blast
  ultimately show ?thesis
    by (intro fake_run_respects_dependencies [OF sample_ready sample_preflight sample_start]) (auto simp: sample_edges)
qed

text \<open>C3: in the ledger of a run every node has attempts, numbered 1, 2, ... in order, and no more of
  them than the retries of an idempotent node allow.\<close>

theorem fake_run_bounds_attempts:
  assumes "run_ready w cfg plan" and "preflight plan = Inr q" and "x_sched s = new_scheduler"
    and "run w (fake_hooks behaviors) cfg plan s = (Inr v, s')" and "n \<in> set (node_ids plan)"
  shows "\<exists>m. 0 < m \<and> m \<le> max_attempts (node_by_id plan n) \<and>
    node_numbers n (node_attempts (ledger s')) = counted 1 m"
  using fake_run_promise(1) [OF assms(1-4)] assms(5) attempts_of_node promise_facts(3,5) by blast

lemma fake_run_bounds_attempts_sample:
  "\<exists>m. 0 < m \<and> m \<le> max_attempts (node_by_id sample_plan ''a'') \<and>
     node_numbers ''a'' (node_attempts (ledger (snd sample_run))) = counted 1 m"
proof -
  obtain v where "run sample_world (fake_hooks sample_behaviors) sample_config sample_plan sample_state = (Inr v, snd sample_run)"
    using sample_result by blast
  then show ?thesis
    by (rule fake_run_bounds_attempts [OF sample_ready sample_preflight sample_start]) (simp add: sample_ids)
qed

text \<open>C4: a run reports \<open>completed\<close> only when the latest attempt of every node passed.\<close>

theorem fake_run_completed_only_passed:
  assumes "run_ready w cfg plan" and "preflight plan = Inr q" and "x_sched s = new_scheduler"
    and "run w (fake_hooks behaviors) cfg plan s = (Inr v, s')"
    and "as_str (final_status (ledger s')) = ''completed''" and "latest_is (node_attempts (ledger s')) n st"
  shows "st = PASSED"
  using completed_all_passed [OF fake_run_promise(1) [OF assms(1-4)] assms(5,6)] .

lemma fake_run_completed_only_passed_sample:
  "{st. latest_is (node_attempts (ledger (snd sample_run))) ''b'' st} \<subseteq> {PASSED}"
proof -
  obtain v where "run sample_world (fake_hooks sample_behaviors) sample_config sample_plan sample_state = (Inr v, snd sample_run)"
    using sample_result by blast
  from fake_run_completed_only_passed [OF sample_ready sample_preflight sample_start this sample_completed]
  show ?thesis by blast
qed

text \<open>C5: after a run no attempt holds a resource: every key taken during the run was given back, on
  every status an attempt ended with.\<close>

theorem fake_run_frees_resources:
  assumes "run_ready w cfg plan" and "preflight plan = Inr q" and "x_sched s = new_scheduler"
    and "run w (fake_hooks behaviors) cfg plan s = (Inr v, s')"
  shows "owner (x_sched s') k = None"
  using fake_run_promise(2) [OF assms] by (simp add: sched.idle_def)

lemma fake_run_frees_resources_sample: "owner (x_sched (snd sample_run)) ''tree'' = None"
proof -
  obtain v where "run sample_world (fake_hooks sample_behaviors) sample_config sample_plan sample_state = (Inr v, snd sample_run)"
    using sample_result by blast
  then show ?thesis by (rule fake_run_frees_resources [OF sample_ready sample_preflight sample_start])
qed

text \<open>C9: a plan the preflight accepts has distinct node ids, edges between its nodes without a cycle,
  well-typed retry, timeout and resource metadata, and a projected event count of at most 100000: the
  started and finalized events plus the budgets of its nodes.\<close>

theorem preflight_guarantees:
  assumes "preflight plan = Inr q"
  shows "distinct (node_ids plan) \<and> edges_within (node_ids plan) (plan_edges plan) \<and>
    acyclic (set (plan_edges plan)) \<and> (\<forall>n \<in> set (plan_nodes plan). node_typed n) \<and> q \<le> 100000 \<and>
    q = (if fld plan ''status'' = JStr ''blocked'' then 3 else 2) + sum_list (map node_event_budget (plan_nodes plan))"
  using preflight_ok [OF assms] by (simp add: MAX_RUNTIME_LEDGER_EVENTS_def)

lemma preflight_guarantees_sample: "acyclic (set (plan_edges sample_plan)) \<and> distinct (node_ids sample_plan)"
  using preflight_guarantees [OF sample_preflight] by blast

end
