(* ===== verification/Versions.thy ===== *)
theory Versions
  imports Text
begin

text \<open>
  \<^verbatim>\<open>registry/versions.py\<close>: numeric versions \<open>a.b\<close> or \<open>a.b.c\<close> and the space-separated ranges of
  constraints on them. The pattern's \<open>\d\<close> and \<open>int()\<close> accept every Unicode decimal digit after an ASCII
  first digit, so texts are read by code points.
\<close>

section \<open>Decimal digits\<close>

definition byte :: "char \<Rightarrow> int" where
  "byte c = int (of_char c)"

fun code_point :: "string \<Rightarrow> int" where
  "code_point [a] = byte a"
| "code_point [a, b] = (byte a mod 32) * 64 + byte b mod 64"
| "code_point [a, b, c] = (byte a mod 16) * 4096 + (byte b mod 64) * 64 + byte c mod 64"
| "code_point [a, b, c, d] =
     (byte a mod 8) * 262144 + (byte b mod 64) * 4096 + (byte c mod 64) * 64 + byte d mod 64"
| "code_point _ = -1"

text \<open>The zeros of the Unicode decimal digit runs (category Nd), each followed by its nine successors.\<close>

definition digit_zeros :: "int list" where
  "digit_zeros = [48, 1632, 1776, 1984, 2406, 2534, 2662, 2790, 2918, 3046, 3174, 3302, 3430, 3558,
     3664, 3792, 3872, 4160, 4240, 6112, 6160, 6470, 6608, 6784, 6800, 6992, 7088, 7232, 7248, 42528,
     43216, 43264, 43472, 43504, 43600, 44016, 65296, 66720, 68912, 69734, 69872, 69942, 70096, 70384,
     70736, 70864, 71248, 71360, 71472, 71904, 72016, 72784, 73040, 73120, 92768, 92864, 93008, 120782,
     120792, 120802, 120812, 120822, 123200, 123632, 125264, 130032]"

definition digit_of :: "string \<Rightarrow> int option" where
  "digit_of c = map_option (\<lambda>z. code_point c - z) (find (\<lambda>z. z \<le> code_point c \<and> code_point c < z + 10) digit_zeros)"

section \<open>parse_version\<close>

text \<open>\<open>0|[1-9]\d*\<close>\<close>

fun version_part :: "string list \<Rightarrow> bool" where
  "version_part [] = False"
| "version_part (c # cs) =
     (c = ''0'' \<and> cs = [] \<or> c \<in> set [''1'', ''2'', ''3'', ''4'', ''5'', ''6'', ''7'', ''8'', ''9''] \<and>
        list_all (\<lambda>d. digit_of d \<noteq> None) cs)"

definition part_number :: "string list \<Rightarrow> int" where
  "part_number cs = foldl (\<lambda>n c. n * 10 + the (digit_of c)) 0 cs"

text \<open>\<open>int(part)\<close>, which refuses more than 4300 digits\<close>

definition int_of_part :: "string list \<Rightarrow> int result" where
  "int_of_part cs =
     (if length cs > 4300 then Inl (ValueError ''Exceeds the limit for integer string conversion'')
      else Inr (part_number cs))"

type_synonym version = "int \<times> int \<times> int"

definition parse_version :: "json \<Rightarrow> version result" where
  "parse_version value =
     (if \<not> is_str value then Inl (ContractError ''version must be a string'')
      else
        let parts = split_on ''.'' (chars_of (as_str value)) in
        if length parts \<in> {2, 3} \<and> list_all version_part parts then
          bindE (mapE int_of_part parts) (\<lambda>ns.
          Inr (ns ! 0, ns ! 1, if length ns = 3 then ns ! 2 else 0))
        else Inl (ContractError ''unsupported version''))"

section \<open>satisfies\<close>

definition version_less :: "version \<Rightarrow> version \<Rightarrow> bool" where
  "version_less v u \<longleftrightarrow>
     (case (v, u) of ((a, b, c), (x, y, z)) \<Rightarrow> a < x \<or> a = x \<and> (b < y \<or> b = y \<and> c < z))"

definition version_le :: "version \<Rightarrow> version \<Rightarrow> bool" where
  "version_le v u \<longleftrightarrow> v = u \<or> version_less v u"

text \<open>
  \<open>(>=|<=|>|<|==)(.+)\<close> on a text without spaces: the two-character operators are tried first, and
  the pattern backtracks to the shorter one when nothing is left for the version.
\<close>

definition constraint_parts :: "string \<Rightarrow> (string \<times> string) option" where
  "constraint_parts raw =
     (let try = (\<lambda>oper. startswith raw oper \<and> length raw > length oper) in
      map_option (\<lambda>oper. (oper, drop (length oper) raw)) (find try [''>='', ''<='', ''>'', ''<'', ''=='']))"

definition compare_versions :: "string \<Rightarrow> version \<Rightarrow> version \<Rightarrow> bool" where
  "compare_versions oper actual expected =
     (if oper = ''>='' then version_le expected actual
      else if oper = ''<='' then version_le actual expected
      else if oper = ''>'' then version_less expected actual
      else if oper = ''<'' then version_less actual expected
      else actual = expected)"

definition check_constraint :: "version \<Rightarrow> string \<Rightarrow> bool result" where
  "check_constraint actual raw =
     (case constraint_parts raw of
        None \<Rightarrow> Inl (ContractError ''unsupported compatibility constraint'')
      | Some (oper, text) \<Rightarrow> bindE (parse_version (JStr text)) (\<lambda>expected. Inr (compare_versions oper actual expected)))"

fun check_constraints :: "version \<Rightarrow> string list \<Rightarrow> bool result" where
  "check_constraints actual [] = Inr True"
| "check_constraints actual (raw # raws) =
     bindE (check_constraint actual raw) (\<lambda>passed. if passed then check_constraints actual raws else Inr False)"

definition satisfies :: "json \<Rightarrow> json \<Rightarrow> bool result" where
  "satisfies version expression =
     bindE (parse_version version) (\<lambda>actual.
     if \<not> is_str expression \<or> is_blank (as_str expression)
     then Inl (ContractError ''compatibility range must be a non-empty string'')
     else check_constraints actual (split_words (as_str expression)))"

section \<open>Facts\<close>

definition version_text :: "version \<Rightarrow> string" where
  "version_text v = (case v of (a, b, c) \<Rightarrow> decimal (nat a) @ ''.'' @ decimal (nat b) @ ''.'' @ decimal (nat c))"

definition version_ok :: "version \<Rightarrow> bool" where
  "version_ok v = (case v of (a, b, c) \<Rightarrow> list_all (\<lambda>n. 0 \<le> n \<and> length (decimal (nat n)) \<le> 4300) [a, b, c])"

lemma digit_of_char: "digit_of [digit_char d] = Some (int (d mod 10))"
proof -
  have "list_all (\<lambda>d. digit_of [digit_char d] = Some (int d)) [0..<10]" by code_simp
  then have "digit_of [digit_char (d mod 10)] = Some (int (d mod 10))" by (simp add: list_all_iff)
  then show ?thesis by (simp add: digit_char_def)
qed

lemma part_number_snoc: "part_number (cs @ [c]) = part_number cs * 10 + the (digit_of c)"
  by (simp add: part_number_def)

lemma part_number_decimal: "part_number (map (\<lambda>c. [c]) (decimal n)) = int n"
proof (induction n rule: decimal.induct)
  case (1 n)
  show ?case
  proof (cases "n < 10")
    case True
    then show ?thesis by (subst decimal.simps) (simp add: part_number_def digit_of_char)
  next
    case False
    then have "part_number (map (\<lambda>c. [c]) (decimal n)) = part_number (map (\<lambda>c. [c]) (decimal (n div 10))) * 10 + int (n mod 10)"
      by (subst decimal.simps) (simp add: part_number_snoc digit_of_char)
    also have "\<dots> = int (n div 10 * 10 + n mod 10)" using 1 [OF False] by (simp only: of_nat_add of_nat_mult)
    finally show ?thesis by (simp only: div_mult_mod_eq)
  qed
qed

lemma first_digit:
  "0 < d \<Longrightarrow> d < 10 \<Longrightarrow> [digit_char d] \<in> set [''1'', ''2'', ''3'', ''4'', ''5'', ''6'', ''7'', ''8'', ''9'']"
proof -
  have "list_all (\<lambda>d. [digit_char d] \<in> set [''1'', ''2'', ''3'', ''4'', ''5'', ''6'', ''7'', ''8'', ''9'']) [1..<10]" by code_simp
  then show "0 < d \<Longrightarrow> d < 10 \<Longrightarrow> ?thesis" by (simp add: list_all_iff)
qed

lemma version_part_snoc: "version_part cs \<Longrightarrow> cs \<noteq> [''0''] \<Longrightarrow> digit_of c \<noteq> None \<Longrightarrow> version_part (cs @ [c])"
  by (cases cs) auto

lemma version_part_decimal: "version_part (map (\<lambda>c. [c]) (decimal n))"
proof (induction n rule: decimal.induct)
  case (1 n)
  show ?case
  proof (cases "n < 10")
    case True
    have "decimal 0 = ''0''" by code_simp
    moreover have "version_part [[digit_char n]]" if "0 < n" using first_digit [OF that True] by simp
    moreover have "decimal n = [digit_char n]" using True by (subst decimal.simps) simp
    ultimately show ?thesis by (cases "n = 0") simp_all
  next
    case False
    have "decimal (n div 10) \<noteq> ''0''"
      using False undecimal_decimal [of "n div 10"] by (auto simp: undecimal_def digit_value_def)
    then have "map (\<lambda>c. [c]) (decimal (n div 10)) \<noteq> [''0'']" by auto
    from version_part_snoc [OF 1 [OF False] this] False show ?thesis
      by (subst decimal.simps) (simp add: digit_of_char)
  qed
qed

lemma dot_notin_decimal: "CHR ''.'' \<notin> set (decimal n)"
  by (rule subset_notin [OF decimal_digits]) simp

lemma split_version:
  "split_on ''.'' (map (\<lambda>c. [c]) (decimal a @ ''.'' @ decimal b @ ''.'' @ decimal c)) =
     [map (\<lambda>c. [c]) (decimal a), map (\<lambda>c. [c]) (decimal b), map (\<lambda>c. [c]) (decimal c)]"
proof -
  have no: "''.'' \<notin> set (map (\<lambda>c. [c]) (decimal n))" for n using dot_notin_decimal by auto
  show ?thesis by (simp add: split_on_append [OF no] split_on_single [OF no])
qed

lemma ascii_version_text: "ascii (version_text v)"
proof -
  have "ascii ''.''" by code_simp
  then show ?thesis by (simp add: version_text_def ascii_decimal split: prod.split)
qed

lemma parse_version_text:
  assumes "version_ok v"
  shows "parse_version (JStr (version_text v)) = Inr v"
proof -
  obtain a b c where v: "v = (a, b, c)" by (cases v) auto
  have ok: "0 \<le> a" "0 \<le> b" "0 \<le> c" "length (decimal (nat a)) \<le> 4300" "length (decimal (nat b)) \<le> 4300" "length (decimal (nat c)) \<le> 4300"
    using assms by (simp_all add: v version_ok_def)
  let ?p = "\<lambda>n. map (\<lambda>c. [c]) (decimal (nat n))"
  have parts: "split_on ''.'' (chars_of (version_text v)) = [?p a, ?p b, ?p c]"
    unfolding chars_of_ascii [OF ascii_version_text] unfolding v version_text_def prod.case by (rule split_version)
  have num: "int_of_part (?p n) = Inr n" if "0 \<le> n" "length (decimal (nat n)) \<le> 4300" for n
    using that by (simp add: int_of_part_def part_number_decimal)
  have "mapE int_of_part [?p a, ?p b, ?p c] = Inr [a, b, c]" using ok by (simp add: num)
  moreover have "list_all version_part [?p a, ?p b, ?p c]" by (simp only: list.pred_inject version_part_decimal simp_thms)
  ultimately show ?thesis unfolding parse_version_def Let_def
    by (simp only: is_str.simps as_str.simps parts) (simp add: v)
qed

lemma word_decimal: "list_all (\<lambda>c. \<not> is_space [c]) (decimal n)"
proof -
  have "list_all (\<lambda>c. \<not> is_space [c]) ''0123456789''" by code_simp
  then show ?thesis using decimal_digits [of n] unfolding list_all_iff by (rule_tac ballI) (erule bspec, erule subsetD, assumption)
qed

lemma word_version:
  assumes "word_text oper"
  shows "word_text (oper @ version_text v)"
proof -
  have "\<not> is_space ''.''" by code_simp
  then show ?thesis using assms ascii_version_text [of v] word_decimal
    by (auto simp: word_text_def version_text_def split: prod.split)
qed

lemma version_text_not_Nil [simp]: "version_text v \<noteq> []"
  by (simp add: version_text_def split: prod.split)

lemma version_text_head: "hd (version_text v) \<in> set ''0123456789''"
proof -
  obtain a b c where "v = (a, b, c)" by (cases v) auto
  then have "hd (version_text v) = hd (decimal (nat a))" by (simp add: version_text_def hd_append)
  then show ?thesis using decimal_digits [of "nat a"] hd_in_set_sub [OF decimal_not_Nil] by metis
qed

lemma version_text_not_eq: "\<not> startswith (version_text v) ''=''"
proof
  assume "startswith (version_text v) ''=''"
  then obtain r where "version_text v = CHR ''='' # r" by (auto simp: startswith_iff)
  then have "hd (version_text v) = CHR ''=''" by simp
  moreover have "CHR ''='' \<notin> set ''0123456789''" by simp
  ultimately show False using version_text_head [of v] by (simp only:)
qed

lemma constraint_parts_ge: "constraint_parts (''>='' @ version_text v) = Some (''>='', version_text v)"
  by (simp add: constraint_parts_def)

lemma constraint_parts_lt: "constraint_parts (''<'' @ version_text v) = Some (''<'', version_text v)"
  using version_text_not_eq [of v] by (cases "version_text v") (auto simp: constraint_parts_def split: if_splits)

lemma satisfies_half_open:
  assumes "version_ok v" and "version_ok l" and "version_ok h"
  shows "satisfies (JStr (version_text v)) (JStr ((''>='' @ version_text l) @ '' '' @ (''<'' @ version_text h))) =
    Inr (version_le l v \<and> version_less v h)"
proof -
  have w: "word_text (''>='' @ version_text l)" "word_text (''<'' @ version_text h)"
    by (rule word_version, code_simp)+
  have "ascii ('' '' @ ''<'' @ version_text h)" using ascii_version_text by simp (code_simp)
  then have "starts_char ('' '' @ ''<'' @ version_text h)" by (rule ascii_starts)
  from not_blank_word [OF w(1) this] split_words_two [OF w]
  show ?thesis unfolding satisfies_def parse_version_text [OF assms(1)]
    by (simp add: check_constraint_def constraint_parts_ge [simplified] constraint_parts_lt [simplified]
        parse_version_text assms compare_versions_def)
qed

end
