(* ===== verification/Recipes.thy ===== *)
theory Recipes
  imports Prelude
begin

text \<open>
  \<^verbatim>\<open>recipes.py\<close>: the capabilities the automatic recipe of a platform asks for, and the enumeration of
  all of them, against which the registry checks what a provider calls reachable.
\<close>

definition RECIPE_DISCIPLINES :: "string list" where
  "RECIPE_DISCIPLINES = [''automation'', ''build'', ''debug'', ''design'', ''documentation'', ''performance'']"

definition RECIPE_TASK_TYPES :: "string list" where
  "RECIPE_TASK_TYPES = [''code-small'', ''doc-only'', ''investigation'', ''qa-only'', ''review-only'']"

section \<open>required_platform_capabilities\<close>

definition analysis_capability :: "string \<Rightarrow> string" where
  "analysis_capability platform = ''analysis.'' @ platform"

definition affected_tests :: "string \<Rightarrow> string" where
  "affected_tests platform = ''verification.'' @ platform @ ''.affected-tests''"

definition investigation_capabilities :: "string \<Rightarrow> string list \<Rightarrow> string list" where
  "investigation_capabilities platform disciplines =
     (if ''debug'' \<in> set disciplines \<and> platform = ''apple'' then [''debugging.apple.analysis'']
      else if ''performance'' \<in> set disciplines \<and> platform = ''apple'' then [''performance.apple'']
      else if ''automation'' \<in> set disciplines \<and> platform = ''apple'' then [''automation.apple'']
      else [analysis_capability platform])"

definition base_capabilities :: "string \<Rightarrow> string list \<Rightarrow> string list" where
  "base_capabilities platform disciplines =
     (if ''build'' \<in> set disciplines \<and> platform = ''apple''
      then [''build.apple.configuration'', ''verification.apple.affected-tests'']
      else if ''debug'' \<in> set disciplines \<and> platform = ''apple''
      then [''debugging.apple.execute'', ''verification.apple.affected-tests'']
      else if ''performance'' \<in> set disciplines \<and> platform = ''apple'' then [''performance.apple'']
      else if ''automation'' \<in> set disciplines \<and> platform = ''apple'' then [''automation.apple'']
      else [''implementation.'' @ platform, affected_tests platform])"

definition design_capabilities :: "string \<Rightarrow> string list" where
  "design_capabilities platform =
     (if platform = ''apple'' then [''design.apple.source''] else []) @
     [''design.evidence.normalize'', ''design.system'', ''design.ir.compile'', ''design.registry.resolve'',
      ''design.packet.slice''] @
     (if platform = ''apple'' then [''design.apple.binding''] else [])"

text \<open>\<open>xs.insert(xs.index(x) + 1, y)\<close>\<close>

fun insert_after :: "'a \<Rightarrow> 'a \<Rightarrow> 'a list \<Rightarrow> 'a list" where
  "insert_after x y [] = []"
| "insert_after x y (z # zs) = (if z = x then z # y # zs else z # insert_after x y zs)"

definition required_platform_capabilities :: "string \<Rightarrow> string \<Rightarrow> string list \<Rightarrow> string list" where
  "required_platform_capabilities platform task_type disciplines =
     (if task_type = ''review-only'' then []
      else if task_type = ''doc-only'' then
        analysis_capability platform # (if ''documentation'' \<in> set disciplines then [''documentation.html''] else [])
      else if task_type = ''investigation'' then investigation_capabilities platform disciplines
      else if task_type = ''qa-only'' then
        affected_tests platform # (if platform = ''apple'' then [''verification.apple.auto''] else [])
      else
        let capabilities = base_capabilities platform disciplines;
            designed = (if ''design'' \<in> set disciplines then design_capabilities platform @ capabilities else capabilities) in
        (if platform = ''apple'' then insert_after ''verification.apple.affected-tests'' ''verification.apple.auto'' designed
         else designed))"

section \<open>automatic_recipe_capabilities\<close>

definition core_recipe_capabilities :: "string list" where
  "core_recipe_capabilities = [''core.intent-lock'', ''qa.contract.validate'', ''qa.coverage.compile'',
     ''qa.plan.compile'', ''qa.report.aggregate'', ''report.apple.delivery'', ''reporting.delivery'',
     ''review.independent'', ''workflow.analysis'', ''workflow.orchestration'']"

text \<open>\<open>itertools.combinations(xs, n)\<close>\<close>

definition combinations :: "'a list \<Rightarrow> nat \<Rightarrow> 'a list list" where
  "combinations xs n = filter (\<lambda>c. length c = n) (subseqs xs)"

definition discipline_sets :: "string list list" where
  "discipline_sets = concat (map (combinations RECIPE_DISCIPLINES) [0..<length RECIPE_DISCIPLINES + 1])"

definition automatic_recipe_capabilities :: "string list \<Rightarrow> string list" where
  "automatic_recipe_capabilities targets =
     core_recipe_capabilities @
     concat (map (\<lambda>target. (''review.'' @ target @ ''.static'') #
       concat (map (\<lambda>task_type. concat (map (required_platform_capabilities target task_type) discipline_sets))
         RECIPE_TASK_TYPES)) targets)"

section \<open>The enumeration is complete\<close>

lemma filter_in_subseqs: "filter P xs \<in> set (subseqs xs)"
  by (induction xs) (auto simp: Let_def)

lemma discipline_set_member: "filter (\<lambda>d. d \<in> D) RECIPE_DISCIPLINES \<in> set discipline_sets"
proof -
  let ?f = "filter (\<lambda>d. d \<in> D) RECIPE_DISCIPLINES"
  have "length ?f < length RECIPE_DISCIPLINES + 1" by (simp add: le_imp_less_Suc)
  moreover have "?f \<in> set (subseqs RECIPE_DISCIPLINES)" by (rule filter_in_subseqs)
  ultimately have "?f \<in> set (combinations RECIPE_DISCIPLINES (length ?f))"
      "length ?f \<in> set [0..<length RECIPE_DISCIPLINES + 1]"
    by (simp_all only: combinations_def set_filter mem_Collect_eq set_upt atLeastLessThan_iff simp_thms le0)
  then show ?thesis unfolding discipline_sets_def set_concat set_map by (rule_tac UN_I, rule_tac imageI)
qed

text \<open>Only the recipe disciplines matter, and all task types but four behave as \<open>code-small\<close>.\<close>

definition recipe_type :: "string \<Rightarrow> string" where
  "recipe_type t = (if t \<in> set [''doc-only'', ''investigation'', ''qa-only'', ''review-only''] then t else ''code-small'')"

lemma recipe_type_known: "recipe_type t \<in> set RECIPE_TASK_TYPES"
  by (simp add: recipe_type_def RECIPE_TASK_TYPES_def)

lemma required_normal_form:
  "required_platform_capabilities p t ds =
   required_platform_capabilities p (recipe_type t) (filter (\<lambda>d. d \<in> set ds) RECIPE_DISCIPLINES)"
proof -
  have "x \<in> set (filter (\<lambda>d. d \<in> set ds) RECIPE_DISCIPLINES) \<longleftrightarrow> x \<in> set ds" if "x \<in> set RECIPE_DISCIPLINES" for x
    using that by simp
  then have "(\<forall>x \<in> set RECIPE_DISCIPLINES. x \<in> set (filter (\<lambda>d. d \<in> set ds) RECIPE_DISCIPLINES) \<longleftrightarrow> x \<in> set ds)"
    by blast
  then have m: "''automation'' \<in> set (filter (\<lambda>d. d \<in> set ds) RECIPE_DISCIPLINES) \<longleftrightarrow> ''automation'' \<in> set ds"
      "''build'' \<in> set (filter (\<lambda>d. d \<in> set ds) RECIPE_DISCIPLINES) \<longleftrightarrow> ''build'' \<in> set ds"
      "''debug'' \<in> set (filter (\<lambda>d. d \<in> set ds) RECIPE_DISCIPLINES) \<longleftrightarrow> ''debug'' \<in> set ds"
      "''design'' \<in> set (filter (\<lambda>d. d \<in> set ds) RECIPE_DISCIPLINES) \<longleftrightarrow> ''design'' \<in> set ds"
      "''documentation'' \<in> set (filter (\<lambda>d. d \<in> set ds) RECIPE_DISCIPLINES) \<longleftrightarrow> ''documentation'' \<in> set ds"
      "''performance'' \<in> set (filter (\<lambda>d. d \<in> set ds) RECIPE_DISCIPLINES) \<longleftrightarrow> ''performance'' \<in> set ds"
    by (simp_all add: RECIPE_DISCIPLINES_def)
  have t: "(recipe_type t = ''review-only'') = (t = ''review-only'')" "(recipe_type t = ''doc-only'') = (t = ''doc-only'')"
      "(recipe_type t = ''investigation'') = (t = ''investigation'')" "(recipe_type t = ''qa-only'') = (t = ''qa-only'')"
    by (simp_all add: recipe_type_def)
  show ?thesis
    unfolding required_platform_capabilities_def investigation_capabilities_def base_capabilities_def m t by (rule refl)
qed

lemma recipes_are_enumerated:
  assumes "p \<in> set targets"
  shows "set (required_platform_capabilities p t ds) \<subseteq> set (automatic_recipe_capabilities targets)"
proof -
  have "set (required_platform_capabilities p t ds) \<subseteq>
      set (concat (map (required_platform_capabilities p (recipe_type t)) discipline_sets))"
    unfolding required_normal_form [of p t ds] using discipline_set_member [of "set ds"] by auto
  also have "\<dots> \<subseteq> set (automatic_recipe_capabilities targets)"
    unfolding automatic_recipe_capabilities_def set_append set_concat set_map
    using assms recipe_type_known [of t] by fastforce
  finally show ?thesis .
qed

section \<open>The enumeration in closed form\<close>

definition neutral_design :: "string list" where
  "neutral_design = [''design.evidence.normalize'', ''design.system'', ''design.ir.compile'', ''design.registry.resolve'',
     ''design.packet.slice'']"

definition apple_recipes :: "string list" where
  "apple_recipes = [''debugging.apple.analysis'', ''performance.apple'', ''automation.apple'', ''verification.apple.auto'',
     ''build.apple.configuration'', ''debugging.apple.execute'', ''design.apple.source'', ''design.apple.binding'']"

definition reachable_capabilities :: "string \<Rightarrow> string list" where
  "reachable_capabilities t =
     [''review.'' @ t @ ''.static'', analysis_capability t, ''documentation.html'', affected_tests t,
      ''implementation.'' @ t] @ neutral_design @ (if t = ''apple'' then apple_recipes else [])"

lemma set_insert_after: "set (insert_after x y zs) = set zs \<union> (if x \<in> set zs then {y} else {})"
  by (induction zs) auto

lemma required_reachable: "set (required_platform_capabilities p t ds) \<subseteq> set (reachable_capabilities p)"
proof (cases "p = ''apple''")
  case True
  then show ?thesis
    by (simp add: required_platform_capabilities_def investigation_capabilities_def base_capabilities_def
        design_capabilities_def reachable_capabilities_def apple_recipes_def neutral_design_def set_insert_after
        affected_tests_def Let_def) (intro impI subsetI, simp)
next
  case False
  then show ?thesis
    by (simp add: required_platform_capabilities_def investigation_capabilities_def base_capabilities_def
        design_capabilities_def reachable_capabilities_def neutral_design_def Let_def) (intro impI subsetI, simp)
qed

lemma recipe_emits:
  "c \<in> set (required_platform_capabilities p t ds) \<Longrightarrow> p \<in> set targets \<Longrightarrow> c \<in> set (automatic_recipe_capabilities targets)"
  using recipes_are_enumerated by blast

lemma reachable_emitted:
  assumes "c \<in> set (reachable_capabilities p)"
  shows "c = ''review.'' @ p @ ''.static'' \<or> (\<exists>t ds. c \<in> set (required_platform_capabilities p t ds))"
proof -
  let ?r = "required_platform_capabilities p"
  note defs = required_platform_capabilities_def investigation_capabilities_def base_capabilities_def
      design_capabilities_def Let_def
  have "analysis_capability p \<in> set (?r ''doc-only'' [''documentation''])"
      "''documentation.html'' \<in> set (?r ''doc-only'' [''documentation''])"
      "affected_tests p \<in> set (?r ''qa-only'' [])"
      "''implementation.'' @ p \<in> set (?r ''code-small'' [''design''])"
      "set neutral_design \<subseteq> set (?r ''code-small'' [''design''])"
    by (simp_all add: defs set_insert_after neutral_design_def)
  moreover have "\<exists>t ds. c \<in> set (?r t ds)" if "p = ''apple''" "c \<in> set apple_recipes"
  proof -
    have "''debugging.apple.analysis'' \<in> set (?r ''investigation'' [''debug''])"
        "''performance.apple'' \<in> set (?r ''investigation'' [''performance''])"
        "''automation.apple'' \<in> set (?r ''investigation'' [''automation''])"
        "''verification.apple.auto'' \<in> set (?r ''qa-only'' [])"
        "''build.apple.configuration'' \<in> set (?r ''code-small'' [''build''])"
        "''debugging.apple.execute'' \<in> set (?r ''code-small'' [''debug''])"
        "''design.apple.source'' \<in> set (?r ''code-small'' [''design''])"
        "''design.apple.binding'' \<in> set (?r ''code-small'' [''design''])"
      by (simp_all add: defs set_insert_after that(1))
    with that(2) show ?thesis unfolding apple_recipes_def list.set insert_iff empty_iff by metis
  qed
  moreover have "c = ''review.'' @ p @ ''.static'' \<or> c = analysis_capability p \<or> c = ''documentation.html'' \<or>
      c = affected_tests p \<or> c = ''implementation.'' @ p \<or> c \<in> set neutral_design \<or> p = ''apple'' \<and> c \<in> set apple_recipes"
    using assms by (cases "p = ''apple''") (simp_all only: reachable_capabilities_def set_append Un_iff list.set insert_iff
        empty_iff if_True if_False simp_thms disj_assoc)
  ultimately show ?thesis by (elim disjE conjE) blast+
qed

lemma automatic_closed_form:
  "set (automatic_recipe_capabilities targets) =
     set core_recipe_capabilities \<union> (\<Union>t \<in> set targets. set (reachable_capabilities t))" (is "?A = ?B")
proof (rule subset_antisym)
  have "''review.'' @ t @ ''.static'' \<in> set (reachable_capabilities t)" for t
    by (simp add: reachable_capabilities_def)
  then show "?A \<subseteq> ?B"
    unfolding automatic_recipe_capabilities_def set_append set_concat set_map
    using required_reachable by fastforce
  have review: "''review.'' @ t @ ''.static'' \<in> ?A" if "t \<in> set targets" for t
    using that unfolding automatic_recipe_capabilities_def set_append set_concat set_map by fastforce
  have "c \<in> ?A" if "t \<in> set targets" "c \<in> set (reachable_capabilities t)" for t c
    using reachable_emitted [OF that(2)] review recipe_emits that(1) by metis
  moreover have "set core_recipe_capabilities \<subseteq> ?A" by (simp add: automatic_recipe_capabilities_def)
  ultimately show "?B \<subseteq> ?A" by blast
qed

lemma automatic_member [code_unfold]:
  "c \<in> set (automatic_recipe_capabilities targets) \<longleftrightarrow>
     c \<in> set core_recipe_capabilities \<or> list_ex (\<lambda>t. c \<in> set (reachable_capabilities t)) targets"
  by (simp add: automatic_closed_form list_ex_iff)

end
