(* ===== verification/PlanContracts.thy ===== *)
theory PlanContracts
  imports LedgerContracts Dag
begin

text \<open>
  The validators of \<^verbatim>\<open>contracts.py\<close> for what the planner works with: capability contracts, resolved
  policies and workflow plans. Node ids of a plan are texts here: the compiler makes no others and the
  runtime's preflight refuses them.
\<close>

section \<open>Shared checks\<close>

text \<open>A list of texts, of non-empty texts, and one without duplicates.\<close>

definition str_list :: "json \<Rightarrow> bool" where
  "str_list v \<longleftrightarrow> is_list v \<and> list_all is_str (as_list v)"

definition nonempty_str_list :: "json \<Rightarrow> bool" where
  "nonempty_str_list v \<longleftrightarrow> is_list v \<and> list_all is_nonempty_str (as_list v)"

definition unique_str_list :: "json \<Rightarrow> bool" where
  "unique_str_list v \<longleftrightarrow> nonempty_str_list v \<and> distinct (as_list v)"

text \<open>\<open>{k: v for k, v in value.items() if k not in ks}\<close>\<close>

definition without_keys :: "string list \<Rightarrow> json \<Rightarrow> json" where
  "without_keys ks value = JObj (filter (\<lambda>kv. fst kv \<notin> set ks) (as_dict value))"

section \<open>Capability contracts\<close>

definition validate_capability_contract :: "json \<Rightarrow> unit result" where
  "validate_capability_contract value =
     seqE (base value [''id'', ''version'', ''input_schema'', ''output_schema'', ''permission_profile'',
       ''side_effects'', ''idempotent'', ''concurrency_keys'', ''failure_codes''] ''capability-contract'')
     (seqE (for_each (\<lambda>f. reject_if (\<not> is_str (fld value f))
         (ContractError (''capability-contract '' @ f @ '' must be a string'')))
       [''id'', ''version'', ''input_schema'', ''output_schema'', ''permission_profile''])
     (seqE (reject_if (str_len (as_str (fld value ''id'')) < 3)
       (ContractError ''capability-contract id is invalid''))
     (seqE (reject_if (\<not> is_bool (fld value ''idempotent''))
       (ContractError ''capability-contract idempotent must be a boolean''))
     (for_each (\<lambda>f.
         seqE (reject_if (\<not> is_list (fld value f))
           (ContractError (''capability-contract '' @ f @ '' must be an array'')))
         (reject_if (list_ex (\<lambda>i. \<not> is_str i) (as_list (fld value f)))
           (ContractError (''capability-contract '' @ f @ '' must contain strings''))))
       [''side_effects'', ''concurrency_keys'', ''failure_codes'']))))"

section \<open>Resolved policies\<close>

definition MAX_RESOLVED_POLICY_FIELDS :: int where "MAX_RESOLVED_POLICY_FIELDS = 16384"
definition MAX_RESOLVED_POLICY_ITEMS :: int where "MAX_RESOLVED_POLICY_ITEMS = 16384"

text \<open>\<open>_json_item_count\<close>: the explicit stack, its top first; the count stops once it exceeds the maximum.\<close>

function count_items :: "json list \<Rightarrow> int \<Rightarrow> int" where
  "count_items [] count = count"
| "count_items (current # stack) count =
     (if count + 1 > MAX_RESOLVED_POLICY_ITEMS then count + 1
      else count_items (rev (children current) @ stack) (count + 1))"
  by pat_completeness auto
termination
  by (relation "measure (\<lambda>(st, n). sum_list (map json_nodes st))")
    (simp_all add: json_nodes.simps [of current for current] rev_map [symmetric] sum_list_rev)

definition json_item_count :: "json \<Rightarrow> int" where
  "json_item_count value = count_items [value] 0"

definition merge_strategies :: "string list" where
  "merge_strategies = [''replace'', ''append'', ''union'', ''intersect'', ''deny-wins'', ''locked'']"

definition validate_decision :: "json \<Rightarrow> unit result" where
  "validate_decision decision =
     seqE (require_fields decision [''decision'', ''reason_code'', ''source'', ''confidence'',
       ''merge_strategy'', ''overridden_candidates''] ''decision'')
     (seqE (reject_if (is_bool (fld decision ''confidence'') \<or> \<not> is_number (fld decision ''confidence'') \<or>
         \<not> in_unit_interval (fld decision ''confidence''))
       (ContractError ''decision confidence is invalid''))
     (seqE (reject_if (list_ex (\<lambda>f. \<not> is_str (fld decision f)) [''decision'', ''reason_code'', ''source''] \<or>
         \<not> str_list (fld decision ''overridden_candidates''))
       (ContractError ''decision fields are invalid''))
     (require_in (fld decision ''merge_strategy'') merge_strategies
       (ContractError ''decision merge strategy is invalid''))))"

definition validate_policy_task :: "json \<Rightarrow> unit result" where
  "validate_policy_task task =
     seqE (require_fields task [''text'', ''type'', ''risk'', ''disciplines''] ''resolved-policy.task'')
     (reject_if (list_ex (\<lambda>f. \<not> is_str (fld task f)) [''text'', ''type'', ''risk''] \<or>
         \<not> str_list (fld task ''disciplines'') \<or>
         int (length (as_list (fld task ''disciplines''))) > MAX_RESOLVED_POLICY_ITEMS)
       (ContractError ''resolved-policy task is invalid''))"

definition validate_resolved_policy :: "world \<Rightarrow> json \<Rightarrow> unit result" where
  "validate_resolved_policy w value =
     seqE (base value [''selected_platforms'', ''task'', ''decisions'', ''constraints'', ''fingerprint'']
       ''resolved-policy'')
     (let platforms = fld value ''selected_platforms''; constraints = fld value ''constraints'';
          decisions = fld value ''decisions'' in
      seqE (reject_if (\<not> is_nonempty_str (fld value ''fingerprint''))
        (ContractError ''resolved-policy fingerprint is invalid''))
      (seqE (reject_if (\<not> str_list platforms \<or> \<not> distinct (as_list platforms) \<or>
          int (length (as_list platforms)) > MAX_RESOLVED_POLICY_ITEMS)
        (ContractError ''resolved-policy selected platforms must be unique strings''))
      (seqE (reject_if (\<not> is_obj constraints \<or> \<not> is_list decisions)
        (ContractError ''resolved-policy fields are invalid''))
      (seqE (reject_if (int (length (as_dict constraints)) > MAX_RESOLVED_POLICY_FIELDS)
        (ContractError ''resolved-policy constraints exceed maximum of 16384 fields''))
      (seqE (reject_if (json_item_count constraints > MAX_RESOLVED_POLICY_ITEMS)
        (ContractError ''policy exceeds maximum of 16384 items''))
      (seqE (reject_if (int (length (as_list decisions)) > MAX_RESOLVED_POLICY_FIELDS)
        (ContractError ''resolved-policy decisions exceed maximum of 16384 items''))
      (seqE (validate_policy_task (fld value ''task''))
      (seqE (for_each validate_decision (as_list decisions))
      (bindE (sha256 w (without_keys [''fingerprint''] value)) (\<lambda>expected.
      reject_if (fld value ''fingerprint'' \<noteq> JStr expected)
        (ContractError ''resolved-policy fingerprint mismatch''))))))))))) "

section \<open>Workflow plans\<close>

definition validate_bootstrap_entry :: "json \<Rightarrow> unit result" where
  "validate_bootstrap_entry requirement =
     seqE (require_fields requirement [''platform'', ''provider'', ''package_compatibility'',
       ''required_capabilities''] ''workflow-plan.bootstrap-required'')
     (reject_if (list_ex (\<lambda>f. \<not> is_nonempty_str (fld requirement f))
         [''platform'', ''provider'', ''package_compatibility''] \<or>
         \<not> unique_str_list (fld requirement ''required_capabilities'') \<or>
         as_list (fld requirement ''required_capabilities'') = [])
       (ContractError ''workflow-plan bootstrap_required entry is invalid''))"

text \<open>The fingerprint and the id of a plan frozen to a package lock.\<close>

definition validate_locked_identity :: "world \<Rightarrow> json \<Rightarrow> unit result" where
  "validate_locked_identity w value =
     (let h = fld value ''package_lock_hash'' in
      if h = JNull then Inr ()
      else
        seqE (reject_if (\<not> is_str h \<or> \<not> is_hex 64 (as_str h))
          (ContractError ''workflow-plan package_lock_hash is invalid''))
        (bindE (sha256 w (without_keys [''fingerprint'', ''plan_id''] value)) (\<lambda>expected.
        seqE (reject_if (fld value ''fingerprint'' \<noteq> JStr expected)
          (ContractError ''locked workflow-plan fingerprint mismatch''))
        (reject_if (fld value ''plan_id'' \<noteq> JStr (''plan-'' @ take 12 expected))
          (ContractError ''locked workflow-plan id mismatch'')))))"

definition validate_plan_bootstrap :: "json \<Rightarrow> unit result" where
  "validate_plan_bootstrap value =
     (let required = fld_or value ''bootstrap_required'' (JList []) in
      seqE (reject_if (\<not> is_list required) (ContractError ''workflow-plan bootstrap_required must be an array''))
      (seqE (for_each validate_bootstrap_entry (as_list required))
      (seqE (reject_if (has_duplicates (map (\<lambda>r. fld r ''platform'') (as_list required)))
        (ContractError ''workflow-plan bootstrap_required platforms must be unique''))
      (reject_if (as_list required \<noteq> [] \<and> fld value ''status'' \<noteq> JStr ''blocked'')
        (ContractError ''workflow-plan bootstrap_required must block execution'')))))"

definition validate_plan_node :: "json \<Rightarrow> unit result" where
  "validate_plan_node node =
     seqE (require_fields node [''id'', ''capability'', ''mandatory'', ''status'', ''timeout_seconds'',
       ''max_retries''] ''workflow-plan.node'')
     (reject_when (orE (le_int (fld node ''timeout_seconds'') 0) (lt_int (fld node ''max_retries'') 0))
       (ContractError ''workflow-plan node retry or timeout metadata is invalid''))"

definition validate_plan_edge :: "string list \<Rightarrow> json \<Rightarrow> unit result" where
  "validate_plan_edge known edge =
     seqE (require_fields edge [''from'', ''to''] ''workflow-plan.edge'')
     (seqE (require_in (fld edge ''from'') known (ContractError ''workflow-plan edge references unknown node''))
     (require_in (fld edge ''to'') known (ContractError ''workflow-plan edge references unknown node'')))"

definition edge_pair :: "json \<Rightarrow> string \<times> string" where
  "edge_pair e = (as_str (fld e ''from''), as_str (fld e ''to''))"

definition validate_plan_graph :: "json \<Rightarrow> unit result" where
  "validate_plan_graph value =
     bindE (iterate (fld value ''nodes'')) (\<lambda>nodes.
     bindE (mapE (\<lambda>n. get_opt n ''id'') nodes) (\<lambda>ids.
     seqE (reject_when (if JNull \<in> set ids then Inr True else mapR Not (all_unique ids))
       (ContractError ''workflow-plan node ids must be present and unique''))
     (if \<not> list_all is_str ids then Inl (TypeError ''node ids are not texts'')
      else
        let known = map as_str ids in
        seqE (for_each validate_plan_node nodes)
        (bindE (iterate (fld value ''edges'')) (\<lambda>edges.
        seqE (for_each (validate_plan_edge known) edges)
        (bindE (kahn known (map edge_pair edges)) (\<lambda>visited.
        reject_if (length visited \<noteq> length known)
          (ContractError ''workflow-plan contains dependency cycle'')))))))) "

definition validate_workflow_plan :: "world \<Rightarrow> json \<Rightarrow> unit result" where
  "validate_workflow_plan w value =
     seqE (base value [''plan_id'', ''fingerprint'', ''nodes'', ''edges'', ''status''] ''workflow-plan'')
     (seqE (validate_locked_identity w value)
     (seqE (if has_key value ''workflow''
        then require_fields (fld value ''workflow'') [''roles'', ''checkpoints'', ''independent_review'']
          ''workflow-plan.workflow''
        else Inr ())
     (seqE (validate_plan_bootstrap value)
     (validate_plan_graph value))))"

end
