(* ===== verification/Registry.thy ===== *)
theory Registry
  imports Versions Recipes PlanContracts
begin

text \<open>
  \<^verbatim>\<open>registry/manifests.py\<close>: the registry of plugin manifests, the lookup of capability providers and
  bindings, and the checks of the graph of manifests. Manifest ids, capability ids, targets and the names in
  sets are texts here; where the code would accept other hashable values the model answers a type error.
\<close>

section \<open>State\<close>

text \<open>A manifest with the digest of its file. The path is only reported.\<close>

record registered_manifest =
  manifest_value :: json
  manifest_digest :: string

record resolved_binding =
  capability_id :: string
  provider_id :: json
  binding :: json
  binding_contract :: json
  binding_digest :: string

record registry =
  reg_items :: "registered_manifest list"
  core_version :: json

definition type_error :: py_error where
  "type_error = TypeError ''not a text''"

definition text_of :: "json \<Rightarrow> string result" where
  "text_of v = (if is_str v then Inr (as_str v) else Inl type_error)"

text \<open>\<open>set(v)\<close> and \<open>sorted(v)\<close> for an iterable of texts.\<close>

definition texts_of :: "json \<Rightarrow> string list result" where
  "texts_of v = bindE (iterate v) (\<lambda>xs. mapE text_of xs)"

text \<open>\<open>x in v\<close> for a text \<open>x\<close>\<close>

fun text_in :: "string \<Rightarrow> json \<Rightarrow> bool result" where
  "text_in x (JList xs) = Inr (JStr x \<in> set xs)"
| "text_in x (JStr s) = Inr (contains s x)"
| "text_in x (JObj kvs) = Inr (x \<in> fst ` set kvs)"
| "text_in x _ = Inl (TypeError ''not iterable'')"

definition manifest_id :: "registered_manifest \<Rightarrow> json result" where
  "manifest_id item = getitem (manifest_value item) ''id''"

definition has_role :: "string \<Rightarrow> registered_manifest \<Rightarrow> bool" where
  "has_role role item \<longleftrightarrow> fld (manifest_value item) ''role'' = JStr role"

section \<open>Contracts and bindings\<close>

text \<open>\<open>capability_id.split(".", 1)[0]\<close>\<close>

definition capability_prefix :: "string \<Rightarrow> string" where
  "capability_prefix cid = takeWhile (\<lambda>c. c \<noteq> CHR ''.'') cid"

definition default_permission :: "json \<Rightarrow> string \<Rightarrow> json result" where
  "default_permission manifest prefix =
     (let key = (if prefix \<in> set [''implementation'', ''verification''] then prefix else ''detection'') in
      bindE (get_default manifest ''permissions'' (JObj [])) (\<lambda>permissions.
      get_default permissions key (JStr ''repository-read-only'')))"

definition normalized_contract :: "json \<Rightarrow> json \<Rightarrow> json result" where
  "normalized_contract manifest entry =
     bindE (getitem entry ''id'') (\<lambda>i. if \<not> is_str i then Inl (AttributeError ''split'') else
     let cid = as_str i; prefix = capability_prefix cid in
     bindE (if truthy (fld entry ''permission_profile'') then Inr (fld entry ''permission_profile'')
            else default_permission manifest prefix) (\<lambda>permission.
     bindE (getitem manifest ''id'') (\<lambda>mid.
     let side_effects = (if fld entry ''side_effects'' \<noteq> JNull then fld entry ''side_effects''
           else if prefix = ''implementation'' then JList [JStr ''project-files'']
           else if prefix = ''verification'' then JList [JStr ''validation-artifacts''] else JList []);
         keys = (if fld entry ''concurrency_keys'' \<noteq> JNull then fld entry ''concurrency_keys''
           else if prefix = ''implementation'' then JList [JStr (''repository-write:'' @ as_str mid)]
           else if prefix = ''verification'' then JList [JStr (''build-queue:'' @ as_str mid)] else JList []) in
     Inr (JObj [
       (''concurrency_keys'', keys),
       (''failure_codes'', fld_or entry ''failure_codes''
          (JList [JStr ''tool-unavailable'', JStr ''environment-blocked'', JStr ''contract-violation''])),
       (''id'', JStr cid),
       (''idempotent'', fld_or entry ''idempotent'' (JBool (prefix \<noteq> ''implementation''))),
       (''input_schema'', fld_or entry ''input_schema'' (JStr ''generic-request-v1'')),
       (''output_schema'', fld_or entry ''output_schema'' (JStr ''generic-result-v1'')),
       (''permission_profile'', permission),
       (''schema_version'', JStr ''1.0''),
       (''side_effects'', side_effects),
       (''version'', fld_or entry ''version'' (JStr ''1.0''))]))))"

definition normalize_binding :: "json \<Rightarrow> json result" where
  "normalize_binding value =
     (if is_nonempty_str value then Inr (JObj [(''kind'', JStr ''skill''), (''name'', value)])
      else if \<not> is_obj value then Inl (ContractError ''binding must be a string or object'')
      else
        seqE (reject_if (\<not> fst ` set (as_dict value) \<subseteq> set [''kind'', ''name'', ''mode''])
          (ContractError ''binding has unknown fields''))
        (seqE (require_in (fld value ''kind'') [''skill'', ''agent'', ''script'', ''tool'']
          (ContractError ''binding kind is invalid''))
        (seqE (reject_if (\<not> is_nonempty_str (fld value ''name'')) (ContractError ''binding name is invalid''))
        (seqE (reject_if (has_key value ''mode'' \<and> \<not> is_nonempty_str (fld value ''mode''))
          (ContractError ''binding mode is invalid''))
        (Inr value)))))"

definition supports_platform :: "json \<Rightarrow> string \<Rightarrow> bool result" where
  "supports_platform manifest platform =
     (if fld manifest ''role'' \<noteq> JStr ''provider'' then Inr True
      else bindE (get_default manifest ''targets'' (JList [])) (\<lambda>t. bindE (texts_of t) (\<lambda>targets.
        Inr (if platform = ''*'' then targets = [] else platform \<in> set targets))))"

section \<open>Lookups\<close>

definition by_id :: "registry \<Rightarrow> json \<Rightarrow> registered_manifest option" where
  "by_id reg i = find (\<lambda>item. py_eq (fld (manifest_value item) ''id'') i) (reg_items reg)"

definition provides :: "json \<Rightarrow> registered_manifest \<Rightarrow> bool result" where
  "provides cid item =
     bindE (getitem (manifest_value item) ''capabilities'') (\<lambda>c. bindE (iterate c) (\<lambda>entries.
     anyE (\<lambda>e. mapR (\<lambda>i. py_eq i cid) (get_opt e ''id'')) entries))"

definition capability_providers :: "registry \<Rightarrow> json \<Rightarrow> registered_manifest list result" where
  "capability_providers reg cid = filterE (provides cid) (reg_items reg)"

text \<open>\<open>next(item for item in capabilities if item["id"] == cid)\<close>\<close>

fun find_entry :: "json \<Rightarrow> json list \<Rightarrow> json result" where
  "find_entry cid [] = Inl StopIteration"
| "find_entry cid (e # es) = bindE (getitem e ''id'') (\<lambda>i. if py_eq i cid then Inr e else find_entry cid es)"

definition entry_of :: "json \<Rightarrow> string \<Rightarrow> json result" where
  "entry_of manifest cid =
     bindE (getitem manifest ''capabilities'') (\<lambda>c. bindE (iterate c) (\<lambda>entries. find_entry (JStr cid) entries))"

definition checked_contract :: "json \<Rightarrow> string \<Rightarrow> json result" where
  "checked_contract manifest cid =
     bindE (entry_of manifest cid) (\<lambda>entry. bindE (normalized_contract manifest entry) (\<lambda>contract.
     seqE (validate_capability_contract contract) (Inr contract)))"

definition ambiguous :: "string \<Rightarrow> py_error" where
  "ambiguous cid = ContractError (''ambiguous capability provider: '' @ cid)"

definition capability_contract :: "registry \<Rightarrow> string \<Rightarrow> json option result" where
  "capability_contract reg cid =
     bindE (capability_providers reg (JStr cid)) (\<lambda>providers.
     case providers of
       [] \<Rightarrow> Inr None
     | [item] \<Rightarrow> mapR Some (checked_contract (manifest_value item) cid)
     | _ \<Rightarrow> Inl (ambiguous cid))"

definition resolve_binding :: "registry \<Rightarrow> string \<Rightarrow> string option \<Rightarrow> resolved_binding option result" where
  "resolve_binding reg cid platform =
     bindE (capability_providers reg (JStr cid)) (\<lambda>all.
     bindE (case platform of None \<Rightarrow> Inr all | Some p \<Rightarrow> filterE (\<lambda>i. supports_platform (manifest_value i) p) all) (\<lambda>providers.
     case providers of
       [] \<Rightarrow> Inr None
     | [item] \<Rightarrow>
         let m = manifest_value item in
         bindE (get_default m ''bindings'' (JObj [])) (\<lambda>bindings. bindE (get_opt bindings cid) (\<lambda>raw.
         if raw = JNull then Inl (ContractError (''capability has no binding: '' @ cid))
         else
           bindE (normalize_binding raw) (\<lambda>b. bindE (checked_contract m cid) (\<lambda>contract.
           bindE (getitem m ''id'') (\<lambda>pid.
           Inr (Some \<lparr>capability_id = cid, provider_id = pid, binding = b, binding_contract = contract,
             binding_digest = manifest_digest item\<rparr>))))))
     | _ \<Rightarrow> Inl (ambiguous cid)))"

definition bootstraps_platform :: "string \<Rightarrow> registered_manifest \<Rightarrow> bool result" where
  "bootstraps_platform platform item =
     (let m = manifest_value item in
      if \<not> has_role ''bootstrap'' item then Inr False
      else if fld m ''id'' = JStr platform then Inr True
      else bindE (get_default m ''targets'' (JList [])) (text_in platform))"

definition bootstrap_requirement :: "registry \<Rightarrow> string \<Rightarrow> json option result" where
  "bootstrap_requirement reg platform =
     bindE (filterE (bootstraps_platform platform) (reg_items reg)) (\<lambda>candidates.
     case candidates of
       [] \<Rightarrow> Inr None
     | [item] \<Rightarrow>
         bindE (getitem (manifest_value item) ''provider_contract'') (\<lambda>contract.
         bindE (getitem contract ''package_id'') (\<lambda>package.
         if (case by_id reg package of Some p \<Rightarrow> has_role ''provider'' p | None \<Rightarrow> False) then Inr None
         else
           bindE (getitem contract ''package_compatibility'') (\<lambda>compatibility.
           bindE (getitem contract ''required_capabilities'') (\<lambda>required.
           bindE (texts_of required) (\<lambda>capabilities.
           Inr (Some (JObj [
             (''package_compatibility'', compatibility), (''platform'', JStr platform), (''provider'', package),
             (''required_capabilities'', JList (map JStr (sort capabilities)))])))))))
     | _ \<Rightarrow> Inl (ContractError (''ambiguous platform bootstrap contract: '' @ platform)))"

definition registry_digest :: "world \<Rightarrow> registry \<Rightarrow> string result" where
  "registry_digest w reg =
     bindE (mapE (\<lambda>item. mapR (\<lambda>i. JObj [(''id'', i), (''sha256'', JStr (manifest_digest item))]) (manifest_id item))
       (reg_items reg)) (\<lambda>xs. sha256 w (JList xs))"

end
