(* ===== verification/Planner.thy ===== *)
theory Planner
  imports Registry
begin

text \<open>
  \<^verbatim>\<open>planning/compiler.py\<close>: a resolved policy becomes a plan of capability nodes and edges. The draft
  carries the local variables of \<open>compile\<close>; the package-lock validators are parameters.
\<close>

section \<open>Nodes and drafts\<close>

definition MAX_PLAN_INPUT_ITEMS :: int where "MAX_PLAN_INPUT_ITEMS = 16384"
definition MAX_PLAN_NODES :: int where "MAX_PLAN_NODES = 16384"
definition MAX_PLAN_EDGES :: int where "MAX_PLAN_EDGES = 65536"

text \<open>\<open>_node(...)\<close>\<close>

definition plan_node :: "string \<Rightarrow> string \<Rightarrow> bool \<Rightarrow> resolved_binding option \<Rightarrow> json" where
  "plan_node nid capability mandatory resolution =
     (let contract = (case resolution of Some r \<Rightarrow> binding_contract r | None \<Rightarrow> JObj []);
          idempotent = fld_or contract ''idempotent'' (JBool True);
          from_resolution = (\<lambda>g. case resolution of Some r \<Rightarrow> g r | None \<Rightarrow> JNull) in
      JObj [
        (''approval'', JNull),
        (''binding'', from_resolution binding),
        (''capability'', JStr capability),
        (''id'', JStr nid),
        (''mandatory'', JBool mandatory),
        (''max_retries'', JInt (if truthy idempotent then 1 else 0)),
        (''idempotent'', idempotent),
        (''permission_profile'', fld_or contract ''permission_profile''
           (JStr (if capability = ''core.intent-lock'' then ''repository-read-only'' else ''project-read-execute''))),
        (''provider'', from_resolution provider_id),
        (''provider_manifest_digest'', from_resolution (\<lambda>r. JStr (binding_digest r))),
        (''resource_keys'', fld_or contract ''concurrency_keys'' (JList [])),
        (''side_effects'', fld_or contract ''side_effects'' (JList [])),
        (''status'', JStr ''pending''),
        (''timeout_seconds'', JInt 300)])"

record draft =
  d_nodes :: "json list"
  d_edges :: edges
  d_missing :: "string list"
  d_bootstrap :: "json list"
  d_previous :: "string list"

definition empty_draft :: "string list \<Rightarrow> draft" where
  "empty_draft missing = \<lparr>d_nodes = [], d_edges = [], d_missing = missing, d_bootstrap = [], d_previous = []\<rparr>"

text \<open>A node with an edge from each source.\<close>

definition add_node :: "string \<Rightarrow> string \<Rightarrow> bool \<Rightarrow> resolved_binding option \<Rightarrow> string list \<Rightarrow> draft \<Rightarrow> draft" where
  "add_node nid capability mandatory resolution sources d =
     d\<lparr>d_nodes := d_nodes d @ [plan_node nid capability mandatory resolution],
       d_edges := d_edges d @ map (\<lambda>s. (s, nid)) sources\<rparr>"

definition note_missing :: "string \<Rightarrow> resolved_binding option \<Rightarrow> draft \<Rightarrow> draft" where
  "note_missing capability resolution d =
     (if resolution = None then d\<lparr>d_missing := d_missing d @ [capability]\<rparr> else d)"

section \<open>The steps of compile\<close>

definition is_code :: "string \<Rightarrow> bool" where
  "is_code task_type = startswith task_type ''code''"

definition requires_platform :: "string \<Rightarrow> bool" where
  "requires_platform task_type \<longleftrightarrow> is_code task_type \<or> task_type \<in> set [''qa-only'', ''investigation'']"

text \<open>The intent, the workflow analysis and, for code tasks, the orchestration.\<close>

definition add_intent :: "registry \<Rightarrow> draft \<Rightarrow> draft result" where
  "add_intent reg d =
     bindE (resolve_binding reg ''core.intent-lock'' None) (\<lambda>r.
     Inr ((add_node ''intent'' ''core.intent-lock'' True r [] d)\<lparr>d_previous := [''intent'']\<rparr>))"

definition add_optional :: "registry \<Rightarrow> string \<Rightarrow> string \<Rightarrow> draft \<Rightarrow> draft result" where
  "add_optional reg nid capability d =
     bindE (resolve_binding reg capability None) (\<lambda>r.
     Inr (if r = None then d else (add_node nid capability True r (d_previous d) d)\<lparr>d_previous := [nid]\<rparr>))"

definition add_workflow :: "registry \<Rightarrow> string \<Rightarrow> draft \<Rightarrow> draft result" where
  "add_workflow reg task_type d =
     bindE (add_intent reg d) (\<lambda>d1.
     bindE (add_optional reg ''workflow-analysis'' ''workflow.analysis'' d1) (\<lambda>d2.
     if is_code task_type then add_optional reg ''workflow-orchestration'' ''workflow.orchestration'' d2 else Inr d2))"

text \<open>\<open>all(...)\<close> and \<open>any(...)\<close> over resolutions, which stop at the first decisive one.\<close>

definition qa_provider_available :: "registry \<Rightarrow> bool result" where
  "qa_provider_available reg =
     mapR Not (anyE (\<lambda>c. mapR (\<lambda>r. r = None) (resolve_binding reg c None))
       [''qa.plan.compile'', ''qa.coverage.compile'', ''qa.contract.validate'', ''qa.report.aggregate''])"

definition automatic_verification :: "registry \<Rightarrow> string list \<Rightarrow> bool result" where
  "automatic_verification reg platforms =
     anyE (\<lambda>p. mapR (\<lambda>r. r \<noteq> None) (resolve_binding reg (''verification.'' @ p @ ''.auto'') (Some p))) platforms"

definition qa_is_needed :: "registry \<Rightarrow> string list \<Rightarrow> string list \<Rightarrow> bool result" where
  "qa_is_needed reg disciplines platforms =
     bindE (qa_provider_available reg) (\<lambda>available. bindE (automatic_verification reg platforms) (\<lambda>automatic.
     Inr (''qa'' \<in> set disciplines \<and> (available \<or> \<not> automatic))))"

text \<open>A chain of quality nodes: each follows what came before.\<close>

definition add_qa_node :: "registry \<Rightarrow> draft \<Rightarrow> string \<times> string \<Rightarrow> draft result" where
  "add_qa_node reg d p =
     bindE (resolve_binding reg (snd p) None) (\<lambda>r.
     Inr ((add_node (fst p) (snd p) True r (sorted_set (d_previous d)) (note_missing (snd p) r d))
       \<lparr>d_previous := [fst p]\<rparr>))"

definition qa_before :: "(string \<times> string) list" where
  "qa_before = [(''qa-plan'', ''qa.plan.compile''), (''qa-coverage'', ''qa.coverage.compile''),
     (''qa-design'', ''qa.contract.validate'')]"

definition qa_after :: "string \<Rightarrow> (string \<times> string) list" where
  "qa_after task_type =
     (if task_type = ''qa-only''
      then [(''qa-triage'', ''qa.contract.validate''), (''qa-regression'', ''qa.contract.validate'')] else []) @
     [(''qa-report'', ''qa.report.aggregate'')]"

text \<open>The branch of one platform: a chain from the branch roots; its last node is a tail.\<close>

definition branch_node_id :: "string \<Rightarrow> nat \<Rightarrow> string" where
  "branch_node_id platform i = platform @ ''-'' @ decimal (i + 1)"

definition add_branch_node :: "registry \<Rightarrow> string \<Rightarrow> draft \<Rightarrow> nat \<times> string \<Rightarrow> draft result" where
  "add_branch_node reg platform d p =
     (let nid = branch_node_id platform (fst p); capability = snd p in
      bindE (resolve_binding reg capability (Some platform)) (\<lambda>r.
      Inr ((add_node nid capability True r (d_previous d) (note_missing capability r d))\<lparr>d_previous := [nid]\<rparr>)))"

definition add_branch :: "registry \<Rightarrow> string \<Rightarrow> string list \<Rightarrow> string list \<Rightarrow> draft \<times> string list \<Rightarrow> string \<Rightarrow> (draft \<times> string list) result" where
  "add_branch reg task_type disciplines roots st platform =
     (let capabilities = required_platform_capabilities platform task_type disciplines; d = fst st in
      bindE (bootstrap_requirement reg platform) (\<lambda>bootstrap.
      let d1 = (case bootstrap of
          Some b \<Rightarrow> if capabilities \<noteq> [] then d\<lparr>d_bootstrap := d_bootstrap d @ [b]\<rparr> else d
        | None \<Rightarrow> d) in
      bindE (foldE (add_branch_node reg platform) (d1\<lparr>d_previous := roots\<rparr>) (enumerate 0 capabilities)) (\<lambda>d2.
      Inr (d2, snd st @ d_previous d2))))"

definition add_platforms :: "registry \<Rightarrow> string \<Rightarrow> string list \<Rightarrow> string list \<Rightarrow> draft \<Rightarrow> draft result" where
  "add_platforms reg task_type disciplines platforms d =
     (let roots = sorted_set (d_previous d) in
      bindE (foldE (add_branch reg task_type disciplines roots) (d, []) platforms) (\<lambda>st.
      Inr ((fst st)\<lparr>d_previous := sorted_set (if snd st \<noteq> [] then snd st else roots)\<rparr>)))"

text \<open>The static reviews of the platforms that offer one.\<close>

definition add_static_review :: "registry \<Rightarrow> string list \<Rightarrow> draft \<times> string list \<Rightarrow> string \<Rightarrow> (draft \<times> string list) result" where
  "add_static_review reg sources st platform =
     (let capability = ''review.'' @ platform @ ''.static''; nid = ''review-'' @ platform in
      bindE (resolve_binding reg capability (Some platform)) (\<lambda>r.
      Inr (if r = None then st
           else (add_node nid capability True r sources (fst st), snd st @ [nid]))))"

definition add_static_reviews :: "registry \<Rightarrow> string \<Rightarrow> string list \<Rightarrow> draft \<Rightarrow> draft result" where
  "add_static_reviews reg task_type platforms d =
     (if is_code task_type \<or> task_type = ''review-only'' then
        bindE (foldE (add_static_review reg (sorted_set (d_previous d))) (d, []) platforms) (\<lambda>st.
        Inr (if snd st \<noteq> [] then (fst st)\<lparr>d_previous := snd st\<rparr> else fst st))
      else Inr d)"

text \<open>The independent review and the delivery report.\<close>

definition review_platform :: "string list \<Rightarrow> string" where
  "review_platform platforms = (case platforms of [p] \<Rightarrow> p | _ \<Rightarrow> ''*'')"

definition add_review :: "registry \<Rightarrow> string \<Rightarrow> string list \<Rightarrow> draft \<Rightarrow> draft result" where
  "add_review reg task_type platforms d =
     bindE (resolve_binding reg ''review.independent'' (Some (review_platform platforms))) (\<lambda>r.
     Inr (add_node ''review'' ''review.independent'' (is_code task_type \<or> task_type = ''review-only'') r
       (filter (\<lambda>s. s \<noteq> ''review'') (sorted_set (d_previous d))) (note_missing ''review.independent'' r d)))"

definition add_report :: "registry \<Rightarrow> string list \<Rightarrow> draft \<Rightarrow> draft result" where
  "add_report reg platforms d =
     bindE (resolve_binding reg ''reporting.delivery'' None) (\<lambda>r1.
     bindE (if r1 = None then resolve_binding reg ''report.apple.delivery'' (Some (review_platform platforms)) else Inr r1) (\<lambda>r.
     Inr (case r of None \<Rightarrow> d | Some b \<Rightarrow> add_node ''report'' (capability_id b) True r [''review''] d)))"

definition routing_gaps :: "string \<Rightarrow> string list \<Rightarrow> json \<Rightarrow> string list" where
  "routing_gaps task_type platforms constraints =
     (if requires_platform task_type \<and> platforms = [] then [''routing.platform-selection''] else []) @
     (if truthy (fld constraints ''routing_ambiguities'') then [''routing.ambiguity-resolution''] else [])"

definition compile_draft :: "registry \<Rightarrow> string \<Rightarrow> string list \<Rightarrow> string list \<Rightarrow> json \<Rightarrow> draft result" where
  "compile_draft reg task_type disciplines platforms constraints =
     bindE (add_workflow reg task_type (empty_draft (routing_gaps task_type platforms constraints))) (\<lambda>d1.
     bindE (qa_is_needed reg disciplines platforms) (\<lambda>qa.
     bindE (if qa then foldE (add_qa_node reg) d1 qa_before else Inr d1) (\<lambda>d2.
     bindE (add_platforms reg task_type disciplines platforms d2) (\<lambda>d3.
     bindE (add_static_reviews reg task_type platforms d3) (\<lambda>d4.
     bindE (if qa then foldE (add_qa_node reg) d4 (qa_after task_type) else Inr d4) (\<lambda>d5.
     bindE (add_review reg task_type platforms d5) (\<lambda>d6.
     add_report reg platforms d6)))))))"

section \<open>The plan\<close>

definition workflow_contract :: "string \<Rightarrow> string list \<Rightarrow> json" where
  "workflow_contract task_type disciplines =
     (let roles = (if is_code task_type then [''explorer'', ''builder'', ''reporter'', ''reviewer'']
            else if task_type = ''review-only'' then [''reviewer'', ''reporter'']
            else if task_type = ''qa-only'' then [''explorer'', ''test-executor'', ''reporter'', ''reviewer'']
            else [''explorer'', ''builder'', ''reporter'']);
          with_qa = (if ''qa'' \<in> set disciplines
            then rev (remdups (rev (butlast roles @ [''case-designer'', ''test-executor'', ''triage'', ''regression-owner''] @ [last roles])))
            else roles) in
      JObj [(''checkpoints'', JList (map JStr [''CP0'', ''CP1'', ''CP2'', ''CP3''])),
        (''independent_review'', JBool (is_code task_type \<or> task_type = ''review-only'')),
        (''roles'', JList (map JStr with_qa))])"

definition draft_node_ids :: "draft \<Rightarrow> string list" where
  "draft_node_ids d = map (\<lambda>n. as_str (fld n ''id'')) (d_nodes d)"

text \<open>\<open>_topological_order\<close>\<close>

definition check_order :: "draft \<Rightarrow> unit result" where
  "check_order d =
     (let ids = remdups (draft_node_ids d) in
      seqE (for_each (\<lambda>e. reject_if (fst e \<notin> set ids \<or> snd e \<notin> set ids)
        (ContractError ''edge references unknown node'')) (d_edges d))
      (bindE (kahn ids (d_edges d)) (\<lambda>xs.
      reject_if (length xs \<noteq> length ids) (ContractError ''workflow plan contains dependency cycle''))))"

definition provider_blocked :: "draft \<Rightarrow> bool" where
  "provider_blocked d =
     list_ex (\<lambda>n. fld n ''mandatory'' = JBool True \<and> as_str (fld n ''capability'') \<in> set (d_missing d)) (d_nodes d)"

definition plan_status :: "bool \<Rightarrow> draft \<Rightarrow> string" where
  "plan_status routing_blocked d =
     (if routing_blocked \<or> provider_blocked d \<or> d_bootstrap d \<noteq> [] then ''blocked''
      else if d_missing d \<noteq> [] then ''degraded'' else ''ready'')"

definition edge_value :: "string \<times> string \<Rightarrow> json" where
  "edge_value e = JObj [(''from'', JStr (fst e)), (''to'', JStr (snd e))]"

definition plan_content :: "draft \<Rightarrow> string \<Rightarrow> json \<Rightarrow> string \<Rightarrow> string \<Rightarrow> json \<Rightarrow> (string \<times> json) list" where
  "plan_content d profile_hash policy_hash registry_hash status workflow =
     [(''edges'', JList (map edge_value (sort_key fst (sort_key snd (d_edges d))))),
      (''missing_capabilities'', JList (map JStr (sorted_set (d_missing d)))),
      (''nodes'', JList (d_nodes d)),
      (''profile_fingerprint'', JStr profile_hash),
      (''policy_fingerprint'', policy_hash),
      (''registry_fingerprint'', JStr registry_hash),
      (''schema_version'', JStr ''1.0''),
      (''status'', JStr status),
      (''workflow'', workflow)]"

record lock_checks =
  package_lock_ok :: "json \<Rightarrow> unit result"
  plan_lock_ok :: "json \<Rightarrow> json \<Rightarrow> unit result"

definition finish_plan :: "world \<Rightarrow> lock_checks \<Rightarrow> json option \<Rightarrow> draft \<Rightarrow> (string \<times> json) list \<Rightarrow> json result" where
  "finish_plan w locks package_lock d content0 =
     bindE (case package_lock of
         None \<Rightarrow> Inr content0
       | Some lock \<Rightarrow> seqE (package_lock_ok locks lock)
           (mapR (\<lambda>h. content0 @ [(''package_lock_hash'', h)]) (getitem lock ''fingerprint''))) (\<lambda>content1.
     let content = (if d_bootstrap d \<noteq> []
         then content1 @ [(''bootstrap_required'', JList (sort_key (\<lambda>b. as_str (fld b ''platform'')) (d_bootstrap d)))]
         else content1) in
     bindE (sha256 w (JObj content)) (\<lambda>fingerprint.
     let plan = JObj ((''fingerprint'', JStr fingerprint) # (''plan_id'', JStr (''plan-'' @ take 12 fingerprint)) # content) in
     seqE (validate_workflow_plan w plan)
     (seqE (case package_lock of None \<Rightarrow> Inr () | Some lock \<Rightarrow> plan_lock_ok locks plan lock)
     (Inr plan))))"

definition compile_plan :: "world \<Rightarrow> lock_checks \<Rightarrow> registry \<Rightarrow> json \<Rightarrow> json \<Rightarrow> json option \<Rightarrow> json result" where
  "compile_plan w locks reg profile policy package_lock =
     seqE (validate_resolved_policy w policy)
     (let platforms = map as_str (as_list (fld policy ''selected_platforms''));
          disciplines = map as_str (as_list (fld (fld policy ''task'') ''disciplines''));
          task_type = as_str (fld (fld policy ''task'') ''type'');
          constraints = fld policy ''constraints'' in
      seqE (reject_if (int (length platforms) > MAX_PLAN_INPUT_ITEMS)
        (ContractError ''plan selected platforms exceed maximum of 16384 items''))
      (seqE (reject_if (int (length disciplines) > MAX_PLAN_INPUT_ITEMS)
        (ContractError ''plan disciplines exceed maximum of 16384 items''))
      (bindE (compile_draft reg task_type disciplines platforms constraints) (\<lambda>d.
      seqE (reject_if (int (length (d_nodes d)) > MAX_PLAN_NODES)
        (ContractError ''workflow plan exceeds maximum of 16384 nodes''))
      (seqE (reject_if (int (length (d_edges d)) > MAX_PLAN_EDGES)
        (ContractError ''workflow plan exceeds maximum of 65536 edges''))
      (seqE (check_order d)
      (bindE (sha256 w profile) (\<lambda>profile_hash.
      bindE (sha256 w policy) (\<lambda>policy_hash.
      bindE (registry_digest w reg) (\<lambda>registry_hash.
      finish_plan w locks package_lock d
        (plan_content d profile_hash (fld_or policy ''fingerprint'' (JStr policy_hash)) registry_hash
          (plan_status (routing_gaps task_type platforms constraints \<noteq> []) d)
          (workflow_contract task_type disciplines))))))))))))"

end
