(* ===== verification/RegistryGraph.thy ===== *)
theory RegistryGraph
  imports Registry
begin

text \<open>
  The checks a \<^verbatim>\<open>ManifestRegistry\<close> makes when it is built: every provider package against its bootstrap
  contract, conflicts, required capabilities, bindings, and the depth-first search for cycles among the
  requirements of capabilities, with its correctness.
\<close>

section \<open>Requirement cycles\<close>

text \<open>\<open>graph.setdefault(id, set()).update(required)\<close>\<close>

definition add_requirements :: "string list \<Rightarrow> (string, string list) dict \<Rightarrow> json \<Rightarrow> (string, string list) dict result" where
  "add_requirements required g capability =
     bindE (getitem capability ''id'') (\<lambda>i. bindE (text_of i) (\<lambda>cid.
     Inr (dict_set cid ((case dict_get g cid of Some ds \<Rightarrow> ds | None \<Rightarrow> []) @ required) g)))"

definition requirement_graph :: "registered_manifest list \<Rightarrow> (string, string list) dict result" where
  "requirement_graph items =
     foldE (\<lambda>g item.
       bindE (get_default (manifest_value item) ''requires'' (JList [])) (\<lambda>r. bindE (texts_of r) (\<lambda>required.
       bindE (getitem (manifest_value item) ''capabilities'') (\<lambda>c. bindE (iterate c) (\<lambda>capabilities.
       foldE (add_requirements required) g capabilities)))))
     [] items"

definition dependencies :: "(string, string list) dict \<Rightarrow> string \<Rightarrow> string list" where
  "dependencies g capability = (case dict_get g capability of Some ds \<Rightarrow> sorted_set ds | None \<Rightarrow> [])"

definition cycle_error :: "string list \<Rightarrow> string \<Rightarrow> py_error" where
  "cycle_error path capability =
     ContractError (''manifest capability dependency cycle: '' @
       join '' -> '' (dropWhile (\<lambda>c. c \<noteq> capability) path @ [capability]))"

text \<open>
  The recursive \<open>visit\<close>: the capabilities in \<open>visiting\<close> are those of \<open>path\<close>; the result is the new
  \<open>visited\<close>. The depth of the recursion is bounded by the fuel.
\<close>

fun visit :: "nat \<Rightarrow> (string, string list) dict \<Rightarrow> string list \<Rightarrow> string list \<Rightarrow> string \<Rightarrow> string list result" where
  "visit 0 g path visited capability = Inl OutOfFuel"
| "visit (Suc n) g path visited capability =
     (if capability \<in> set path then Inl (cycle_error path capability)
      else if capability \<in> set visited then Inr visited
      else
        bindE (foldE (\<lambda>v d. visit n g (path @ [capability]) v d) visited (dependencies g capability)) (\<lambda>v.
        Inr (capability # v)))"

definition graph_nodes :: "(string, string list) dict \<Rightarrow> string list" where
  "graph_nodes g = remdups (map fst g @ concat (map snd g))"

definition check_cycles :: "(string, string list) dict \<Rightarrow> string list result" where
  "check_cycles g = foldE (\<lambda>v c. visit (Suc (length (graph_nodes g))) g [] v c) [] (sort (map fst g))"

definition validate_requirement_cycles :: "registry \<Rightarrow> unit result" where
  "validate_requirement_cycles reg =
     bindE (requirement_graph (reg_items reg)) (\<lambda>g. mapR (\<lambda>_. ()) (check_cycles g))"

section \<open>The search is correct\<close>

definition requires_edge :: "(string, string list) dict \<Rightarrow> (string \<times> string) set" where
  "requires_edge g = {(a, b). b \<in> set (dependencies g a)}"

definition explored :: "(string, string list) dict \<Rightarrow> string list \<Rightarrow> bool" where
  "explored g V \<longleftrightarrow> (\<forall>a \<in> set V. set (dependencies g a) \<subseteq> set V \<and> (a, a) \<notin> (requires_edge g)\<^sup>+)"

lemma explored_reach:
  assumes "explored g V" and "(a, b) \<in> (requires_edge g)\<^sup>+" and "a \<in> set V"
  shows "b \<in> set V"
  using assms(2) by (induction rule: trancl_induct) (use assms in \<open>auto simp: explored_def requires_edge_def\<close>)

lemma explored_insert:
  assumes "explored g V" and "set (dependencies g c) \<subseteq> set V" and "c \<notin> set V"
  shows "explored g (c # V)"
proof -
  have "(c, c) \<notin> (requires_edge g)\<^sup>+"
  proof
    assume "(c, c) \<in> (requires_edge g)\<^sup>+"
    then obtain d where d: "(c, d) \<in> requires_edge g" "(d, c) \<in> (requires_edge g)\<^sup>*"
      by (meson tranclD)
    then have "d \<in> set V" using assms(2) by (auto simp: requires_edge_def)
    moreover have "d \<noteq> c" using calculation assms(3) by blast
    ultimately have "c \<in> set V"
      using d(2) explored_reach [OF assms(1), of d c] by (meson rtranclD)
    with assms(3) show False by blast
  qed
  with assms(1,2) show ?thesis by (auto simp: explored_def)
qed

lemma dependencies_in: "b \<in> set (dependencies g a) \<Longrightarrow> \<exists>ds. (a, ds) \<in> set g \<and> b \<in> set ds"
  by (cases "dict_get g a") (auto simp: dependencies_def dest: dict_get_SomeD)

lemma dependencies_nodes: "b \<in> set (dependencies g a) \<Longrightarrow> b \<in> set (graph_nodes g)"
  by (drule dependencies_in) (force simp: graph_nodes_def)

text \<open>What a call promises: the newly visited part is explored, or there is a cycle.\<close>

definition visit_result :: "(string, string list) dict \<Rightarrow> string list \<Rightarrow> string list \<Rightarrow> string set \<Rightarrow> string list result \<Rightarrow> bool" where
  "visit_result g P V C r \<longleftrightarrow>
     (case r of
        Inr V' \<Rightarrow> explored g V' \<and> set V \<union> C \<subseteq> set V' \<and> set P \<inter> set V' = {}
      | Inl e \<Rightarrow> (\<exists>m. e = ContractError m) \<and> \<not> acyclic (requires_edge g))"

lemma visit_all:
  assumes each: "\<And>V c. c \<in> set cs \<Longrightarrow> explored g V \<Longrightarrow> set P \<inter> set V = {} \<Longrightarrow> visit_result g P V {c} (f V c)"
    and "explored g V" and "set P \<inter> set V = {}"
  shows "visit_result g P V (set cs) (foldE f V cs)"
  using assms
proof (induction cs arbitrary: V)
  case Nil
  then show ?case by (simp add: visit_result_def)
next
  case (Cons c cs)
  have one: "visit_result g P V {c} (f V c)" by (rule Cons.prems(1)) (use Cons.prems(2,3) in auto)
  show ?case
  proof (cases "f V c")
    case (Inl e)
    with one show ?thesis by (simp add: visit_result_def)
  next
    case (Inr V1)
    with one have V1: "explored g V1" "set V \<union> {c} \<subseteq> set V1" "set P \<inter> set V1 = {}" by (simp_all add: visit_result_def)
    have "visit_result g P V1 (set cs) (foldE f V1 cs)"
      by (rule Cons.IH [OF _ V1(1,3)]) (use Cons.prems(1) in auto)
    with Inr V1(2) show ?thesis by (auto simp: visit_result_def split: sum.splits)
  qed
qed

lemma visit_correct:
  assumes "distinct P" and "set P \<subseteq> set (graph_nodes g)" and "c \<in> set (graph_nodes g)"
    and "\<forall>p \<in> set P. (p, c) \<in> (requires_edge g)\<^sup>+" and "length (graph_nodes g) < n + length P"
    and "explored g V" and "set P \<inter> set V = {}"
  shows "visit_result g P V {c} (visit n g P V c)"
  using assms
proof (induction n arbitrary: P V c)
  case 0
  have "length P = card (set P)" using "0.prems"(1) by (simp add: distinct_card)
  also have "\<dots> \<le> card (set (graph_nodes g))" using "0.prems"(2) by (simp add: card_mono)
  also have "\<dots> = length (graph_nodes g)" by (simp add: graph_nodes_def length_remdups_card_conv)
  finally show ?case using "0.prems"(5) by simp
next
  case (Suc n)
  show ?case
  proof (cases "c \<in> set P \<or> c \<in> set V")
    case True
    then show ?thesis
      using Suc.prems by (auto simp: visit_result_def cycle_error_def acyclic_def)
  next
    case False
    have "visit_result g (P @ [c]) V (set (dependencies g c)) (foldE (\<lambda>v d. visit n g (P @ [c]) v d) V (dependencies g c))"
    proof (rule visit_all)
      fix V' d
      assume d: "d \<in> set (dependencies g c)" and V': "explored g V'" "set (P @ [c]) \<inter> set V' = {}"
      have cd: "(c, d) \<in> requires_edge g" using d by (simp add: requires_edge_def)
      show "visit_result g (P @ [c]) V' {d} (visit n g (P @ [c]) V' d)"
      proof (rule Suc.IH [OF _ _ _ _ _ V'])
        show "distinct (P @ [c])" using Suc.prems(1) False by simp
        show "set (P @ [c]) \<subseteq> set (graph_nodes g)" using Suc.prems(2,3) by simp
        show "d \<in> set (graph_nodes g)" using d by (rule dependencies_nodes)
        show "\<forall>p \<in> set (P @ [c]). (p, d) \<in> (requires_edge g)\<^sup>+"
          using Suc.prems(4) cd by (auto intro: trancl_into_trancl)
        show "length (graph_nodes g) < n + length (P @ [c])" using Suc.prems(5) by simp
      qed
    qed (use Suc.prems(6,7) False in auto)
    then show ?thesis
      using False explored_insert [of g _ c] by (auto simp: visit_result_def split: sum.splits)
  qed
qed

lemma check_cycles_result: "visit_result g [] [] (fst ` set g) (check_cycles g)"
proof -
  have "visit_result g [] [] (set (sort (map fst g))) (check_cycles g)"
    unfolding check_cycles_def
  proof (rule visit_all)
    fix V c
    assume "c \<in> set (sort (map fst g))" and "explored g V" and "set [] \<inter> set V = {}"
    then show "visit_result g [] V {c} (visit (Suc (length (graph_nodes g))) g [] V c)"
      by (intro visit_correct) (auto simp: graph_nodes_def)
  qed (simp_all add: explored_def)
  then show ?thesis by simp
qed

lemma check_cycles_iff: "is_ok (check_cycles g) \<longleftrightarrow> acyclic (requires_edge g)"
proof (cases "check_cycles g")
  case (Inl e)
  then show ?thesis using check_cycles_result [of g] by (simp add: visit_result_def)
next
  case (Inr V)
  then have V: "explored g V" "fst ` set g \<subseteq> set V" using check_cycles_result [of g] by (simp_all add: visit_result_def)
  have "(a, a) \<notin> (requires_edge g)\<^sup>+" for a
  proof
    assume a: "(a, a) \<in> (requires_edge g)\<^sup>+"
    then obtain b where "(a, b) \<in> requires_edge g" by (meson tranclD)
    then have "a \<in> fst ` set g"
      by (force simp: requires_edge_def dest: dependencies_in)
    with V a show False by (auto simp: explored_def)
  qed
  then show ?thesis using Inr by (simp add: acyclic_def)
qed

end
