(* ===== verification/RegistryChecks.thy ===== *)
theory RegistryChecks
  imports RegistryGraph
begin

text \<open>
  The construction of a \<^verbatim>\<open>ManifestRegistry\<close>: provider packages stay within their bootstrap contract,
  manifests do not conflict, every capability has a binding, and requirements have no cycle.
\<close>

section \<open>Provider packages\<close>

definition provider_error :: "json \<Rightarrow> string \<Rightarrow> py_error" where
  "provider_error manifest what = ContractError (''provider '' @ as_str (fld manifest ''id'') @ '' '' @ what)"

definition check_package :: "registry \<Rightarrow> json \<Rightarrow> unit result" where
  "check_package reg manifest =
     (let package = fld manifest ''package'' in
      seqE (reject_if (\<not> is_obj package) (provider_error manifest ''package metadata is required''))
      (seqE (for_each (\<lambda>f. reject_if (\<not> is_nonempty_str (fld package f)) (provider_error manifest (''package.'' @ f @ '' is required'')))
        [''version'', ''core_compatibility''])
      (bindE (satisfies (core_version reg) (fld package ''core_compatibility'')) (\<lambda>ok.
      reject_if (\<not> ok) (provider_error manifest ''is incompatible with core'')))))"

text \<open>The manifests whose \<open>provider_contract\<close> names this package.\<close>

definition is_bootstrap_of :: "json \<Rightarrow> registered_manifest \<Rightarrow> bool result" where
  "is_bootstrap_of mid item =
     bindE (get_default (manifest_value item) ''provider_contract'' (JObj [])) (\<lambda>c.
     mapR (\<lambda>p. py_eq p mid) (get_opt c ''package_id''))"

definition bootstrap_of :: "registry \<Rightarrow> json \<Rightarrow> json result" where
  "bootstrap_of reg manifest =
     bindE (filterE (is_bootstrap_of (fld manifest ''id'')) (reg_items reg)) (\<lambda>bootstraps.
     case bootstraps of
       [b] \<Rightarrow> Inr (manifest_value b)
     | _ \<Rightarrow> Inl (provider_error manifest ''requires exactly one bootstrap contract''))"

definition targets_of :: "json \<Rightarrow> string list result" where
  "targets_of manifest = bindE (get_default manifest ''targets'' (JList [])) texts_of"

definition names_in :: "json \<Rightarrow> string \<Rightarrow> string list result" where
  "names_in contract f = bindE (get_default contract f (JList [])) texts_of"

definition entries_of :: "json \<Rightarrow> (string, json) dict result" where
  "entries_of manifest =
     bindE (getitem manifest ''capabilities'') (\<lambda>c. bindE (iterate c) (\<lambda>es.
     foldE (\<lambda>d e. bindE (getitem e ''id'') (\<lambda>i. bindE (text_of i) (\<lambda>cid. Inr (dict_set cid e d)))) [] es))"

definition listed :: "string list \<Rightarrow> string" where
  "listed xs = join '', '' (sort xs)"

text \<open>Reachability: \<open>recipe\<close> entries are in the enumeration, the others are declared as manual.\<close>

definition check_reachability :: "json \<Rightarrow> string list \<Rightarrow> (string, json) dict \<Rightarrow> string list result" where
  "check_reachability manifest targets provided =
     bindE (filterE (\<lambda>p. not_in_strings (fld (snd p) ''reachability'') [''recipe'', ''manual-only'']) provided) (\<lambda>invalid.
     seqE (reject_if (invalid \<noteq> [])
       (provider_error manifest (''capabilities lack reachability: '' @ listed (map fst invalid))))
     (let manual = map fst (filter (\<lambda>p. fld (snd p) ''reachability'' = JStr ''manual-only'') provided);
          forged = map fst (filter (\<lambda>p. fld (snd p) ''reachability'' = JStr ''recipe'' \<and>
            fst p \<notin> set (automatic_recipe_capabilities (sorted_set targets))) provided) in
      seqE (reject_if (forged \<noteq> [])
        (provider_error manifest (''capabilities are not reachable from a recipe: '' @ listed forged)))
      (Inr manual)))"

text \<open>\<open>re.fullmatch(r"\d{4}-\d{2}-\d{2}", s)\<close>\<close>

definition is_date :: "string \<Rightarrow> bool" where
  "is_date s =
     (let cs = chars_of s in
      length cs = 10 \<and>
      list_all (\<lambda>i. if i \<in> {4, 7} then cs ! i = ''-'' else digit_of (cs ! i) \<noteq> None) [0..<10])"

definition check_manual_entry :: "json \<Rightarrow> string \<times> json \<Rightarrow> unit result" where
  "check_manual_entry manifest p =
     (let cid = fst p; metadata = snd p;
          invalid = provider_error manifest (''manual-only metadata is invalid: '' @ cid) in
      seqE (reject_if (\<not> is_obj metadata \<or>
        fst ` set (as_dict metadata) \<noteq> set [''entrypoint'', ''reason'', ''review_by'']) invalid)
      (bindE (getitem manifest ''bindings'') (\<lambda>bindings. bindE (get_opt bindings cid) (\<lambda>raw.
      bindE (normalize_binding raw) (\<lambda>b.
      reject_if (fld metadata ''entrypoint'' \<noteq> fld b ''name'' \<or>
          \<not> is_str (fld metadata ''reason'') \<or> is_blank (as_str (fld metadata ''reason'')) \<or>
          \<not> is_str (fld metadata ''review_by'') \<or> \<not> is_date (as_str (fld metadata ''review_by''))) invalid)))))"

definition check_manual :: "json \<Rightarrow> string list \<Rightarrow> unit result" where
  "check_manual manifest manual =
     (let declared = fld manifest ''manual_only_capabilities''; metadata = fld manifest ''manual_only_metadata'' in
      seqE (reject_when (if \<not> is_list declared then Inr True
          else bindE (texts_of declared) (\<lambda>ds. Inr (set ds \<noteq> set manual)))
        (provider_error manifest ''manual-only capability list is inconsistent''))
      (seqE (reject_if (\<not> is_obj metadata \<or> fst ` set (as_dict metadata) \<noteq> set manual)
        (provider_error manifest ''manual-only metadata is inconsistent''))
      (for_each (check_manual_entry manifest) (as_dict metadata))))"

text \<open>Permissions and side effects of one entry stay within the contract.\<close>

record provider_limits =
  allowed_permissions :: "string list"
  allowed_effects :: "string list"
  entry_permissions :: json
  entry_effects :: json

definition check_entry_limits :: "json \<Rightarrow> provider_limits \<Rightarrow> string \<times> json \<Rightarrow> unit result" where
  "check_entry_limits manifest limits p =
     (let cid = fst p in
      bindE (normalized_contract manifest (snd p)) (\<lambda>contract.
      bindE (in_strings (fld contract ''permission_profile'') (allowed_permissions limits)) (\<lambda>permitted.
      seqE (reject_if (\<not> permitted) (provider_error manifest (''expands permission for '' @ cid)))
      (bindE (get_opt (entry_permissions limits) cid) (\<lambda>own.
      seqE (reject_if (\<not> py_eq (fld contract ''permission_profile'') own)
        (provider_error manifest (''expands capability permission for '' @ cid)))
      (bindE (texts_of (fld contract ''side_effects'')) (\<lambda>effects.
      seqE (reject_if (\<not> set effects \<subseteq> set (allowed_effects limits))
        (provider_error manifest (''expands side effects for '' @ cid)))
      (bindE (names_in (entry_effects limits) cid) (\<lambda>own_effects.
      reject_if (\<not> set effects \<subseteq> set own_effects)
        (provider_error manifest (''expands capability side effects for '' @ cid)))))))))))"

definition check_provider_capabilities :: "json \<Rightarrow> json \<Rightarrow> (string, json) dict \<Rightarrow> string list \<Rightarrow> string list \<Rightarrow> string list \<Rightarrow> unit result" where
  "check_provider_capabilities manifest contract provided required optional advisory =
     (let missing = filter (\<lambda>c. c \<notin> fst ` set provided) (remdups required);
          undeclared = filter (\<lambda>c. c \<notin> set required \<union> set optional \<union> set advisory) (map fst provided) in
      seqE (reject_if (missing \<noteq> []) (provider_error manifest (''is missing required capabilities: '' @ listed missing)))
      (seqE (reject_if (undeclared \<noteq> []) (provider_error manifest (''has undeclared capabilities: '' @ listed undeclared)))
      (bindE (names_in contract ''allowed_permission_profiles'') (\<lambda>permissions.
      bindE (names_in contract ''allowed_side_effects'') (\<lambda>effects.
      bindE (get_default contract ''capability_permissions'' (JObj [])) (\<lambda>own.
      bindE (get_default contract ''capability_side_effects'' (JObj [])) (\<lambda>own_effects.
      for_each (check_entry_limits manifest \<lparr>allowed_permissions = permissions, allowed_effects = effects,
        entry_permissions = own, entry_effects = own_effects\<rparr>) provided)))))))"

definition validate_provider :: "registry \<Rightarrow> json \<Rightarrow> unit result" where
  "validate_provider reg manifest =
     seqE (check_package reg manifest)
     (bindE (bootstrap_of reg manifest) (\<lambda>bootstrap.
     bindE (getitem bootstrap ''provider_contract'') (\<lambda>contract.
     bindE (getitem bootstrap ''id'') (\<lambda>bid. bindE (text_of bid) (\<lambda>bootstrap_id.
     bindE (targets_of bootstrap) (\<lambda>bootstrap_targets.
     bindE (targets_of manifest) (\<lambda>targets.
     seqE (reject_if (targets = [] \<or> \<not> set targets \<subseteq> insert bootstrap_id (set bootstrap_targets))
       (provider_error manifest ''targets are outside its bootstrap contract''))
     (bindE (getitem contract ''package_compatibility'') (\<lambda>compatibility.
     bindE (satisfies (fld (fld manifest ''package'') ''version'') compatibility) (\<lambda>ok.
     seqE (reject_if (\<not> ok) (provider_error manifest ''version is outside its compatibility range''))
     (bindE (names_in contract ''required_capabilities'') (\<lambda>required.
     bindE (names_in contract ''optional_capabilities'') (\<lambda>optional.
     bindE (names_in contract ''advisory_capabilities'') (\<lambda>advisory.
     bindE (entries_of manifest) (\<lambda>provided.
     bindE (check_reachability manifest targets provided) (\<lambda>manual.
     seqE (check_manual manifest manual)
     (check_provider_capabilities manifest contract provided required optional advisory)))))))))))))))))"

section \<open>The graph of manifests\<close>

definition check_mode :: "json \<Rightarrow> json \<Rightarrow> json \<Rightarrow> unit result" where
  "check_mode manifest capability b =
     (let modes = fld capability ''supported_modes'';
          mid = as_str (fld manifest ''id''); cid = as_str (fld capability ''id'') in
      if modes = JNull then Inr ()
      else
        seqE (reject_if (\<not> unique_str_list modes \<or> as_list modes = [])
          (ContractError (''manifest '' @ mid @ '' capability supported_modes are invalid: '' @ cid)))
        (reject_if (fld_or b ''mode'' (JStr ''default'') \<notin> set (as_list modes))
          (ContractError (''manifest '' @ mid @ '' binding mode is unsupported for '' @ cid))))"

definition check_capability :: "json \<Rightarrow> json \<Rightarrow> unit result" where
  "check_capability manifest capability =
     (let mid = as_str (fld manifest ''id''); cid = as_str (fld capability ''id'') in
      bindE (normalized_contract manifest capability) (\<lambda>contract.
      seqE (validate_capability_contract contract)
      (if fld manifest ''role'' = JStr ''bootstrap'' then Inr ()
       else
         bindE (get_default manifest ''bindings'' (JObj [])) (\<lambda>bindings. bindE (get_opt bindings cid) (\<lambda>raw.
         seqE (reject_if (raw = JNull) (ContractError (''manifest '' @ mid @ '' capability has no binding: '' @ cid)))
         (bindE (normalize_binding raw) (\<lambda>b.
         seqE (check_mode manifest capability b)
         (let permission = fld capability ''binding_permission_profile'' in
          reject_if (permission \<noteq> JNull \<and> \<not> py_eq permission (fld contract ''permission_profile''))
            (ContractError (''manifest '' @ mid @ '' binding permission is incompatible for '' @ cid))))))))))"

definition check_manifest :: "registry \<Rightarrow> string list \<Rightarrow> registered_manifest \<Rightarrow> unit result" where
  "check_manifest reg installed item =
     (let manifest = manifest_value item; mid = as_str (fld manifest ''id'') in
      seqE (if has_role ''provider'' item then validate_provider reg manifest else Inr ())
      (bindE (names_in manifest ''conflicts'') (\<lambda>conflicts.
      let clash = filter (\<lambda>c. c \<in> set conflicts) installed in
      seqE (reject_if (clash \<noteq> []) (ContractError (''manifest '' @ mid @ '' conflicts with: '' @ listed clash)))
      (bindE (get_default manifest ''requires'' (JList [])) (\<lambda>r. bindE (iterate r) (\<lambda>required.
      seqE (for_each (\<lambda>c. bindE (capability_providers reg c) (\<lambda>ps.
          reject_if (ps = []) (ContractError (''manifest '' @ mid @ '' requires missing capability: '' @ as_str c)))) required)
      (bindE (getitem manifest ''capabilities'') (\<lambda>c. bindE (iterate c) (for_each (check_capability manifest))))))))))"

definition validate_graph :: "registry \<Rightarrow> unit result" where
  "validate_graph reg =
     bindE (mapE (\<lambda>i. bindE (manifest_id i) text_of) (reg_items reg)) (\<lambda>installed.
     seqE (for_each (check_manifest reg installed) (reg_items reg))
     (validate_requirement_cycles reg))"

text \<open>\<open>ManifestRegistry.__init__\<close>\<close>

definition new_registry :: "registered_manifest list \<Rightarrow> json \<Rightarrow> registry result" where
  "new_registry manifests version =
     bindE (mapE (\<lambda>i. bindE (manifest_id i) text_of) manifests) (\<lambda>ids.
     let items = sort_key (\<lambda>i. as_str (fld (manifest_value i) ''id'')) manifests;
         reg = \<lparr>reg_items = items, core_version = version\<rparr> in
     seqE (reject_if (has_duplicates ids) (ContractError ''manifest ids must be unique''))
     (seqE (validate_graph reg) (Inr reg)))"

end
