(* ===== verification/PlannerFacts.thy ===== *)
theory PlannerFacts
  imports Planner RegistryChecks
begin

text \<open>
  The drafts of the compiler: nodes are added after everything they depend on, so a plan is acyclic by
  construction; nodes without a provider are noted as missing; node metadata come from validated contracts.
\<close>

section \<open>Resolutions\<close>

definition registry_ok :: "registry \<Rightarrow> bool" where
  "registry_ok reg \<longleftrightarrow> (\<forall>i \<in> set (reg_items reg). is_str (fld (manifest_value i) ''id''))"

lemma new_registry_ok:
  assumes "new_registry ms v = Inr reg"
  shows "registry_ok reg" "distinct (map (\<lambda>i. as_str (fld (manifest_value i) ''id'')) (reg_items reg))"
    "sorted (map (\<lambda>i. as_str (fld (manifest_value i) ''id'')) (reg_items reg))" "set (reg_items reg) = set ms"
proof -
  let ?id = "\<lambda>i. as_str (fld (manifest_value i) ''id'')"
  obtain ids where ids: "mapE (\<lambda>i. bindE (manifest_id i) text_of) ms = Inr ids" "distinct ids"
      and reg: "reg = \<lparr>reg_items = sort_key ?id ms, core_version = v\<rparr>"
    using assms by (auto simp: new_registry_def bindE_eq_Inr seqE_eq_Inr Let_def)
  have all: "list_all2 (\<lambda>i s. bindE (manifest_id i) text_of = Inr s) ms ids" using ids(1) by (simp add: mapE_Inr_iff)
  then have str: "is_str (fld (manifest_value i) ''id'')" if "i \<in> set ms" for i
    using that by (induction rule: list_all2_induct) (auto simp: manifest_id_def text_of_def result_simps split: if_splits)
  then show "registry_ok reg" by (simp add: registry_ok_def reg)
  have "ids = map ?id ms" using all
    by (induction rule: list_all2_induct) (auto simp: manifest_id_def text_of_def result_simps split: if_splits)
  then have d: "distinct (map ?id ms)" using ids(2) by simp
  then have "inj_on ?id (set ms)" "distinct ms" by (simp_all add: distinct_map)
  then show "distinct (map ?id (reg_items reg))" by (simp add: reg distinct_map)
  show "sorted (map ?id (reg_items reg))" by (simp add: reg)
  show "set (reg_items reg) = set ms" by (simp add: reg)
qed

lemma filterE_subset: "filterE p xs = Inr ys \<Longrightarrow> set ys \<subseteq> set xs"
  by (induction xs arbitrary: ys) (auto simp: result_simps split: if_splits)

text \<open>A resolution rests on one registered manifest and a contract the validator accepted.\<close>

definition resolution_ok :: "registry \<Rightarrow> string \<Rightarrow> resolved_binding \<Rightarrow> bool" where
  "resolution_ok reg cid b \<longleftrightarrow> capability_id b = cid \<and> validate_capability_contract (binding_contract b) = Inr () \<and>
     (\<exists>item \<in> set (reg_items reg). provider_id b = fld (manifest_value item) ''id'' \<and>
        binding_digest b = manifest_digest item)"

lemma resolve_binding_ok:
  assumes "resolve_binding reg cid p = Inr (Some b)"
  shows "resolution_ok reg cid b"
proof -
  obtain all ps where ps: "capability_providers reg (JStr cid) = Inr all"
      "(case p of None \<Rightarrow> Inr all | Some p \<Rightarrow> filterE (\<lambda>i. supports_platform (manifest_value i) p) all) = Inr ps"
    and r: "(case ps of
       [] \<Rightarrow> Inr None
     | [item] \<Rightarrow>
         let m = manifest_value item in
         bindE (get_default m ''bindings'' (JObj [])) (\<lambda>bindings. bindE (get_opt bindings cid) (\<lambda>raw.
         if raw = JNull then Inl (ContractError (''capability has no binding: '' @ cid))
         else
           bindE (normalize_binding raw) (\<lambda>b. bindE (checked_contract m cid) (\<lambda>contract.
           bindE (getitem m ''id'') (\<lambda>pid.
           Inr (Some \<lparr>capability_id = cid, provider_id = pid, binding = b, binding_contract = contract,
             binding_digest = manifest_digest item\<rparr>))))))
     | _ \<Rightarrow> Inl (ambiguous cid)) = Inr (Some b)"
    using assms unfolding resolve_binding_def bindE_eq_Inr by blast
  have "set all \<subseteq> set (reg_items reg)" using ps(1) filterE_subset unfolding capability_providers_def by blast
  moreover have "set ps \<subseteq> set all" using ps(2) by (cases p) (auto dest: filterE_subset)
  ultimately have sub: "set ps \<subseteq> set (reg_items reg)" by blast
  obtain item where "ps = [item]" using r by (auto split: list.splits)
  then show ?thesis
    using r sub by (auto simp: Let_def bindE_eq_Inr seqE_eq_Inr checked_contract_def getitem_eq_Inr resolution_ok_def
        split: if_splits)
qed

section \<open>The invariant of a draft\<close>

definition resolved :: "registry \<Rightarrow> string \<Rightarrow> resolved_binding option \<Rightarrow> bool" where
  "resolved reg cid r \<longleftrightarrow> (case r of None \<Rightarrow> True | Some b \<Rightarrow> resolution_ok reg cid b)"

lemma resolve_binding_resolved: "resolve_binding reg cid p = Inr r \<Longrightarrow> resolved reg cid r"
  by (cases r) (simp_all add: resolved_def resolve_binding_ok)

definition made_node :: "registry \<Rightarrow> json \<Rightarrow> bool" where
  "made_node reg n \<longleftrightarrow> (\<exists>nid cid m r. n = plan_node nid cid m r \<and> nid \<noteq> [] \<and> resolved reg cid r)"

definition edges_forward :: "string list \<Rightarrow> edges \<Rightarrow> bool" where
  "edges_forward ids es \<longleftrightarrow> (\<forall>e \<in> set es. before ids (fst e) (snd e))"

definition draft_inv :: "registry \<Rightarrow> draft \<Rightarrow> bool" where
  "draft_inv reg d \<longleftrightarrow>
     set (d_previous d) \<subseteq> set (draft_node_ids d) \<and> edges_forward (draft_node_ids d) (d_edges d) \<and>
     (\<forall>n \<in> set (d_nodes d). made_node reg n) \<and>
     (\<forall>n \<in> set (d_nodes d). fld n ''provider_manifest_digest'' = JNull \<longrightarrow>
        fld n ''id'' = JStr ''intent'' \<or> as_str (fld n ''capability'') \<in> set (d_missing d))"

lemma plan_node_fields [simp]:
  "fld (plan_node nid cid m r) ''id'' = JStr nid" "fld (plan_node nid cid m r) ''capability'' = JStr cid"
  "fld (plan_node nid cid m r) ''mandatory'' = JBool m" "fld (plan_node nid cid m r) ''approval'' = JNull"
  "fld (plan_node nid cid m r) ''provider'' = (case r of Some b \<Rightarrow> provider_id b | None \<Rightarrow> JNull)"
  "fld (plan_node nid cid m r) ''provider_manifest_digest'' = (case r of Some b \<Rightarrow> JStr (binding_digest b) | None \<Rightarrow> JNull)"
  "fld (plan_node nid cid m r) ''status'' = JStr ''pending''"
  "fld (plan_node nid cid m r) ''timeout_seconds'' = JInt 300"
  "is_obj (plan_node nid cid m r)"
  by (simp_all add: plan_node_def Let_def fld_def)

lemma ids_add_node [simp]: "draft_node_ids (add_node nid cid m r ss d) = draft_node_ids d @ [nid]"
  by (simp add: draft_node_ids_def add_node_def)

lemma ids_update [simp]:
  "draft_node_ids (d\<lparr>d_previous := ps\<rparr>) = draft_node_ids d" "draft_node_ids (d\<lparr>d_bootstrap := bs\<rparr>) = draft_node_ids d"
  "draft_node_ids (note_missing c r d) = draft_node_ids d"
  by (simp_all add: draft_node_ids_def note_missing_def)

lemma previous_note_missing [simp]: "d_previous (note_missing c r d) = d_previous d"
  by (simp add: note_missing_def)

lemma before_append: "before xs a b \<Longrightarrow> before (xs @ ys) a b"
  unfolding before_def by (metis length_append nth_append order_less_trans trans_less_add1)

lemma before_last: "a \<in> set xs \<Longrightarrow> before (xs @ [b]) a b"
  unfolding before_def by (metis in_set_conv_nth length_append_singleton lessI nth_append nth_append_length)

lemma inv_add_node:
  assumes "draft_inv reg d" and "set ss \<subseteq> set (draft_node_ids d)" and "nid \<noteq> []" and "resolved reg cid r"
    and "r = None \<Longrightarrow> nid = ''intent'' \<or> cid \<in> set (d_missing d)"
  shows "draft_inv reg (add_node nid cid m r ss d)"
  unfolding draft_inv_def
proof (intro conjI)
  show "set (d_previous (add_node nid cid m r ss d)) \<subseteq> set (draft_node_ids (add_node nid cid m r ss d))"
    using assms(1) unfolding ids_add_node by (auto simp: draft_inv_def add_node_def)
  show "edges_forward (draft_node_ids (add_node nid cid m r ss d)) (d_edges (add_node nid cid m r ss d))"
    using assms(1) before_last [OF subsetD [OF assms(2)]] unfolding ids_add_node
    by (auto simp: draft_inv_def edges_forward_def add_node_def intro: before_append)
  show "\<forall>n \<in> set (d_nodes (add_node nid cid m r ss d)). made_node reg n"
    using assms(1,3,4) by (auto simp: draft_inv_def add_node_def made_node_def)
  show "\<forall>n \<in> set (d_nodes (add_node nid cid m r ss d)). fld n ''provider_manifest_digest'' = JNull \<longrightarrow>
        fld n ''id'' = JStr ''intent'' \<or> as_str (fld n ''capability'') \<in> set (d_missing (add_node nid cid m r ss d))"
    using assms(1,5) by (cases r) (auto simp: draft_inv_def add_node_def)
qed

lemma inv_previous: "draft_inv reg d \<Longrightarrow> set ps \<subseteq> set (draft_node_ids d) \<Longrightarrow> draft_inv reg (d\<lparr>d_previous := ps\<rparr>)"
  by (simp add: draft_inv_def)

lemma inv_bootstrap: "draft_inv reg d \<Longrightarrow> draft_inv reg (d\<lparr>d_bootstrap := bs\<rparr>)"
  by (simp add: draft_inv_def)

lemma inv_note_missing: "draft_inv reg d \<Longrightarrow> draft_inv reg (note_missing c r d)"
  unfolding note_missing_def draft_inv_def by (auto simp: draft_node_ids_def)

lemma noted: "r = None \<Longrightarrow> c \<in> set (d_missing (note_missing c r d))"
  by (simp add: note_missing_def)

lemma inv_previous_ids: "draft_inv reg d \<Longrightarrow> set (d_previous d) \<subseteq> set (draft_node_ids d)"
  by (simp add: draft_inv_def)

section \<open>Every step keeps the invariant\<close>

definition extends :: "registry \<Rightarrow> draft \<Rightarrow> draft \<Rightarrow> bool" where
  "extends reg d d' \<longleftrightarrow> draft_inv reg d' \<and> set (draft_node_ids d) \<subseteq> set (draft_node_ids d')"

lemma extends_refl: "draft_inv reg d \<Longrightarrow> extends reg d d"
  by (simp add: extends_def)

lemma extends_trans: "extends reg d1 d2 \<Longrightarrow> extends reg d2 d3 \<Longrightarrow> extends reg d1 d3"
  by (auto simp: extends_def)

lemma extends_inv: "extends reg d d' \<Longrightarrow> draft_inv reg d'"
  by (simp add: extends_def)

text \<open>A node with its own id as the only previous one: the pattern of every chain.\<close>

lemma chain_node:
  assumes "draft_inv reg d" and "resolved reg cid r" and "set ss \<subseteq> set (draft_node_ids d)" and "nid \<noteq> []"
    and "r = None \<Longrightarrow> nid = ''intent'' \<or> cid \<in> set (d_missing d)"
  shows "extends reg d ((add_node nid cid m r ss d)\<lparr>d_previous := [nid]\<rparr>)"
  unfolding extends_def using inv_previous [OF inv_add_node [OF assms(1,3,4,2,5)], of "[nid]"] by auto

lemma add_intent_inv: "add_intent reg d = Inr d' \<Longrightarrow> draft_inv reg d \<Longrightarrow> extends reg d d'"
  unfolding add_intent_def by (auto simp: bindE_eq_Inr intro!: chain_node resolve_binding_resolved)

lemma add_optional_inv:
  "add_optional reg nid cid d = Inr d' \<Longrightarrow> nid \<noteq> [] \<Longrightarrow> draft_inv reg d \<Longrightarrow> extends reg d d'"
  unfolding add_optional_def
  by (auto simp: bindE_eq_Inr extends_refl split: if_splits
      intro!: chain_node resolve_binding_resolved subsetD [OF inv_previous_ids])

lemma add_workflow_inv: "add_workflow reg t d = Inr d' \<Longrightarrow> draft_inv reg d \<Longrightarrow> extends reg d d'"
  unfolding add_workflow_def bindE_eq_Inr
  by (elim exE conjE) (auto split: if_splits dest!: add_intent_inv add_optional_inv intro: extends_trans extends_inv)

lemma extends_noted: "extends reg (note_missing c r d) d' \<Longrightarrow> extends reg d d'"
  by (simp add: extends_def)

lemma add_qa_node_inv:
  assumes "add_qa_node reg d p = Inr d'" and "fst p \<noteq> []" and "draft_inv reg d"
  shows "extends reg d d'"
proof -
  obtain r where r: "resolve_binding reg (snd p) None = Inr r"
      and d': "d' = (add_node (fst p) (snd p) True r (sorted_set (d_previous d)) (note_missing (snd p) r d))\<lparr>d_previous := [fst p]\<rparr>"
    using assms(1) by (auto simp: add_qa_node_def bindE_eq_Inr)
  show ?thesis unfolding d'
    by (rule extends_noted [OF chain_node])
      (use assms(2,3) r in \<open>simp_all add: inv_note_missing inv_previous_ids noted resolve_binding_resolved\<close>)
qed

lemma fold_extends:
  assumes "foldE f d xs = Inr d'" and "draft_inv reg d"
    and "\<And>x d d'. x \<in> set xs \<Longrightarrow> f d x = Inr d' \<Longrightarrow> draft_inv reg d \<Longrightarrow> extends reg d d'"
  shows "extends reg d d'"
  using assms(1)
proof (rule foldE_invariant)
  show "extends reg d d" using assms(2) by (rule extends_refl)
  fix e x e'
  assume "x \<in> set xs" and e: "extends reg d e" and "f e x = Inr e'"
  then have "extends reg e e'" by (intro assms(3)) (auto dest: extends_inv)
  with e show "extends reg d e'" by (rule extends_trans)
qed

lemma qa_before_inv: "foldE (add_qa_node reg) d qa_before = Inr d' \<Longrightarrow> draft_inv reg d \<Longrightarrow> extends reg d d'"
  by (erule fold_extends, assumption) (rule add_qa_node_inv, auto simp: qa_before_def)

lemma qa_after_inv: "foldE (add_qa_node reg) d (qa_after t) = Inr d' \<Longrightarrow> draft_inv reg d \<Longrightarrow> extends reg d d'"
  by (erule fold_extends, assumption) (rule add_qa_node_inv, auto simp: qa_after_def split: if_splits)

lemma add_branch_node_inv:
  assumes "add_branch_node reg pf d p = Inr d'" and "draft_inv reg d"
  shows "extends reg d d'"
proof -
  let ?nid = "branch_node_id pf (fst p)"
  obtain r where r: "resolve_binding reg (snd p) (Some pf) = Inr r"
      and d': "d' = (add_node ?nid (snd p) True r (d_previous d) (note_missing (snd p) r d))\<lparr>d_previous := [?nid]\<rparr>"
    using assms(1) by (auto simp: add_branch_node_def bindE_eq_Inr Let_def)
  show ?thesis unfolding d'
    by (rule extends_noted [OF chain_node])
      (use assms(2) r in \<open>simp_all add: inv_note_missing inv_previous_ids noted resolve_binding_resolved branch_node_id_def\<close>)
qed

lemma add_branch_inv:
  assumes "add_branch reg t ds roots st pf = Inr st'" and "draft_inv reg (fst st)"
    and "set roots \<union> set (snd st) \<subseteq> set (draft_node_ids (fst st))"
  shows "extends reg (fst st) (fst st') \<and> set (snd st') \<subseteq> set (draft_node_ids (fst st'))"
proof -
  obtain b d1 where d1: "d1 = (case b of Some c \<Rightarrow> if required_platform_capabilities pf t ds \<noteq> []
          then (fst st)\<lparr>d_bootstrap := d_bootstrap (fst st) @ [c]\<rparr> else fst st | None \<Rightarrow> fst st)"
      and f: "foldE (add_branch_node reg pf) (d1\<lparr>d_previous := roots\<rparr>) (enumerate 0 (required_platform_capabilities pf t ds)) = Inr (fst st')"
      and tails: "snd st' = snd st @ d_previous (fst st')"
    using assms(1) by (auto simp: add_branch_def bindE_eq_Inr Let_def)
  have ids: "draft_node_ids d1 = draft_node_ids (fst st)" unfolding d1 by (simp split: option.splits)
  have "draft_inv reg d1" unfolding d1 using assms(2) by (simp add: inv_bootstrap split: option.splits)
  then have "draft_inv reg (d1\<lparr>d_previous := roots\<rparr>)" using assms(3) by (simp add: inv_previous ids)
  from fold_extends [OF f this add_branch_node_inv] have "extends reg (d1\<lparr>d_previous := roots\<rparr>) (fst st')" by simp
  then have ext: "extends reg (fst st) (fst st')" by (simp add: extends_def ids)
  then show ?thesis using assms(3) tails inv_previous_ids [OF extends_inv [OF ext]] by (auto simp: extends_def)
qed

lemma add_platforms_inv:
  assumes "add_platforms reg t ds ps d = Inr d'" and "draft_inv reg d"
  shows "extends reg d d'"
proof -
  let ?roots = "sorted_set (d_previous d)"
  obtain st where f: "foldE (add_branch reg t ds ?roots) (d, []) ps = Inr st"
      and d': "d' = (fst st)\<lparr>d_previous := sorted_set (if snd st \<noteq> [] then snd st else ?roots)\<rparr>"
    using assms(1) by (auto simp: add_platforms_def bindE_eq_Inr Let_def)
  have st: "extends reg d (fst st) \<and> set (snd st) \<subseteq> set (draft_node_ids (fst st)) \<and> set ?roots \<subseteq> set (draft_node_ids (fst st))"
    using f
  proof (rule foldE_invariant)
    fix s x s'
    assume P: "extends reg d (fst s) \<and> set (snd s) \<subseteq> set (draft_node_ids (fst s)) \<and> set ?roots \<subseteq> set (draft_node_ids (fst s))"
      and s': "add_branch reg t ds ?roots s x = Inr s'"
    then have "extends reg (fst s) (fst s') \<and> set (snd s') \<subseteq> set (draft_node_ids (fst s'))"
      by (intro add_branch_inv [OF s']) (auto simp: extends_def)
    then show "extends reg d (fst s') \<and> set (snd s') \<subseteq> set (draft_node_ids (fst s')) \<and> set ?roots \<subseteq> set (draft_node_ids (fst s'))"
      using P by (auto simp: extends_def)
  qed (use assms(2) in \<open>simp add: extends_refl inv_previous_ids\<close>)
  then show ?thesis unfolding d' by (auto simp: extends_def intro!: inv_previous)
qed

lemma add_static_review_inv:
  assumes "add_static_review reg ss st pf = Inr st'" and "draft_inv reg (fst st)"
    and "set ss \<union> set (snd st) \<subseteq> set (draft_node_ids (fst st))"
  shows "extends reg (fst st) (fst st') \<and> set (snd st') \<subseteq> set (draft_node_ids (fst st'))"
proof -
  obtain r where r: "resolve_binding reg (''review.'' @ pf @ ''.static'') (Some pf) = Inr r"
      and st': "st' = (if r = None then st
        else (add_node (''review-'' @ pf) (''review.'' @ pf @ ''.static'') True r ss (fst st), snd st @ [''review-'' @ pf]))"
    using assms(1) by (auto simp: add_static_review_def bindE_eq_Inr Let_def)
  show ?thesis
  proof (cases r)
    case None
    then show ?thesis using st' assms(2,3) by (simp add: extends_refl)
  next
    case (Some b)
    have "draft_inv reg (add_node (''review-'' @ pf) (''review.'' @ pf @ ''.static'') True r ss (fst st))"
      by (rule inv_add_node) (use assms(2,3) r Some in \<open>auto simp: resolve_binding_resolved\<close>)
    then show ?thesis using st' Some assms(3) by (auto simp: extends_def)
  qed
qed

lemma add_static_reviews_inv:
  assumes "add_static_reviews reg t ps d = Inr d'" and "draft_inv reg d"
  shows "extends reg d d'"
proof (cases "is_code t \<or> t = ''review-only''")
  case False
  then show ?thesis using assms by (auto simp: add_static_reviews_def extends_refl)
next
  case True
  let ?ss = "sorted_set (d_previous d)"
  obtain st where f: "foldE (add_static_review reg ?ss) (d, []) ps = Inr st"
      and d': "d' = (if snd st \<noteq> [] then (fst st)\<lparr>d_previous := snd st\<rparr> else fst st)"
    using assms(1) True by (auto simp: add_static_reviews_def bindE_eq_Inr)
  have "extends reg d (fst st) \<and> set (snd st) \<subseteq> set (draft_node_ids (fst st)) \<and> set ?ss \<subseteq> set (draft_node_ids (fst st))"
    using f
  proof (rule foldE_invariant)
    fix s x s'
    assume P: "extends reg d (fst s) \<and> set (snd s) \<subseteq> set (draft_node_ids (fst s)) \<and> set ?ss \<subseteq> set (draft_node_ids (fst s))"
      and s': "add_static_review reg ?ss s x = Inr s'"
    then have "extends reg (fst s) (fst s') \<and> set (snd s') \<subseteq> set (draft_node_ids (fst s'))"
      by (intro add_static_review_inv [OF s']) (auto simp: extends_def)
    then show "extends reg d (fst s') \<and> set (snd s') \<subseteq> set (draft_node_ids (fst s')) \<and> set ?ss \<subseteq> set (draft_node_ids (fst s'))"
      using P by (auto simp: extends_def)
  qed (use assms(2) in \<open>simp add: extends_refl inv_previous_ids\<close>)
  then show ?thesis unfolding d' by (auto simp: extends_def intro!: inv_previous)
qed

lemma add_review_inv:
  assumes "add_review reg t ps d = Inr d'" and "draft_inv reg d"
  shows "extends reg d d' \<and> ''review'' \<in> set (draft_node_ids d')"
proof -
  let ?ss = "filter (\<lambda>s. s \<noteq> ''review'') (sorted_set (d_previous d))"
  obtain r where r: "resolve_binding reg ''review.independent'' (Some (review_platform ps)) = Inr r"
      and d': "d' = add_node ''review'' ''review.independent'' (is_code t \<or> t = ''review-only'') r ?ss
        (note_missing ''review.independent'' r d)"
    using assms(1) by (auto simp: add_review_def bindE_eq_Inr)
  have "draft_inv reg d'" unfolding d'
    by (rule inv_add_node) (use assms(2) r inv_previous_ids [OF assms(2)] in \<open>auto simp: inv_note_missing noted resolve_binding_resolved\<close>)
  then show ?thesis by (auto simp: extends_def d')
qed

lemma add_report_inv:
  assumes "add_report reg ps d = Inr d'" and "draft_inv reg d" and "''review'' \<in> set (draft_node_ids d)"
  shows "extends reg d d'"
proof -
  obtain r1 r where r1: "resolve_binding reg ''reporting.delivery'' None = Inr r1"
      and r: "(if r1 = None then resolve_binding reg ''report.apple.delivery'' (Some (review_platform ps)) else Inr r1) = Inr r"
      and d': "d' = (case r of None \<Rightarrow> d | Some b \<Rightarrow> add_node ''report'' (capability_id b) True r [''review''] d)"
    using assms(1) by (auto simp: add_report_def bindE_eq_Inr)
  show ?thesis
  proof (cases r)
    case None
    then show ?thesis using d' assms(2) by (simp add: extends_refl)
  next
    case (Some b)
    have "\<exists>c p. resolve_binding reg c p = Inr (Some b)" using r r1 Some by (auto split: if_splits)
    then have "resolved reg (capability_id b) r"
      using resolve_binding_ok Some by (fastforce simp: resolved_def resolution_ok_def)
    then have "draft_inv reg (add_node ''report'' (capability_id b) True r [''review''] d)"
      by (intro inv_add_node) (use assms(2,3) Some in auto)
    then show ?thesis using d' Some by (auto simp: extends_def)
  qed
qed

lemma compile_draft_inv:
  assumes "compile_draft reg t ds ps cs = Inr d"
  shows "draft_inv reg d"
proof -
  have e: "draft_inv reg (empty_draft m)" for m
    by (simp add: draft_inv_def empty_draft_def draft_node_ids_def edges_forward_def)
  obtain d1 qa d2 d3 d4 d5 d6 where s: "add_workflow reg t (empty_draft (routing_gaps t ps cs)) = Inr d1"
      "(if qa then foldE (add_qa_node reg) d1 qa_before else Inr d1) = Inr d2"
      "add_platforms reg t ds ps d2 = Inr d3" "add_static_reviews reg t ps d3 = Inr d4"
      "(if qa then foldE (add_qa_node reg) d4 (qa_after t) else Inr d4) = Inr d5"
      "add_review reg t ps d5 = Inr d6" "add_report reg ps d6 = Inr d"
    using assms unfolding compile_draft_def bindE_eq_Inr by blast
  have "draft_inv reg d1" using add_workflow_inv [OF s(1) e] by (rule extends_inv)
  then have "draft_inv reg d2" using s(2) qa_before_inv [of reg d1 d2] by (cases qa) (auto intro: extends_inv)
  then have "draft_inv reg d3" using add_platforms_inv [OF s(3)] extends_inv by blast
  then have "draft_inv reg d4" using add_static_reviews_inv [OF s(4)] extends_inv by blast
  then have "draft_inv reg d5" using s(5) qa_after_inv [of reg d4 t d5] by (cases qa) (auto intro: extends_inv)
  then show ?thesis using add_review_inv [OF s(6)] add_report_inv [OF s(7)] extends_inv by blast
qed

end
