(* ===== verification/PlanRuns.thy ===== *)
theory PlanRuns
  imports PlannerFacts FakeExecutor
begin

text \<open>
  The compiler and the runtime together: a compiled plan is in dependency order, the runtime's preflight
  accepts it unless it is too large, and a run of it returns.
\<close>

section \<open>A compiled plan\<close>

lemma check_order_forward:
  assumes "distinct (draft_node_ids d)" and "edges_forward (draft_node_ids d) (d_edges d)"
  shows "edges_within (draft_node_ids d) (d_edges d)" "acyclic (set (d_edges d))" "check_order d = Inr ()"
proof -
  let ?ids = "draft_node_ids d"
  have mem: "a \<in> set ?ids" "b \<in> set ?ids" if "(a, b) \<in> set (d_edges d)" for a b
  proof -
    have "before ?ids a b" using assms(2) that by (force simp: edges_forward_def)
    then obtain i j where "i < j" "j < length ?ids" "?ids ! i = a" "?ids ! j = b" by (auto simp: before_def)
    then show "a \<in> set ?ids" "b \<in> set ?ids" by auto
  qed
  then show w: "edges_within ?ids (d_edges d)" by (auto simp: edges_within_def)
  have "topological ?ids (d_edges d) ?ids"
    using assms by (auto simp: topological_def edges_forward_def)
  then show a: "acyclic (set (d_edges d))" by (rule topological_acyclic)
  obtain xs where xs: "kahn ?ids (d_edges d) = Inr xs" using kahn_sorter.total [OF assms(1) w] by blast
  then have "length xs = length ?ids" using kahn_complete_iff_acyclic(1) [OF assms(1) w xs] a by simp
  moreover have "for_each (\<lambda>e. reject_if (fst e \<notin> set ?ids \<or> snd e \<notin> set ?ids)
        (ContractError ''edge references unknown node'')) (d_edges d) = Inr ()"
    using mem by (auto simp: for_each_eq_Inr)
  ultimately show "check_order d = Inr ()"
    using assms(1) xs by (simp add: check_order_def Let_def distinct_remdups_id)
qed

lemma contract_lists:
  assumes "validate_capability_contract c = Inr ()"
  shows "is_obj c" "is_bool (fld c ''idempotent'')" "has_key c ''idempotent''"
    "str_list (fld c ''concurrency_keys'')" "has_key c ''concurrency_keys''"
  using assms unfolding validate_capability_contract_def str_list_def
  by (simp_all add: seqE_eq_Inr base_eq_Inr list_all_iff list_ex_iff)

lemma made_node_typed:
  assumes "made_node reg n"
  shows "node_typed n" "is_obj n" "is_nonempty_str (fld n ''id'')" "fld n ''approval'' = JNull"
    "has_key n ''capability''" "is_str (fld n ''capability'')"
proof -
  obtain nid cid m r where n: "n = plan_node nid cid m r" "nid \<noteq> []" and r: "resolved reg cid r"
    using assms by (auto simp: made_node_def)
  have keys: "str_list (fld_or (case r of Some b \<Rightarrow> binding_contract b | None \<Rightarrow> JObj []) ''concurrency_keys'' (JList []))"
  proof (cases r)
    case None
    then show ?thesis by (simp add: fld_or_def str_list_def)
  next
    case (Some b)
    then have "validate_capability_contract (binding_contract b) = Inr ()" using r by (simp add: resolved_def resolution_ok_def)
    from contract_lists(4,5) [OF this] Some show ?thesis by (simp add: fld_or_has_key)
  qed
  have "resource_keys n = fld_or (case r of Some b \<Rightarrow> binding_contract b | None \<Rightarrow> JObj []) ''concurrency_keys'' (JList [])"
      "\<exists>k. max_retries n = JInt k \<and> 0 \<le> k" "timeout_seconds n = JInt 300"
    unfolding n(1) by (simp_all add: resource_keys_def max_retries_def timeout_seconds_def plan_node_def Let_def fld_or_def [of "JObj _"])
  then show "node_typed n" using keys by (auto simp: node_typed_def str_list_def n(1))
  show "is_obj n" "is_nonempty_str (fld n ''id'')" "fld n ''approval'' = JNull" "is_str (fld n ''capability'')"
    using n(2) by (simp_all add: n(1))
  show "has_key n ''capability''" by (simp add: n(1) plan_node_def Let_def has_key_def)
qed

lemma str_as_str: "is_str v \<Longrightarrow> v = JStr (as_str v)"
  by (cases v) simp_all

lemma made_node_text: "made_node reg n \<Longrightarrow> is_str (fld n ''id'')"
  using made_node_typed(3) [of reg n] by (auto simp: is_nonempty_str_iff)

text \<open>What a compiled plan holds of its draft.\<close>

definition plan_of :: "draft \<Rightarrow> string \<Rightarrow> json \<Rightarrow> bool" where
  "plan_of d status plan \<longleftrightarrow> is_obj plan \<and> fld plan ''nodes'' = JList (d_nodes d) \<and>
     fld plan ''edges'' = JList (map edge_value (sort_key fst (sort_key snd (d_edges d)))) \<and>
     fld plan ''missing_capabilities'' = JList (map JStr (sorted_set (d_missing d))) \<and>
     fld plan ''status'' = JStr status \<and> has_key plan ''fingerprint'' \<and> is_str (fld plan ''fingerprint'')"

lemma workflow_plan_graph:
  assumes "validate_workflow_plan w plan = Inr ()" and "fld plan ''nodes'' = JList ns" and "\<forall>n \<in> set ns. is_obj n \<and> is_str (fld n ''id'')"
  shows "distinct (map (\<lambda>n. as_str (fld n ''id'')) ns)"
proof -
  have "mapE (\<lambda>n. get_opt n ''id'') ns = Inr (map (\<lambda>n. fld n ''id'') ns)"
    by (rule mapE_Inr_iff [THEN iffD2]) (use assms(3) in \<open>auto simp: list_all2_map2 list_all2_same get_opt_eq_Inr\<close>)
  moreover have "validate_plan_graph plan = Inr ()"
    using assms(1) by (simp add: validate_workflow_plan_def seqE_eq_Inr)
  ultimately have "all_unique (map (\<lambda>n. fld n ''id'') ns) = Inr True"
    using assms(2) by (auto simp: validate_plan_graph_def bindE_eq_Inr seqE_eq_Inr reject_when_eq_Inr mapR_eq_Inr split: if_splits)
  then have u: "py_distinct py_eq (map (\<lambda>n. fld n ''id'') ns)" by (simp add: all_unique_def split: if_splits)
  have "map (\<lambda>n. fld n ''id'') ns = map JStr (map (\<lambda>n. as_str (fld n ''id'')) ns)"
    using assms(3) by (auto simp: is_str_iff)
  with u show ?thesis by (simp only: py_distinct_strings)
qed

definition policy_gaps :: "json \<Rightarrow> string list" where
  "policy_gaps policy = routing_gaps (as_str (fld (fld policy ''task'') ''type''))
     (map as_str (as_list (fld policy ''selected_platforms''))) (fld policy ''constraints'')"

lemma compiled:
  assumes "compile_plan w locks reg profile policy lock = Inr plan"
  shows "\<exists>d. draft_inv reg d \<and> distinct (draft_node_ids d) \<and> plan_of d (plan_status (policy_gaps policy \<noteq> []) d) plan \<and>
    validate_workflow_plan w plan = Inr () \<and> (lock = None \<longrightarrow> \<not> has_key plan ''package_lock_hash'') \<and>
    int (length (d_nodes d)) \<le> 16384 \<and> int (length (d_edges d)) \<le> 65536"
proof -
  obtain t ds ps cs d content0 h1 h2 h3 where
      d: "compile_draft reg t ds ps cs = Inr d"
    and c0: "content0 = plan_content d h1 h2 h3 (plan_status (policy_gaps policy \<noteq> []) d) (workflow_contract t ds)"
    and fin: "finish_plan w locks lock d content0 = Inr plan"
    and lens: "int (length (d_nodes d)) \<le> 16384" "int (length (d_edges d)) \<le> 65536"
    using assms unfolding compile_plan_def Let_def MAX_PLAN_NODES_def MAX_PLAN_EDGES_def policy_gaps_def [symmetric]
    by (auto simp: bindE_eq_Inr seqE_eq_Inr not_less)
  let ?b = "policy_gaps policy \<noteq> []"
  obtain content1 where c1: "(case lock of
         None \<Rightarrow> Inr content0
       | Some lock \<Rightarrow> seqE (package_lock_ok locks lock)
           (mapR (\<lambda>h. content0 @ [(''package_lock_hash'', h)]) (getitem lock ''fingerprint''))) = Inr content1"
    and rest: "(let content = (if d_bootstrap d \<noteq> []
         then content1 @ [(''bootstrap_required'', JList (sort_key (\<lambda>b. as_str (fld b ''platform'')) (d_bootstrap d)))]
         else content1) in
     bindE (sha256 w (JObj content)) (\<lambda>fingerprint.
     let plan = JObj ((''fingerprint'', JStr fingerprint) # (''plan_id'', JStr (''plan-'' @ take 12 fingerprint)) # content) in
     seqE (validate_workflow_plan w plan)
     (seqE (case lock of None \<Rightarrow> Inr () | Some lock \<Rightarrow> plan_lock_ok locks plan lock)
     (Inr plan)))) = Inr plan"
    using fin unfolding finish_plan_def bindE_eq_Inr by blast
  obtain extra where extra: "content1 = content0 @ extra" "lock = None \<longrightarrow> extra = []"
    using c1 by (cases lock) (auto simp: seqE_eq_Inr mapR_eq_Inr)
  obtain fp boot where plan: "plan = JObj ((''fingerprint'', JStr fp) # (''plan_id'', JStr (''plan-'' @ take 12 fp)) # content0 @ extra @ boot)"
      and boot: "boot = [] \<or> (\<exists>x. boot = [(''bootstrap_required'', x)])"
      and valid: "validate_workflow_plan w plan = Inr ()"
    using rest extra(1) by (auto simp: Let_def bindE_eq_Inr seqE_eq_Inr split: if_splits)
  have po: "plan_of d (plan_status ?b d) plan"
    unfolding plan_of_def plan c0 plan_content_def by (simp add: fld_def has_key_def)
  have inv: "draft_inv reg d" using compile_draft_inv [OF d] .
  have "\<forall>n \<in> set (d_nodes d). is_obj n \<and> is_str (fld n ''id'')"
    using inv made_node_typed(2) made_node_text by (auto simp: draft_inv_def)
  then have dist: "distinct (draft_node_ids d)"
    unfolding draft_node_ids_def by (intro workflow_plan_graph [OF valid]) (use po in \<open>auto simp: plan_of_def\<close>)
  have "\<not> has_key plan ''package_lock_hash''" if "lock = None"
    unfolding plan c0 plan_content_def using extra(2) that boot by (auto simp: has_key_def)
  with inv dist po valid lens show ?thesis by blast
qed

section \<open>The preflight of a compiled plan\<close>

lemma plan_of_facts:
  assumes "plan_of d st plan" and "draft_inv reg d"
  shows "plan_nodes plan = d_nodes d" "node_ids plan = draft_node_ids d" "set (plan_edges plan) = set (d_edges d)"
proof -
  show "plan_nodes plan = d_nodes d" using assms(1) by (simp add: plan_of_def plan_nodes_def)
  then show "node_ids plan = draft_node_ids d" by (simp add: node_ids_def draft_node_ids_def node_id_def)
  have "plan_edges plan = map (\<lambda>e. (as_str (fld e ''from''), as_str (fld e ''to''))) (map edge_value (sort_key fst (sort_key snd (d_edges d))))"
    using assms(1) by (simp add: plan_of_def plan_edges_def)
  also have "\<dots> = sort_key fst (sort_key snd (d_edges d))" by (simp add: edge_value_def fld_def comp_def)
  finally show "set (plan_edges plan) = set (d_edges d)" by simp
qed

lemma check_runtime_nodes_total:
  "\<forall>n \<in> set ns. node_typed n \<Longrightarrow> (\<exists>q. foldE check_runtime_node p ns = Inr q) \<or> foldE check_runtime_node p ns = Inl projected_overflow"
proof (induction ns arbitrary: p)
  case (Cons n ns)
  have "check_runtime_node p n = (if p + node_event_budget n > MAX_RUNTIME_LEDGER_EVENTS then Inl projected_overflow
      else Inr (p + node_event_budget n))"
    using Cons.prems by (simp add: check_runtime_node_def node_typed_def list_ex_iff list_all_iff Let_def)
  then show ?case using Cons by simp
qed simp

lemma compiled_preflight:
  assumes "draft_inv reg d" and "distinct (draft_node_ids d)" and "plan_of d st plan"
    and "int (length (d_nodes d)) \<le> 16384" and "int (length (d_edges d)) \<le> 65536"
  shows "(\<exists>q. preflight plan = Inr q) \<or> preflight plan = Inl projected_overflow"
proof -
  note f = plan_of_facts [OF assms(3,1)]
  let ?ns = "d_nodes d" and ?names = "draft_node_ids d"
  let ?edges = "map edge_value (sort_key fst (sort_key snd (d_edges d)))"
  have made: "\<forall>n \<in> set ?ns. made_node reg n" using assms(1) by (simp add: draft_inv_def)
  have get: "get_opt plan ''nodes'' = Inr (JList ?ns)" "get_opt plan ''edges'' = Inr (JList ?edges)"
    using assms(3) by (simp_all add: get_opt_eq_Inr plan_of_def)
  have ids: "map (\<lambda>n. if is_obj n then fld n ''id'' else JNull) ?ns = map JStr ?names"
    using made made_node_typed(2) made_node_text str_as_str unfolding draft_node_ids_def by simp metis
  have "is_nonempty_str (JStr (as_str (fld n ''id'')))" if "n \<in> set ?ns" for n
    using made_node_typed(3) [of reg n] made_node_text [of reg n] str_as_str made that by metis
  then have nonempty: "\<not> list_ex (\<lambda>i. \<not> is_nonempty_str i) (map JStr ?names)"
    unfolding draft_node_ids_def list_ex_iff by (simp del: is_nonempty_str_iff)
  have fw: "edges_forward ?names (d_edges d)" using assms(1) by (simp add: draft_inv_def)
  note o = check_order_forward [OF assms(2) fw]
  have edges: "for_each (check_runtime_edge ?names) ?edges = Inr ()"
    using o(1) by (auto simp: for_each_eq_Inr check_runtime_edge_def edge_value_def fld_def seqE_eq_Inr require_in_eq_Inr edges_within_def)
  have w: "edges_within ?names (plan_edges plan)" "acyclic (set (plan_edges plan))"
    using o(1,2) f(3) by (simp_all add: edges_within_def)
  obtain xs where xs: "kahn ?names (plan_edges plan) = Inr xs" using kahn_sorter.total [OF assms(2) w(1)] by blast
  have len: "length xs = length ?names" using kahn_complete_iff_acyclic(1) [OF assms(2) w(1) xs] w(2) by simp
  have typed: "\<forall>n \<in> set ?ns. node_typed n" using made made_node_typed(1) by blast
  have names: "map as_str (map JStr ?names) = ?names" by (simp add: comp_def)
  have lens: "\<not> length ?ns > MAX_RUNTIME_NODES" "\<not> length ?edges > MAX_RUNTIME_EDGES"
    using assms(4,5) by (simp_all add: MAX_RUNTIME_NODES_def MAX_RUNTIME_EDGES_def)
  have "preflight plan = foldE check_runtime_node (if fld plan ''status'' = JStr ''blocked'' then 3 else 2) ?ns"
    unfolding preflight_def get bindE_Inr Let_def as_list.simps ids names
    using lens nonempty edges xs len assms(2) by (simp del: list.map)
  then show ?thesis using check_runtime_nodes_total [OF typed] by metis
qed

lemma compiled_ready:
  assumes "compile_plan w locks reg profile policy None = Inr plan" and "fld plan ''status'' \<noteq> JStr ''blocked''"
    and "inj (uuid_hex w)" and "\<not> resume cfg \<and> \<not> has_path cfg \<and> Executor.package_lock cfg = None"
    and "\<forall>n. timeout_seconds n = JInt 300 \<longrightarrow> time_ok w n"
  shows "run_ready w cfg plan"
proof -
  obtain d where d: "draft_inv reg d" "plan_of d (plan_status (policy_gaps policy \<noteq> []) d) plan" "\<not> has_key plan ''package_lock_hash''"
    using compiled [OF assms(1)] by blast
  have "node_ready w cfg n" if "n \<in> set (plan_nodes plan)" for n
  proof -
    have made: "made_node reg n" using that d(1) plan_of_facts(1) [OF d(2,1)] by (simp add: draft_inv_def)
    then have "timeout_seconds n = JInt 300"
      by (auto simp: made_node_def timeout_seconds_def fld_or_def plan_node_def Let_def)
    then show ?thesis using made_node_typed [OF made] assms(5) by (simp add: node_ready_def approval_ready_def Let_def)
  qed
  moreover have "plain_plan plan" using d(2,3) by (simp add: plan_of_def plain_plan_def)
  ultimately show ?thesis using assms(2-4) by (simp add: run_ready_def)
qed

end
