(* ===== verification/PlanSample.thy ===== *)
theory PlanSample
  imports PlanRuns Sample
begin

text \<open>
  A small concrete registry (the core, the bootstrap contract of a web platform and a package for it), a
  policy that asks for a small change, and the plan compiled from them, on which witnesses evaluate.
\<close>

definition texts :: "string list \<Rightarrow> json" where
  "texts xs = JList (map JStr xs)"

definition capability_entry :: "string \<Rightarrow> json" where
  "capability_entry cid = JObj [(''id'', JStr cid), (''reachability'', JStr ''recipe'')]"

definition bound_to :: "string \<Rightarrow> string list \<Rightarrow> json" where
  "bound_to skill cids = JObj (map (\<lambda>c. (c, JStr skill)) cids)"

definition web_capabilities :: "string list" where
  "web_capabilities = [''implementation.web'', ''verification.web.affected-tests'']"

definition core_manifest :: json where
  "core_manifest = JObj [(''id'', JStr ''core''), (''role'', JStr ''core''),
     (''capabilities'', JList (map capability_entry [''core.intent-lock'', ''workflow.analysis'', ''review.independent''])),
     (''bindings'', bound_to ''core-skill'' [''core.intent-lock'', ''workflow.analysis'', ''review.independent''])]"

definition web_contract :: json where
  "web_contract = JObj [(''package_id'', JStr ''web-pack''), (''package_compatibility'', JStr ''>=1.0 <2.0''),
     (''required_capabilities'', texts web_capabilities),
     (''allowed_permission_profiles'', texts [''repository-read-only'']),
     (''allowed_side_effects'', texts [''project-files'', ''validation-artifacts'']),
     (''capability_permissions'', bound_to ''repository-read-only'' web_capabilities),
     (''capability_side_effects'', JObj [(''implementation.web'', texts [''project-files'']),
        (''verification.web.affected-tests'', texts [''validation-artifacts''])])]"

definition web_manifest :: json where
  "web_manifest = JObj [(''id'', JStr ''web''), (''role'', JStr ''bootstrap''), (''capabilities'', JList []),
     (''targets'', texts []), (''provider_contract'', web_contract)]"

definition web_package :: json where
  "web_package = JObj [(''id'', JStr ''web-pack''), (''role'', JStr ''provider''),
     (''package'', JObj [(''version'', JStr ''1.2.0''), (''core_compatibility'', JStr ''>=1.0'')]),
     (''targets'', texts [''web'']), (''capabilities'', JList (map capability_entry web_capabilities)),
     (''bindings'', bound_to ''web-skill'' web_capabilities),
     (''manual_only_capabilities'', texts []), (''manual_only_metadata'', JObj [])]"

definition sample_manifests :: "registered_manifest list" where
  "sample_manifests = map (\<lambda>m. \<lparr>manifest_value = m, manifest_digest = ''d''\<rparr>) [web_package, core_manifest, web_manifest]"

definition sample_registry :: registry where
  "sample_registry = \<lparr>reg_items = map (\<lambda>m. \<lparr>manifest_value = m, manifest_digest = ''d''\<rparr>)
     [core_manifest, web_manifest, web_package], core_version = JStr ''1.4.0''\<rparr>"

definition sample_policy :: json where
  "sample_policy = JObj [(''schema_version'', JStr ''1.0''), (''constraints'', JObj []), (''decisions'', JList []),
     (''selected_platforms'', texts [''web'']),
     (''task'', JObj [(''text'', JStr ''fix''), (''type'', JStr ''code-small''), (''risk'', JStr ''low''),
        (''disciplines'', texts [''development''])]),
     (''fingerprint'', JStr (replicate 64 (CHR ''0'')))]"

definition no_lock_checks :: lock_checks where
  "no_lock_checks = \<lparr>package_lock_ok = (\<lambda>_. Inr ()), plan_lock_ok = (\<lambda>_ _. Inr ())\<rparr>"

lemma sample_registry_new: "new_registry sample_manifests (JStr ''1.4.0'') = Inr sample_registry"
  by code_simp

definition sample_compiled :: "json result" where
  "sample_compiled = compile_plan sample_world no_lock_checks sample_registry (JObj []) sample_policy None"

lemma sample_compiled_value:
  "case sample_compiled of Inr plan \<Rightarrow> fld plan ''status'' = JStr ''ready'' \<and>
       node_ids plan = [''intent'', ''workflow-analysis'', ''web-1'', ''web-2'', ''review''] \<and> preflight plan = Inr 20
     | Inl e \<Rightarrow> False"
  by code_simp

end
