(* ===== verification/RegistryFacts.thy ===== *)
theory RegistryFacts
  imports PlannerFacts
begin

text \<open>
  What an accepted registry promises: each manifest passed the checks, required capabilities have
  providers, capabilities have contracts and bindings, and provider packages keep to their bootstrap.
\<close>

lemma registry_checked:
  assumes "new_registry ms v = Inr reg"
  shows "\<forall>item \<in> set (reg_items reg). \<exists>installed. check_manifest reg installed item = Inr ()"
    "\<exists>g. requirement_graph (reg_items reg) = Inr g \<and> acyclic (requires_edge g)"
proof -
  have "validate_graph reg = Inr ()"
    using assms by (auto simp: new_registry_def bindE_eq_Inr seqE_eq_Inr Let_def)
  then obtain installed where items: "for_each (check_manifest reg installed) (reg_items reg) = Inr ()"
      and cycles: "validate_requirement_cycles reg = Inr ()"
    by (auto simp: validate_graph_def bindE_eq_Inr seqE_eq_Inr)
  show "\<forall>item \<in> set (reg_items reg). \<exists>installed. check_manifest reg installed item = Inr ()"
    using items by (auto simp: for_each_eq_Inr)
  obtain g visited where "requirement_graph (reg_items reg) = Inr g" "check_cycles g = Inr visited"
    using cycles by (auto simp: validate_requirement_cycles_def bindE_eq_Inr mapR_eq_Inr)
  then show "\<exists>g. requirement_graph (reg_items reg) = Inr g \<and> acyclic (requires_edge g)"
    using check_cycles_iff [of g] by (auto simp: is_ok_def)
qed

lemma manifest_facts:
  assumes "check_manifest reg installed item = Inr ()"
  shows "has_role ''provider'' item \<Longrightarrow> validate_provider reg (manifest_value item) = Inr ()"
    "fld (manifest_value item) ''requires'' = JList rs \<Longrightarrow> r \<in> set rs \<Longrightarrow> \<exists>p ps. capability_providers reg r = Inr (p # ps)"
    "fld (manifest_value item) ''capabilities'' = JList cs \<Longrightarrow> c \<in> set cs \<Longrightarrow> check_capability (manifest_value item) c = Inr ()"
proof -
  let ?m = "manifest_value item"
  obtain r0 required c0 entries where
      provider: "(if has_role ''provider'' item then validate_provider reg ?m else Inr ()) = Inr ()"
    and r0: "get_default ?m ''requires'' (JList []) = Inr r0" "iterate r0 = Inr required"
    and each: "for_each (\<lambda>c. bindE (capability_providers reg c) (\<lambda>ps.
          reject_if (ps = []) (ContractError (''manifest '' @ as_str (fld ?m ''id'') @ '' requires missing capability: '' @ as_str c)))) required = Inr ()"
    and c0: "getitem ?m ''capabilities'' = Inr c0" "iterate c0 = Inr entries"
    and caps: "for_each (check_capability ?m) entries = Inr ()"
    using assms unfolding check_manifest_def Let_def bindE_eq_Inr seqE_eq_Inr by blast
  show "validate_provider reg ?m = Inr ()" if "has_role ''provider'' item" using provider that by simp
  show "\<exists>p ps. capability_providers reg r = Inr (p # ps)" if "fld ?m ''requires'' = JList rs" "r \<in> set rs"
  proof -
    have "r0 = JList rs" using r0(1) that(1) by (auto simp: get_default_eq_Inr fld_or_def fld_def split: option.splits)
    then have "r \<in> set required" using r0(2) that(2) by simp
    then obtain ps where "capability_providers reg r = Inr ps" "ps \<noteq> []"
      using each by (auto simp: for_each_eq_Inr bindE_eq_Inr)
    then show ?thesis by (cases ps) auto
  qed
  show "check_capability ?m c = Inr ()" if "fld ?m ''capabilities'' = JList cs" "c \<in> set cs"
    using c0 caps that by (auto simp: for_each_eq_Inr getitem_eq_Inr)
qed

text \<open>
  The manifest binds the capability: what its \<open>bindings\<close> have under the capability's id is a binding, its mode is one of
  the modes the capability supports, and a permission profile required of the binding is the contract's.
\<close>

definition bound_by :: "json \<Rightarrow> json \<Rightarrow> json \<Rightarrow> bool" where
  "bound_by m c contract \<longleftrightarrow>
     (\<exists>b. normalize_binding (fld (fld m ''bindings'') (as_str (fld c ''id''))) = Inr b \<and> is_nonempty_str (fld b ''name'') \<and>
        (fld c ''supported_modes'' \<noteq> JNull \<longrightarrow> fld_or b ''mode'' (JStr ''default'') \<in> set (as_list (fld c ''supported_modes''))) \<and>
        (fld c ''binding_permission_profile'' \<noteq> JNull \<longrightarrow>
           py_eq (fld c ''binding_permission_profile'') (fld contract ''permission_profile'')))"

lemma normalize_binding_named: "normalize_binding raw = Inr b \<Longrightarrow> is_nonempty_str (fld b ''name'')"
  by (auto simp: normalize_binding_def seqE_eq_Inr fld_def split: if_splits)

lemma capability_facts:
  assumes "check_capability m c = Inr ()"
  shows "\<exists>contract. normalized_contract m c = Inr contract \<and> validate_capability_contract contract = Inr () \<and>
    (fld m ''role'' = JStr ''bootstrap'' \<or> bound_by m c contract)"
proof -
  obtain contract where con: "normalized_contract m c = Inr contract" "validate_capability_contract contract = Inr ()"
    using assms by (auto simp: check_capability_def Let_def bindE_eq_Inr seqE_eq_Inr)
  have "bound_by m c contract" if role: "fld m ''role'' \<noteq> JStr ''bootstrap''"
  proof -
    obtain bs raw b where bs: "get_default m ''bindings'' (JObj []) = Inr bs" "get_opt bs (as_str (fld c ''id'')) = Inr raw"
        and b: "raw \<noteq> JNull" "normalize_binding raw = Inr b" "check_mode m c b = Inr ()"
          "fld c ''binding_permission_profile'' \<noteq> JNull \<Longrightarrow> py_eq (fld c ''binding_permission_profile'') (fld contract ''permission_profile'')"
      using assms role con(1) by (auto simp: check_capability_def Let_def bindE_eq_Inr seqE_eq_Inr)
    have "raw = fld (fld m ''bindings'') (as_str (fld c ''id''))"
      using bs b(1) by (cases m) (auto simp: get_opt_eq_Inr fld_def split: option.splits)
    moreover have "fld c ''supported_modes'' \<noteq> JNull \<Longrightarrow> fld_or b ''mode'' (JStr ''default'') \<in> set (as_list (fld c ''supported_modes''))"
      using b(3) by (simp add: check_mode_def Let_def seqE_eq_Inr)
    ultimately show ?thesis using b(2,4) normalize_binding_named [OF b(2)] unfolding bound_by_def by blast
  qed
  with con show ?thesis by blast
qed

text \<open>The limits a provider package is held to.\<close>

definition within_contract :: "json \<Rightarrow> json \<Rightarrow> json \<Rightarrow> bool" where
  "within_contract contract m entry \<longleftrightarrow>
     (\<exists>own permissions effects allowed. normalized_contract m entry = Inr own \<and>
        names_in contract ''allowed_permission_profiles'' = Inr permissions \<and>
        in_strings (fld own ''permission_profile'') permissions = Inr True \<and>
        names_in contract ''allowed_side_effects'' = Inr allowed \<and>
        texts_of (fld own ''side_effects'') = Inr effects \<and> set effects \<subseteq> set allowed)"

lemma entry_within_contract:
  assumes "check_provider_capabilities m contract provided required optional advisory = Inr ()" and "p \<in> set provided"
  shows "within_contract contract m (snd p)" "fst p \<in> set required \<union> set optional \<union> set advisory"
proof -
  obtain permissions effects own own_effects where
      names: "names_in contract ''allowed_permission_profiles'' = Inr permissions" "names_in contract ''allowed_side_effects'' = Inr effects"
    and undeclared: "filter (\<lambda>c. c \<notin> set required \<union> set optional \<union> set advisory) (map fst provided) = []"
    and each: "for_each (check_entry_limits m \<lparr>allowed_permissions = permissions, allowed_effects = effects,
        entry_permissions = own, entry_effects = own_effects\<rparr>) provided = Inr ()"
    using assms(1) unfolding check_provider_capabilities_def Let_def bindE_eq_Inr seqE_eq_Inr reject_if_eq_Inr by auto
  have "check_entry_limits m \<lparr>allowed_permissions = permissions, allowed_effects = effects,
        entry_permissions = own, entry_effects = own_effects\<rparr> p = Inr ()"
    using each assms(2) by (simp add: for_each_eq_Inr)
  then show "within_contract contract m (snd p)"
    using names unfolding check_entry_limits_def within_contract_def Let_def
    by (auto simp: bindE_eq_Inr seqE_eq_Inr)
  show "fst p \<in> set required \<union> set optional \<union> set advisory"
    using undeclared assms(2) by (auto simp: filter_empty_conv)
qed

lemma provider_within_contract:
  assumes "validate_provider reg m = Inr ()"
  shows "\<exists>boot \<in> set (reg_items reg). \<exists>contract provided targets names.
    getitem (manifest_value boot) ''provider_contract'' = Inr contract \<and> entries_of m = Inr provided \<and>
    targets_of m = Inr targets \<and> targets \<noteq> [] \<and> targets_of (manifest_value boot) = Inr names \<and>
    set targets \<subseteq> insert (as_str (fld (manifest_value boot) ''id'')) (set names) \<and>
    (\<forall>p \<in> set provided. within_contract contract m (snd p))"
proof -
  obtain boot contract bid bootstrap_id names targets required optional advisory provided where
      boot: "bootstrap_of reg m = Inr boot" "getitem boot ''provider_contract'' = Inr contract"
      "getitem boot ''id'' = Inr bid" "text_of bid = Inr bootstrap_id" "targets_of boot = Inr names"
    and targets: "targets_of m = Inr targets" "targets \<noteq> []" "set targets \<subseteq> insert bootstrap_id (set names)"
    and provided: "entries_of m = Inr provided"
    and limits: "check_provider_capabilities m contract provided required optional advisory = Inr ()"
    using assms unfolding validate_provider_def bindE_eq_Inr seqE_eq_Inr reject_if_eq_Inr by blast
  obtain item where item: "item \<in> set (reg_items reg)" "boot = manifest_value item"
    using boot(1) filterE_subset unfolding bootstrap_of_def bindE_eq_Inr
    by (fastforce split: list.splits)
  have "bootstrap_id = as_str (fld boot ''id'')"
    using boot(3,4) by (auto simp: getitem_eq_Inr text_of_def split: if_splits)
  then show ?thesis
    using item boot targets provided entry_within_contract(1) [OF limits] by blast
qed

end
