(* ===== verification/PlanSpec.thy ===== *)
theory PlanSpec
  imports PlanSample RegistryFacts RuntimeSpec
begin

text \<open>
  The properties of the registry and the planner: what an accepted registry promises, what a compiled plan
  holds, that the runtime can run it, and the version ranges and recipes both rest on.
\<close>

section \<open>Helpers\<close>

definition provided_by :: "registry \<Rightarrow> json \<Rightarrow> bool" where
  "provided_by reg n \<longleftrightarrow> (\<exists>item \<in> set (reg_items reg). fld n ''provider'' = fld (manifest_value item) ''id'' \<and>
     fld n ''provider_manifest_digest'' = JStr (manifest_digest item))"

lemma made_node_provided:
  assumes "made_node reg n" and "fld n ''provider_manifest_digest'' \<noteq> JNull"
  shows "provided_by reg n"
proof -
  obtain nid cid m r where n: "n = plan_node nid cid m r" and r: "resolved reg cid r"
    using assms(1) by (auto simp: made_node_def)
  obtain b where "r = Some b" using assms(2) by (cases r) (simp_all add: n)
  then show ?thesis using r by (auto simp: n resolved_def resolution_ok_def provided_by_def)
qed

lemma plan_status_ready: "plan_status b d = ''ready'' \<Longrightarrow> d_missing d = []"
  by (simp add: plan_status_def split: if_splits)

lemma sample_plan_facts:
  "\<exists>plan. compile_plan sample_world no_lock_checks sample_registry (JObj []) sample_policy None = Inr plan \<and>
     fld plan ''status'' = JStr ''ready'' \<and> preflight plan = Inr 20 \<and>
     node_ids plan = [''intent'', ''workflow-analysis'', ''web-1'', ''web-2'', ''review'']"
  using sample_compiled_value unfolding sample_compiled_def by (simp split: sum.splits)

definition memory_config :: run_config where
  "memory_config = \<lparr>has_path = False, package_lock = None, lock_check = (\<lambda>_ _. Inr ()), resume = False,
     approval_decisions = []\<rparr>"

section \<open>Compiled plans\<close>

text \<open>C36: a plan the compiler returns is accepted by the plan validator; its node ids are distinct, its
  edges lead between its nodes, always from a node listed earlier to one listed later, so they have no cycle.\<close>

theorem compiled_plan_is_ordered:
  assumes "compile_plan w locks reg profile policy lock = Inr plan"
  shows "validate_workflow_plan w plan = Inr () \<and> distinct (node_ids plan) \<and>
    edges_forward (node_ids plan) (plan_edges plan) \<and> acyclic (set (plan_edges plan))"
proof -
  obtain d where d: "draft_inv reg d" "distinct (draft_node_ids d)" "plan_of d (plan_status (policy_gaps policy \<noteq> []) d) plan"
      "validate_workflow_plan w plan = Inr ()"
    using compiled [OF assms] by blast
  note f = plan_of_facts [OF d(3,1)]
  have "edges_forward (draft_node_ids d) (d_edges d)" using d(1) by (simp add: draft_inv_def)
  then show ?thesis using d(2,4) f check_order_forward(2) [OF d(2)] by (simp add: edges_forward_def)
qed

lemma compiled_plan_is_ordered_sample:
  "\<exists>plan. sample_compiled = Inr plan \<and> acyclic (set (plan_edges plan)) \<and> distinct (node_ids plan)"
  using sample_plan_facts compiled_plan_is_ordered unfolding sample_compiled_def by blast

text \<open>C35: the runtime's preflight accepts every compiled plan, unless the plan's retries could exceed the
  limit on ledger events; it never finds a defect in the graph or in the metadata of the nodes.\<close>

theorem compiled_plan_passes_preflight:
  assumes "compile_plan w locks reg profile policy lock = Inr plan"
  shows "(\<exists>q. preflight plan = Inr q) \<or> preflight plan = Inl projected_overflow"
  using compiled [OF assms] compiled_preflight by blast

lemma compiled_plan_passes_preflight_sample:
  "\<exists>plan. sample_compiled = Inr plan \<and> preflight plan \<noteq> Inl (ContractError ''workflow plan contains dependency cycle'')"
proof -
  obtain plan where p: "sample_compiled = Inr plan" "preflight plan = Inr 20"
    using sample_plan_facts unfolding sample_compiled_def by blast
  show ?thesis using p compiled_plan_passes_preflight [OF p(1) [unfolded sample_compiled_def]] by auto
qed

text \<open>C34: compiler and runtime together: a compiled plan that is not blocked and passes the preflight can be
  run in memory, whatever statuses the adapters answer; the run returns a ledger the validator accepts.\<close>

theorem compiled_plan_runs:
  assumes "compile_plan w locks reg profile policy None = Inr plan" and "fld plan ''status'' \<noteq> JStr ''blocked''"
    and "preflight plan = Inr q" and "inj (uuid_hex w)" and "\<forall>n. timeout_seconds n = JInt 300 \<longrightarrow> time_ok w n"
    and "\<not> resume cfg" and "\<not> has_path cfg" and "Executor.package_lock cfg = None" and "x_sched s = new_scheduler"
  shows "\<exists>v s'. run w (fake_hooks behaviors) cfg plan s = (Inr v, s') \<and> v = ledger_value (ledger s') \<and>
    validate_run_ledger v = Inr () \<and> numbered (ledger s') (node_ids plan)"
proof -
  have "run_ready w cfg plan"
    by (rule compiled_ready [OF assms(1,2,4)]) (use assms(5-8) in auto)
  from runs_D [OF fake_run [OF this assms(3,9)]] promise_facts(1,3) show ?thesis by blast
qed

lemma compiled_plan_runs_sample:
  "\<exists>plan v s'. sample_compiled = Inr plan \<and> run sample_world (fake_hooks []) memory_config plan sample_state = (Inr v, s') \<and>
     validate_run_ledger v = Inr ()"
proof -
  obtain plan where p: "compile_plan sample_world no_lock_checks sample_registry (JObj []) sample_policy None = Inr plan"
      "fld plan ''status'' = JStr ''ready''" "preflight plan = Inr 20"
    using sample_plan_facts by blast
  have "\<forall>n. timeout_seconds n = JInt 300 \<longrightarrow> time_ok sample_world n" by (simp add: sample_time)
  from compiled_plan_runs [OF p(1) _ p(3) sample_uuid_inj this, of memory_config sample_state "[]"] p(1,2) sample_start
  show ?thesis unfolding sample_compiled_def by (auto simp: memory_config_def)
qed

text \<open>C37: in a plan with status \<open>ready\<close> every node but the intent has a provider: a registered manifest whose
  digest the node records.\<close>

theorem ready_plan_has_providers:
  assumes "compile_plan w locks reg profile policy lock = Inr plan" and "fld plan ''status'' = JStr ''ready''"
    and "n \<in> set (plan_nodes plan)" and "fld n ''id'' \<noteq> JStr ''intent''"
  shows "provided_by reg n"
proof -
  obtain d where d: "draft_inv reg d" "plan_of d (plan_status (policy_gaps policy \<noteq> []) d) plan" using compiled [OF assms(1)] by blast
  have "plan_status (policy_gaps policy \<noteq> []) d = ''ready''" using d(2) assms(2) by (simp add: plan_of_def)
  then have "d_missing d = []" by (rule plan_status_ready)
  moreover have n: "n \<in> set (d_nodes d)" using assms(3) plan_of_facts(1) [OF d(2,1)] by simp
  ultimately have "fld n ''provider_manifest_digest'' \<noteq> JNull" using d(1) assms(4) by (auto simp: draft_inv_def)
  moreover have "made_node reg n" using d(1) n by (simp add: draft_inv_def)
  ultimately show ?thesis by (rule made_node_provided [rotated])
qed

lemma ready_plan_has_providers_sample:
  "\<exists>plan n. sample_compiled = Inr plan \<and> n \<in> set (plan_nodes plan) \<and> fld n ''id'' \<noteq> JStr ''intent'' \<and>
     provided_by sample_registry n"
proof -
  obtain plan where p: "compile_plan sample_world no_lock_checks sample_registry (JObj []) sample_policy None = Inr plan"
      "fld plan ''status'' = JStr ''ready''" and ids: "node_ids plan = [''intent'', ''workflow-analysis'', ''web-1'', ''web-2'', ''review'']"
    using sample_plan_facts by blast
  have "''review'' \<in> set (node_ids plan)" by (simp add: ids)
  then obtain n where n: "n \<in> set (plan_nodes plan)" "node_id n = ''review''" by (auto simp: node_ids_def)
  then have "fld n ''id'' \<noteq> JStr ''intent''" by (auto simp: node_id_def)
  with n p ready_plan_has_providers [OF p n(1)] show ?thesis unfolding sample_compiled_def by blast
qed

section \<open>Registries\<close>

text \<open>C38: an accepted registry holds the given manifests in the order of their distinct ids, the requirements
  among capabilities have no cycle, every required capability has a provider, and every capability has a
  contract the validator accepts and, outside bootstraps, a binding: what the manifest's own bindings have
  under the capability's id is a well-formed binding with a name, in a mode the capability supports and with
  the permission profile of the contract.\<close>

theorem accepted_registry_is_sound:
  assumes "new_registry ms v = Inr reg"
  shows "set (reg_items reg) = set ms \<and> distinct (map (\<lambda>i. as_str (fld (manifest_value i) ''id'')) (reg_items reg)) \<and>
    (\<exists>g. requirement_graph (reg_items reg) = Inr g \<and> acyclic (requires_edge g)) \<and>
    {r. \<exists>i \<in> set ms. r \<in> set (as_list (fld (manifest_value i) ''requires''))} \<subseteq> {r. \<exists>p ps. capability_providers reg r = Inr (p # ps)} \<and>
    {(m, c). m \<in> manifest_value ` set ms \<and> c \<in> set (as_list (fld m ''capabilities''))} \<subseteq>
      {(m, c). \<exists>contract. normalized_contract m c = Inr contract \<and> validate_capability_contract contract = Inr () \<and>
        (fld m ''role'' = JStr ''bootstrap'' \<or> bound_by m c contract)}"
proof -
  note r = new_registry_ok [OF assms] and c = registry_checked [OF assms]
  have lists: "v = JList (as_list v)" if "x \<in> set (as_list v)" for x v using that by (cases v) simp_all
  have "\<exists>p ps. capability_providers reg x = Inr (p # ps)"
    if "i \<in> set ms" "x \<in> set (as_list (fld (manifest_value i) ''requires''))" for i x
    using c(1) that r(4) manifest_facts(2) lists by metis
  moreover have "check_capability (manifest_value i) x = Inr ()"
    if "i \<in> set ms" "x \<in> set (as_list (fld (manifest_value i) ''capabilities''))" for i x
    using c(1) that r(4) manifest_facts(3) lists by metis
  ultimately show ?thesis using r(2,4) c(2) capability_facts by blast
qed

lemma accepted_registry_is_sound_sample:
  "\<exists>g. requirement_graph (reg_items sample_registry) = Inr g \<and> acyclic (requires_edge g)"
  using accepted_registry_is_sound [OF sample_registry_new] by blast

text \<open>A provider package in an accepted registry keeps to a bootstrap contract: its targets are targets of
  the bootstrap, and the permission and the side effects of each of its capabilities are allowed there.\<close>

theorem provider_keeps_to_contract:
  assumes "new_registry ms v = Inr reg" and "item \<in> set (reg_items reg)" and "has_role ''provider'' item"
  shows "\<exists>boot \<in> set (reg_items reg). \<exists>contract provided ts names.
    getitem (manifest_value boot) ''provider_contract'' = Inr contract \<and>
    entries_of (manifest_value item) = Inr provided \<and> targets_of (manifest_value item) = Inr ts \<and>
    targets_of (manifest_value boot) = Inr names \<and>
    set ts \<subseteq> insert (as_str (fld (manifest_value boot) ''id'')) (set names) \<and>
    list_all (\<lambda>p. within_contract contract (manifest_value item) (snd p)) provided"
  using registry_checked(1) [OF assms(1)] assms(2,3) manifest_facts(1) provider_within_contract
  unfolding list_all_iff by metis

lemma provider_keeps_to_contract_sample:
  "\<exists>boot \<in> set (reg_items sample_registry). \<exists>contract. getitem (manifest_value boot) ''provider_contract'' = Inr contract"
proof -
  let ?item = "\<lparr>manifest_value = web_package, manifest_digest = ''d''\<rparr>"
  have "?item \<in> set (reg_items sample_registry)" by (simp add: sample_registry_def)
  moreover have "has_role ''provider'' ?item" by (simp add: has_role_def web_package_def fld_def)
  ultimately show ?thesis using provider_keeps_to_contract [OF sample_registry_new, of ?item] by blast
qed

text \<open>A resolved capability rests on one registered manifest, the only one that offers it, and carries a
  contract the validator accepts.\<close>

theorem resolution_is_unique:
  assumes "resolve_binding reg cid None = Inr (Some b)"
  shows "\<exists>item. capability_providers reg (JStr cid) = Inr [item] \<and> capability_id b = cid \<and>
    provider_id b = fld (manifest_value item) ''id'' \<and> binding_digest b = manifest_digest item \<and>
    validate_capability_contract (binding_contract b) = Inr ()"
proof -
  obtain ps where ps: "capability_providers reg (JStr cid) = Inr ps"
    using assms by (auto simp: resolve_binding_def bindE_eq_Inr)
  obtain item where "ps = [item]" using assms by (auto simp: resolve_binding_def ps split: list.splits)
  then show ?thesis using assms ps
    by (auto simp: resolve_binding_def Let_def bindE_eq_Inr seqE_eq_Inr checked_contract_def getitem_eq_Inr split: if_splits)
qed

lemma sample_resolution: "is_ok (resolve_binding sample_registry ''workflow.analysis'' None) \<and>
  resolve_binding sample_registry ''workflow.analysis'' None \<noteq> Inr None"
  by code_simp

lemma resolution_is_unique_sample: "\<exists>item. capability_providers sample_registry (JStr ''workflow.analysis'') = Inr [item]"
proof -
  obtain b where "resolve_binding sample_registry ''workflow.analysis'' None = Inr (Some b)"
    using sample_resolution by (auto simp: is_ok_def split: sum.splits)
  from resolution_is_unique [OF this] show ?thesis by blast
qed

text \<open>The depth-first search over the requirements of capabilities accepts a graph exactly when it has no
  cycle; it never runs out of depth.\<close>

theorem requirement_search_decides: "is_ok (check_cycles g) = acyclic (requires_edge g)"
  by (rule check_cycles_iff)

section \<open>Recipes and versions\<close>

text \<open>Whatever the task and its disciplines, the recipe of a platform asks only for capabilities in the
  registry's enumeration of what recipes can reach.\<close>

theorem recipe_stays_reachable:
  assumes "platform \<in> set ts"
  shows "set (required_platform_capabilities platform task_type disciplines) \<subseteq> set (automatic_recipe_capabilities ts)"
  using recipes_are_enumerated [OF assms] .

lemma recipe_stays_reachable_sample:
  "''implementation.web'' \<in> set (required_platform_capabilities ''web'' ''code-small'' []) \<and>
   set (required_platform_capabilities ''web'' ''code-small'' []) \<subseteq> set (automatic_recipe_capabilities [''web''])"
proof (rule conjI)
  show "''implementation.web'' \<in> set (required_platform_capabilities ''web'' ''code-small'' [])" by code_simp
  show "set (required_platform_capabilities ''web'' ''code-small'' []) \<subseteq> set (automatic_recipe_capabilities [''web''])"
    by (rule recipe_stays_reachable) simp
qed

text \<open>The enumeration over all task types and all sets of disciplines has a closed form: the core
  capabilities and a fixed list per target, longer for the Apple platform.\<close>

theorem enumeration_closed_form:
  "set (automatic_recipe_capabilities ts) =
     set core_recipe_capabilities \<union> (\<Union>t \<in> set ts. set (reachable_capabilities t))"
  by (rule automatic_closed_form)

text \<open>The text of a version with three non-negative numbers parses back to it.\<close>

theorem version_text_parses:
  assumes "version_ok v"
  shows "parse_version (JStr (version_text v)) = Inr v"
  using parse_version_text [OF assms] .

lemma version_text_parses_sample: "parse_version (JStr (version_text (1, 20, 3))) = Inr (1, 20, 3)"
  by (rule version_text_parses) (simp add: version_ok_def decimal.simps)

text \<open>A range with a lower and an upper bound is met exactly by the versions from the lower bound on and
  below the upper one, in the order of their numbers.\<close>

theorem version_range_is_half_open:
  assumes "version_ok v" and "version_ok l" and "version_ok h"
  shows "satisfies (JStr (version_text v)) (JStr ((''>='' @ version_text l) @ '' '' @ (''<'' @ version_text h))) =
    Inr (version_le l v \<and> version_less v h)"
  using satisfies_half_open [OF assms] .

lemma version_range_is_half_open_sample:
  "satisfies (JStr (version_text (1, 10, 0))) (JStr ((''>='' @ version_text (1, 9, 0)) @ '' '' @ (''<'' @ version_text (2, 0, 0)))) =
     Inr True"
  by (subst version_range_is_half_open) (simp_all add: version_ok_def decimal.simps version_le_def version_less_def)

end
