(* ===== verification/Policy.thy ===== *)
theory Policy
  imports PlanContracts Registry
begin

text \<open>
  \<^verbatim>\<open>policy/resolver.py\<close>: the classification of a task text, the merge of policy layers and the resolution
  of a policy. Platform names and the members of merged sets are texts; other values answer a type error.
\<close>

section \<open>Task classification\<close>

definition utf8 :: "int list \<Rightarrow> string" where
  "utf8 bs = map char_of bs"

text \<open>
  \<open>str.lower\<close> as far as the terms below can see it: the terms hold lower-case ASCII letters and Chinese
  characters, and besides A to Z only the Kelvin sign (E2 84 AA) and the dotted capital I (C4 B0) have an
  ASCII letter in their lower-case text. All other characters stay.
\<close>

definition lower_char :: "string \<Rightarrow> string" where
  "lower_char c =
     (case c of
        [a] \<Rightarrow> if 65 \<le> (of_char a :: int) \<and> of_char a \<le> (90 :: int) then [char_of (of_char a + 32 :: int)] else [a]
      | _ \<Rightarrow> if c = utf8 [226, 132, 170] then ''k''
             else if c = utf8 [196, 176] then ''i'' @ utf8 [204, 135] else c)"

definition lower :: "string \<Rightarrow> string" where
  "lower s = concat (map lower_char (chars_of s))"

definition mentions :: "string \<Rightarrow> string list \<Rightarrow> bool" where
  "mentions lowered terms = list_ex (contains lowered) terms"

definition PLATFORM_TERMS :: "(string \<times> string list) list" where
  "PLATFORM_TERMS = [
     (''apple'', [''ios'', ''ipad'', ''macos'', ''swift'', ''xcode'', ''apple'']),
     (''android'', [''android'', ''kotlin'', ''gradle'', ''compose'']),
     (''backend'', [''backend'', ''server'', ''api'', ''database'', utf8 [229, 144, 142, 231, 171, 175],
        utf8 [230, 156, 141, 229, 138, 161, 231, 171, 175]]),
     (''desktop'', [''desktop'', ''windows'', ''linux'', ''electron'', ''tauri'', utf8 [230, 161, 140, 233, 157, 162]]),
     (''web'', [''web'', ''frontend'', ''react'', ''vue'', utf8 [231, 189, 145, 233, 161, 181],
        utf8 [229, 137, 141, 231, 171, 175]])]"

definition platforms_from_task :: "string \<Rightarrow> string list" where
  "platforms_from_task task = map fst (filter (\<lambda>p. mentions (lower task) (snd p)) PLATFORM_TERMS)"

definition review_terms :: "string list" where
  "review_terms = [''review'', utf8 [229, 174, 161, 230, 159, 165], utf8 [232, 175, 132, 229, 174, 161]]"

definition qa_terms :: "string list" where
  "qa_terms = [utf8 [230, 181, 139, 232, 175, 149], ''qa'', ''regression'', utf8 [229, 155, 158, 229, 189, 146]]"

definition change_terms :: "string list" where
  "change_terms = [utf8 [229, 174, 158, 231, 142, 176], utf8 [228, 191, 174, 229, 164, 141], ''implement'', ''fix'']"

definition doc_terms :: "string list" where
  "doc_terms = [utf8 [230, 150, 135, 230, 161, 163], ''docs'', ''document'']"

definition investigation_terms :: "string list" where
  "investigation_terms = [utf8 [232, 176, 131, 230, 159, 165], utf8 [229, 136, 134, 230, 158, 144], ''investigate'', ''why'']"

definition risky_terms :: "string list" where
  "risky_terms = [utf8 [232, 183, 168, 229, 185, 179, 229, 143, 176], ''contract'', ''schema'', ''migration'',
     utf8 [229, 185, 182, 229, 143, 145], utf8 [230, 157, 131, 233, 153, 144]]"

definition small_terms :: "string list" where
  "small_terms = [utf8 [229, 141, 149, 230, 150, 135, 228, 187, 182], utf8 [229, 176, 143, 230, 148, 185, 229, 138, 168],
     ''small change'', ''code-small'']"

definition classify_type :: "string \<Rightarrow> string" where
  "classify_type lowered =
     (if mentions lowered review_terms then ''review-only''
      else if mentions lowered qa_terms \<and> \<not> mentions lowered change_terms then ''qa-only''
      else if mentions lowered doc_terms then ''doc-only''
      else if mentions lowered investigation_terms then ''investigation''
      else if mentions lowered risky_terms then ''code-risky''
      else if mentions lowered small_terms then ''code-small''
      else ''code-medium'')"

definition risk_of :: "string \<Rightarrow> string" where
  "risk_of task_type = (if task_type = ''code-risky'' then ''high'' else if task_type = ''code-medium'' then ''medium'' else ''low'')"

definition discipline_terms :: "(string \<times> string list) list" where
  "discipline_terms = [
     (''design'', [''ui'', ''design'', ''figma'', ''sketch'', utf8 [232, 174, 190, 232, 174, 161]]),
     (''qa'', [''test'', ''qa'', utf8 [230, 181, 139, 232, 175, 149], utf8 [229, 155, 158, 229, 189, 146]]),
     (''build'', [''build setting'', ''xcconfig'', utf8 [231, 173, 190, 229, 144, 141], ''archive'',
        utf8 [230, 158, 132, 229, 187, 186, 233, 133, 141, 231, 189, 174]]),
     (''debug'', [''crash'', utf8 [229, 180, 169, 230, 186, 131], utf8 [232, 176, 131, 232, 175, 149], ''debug'',
        utf8 [229, 188, 130, 229, 184, 184]]),
     (''performance'', [''performance'', utf8 [230, 128, 167, 232, 131, 189], utf8 [230, 142, 137, 229, 184, 167],
        utf8 [229, 134, 133, 229, 173, 152], ''instruments'']),
     (''automation'', [''automation'', utf8 [232, 135, 170, 229, 138, 168, 229, 140, 150], ''simulator'',
        utf8 [231, 156, 159, 230, 156, 186], utf8 [232, 174, 190, 229, 164, 135]]),
     (''documentation'', [''html'', ''prd'', utf8 [230, 173, 163, 229, 188, 143, 230, 150, 185, 230, 161, 136],
        utf8 [230, 173, 163, 229, 188, 143, 230, 138, 165, 229, 145, 138],
        utf8 [230, 142, 165, 229, 143, 163, 232, 175, 180, 230, 152, 142], ''handoff''])]"

definition task_disciplines :: "string \<Rightarrow> string list" where
  "task_disciplines lowered =
     sorted_set (''development'' # map fst (filter (\<lambda>p. mentions lowered (snd p)) discipline_terms))"

definition classify_task :: "string \<Rightarrow> (string \<times> json) list" where
  "classify_task task =
     (let lowered = lower task; task_type = classify_type lowered in
      [(''disciplines'', JList (map JStr (task_disciplines lowered))), (''risk'', JStr (risk_of task_type)),
       (''type'', JStr task_type)])"

section \<open>Merging policy layers\<close>

definition MAX_POLICY_LAYERS :: int where "MAX_POLICY_LAYERS = 1024"
definition MAX_POLICY_FIELDS :: int where "MAX_POLICY_FIELDS = 16384"
definition MAX_POLICY_ITEMS :: int where "MAX_POLICY_ITEMS = 16384"

definition too_many_items :: py_error where
  "too_many_items = ContractError ''policy merge exceeds maximum of 16384 items''"

function policy_items :: "json list \<Rightarrow> int \<Rightarrow> int result" where
  "policy_items [] count = Inr count"
| "policy_items (current # stack) count =
     (if count + 1 > MAX_POLICY_ITEMS then Inl too_many_items
      else policy_items (rev (children current) @ stack) (count + 1))"
  by pat_completeness auto
termination
  by (relation "measure (\<lambda>(st, n). sum_list (map json_nodes st))")
    (simp_all add: json_nodes.simps [of current for current] rev_map [symmetric] sum_list_rev)

definition policy_value_items :: "json \<Rightarrow> int result" where
  "policy_value_items value = policy_items [value] 0"

text \<open>\<open>len(v)\<close>\<close>

fun py_len :: "json \<Rightarrow> int result" where
  "py_len (JList xs) = Inr (int (length xs))"
| "py_len (JObj kvs) = Inr (int (length kvs))"
| "py_len (JStr s) = Inr (int (str_len s))"
| "py_len _ = Inl (TypeError ''len'')"

definition too_large :: "json \<Rightarrow> bool result" where
  "too_large v = mapR (\<lambda>n. n > MAX_POLICY_ITEMS) (py_len v)"

definition merge_sets :: "(string list \<Rightarrow> string list \<Rightarrow> string list) \<Rightarrow> json \<Rightarrow> json \<Rightarrow> json result" where
  "merge_sets combine current incoming =
     seqE (reject_when (orE (too_large current) (too_large incoming))
       (ContractError ''policy set merge exceeds maximum of 16384 items''))
     (bindE (texts_of current) (\<lambda>xs. bindE (texts_of incoming) (\<lambda>ys.
     Inr (JList (map JStr (sorted_set (combine xs ys)))))))"

definition merge_value :: "json \<Rightarrow> json \<Rightarrow> string \<Rightarrow> json result" where
  "merge_value current incoming strategy =
     (if current = JNull \<or> strategy \<in> set [''replace'', ''locked''] then Inr incoming
      else if strategy = ''append'' then
        bindE (iterate current) (\<lambda>xs. bindE (iterate incoming) (\<lambda>ys.
        seqE (reject_if (int (length (xs @ ys)) > MAX_POLICY_ITEMS)
          (ContractError ''policy append exceeds maximum of 16384 items''))
        (Inr (JList (xs @ ys)))))
      else if strategy = ''union'' then merge_sets (\<lambda>xs ys. xs @ ys) current incoming
      else if strategy = ''intersect'' then merge_sets (\<lambda>xs ys. filter (\<lambda>x. x \<in> set ys) xs) current incoming
      else if strategy = ''deny-wins'' then
        seqE (reject_if (\<not> is_bool current \<or> \<not> is_bool incoming) (ContractError ''deny-wins requires boolean values''))
        (Inr (if truthy current then incoming else current))
      else Inl (ContractError (''unknown merge strategy: '' @ strategy)))"

record merge_state =
  m_result :: "(string, json) dict"
  m_locked :: "string list"
  m_decisions :: "json list"
  m_fields :: int
  m_items :: int

definition empty_merge :: merge_state where
  "empty_merge = \<lparr>m_result = [], m_locked = [], m_decisions = [], m_fields = 0, m_items = 0\<rparr>"

definition merge_decision :: "json \<Rightarrow> string \<Rightarrow> string \<Rightarrow> json" where
  "merge_decision source field strategy = JObj [
     (''confidence'', JFloat (Fin 1)), (''decision'', JStr (''merge constraint: '' @ field)),
     (''merge_strategy'', JStr strategy), (''overridden_candidates'', JList []),
     (''reason_code'', JStr ''POLICY_LAYER_MERGE''), (''source'', source)]"

text \<open>A locked field may only be given a value equal to its own.\<close>

definition lock_conflict :: "merge_state \<Rightarrow> string \<Rightarrow> json \<Rightarrow> bool" where
  "lock_conflict st field incoming \<longleftrightarrow> field \<in> set (m_locked st) \<and>
     (case dict_get (m_result st) field of Some v \<Rightarrow> \<not> py_eq incoming v | None \<Rightarrow> False)"

definition merge_field :: "json \<Rightarrow> json \<Rightarrow> json \<Rightarrow> merge_state \<Rightarrow> string \<Rightarrow> merge_state result" where
  "merge_field source values strategies st field =
     (let n = m_fields st + 1 in
      seqE (reject_if (n > MAX_POLICY_FIELDS) (ContractError ''policy merge exceeds maximum of 16384 fields''))
      (bindE (getitem values field) (\<lambda>incoming. bindE (policy_value_items incoming) (\<lambda>k.
      let items = m_items st + k in
      seqE (reject_if (items > MAX_POLICY_ITEMS) too_many_items)
      (bindE (get_default strategies field (JStr ''replace'')) (\<lambda>strategy.
      seqE (require_in strategy merge_strategies (ContractError (''unknown merge strategy: '' @ as_str strategy)))
      (seqE (reject_if (lock_conflict st field incoming)
        (ContractError (''locked policy field cannot be overridden: '' @ field)))
      (bindE (merge_value (case dict_get (m_result st) field of Some v \<Rightarrow> v | None \<Rightarrow> JNull) incoming (as_str strategy)) (\<lambda>merged.
      Inr \<lparr>m_result = dict_set field merged (m_result st),
        m_locked = (if strategy = JStr ''locked'' then field # m_locked st else m_locked st),
        m_decisions = m_decisions st @ [merge_decision source field (as_str strategy)],
        m_fields = n, m_items = items\<rparr>)))))))))"

text \<open>
  \<open>sorted(values)\<close> of an object; an empty list or text has no fields, and a subscript by a field name fails
  on any other value.
\<close>

fun fields_of :: "json \<Rightarrow> string list result" where
  "fields_of (JObj kvs) = Inr (sort (map fst kvs))"
| "fields_of (JList []) = Inr []"
| "fields_of (JStr []) = Inr []"
| "fields_of _ = Inl (TypeError ''values is not an object'')"

definition merge_layer :: "merge_state \<Rightarrow> nat \<times> json \<Rightarrow> merge_state result" where
  "merge_layer st p =
     (let layer = snd p in
      seqE (reject_if (int (fst p) > MAX_POLICY_LAYERS) (ContractError ''policy merge exceeds maximum of 1024 layers''))
      (bindE (get_default layer ''source'' (JStr ''unknown'')) (\<lambda>source.
      bindE (get_default layer ''values'' (JObj [])) (\<lambda>values.
      bindE (get_default layer ''strategies'' (JObj [])) (\<lambda>strategies.
      bindE (fields_of values) (\<lambda>names.
      foldE (merge_field source values strategies) st names))))))"

definition merge_policy_layers :: "json list \<Rightarrow> ((string, json) dict \<times> json list) result" where
  "merge_policy_layers layers =
     mapR (\<lambda>st. (m_result st, m_decisions st)) (foldE merge_layer empty_merge (enumerate 1 layers))"

end
