(* ===== verification/Resolver.thy ===== *)
theory Resolver
  imports Policy
begin

text \<open>
  \<^verbatim>\<open>PolicyResolver.resolve\<close>: the platforms of a task, chosen from the user's explicit list, the task text, the
  targeted modules or the discovered platforms, with a record of every decision.
\<close>

section \<open>Inputs\<close>

definition target_modules :: "json \<Rightarrow> json list result" where
  "target_modules profile = bindE (get_default profile ''target_modules'' (JList [])) iterate"

definition targeted_platforms :: "json list \<Rightarrow> string list result" where
  "targeted_platforms modules = mapR sorted_set (mapE (\<lambda>m. bindE (getitem m ''platform'') text_of) modules)"

text \<open>\<open>len({(path, platform), ...}) == 1\<close>\<close>

definition unique_target :: "json list \<Rightarrow> bool result" where
  "unique_target modules =
     bindE (mapE (\<lambda>m. bindE (get_opt m ''path'') (\<lambda>p. bindE (get_opt m ''platform'') (\<lambda>q. Inr (p, q)))) modules) (\<lambda>pairs.
     if \<not> list_all (\<lambda>p. hashable (fst p) \<and> hashable (snd p)) pairs then Inl (TypeError ''unhashable'')
     else Inr (pairs \<noteq> [] \<and>
       list_all (\<lambda>p. py_eq (fst p) (fst (hd pairs)) \<and> py_eq (snd p) (snd (hd pairs))) pairs))"

section \<open>The choice of platforms\<close>

text \<open>The floats 0.95, 0.9 and 0.8 are the binary fractions nearest to these decimals.\<close>

definition float95 :: json where "float95 = JFloat (Fin (4278419646001971 / 4503599627370496))"
definition float90 :: json where "float90 = JFloat (Fin (8106479329266893 / 9007199254740992))"
definition float80 :: json where "float80 = JFloat (Fin (3602879701896397 / 4503599627370496))"

record selection =
  chosen :: "string list"
  chosen_source :: string
  chosen_reason :: string
  chosen_confidence :: json

definition select_platforms :: "string list \<Rightarrow> string list \<Rightarrow> string list \<Rightarrow> string list \<Rightarrow> selection" where
  "select_platforms explicit inferred targeted discovered =
     (if explicit \<noteq> [] then \<lparr>chosen = explicit, chosen_source = ''user-explicit'',
        chosen_reason = ''EXPLICIT_PLATFORM_LOCK'', chosen_confidence = JFloat (Fin 1)\<rparr>
      else if inferred \<noteq> [] then \<lparr>chosen = sort inferred, chosen_source = ''task-text'',
        chosen_reason = ''TASK_PLATFORM_MATCH'', chosen_confidence = float95\<rparr>
      else if targeted \<noteq> [] then \<lparr>chosen = targeted, chosen_source = ''target-files-or-cwd'',
        chosen_reason = ''TARGET_MODULE_MATCH'', chosen_confidence = float90\<rparr>
      else \<lparr>chosen = sort discovered, chosen_source = ''project-profile'', chosen_reason = ''DISCOVERY_EVIDENCE'',
        chosen_confidence = (if discovered \<noteq> [] then float80 else JFloat (Fin 0))\<rparr>)"

definition selection_decision :: "selection \<Rightarrow> bool \<Rightarrow> string list \<Rightarrow> json" where
  "selection_decision s locked discovered = JObj [
     (''confidence'', chosen_confidence s),
     (''decision'', JStr (''select platforms: '' @ (if chosen s \<noteq> [] then join '', '' (chosen s) else ''unknown''))),
     (''merge_strategy'', JStr (if locked then ''locked'' else ''replace'')),
     (''overridden_candidates'', JList (map JStr (sorted_set (filter (\<lambda>p. p \<notin> set (chosen s)) discovered)))),
     (''reason_code'', JStr (if chosen s \<noteq> [] then chosen_reason s else ''NO_PLATFORM_EVIDENCE'')),
     (''source'', JStr (chosen_source s))]"

definition ambiguity_decision :: json where
  "ambiguity_decision = JObj [
     (''confidence'', JFloat (Fin 0)),
     (''decision'', JStr ''block automatic platform selection until ambiguity is resolved''),
     (''merge_strategy'', JStr ''locked''), (''overridden_candidates'', JList []),
     (''reason_code'', JStr ''UNRESOLVED_PLATFORM_AMBIGUITY''), (''source'', JStr ''project-profile'')]"

text \<open>\<open>d.update(other)\<close>\<close>

definition dict_update :: "(string, json) dict \<Rightarrow> (string, json) dict \<Rightarrow> (string, json) dict" where
  "dict_update d other = fold (\<lambda>p d. dict_set (fst p) (snd p) d) other d"

definition is_ambiguous :: "json \<Rightarrow> string list \<Rightarrow> string list \<Rightarrow> bool \<Rightarrow> bool" where
  "is_ambiguous profile explicit inferred unique \<longleftrightarrow>
     explicit = [] \<and> inferred = [] \<and> truthy (fld profile ''ambiguities'') \<and> \<not> unique"

definition policy_content :: "selection \<Rightarrow> string \<Rightarrow> (string, json) dict \<Rightarrow> json list \<Rightarrow> (string \<times> json) list" where
  "policy_content s task_text merged decisions = [
     (''constraints'', JObj merged), (''decisions'', JList decisions), (''schema_version'', JStr ''1.0''),
     (''selected_platforms'', JList (map JStr (chosen s))),
     (''task'', JObj ((''text'', JStr task_text) # classify_task task_text))]"

definition resolve :: "world \<Rightarrow> json \<Rightarrow> string \<Rightarrow> string list \<Rightarrow> (string, json) dict \<Rightarrow> json list \<Rightarrow> json result" where
  "resolve w profile task_text explicit_platforms constraints layers =
     (let explicit = sorted_set explicit_platforms; inferred = platforms_from_task task_text in
      bindE (target_modules profile) (\<lambda>modules.
      bindE (targeted_platforms modules) (\<lambda>targeted.
      bindE (bindE (get_default profile ''platforms'' (JList [])) texts_of) (\<lambda>discovered.
      bindE (unique_target modules) (\<lambda>unique.
      let s = select_platforms explicit inferred targeted discovered;
          blocked = is_ambiguous profile explicit inferred unique in
      bindE (merge_policy_layers layers) (\<lambda>(merged, merge_decisions).
      let constraints1 = dict_update merged constraints;
          constraints2 = (if blocked then dict_set ''routing_ambiguities'' (fld profile ''ambiguities'') constraints1 else constraints1);
          content = policy_content s task_text constraints2
            (selection_decision s (explicit \<noteq> []) discovered # (if blocked then [ambiguity_decision] else []) @ merge_decisions) in
      bindE (sha256 w (JObj content)) (\<lambda>fingerprint.
      let value = JObj (content @ [(''fingerprint'', JStr fingerprint)]) in
      seqE (validate_resolved_policy w value) (Inr value))))))))"

end
