(* ===== verification/PolicyFacts.thy ===== *)
theory PolicyFacts
  imports Resolver
begin

text \<open>
  The merge of policy layers: locked fields keep their value under the strategies that choose a value, the
  counters bound what is recorded; and what the resolver puts into a policy.
\<close>

section \<open>Equality of values is transitive\<close>

lemma py_eq_JList: "py_eq (JList xs) u \<longleftrightarrow> (\<exists>ys. u = JList ys \<and> list_all2 py_eq xs ys)"
  by (cases u) (auto simp: py_eq.simps [of "JList xs"] list_all2_iff case_prod_beta)

lemma py_eq_JObj:
  "py_eq (JObj a) u \<longleftrightarrow>
     (\<exists>b. u = JObj b \<and> length a = length b \<and> (\<forall>p \<in> set a. \<exists>y. dict_get b (fst p) = Some y \<and> py_eq (snd p) y))"
  by (cases u) (auto simp: py_eq.simps [of "JObj a"] split: option.splits)

lemma py_eq_JNull: "py_eq JNull u \<longleftrightarrow> u = JNull"
  by (cases u) (simp_all add: py_eq.simps [of JNull])

lemma py_eq_JStr_iff: "py_eq (JStr s) u \<longleftrightarrow> u = JStr s"
  by (cases u) (auto simp: py_eq.simps [of "JStr s"])

lemma py_eq_number: "num_of v = Some r \<Longrightarrow> py_eq v u \<longleftrightarrow> num_of u = Some r"
  by (cases v rule: num_of.cases; cases u rule: num_of.cases) (auto simp: py_eq.simps)

lemma py_eq_infinite: "v = JFloat PosInf \<or> v = JFloat NegInf \<Longrightarrow> py_eq v u \<longleftrightarrow> u = v"
  by (cases u rule: num_of.cases) (auto simp: py_eq.simps)

lemma py_eq_NaN: "\<not> py_eq (JFloat NaN) u"
  by (cases u) (simp_all add: py_eq.simps)

lemma py_eq_trans: "py_eq v u \<Longrightarrow> py_eq u x \<Longrightarrow> py_eq v x"
proof (induction v arbitrary: u x rule: measure_induct_rule [of size])
  case (less v)
  have IH: "py_eq y u \<Longrightarrow> py_eq u x \<Longrightarrow> py_eq y x" if "y \<in> set (children v)" for y u x
    using less.IH size_children [OF that] by blast
  show ?case
  proof (cases v)
    case (JList xs)
    obtain ys where ys: "u = JList ys" "list_all2 py_eq xs ys" using less.prems(1) JList by (auto simp: py_eq_JList)
    obtain zs where zs: "x = JList zs" "list_all2 py_eq ys zs" using less.prems(2) ys(1) by (auto simp: py_eq_JList)
    have "list_all2 py_eq xs zs"
      using ys(2) zs(2) IH by (auto simp: list_all2_conv_all_nth JList)
    then show ?thesis by (simp add: JList zs(1) py_eq_JList)
  next
    case (JObj a)
    obtain b where b: "u = JObj b" "length a = length b" "\<forall>p \<in> set a. \<exists>y. dict_get b (fst p) = Some y \<and> py_eq (snd p) y"
      using less.prems(1) JObj by (auto simp: py_eq_JObj)
    obtain c where c: "x = JObj c" "length b = length c" "\<forall>p \<in> set b. \<exists>y. dict_get c (fst p) = Some y \<and> py_eq (snd p) y"
      using less.prems(2) b(1) by (auto simp: py_eq_JObj)
    have "\<exists>z. dict_get c (fst p) = Some z \<and> py_eq (snd p) z" if p: "p \<in> set a" for p
    proof -
      obtain y where y: "dict_get b (fst p) = Some y" "py_eq (snd p) y" using b(3) p by blast
      then have "(fst p, y) \<in> set b" by (rule_tac dict_get_SomeD)
      then obtain z where "dict_get c (fst p) = Some z" "py_eq y z" using c(3) by fastforce
      then show ?thesis using IH [of "snd p" y z] y(2) p JObj by auto
    qed
    then show ?thesis by (simp add: JObj c(1) py_eq_JObj b(2) c(2))
  next
    case (JFloat f)
    then show ?thesis using less.prems by (cases f) (auto simp: py_eq_number py_eq_infinite py_eq_NaN)
  qed (use less.prems in \<open>auto simp: py_eq_JNull py_eq_JStr_iff py_eq_number\<close>)
qed

section \<open>Locked fields\<close>

text \<open>The field has been locked, and its value still equals the one it had.\<close>

definition holds_value :: "string \<Rightarrow> json \<Rightarrow> merge_state \<Rightarrow> bool" where
  "holds_value f v st \<longleftrightarrow> f \<in> set (m_locked st) \<and> (\<exists>x. dict_get (m_result st) f = Some x \<and> py_eq x v)"

definition choosing :: "string list" where
  "choosing = [''replace'', ''locked'', ''deny-wins'']"

lemma merge_field_D:
  assumes "merge_field source values strategies st field = Inr st'"
  shows "\<exists>incoming strategy merged. getitem values field = Inr incoming \<and>
    fld_or strategies field (JStr ''replace'') = JStr strategy \<and> strategy \<in> set merge_strategies \<and>
    \<not> lock_conflict st field incoming \<and>
    merge_value (case dict_get (m_result st) field of Some v \<Rightarrow> v | None \<Rightarrow> JNull) incoming strategy = Inr merged \<and>
    m_result st' = dict_set field merged (m_result st) \<and>
    m_locked st' = (if strategy = ''locked'' then field # m_locked st else m_locked st) \<and>
    m_decisions st' = m_decisions st @ [merge_decision source field strategy] \<and>
    m_fields st' = m_fields st + 1 \<and> m_fields st' \<le> MAX_POLICY_FIELDS \<and> m_items st' \<le> MAX_POLICY_ITEMS"
proof -
  obtain incoming k strategy merged where
      fields: "\<not> m_fields st + 1 > MAX_POLICY_FIELDS" and get: "getitem values field = Inr incoming"
    and items: "\<not> m_items st + k > MAX_POLICY_ITEMS"
    and strategy: "get_default strategies field (JStr ''replace'') = Inr strategy"
      "require_in strategy merge_strategies (ContractError (''unknown merge strategy: '' @ as_str strategy)) = Inr ()"
    and lock: "\<not> lock_conflict st field incoming"
    and merged: "merge_value (case dict_get (m_result st) field of Some v \<Rightarrow> v | None \<Rightarrow> JNull) incoming (as_str strategy) = Inr merged"
    and st': "st' = \<lparr>m_result = dict_set field merged (m_result st),
        m_locked = (if strategy = JStr ''locked'' then field # m_locked st else m_locked st),
        m_decisions = m_decisions st @ [merge_decision source field (as_str strategy)],
        m_fields = m_fields st + 1, m_items = m_items st + k\<rparr>"
    using assms unfolding merge_field_def Let_def bindE_eq_Inr seqE_eq_Inr reject_if_eq_Inr by blast
  obtain s where s: "s \<in> set merge_strategies" "strategy = JStr s" using strategy(2) unfolding require_in_eq_Inr by blast
  have "fld_or strategies field (JStr ''replace'') = JStr s" using strategy(1) s(2) by (simp add: get_default_eq_Inr)
  then show ?thesis
    using fields get items lock merged st' s
    by (rule_tac exI [of _ incoming], rule_tac exI [of _ s], rule_tac exI [of _ merged]) simp
qed

lemma choosing_keeps:
  assumes "merge_value current incoming s = Inr merged" and "s \<in> set choosing" and "py_eq incoming v" and "py_eq current v"
  shows "py_eq merged v"
proof -
  have "merged = incoming \<or> merged = current"
    using assms(1,2) by (auto simp: merge_value_def choosing_def seqE_eq_Inr split: if_splits)
  then show ?thesis using assms(3,4) by blast
qed

lemma merge_field_keeps:
  assumes "merge_field source values strategies st field = Inr st'" and "holds_value f v st"
    and "fld_or strategies f (JStr ''replace'') \<in> JStr ` set choosing \<or> field \<noteq> f"
  shows "holds_value f v st'"
proof -
  obtain incoming strategy merged where
      s: "fld_or strategies field (JStr ''replace'') = JStr strategy" and lock: "\<not> lock_conflict st field incoming"
    and merged: "merge_value (case dict_get (m_result st) field of Some v \<Rightarrow> v | None \<Rightarrow> JNull) incoming strategy = Inr merged"
    and res: "m_result st' = dict_set field merged (m_result st)"
    and locked: "m_locked st' = (if strategy = ''locked'' then field # m_locked st else m_locked st)"
    using merge_field_D [OF assms(1)] by blast
  obtain x where x: "f \<in> set (m_locked st)" "dict_get (m_result st) f = Some x" "py_eq x v"
    using assms(2) by (auto simp: holds_value_def)
  have l: "f \<in> set (m_locked st')" using x(1) locked by simp
  show ?thesis
  proof (cases "field = f")
    case True
    then have "py_eq incoming x" using lock x by (simp add: lock_conflict_def)
    then have "py_eq incoming v" using x(3) by (rule py_eq_trans)
    moreover have "strategy \<in> set choosing" using assms(3) True s by auto
    ultimately have "py_eq merged v" using choosing_keeps [OF merged] x True by simp
    then show ?thesis using l res True by (simp add: holds_value_def)
  next
    case False
    then show ?thesis using l x res by (simp add: holds_value_def)
  qed
qed

text \<open>A layer that gives the field, if at all, under a strategy that chooses one of the two values.\<close>

definition chooses :: "string \<Rightarrow> json \<Rightarrow> bool" where
  "chooses f layer \<longleftrightarrow> fld_or (fld_or layer ''strategies'' (JObj [])) f (JStr ''replace'') \<in> JStr ` set choosing \<or>
     \<not> has_key (fld_or layer ''values'' (JObj [])) f"

lemma merge_layer_keeps:
  assumes "merge_layer st p = Inr st'" and "holds_value f v st" and "chooses f (snd p)"
  shows "holds_value f v st'"
proof -
  obtain source names where names: "fields_of (fld_or (snd p) ''values'' (JObj [])) = Inr names"
    and fold: "foldE (merge_field source (fld_or (snd p) ''values'' (JObj [])) (fld_or (snd p) ''strategies'' (JObj []))) st names = Inr st'"
    using assms(1) by (auto simp: merge_layer_def Let_def bindE_eq_Inr seqE_eq_Inr get_default_eq_Inr)
  let ?vals = "fld_or (snd p) ''values'' (JObj [])"
  have has: "has_key ?vals n" if "n \<in> set names" for n
  proof (cases ?vals rule: fields_of.cases)
    case (1 kvs)
    then show ?thesis using names that by (auto simp: has_key_def dict_get_None_iff)
  qed (use names that in auto)
  have step: "holds_value f v s'" if "n \<in> set names" "holds_value f v s"
      "merge_field source ?vals (fld_or (snd p) ''strategies'' (JObj [])) s n = Inr s'" for n s s'
    using merge_field_keeps [OF that(3,2)] assms(3) has [OF that(1)] by (auto simp: chooses_def)
  show ?thesis
    using fold step assms(2)
  proof (induction names arbitrary: st)
    case (Cons n ns)
    then show ?case by (auto simp: bindE_eq_Inr)
  qed simp
qed

lemma merge_layers_keep:
  assumes "foldE merge_layer st ps = Inr st'" and "holds_value f v st" and "\<forall>p \<in> set ps. chooses f (snd p)"
  shows "holds_value f v st'"
  using assms by (induction ps arbitrary: st) (auto simp: bindE_eq_Inr intro: merge_layer_keeps)

section \<open>Bounds\<close>

definition merge_bounded :: "merge_state \<Rightarrow> bool" where
  "merge_bounded st \<longleftrightarrow> m_fields st = int (length (m_decisions st)) \<and> m_fields st \<le> MAX_POLICY_FIELDS \<and>
     m_items st \<le> MAX_POLICY_ITEMS"

lemma merge_layer_bounded: "merge_layer st p = Inr st' \<Longrightarrow> merge_bounded st \<Longrightarrow> merge_bounded st'"
proof -
  have fold: "foldE (merge_field source vs strategies) st names = Inr st' \<Longrightarrow> merge_bounded st \<Longrightarrow> merge_bounded st'"
    for source vs strategies st names
  proof (induction names arbitrary: st)
    case (Cons n ns)
    then obtain s where s: "merge_field source vs strategies st n = Inr s" "foldE (merge_field source vs strategies) s ns = Inr st'"
      by (auto simp: bindE_eq_Inr)
    have "merge_bounded s" using merge_field_D [OF s(1)] Cons.prems(2) by (auto simp: merge_bounded_def)
    then show ?case using Cons.IH s(2) by blast
  qed simp
  assume "merge_layer st p = Inr st'" and "merge_bounded st"
  then show ?thesis using fold unfolding merge_layer_def Let_def bindE_eq_Inr seqE_eq_Inr by blast
qed

lemma merge_layers_bounded: "foldE merge_layer st ps = Inr st' \<Longrightarrow> merge_bounded st \<Longrightarrow> merge_bounded st'"
  by (induction ps arbitrary: st) (auto simp: bindE_eq_Inr intro: merge_layer_bounded)

end
