(* ===== verification/PolicySpec.thy ===== *)
theory PolicySpec
  imports PolicyFacts PlanRuns Sample
begin

text \<open>
  The properties of the policy resolver: what a locked field promises and where it fails, the bounds of a
  merge, and how explicit platforms and unresolved ambiguities decide what the planner does.
\<close>

section \<open>Helpers\<close>

lemma truthy_dict_set: "fld (JObj (dict_set k v d)) k = v"
  by (simp add: fld_def)

lemma resolve_D:
  assumes "resolve w profile task explicit constraints layers = Inr policy"
  shows "\<exists>modules ts discovered unique merged ds s h. target_modules profile = Inr modules \<and>
    targeted_platforms modules = Inr ts \<and> unique_target modules = Inr unique \<and> merge_policy_layers layers = Inr (merged, ds) \<and>
    s = select_platforms (sorted_set explicit) (platforms_from_task task) ts discovered \<and>
    policy = JObj (policy_content s task
      (if is_ambiguous profile (sorted_set explicit) (platforms_from_task task) unique
       then dict_set ''routing_ambiguities'' (fld profile ''ambiguities'') (dict_update merged constraints)
       else dict_update merged constraints)
      (selection_decision s (sorted_set explicit \<noteq> []) discovered #
        (if is_ambiguous profile (sorted_set explicit) (platforms_from_task task) unique then [ambiguity_decision] else []) @ ds)
      @ [(''fingerprint'', JStr h)])"
proof -
  let ?e = "sorted_set explicit" and ?i = "platforms_from_task task"
  obtain modules ts discovered unique m h where d: "target_modules profile = Inr modules" "targeted_platforms modules = Inr ts"
      "unique_target modules = Inr unique" "merge_policy_layers layers = Inr m"
    and p: "policy = JObj (policy_content (select_platforms ?e ?i ts discovered) task
      (if is_ambiguous profile ?e ?i unique
       then dict_set ''routing_ambiguities'' (fld profile ''ambiguities'') (dict_update (fst m) constraints)
       else dict_update (fst m) constraints)
      (selection_decision (select_platforms ?e ?i ts discovered) (?e \<noteq> []) discovered #
        (if is_ambiguous profile ?e ?i unique then [ambiguity_decision] else []) @ snd m)
      @ [(''fingerprint'', JStr h)])"
    using assms unfolding resolve_def Let_def bindE_eq_Inr seqE_eq_Inr case_prod_beta by blast
  obtain merged ds where "m = (merged, ds)" by (cases m)
  with d p show ?thesis by (intro exI conjI) (simp, simp, simp, simp, rule refl, simp only: fst_conv snd_conv)
qed

section \<open>Locked fields\<close>

text \<open>C40: a field that some layer locked keeps a value equal to its own to the end of the merge, as long as
  later layers that mention it replace, lock or deny; a layer with another value is refused.\<close>

theorem locked_values_survive:
  assumes "foldE merge_layer empty_merge (enumerate 1 earlier) = Inr st" and "f \<in> set (m_locked st)"
    and "dict_get (m_result st) f = Some v" and "py_eq v v" and "\<forall>layer \<in> set later. chooses f layer"
    and "merge_policy_layers (earlier @ later) = Inr (result, ds)"
  shows "\<exists>x. dict_get result f = Some x \<and> py_eq x v"
proof -
  obtain st' where st': "foldE merge_layer st (enumerate (1 + length earlier) later) = Inr st'" "result = m_result st'"
    using assms(1,6) by (auto simp: merge_policy_layers_def mapR_eq_Inr enumerate_append_eq foldE_append bindE_eq_Inr)
  have "holds_value f v st" using assms(2-4) by (auto simp: holds_value_def)
  moreover have "\<forall>p \<in> set (enumerate (1 + length earlier) later). chooses f (snd p)"
    using assms(5) by (auto simp: in_set_enumerate_eq)
  ultimately have "holds_value f v st'" by (rule merge_layers_keep [OF st'(1)])
  then show ?thesis using st'(2) by (auto simp: holds_value_def)
qed

definition policy_layer :: "json \<Rightarrow> string \<Rightarrow> json" where
  "policy_layer v strategy = JObj [(''source'', JStr ''layer''), (''values'', JObj [(''targets'', v)]),
     (''strategies'', JObj [(''targets'', JStr strategy)])]"

lemma sample_locked:
  "case foldE merge_layer empty_merge (enumerate 1 [policy_layer (JStr ''a'') ''locked'']) of
     Inr st \<Rightarrow> ''targets'' \<in> set (m_locked st) \<and> dict_get (m_result st) ''targets'' = Some (JStr ''a'') | Inl e \<Rightarrow> False"
  by code_simp

lemma sample_merge:
  "case merge_policy_layers ([policy_layer (JStr ''a'') ''locked''] @ [policy_layer (JStr ''a'') ''replace'']) of
     Inr (r, ds) \<Rightarrow> int (length ds) = 2 | Inl e \<Rightarrow> False"
  by code_simp

lemma sample_chooses: "\<forall>layer \<in> set [policy_layer (JStr ''a'') ''replace'']. chooses ''targets'' layer"
  by (simp add: chooses_def policy_layer_def fld_or_def choosing_def)

lemma locked_values_survive_sample:
  "\<exists>r ds x. merge_policy_layers ([policy_layer (JStr ''a'') ''locked''] @ [policy_layer (JStr ''a'') ''replace'']) = Inr (r, ds) \<and>
     dict_get r ''targets'' = Some x \<and> py_eq x (JStr ''a'')"
proof -
  obtain r ds where m: "merge_policy_layers ([policy_layer (JStr ''a'') ''locked''] @ [policy_layer (JStr ''a'') ''replace'']) = Inr (r, ds)"
    using sample_merge by (auto split: sum.splits)
  obtain st where st: "foldE merge_layer empty_merge (enumerate 1 [policy_layer (JStr ''a'') ''locked'']) = Inr st"
      "''targets'' \<in> set (m_locked st)" "dict_get (m_result st) ''targets'' = Some (JStr ''a'')"
    using sample_locked by (auto split: sum.splits)
  show ?thesis using locked_values_survive [OF st _ sample_chooses m] m by auto
qed

text \<open>A locked field is not protected against the other strategies: a later layer that gives the same list
  under \<open>append\<close> passes the check for locked fields, and the list is doubled.\<close>

theorem locked_list_can_grow:
  "mapR (\<lambda>p. dict_get (fst p) ''targets'')
     (merge_policy_layers [policy_layer (JList [JStr ''a'']) ''locked'', policy_layer (JList [JStr ''a'']) ''append'']) =
   Inr (Some (JList [JStr ''a'', JStr ''a'']))"
  by code_simp

text \<open>A merge records one decision per field of a layer, at most 16384 of them.\<close>

theorem merge_is_bounded:
  assumes "merge_policy_layers layers = Inr (result, decisions)"
  shows "int (length decisions) \<le> 16384"
proof -
  obtain st where st: "foldE merge_layer empty_merge (enumerate 1 layers) = Inr st" "decisions = m_decisions st"
    using assms by (auto simp: merge_policy_layers_def mapR_eq_Inr)
  have "merge_bounded empty_merge" by (simp add: merge_bounded_def empty_merge_def MAX_POLICY_FIELDS_def MAX_POLICY_ITEMS_def)
  then have "merge_bounded st" by (rule merge_layers_bounded [OF st(1)])
  then show ?thesis by (simp add: st(2) merge_bounded_def MAX_POLICY_FIELDS_def)
qed

lemma merge_is_bounded_sample:
  "\<exists>r ds. merge_policy_layers ([policy_layer (JStr ''a'') ''locked''] @ [policy_layer (JStr ''a'') ''replace'']) = Inr (r, ds) \<and>
     int (length ds) \<le> 16384"
proof -
  obtain r ds where "merge_policy_layers ([policy_layer (JStr ''a'') ''locked''] @ [policy_layer (JStr ''a'') ''replace'']) = Inr (r, ds)"
    using sample_merge by (auto split: sum.splits)
  then show ?thesis using merge_is_bounded by blast
qed

section \<open>Routing\<close>

definition sample_profile :: json where
  "sample_profile = JObj [(''platforms'', JList [JStr ''android'', JStr ''web''])]"

text \<open>Explicit platforms win over everything else: the policy selects exactly them, sorted and without
  duplicates, as a locked decision.\<close>

theorem explicit_platforms_win:
  assumes "resolve w profile task explicit constraints layers = Inr policy" and "explicit \<noteq> []"
  shows "fld policy ''selected_platforms'' = JList (map JStr (sorted_set explicit)) \<and>
    fld (hd (as_list (fld policy ''decisions''))) ''merge_strategy'' = JStr ''locked''"
proof -
  have "sorted_set explicit \<noteq> []" using assms(2) by (metis set_empty set_sorted_set)
  then show ?thesis using resolve_D [OF assms(1)]
    by (auto simp: policy_content_def selection_decision_def select_platforms_def fld_def)
qed

lemma sample_explicit: "is_ok (resolve sample_world sample_profile ''fix'' [''web'', ''web''] [] [])"
  by code_simp

lemma explicit_platforms_win_sample:
  "\<exists>policy. resolve sample_world sample_profile ''fix'' [''web'', ''web''] [] [] = Inr policy \<and>
     fld policy ''selected_platforms'' = JList [JStr ''web'']"
proof -
  obtain policy where p: "resolve sample_world sample_profile ''fix'' [''web'', ''web''] [] [] = Inr policy"
    using sample_explicit by (auto simp: is_ok_def split: sum.splits)
  have "sorted_set [''web'', ''web''] = [''web'']" by (simp add: sorted_set_def)
  then show ?thesis using explicit_platforms_win [OF p] p by simp
qed

text \<open>C39: resolver and compiler together: when nothing decides between the platforms of an ambiguous profile
  (no explicit list, no platform named in the task, no single target), every plan compiled from the policy is
  blocked.\<close>

theorem ambiguity_blocks_plan:
  assumes "resolve w profile task [] constraints layers = Inr policy" and "platforms_from_task task = []"
    and "truthy (fld profile ''ambiguities'')" and "bindE (target_modules profile) unique_target = Inr False"
    and "compile_plan w locks reg profile2 policy lock = Inr plan"
  shows "fld plan ''status'' = JStr ''blocked''"
proof -
  have "sorted_set [] = ([] :: string list)" by (simp add: sorted_set_def)
  then obtain d s ds h where "policy = JObj (policy_content s task
      (dict_set ''routing_ambiguities'' (fld profile ''ambiguities'') d) ds @ [(''fingerprint'', JStr h)])"
    using resolve_D [OF assms(1)] assms(2-4) by (auto simp: is_ambiguous_def)
  then have "fld (fld policy ''constraints'') ''routing_ambiguities'' = fld profile ''ambiguities''"
    by (simp add: policy_content_def fld_def)
  then have "policy_gaps policy \<noteq> []" using assms(3) by (simp add: policy_gaps_def routing_gaps_def)
  then show ?thesis using compiled [OF assms(5)] by (auto simp: plan_of_def plan_status_def)
qed

definition unclear_profile :: json where
  "unclear_profile = JObj [(''ambiguities'', JList [JStr ''two roots''])]"

definition no_manifests :: registry where
  "no_manifests = \<lparr>reg_items = [], core_version = JStr ''1.0''\<rparr>"

definition accept_locks :: lock_checks where
  "accept_locks = \<lparr>package_lock_ok = (\<lambda>_. Inr ()), plan_lock_ok = (\<lambda>_ _. Inr ())\<rparr>"

lemma sample_ambiguous:
  "case resolve sample_world unclear_profile ''fix'' [] [] [] of
     Inr policy \<Rightarrow> is_ok (compile_plan sample_world accept_locks no_manifests (JObj []) policy None)
   | Inl e \<Rightarrow> False"
  "platforms_from_task ''fix'' = []" "truthy (fld unclear_profile ''ambiguities'')"
  "bindE (target_modules unclear_profile) unique_target = Inr False"
  by code_simp+

lemma ambiguity_blocks_plan_sample:
  "\<exists>policy plan. resolve sample_world unclear_profile ''fix'' [] [] [] = Inr policy \<and>
     compile_plan sample_world accept_locks no_manifests (JObj []) policy None = Inr plan \<and>
     fld plan ''status'' = JStr ''blocked''"
proof -
  obtain policy plan where p: "resolve sample_world unclear_profile ''fix'' [] [] [] = Inr policy"
      "compile_plan sample_world accept_locks no_manifests (JObj []) policy None = Inr plan"
    using sample_ambiguous(1) by (auto simp: is_ok_def split: sum.splits)
  from ambiguity_blocks_plan [OF p(1) sample_ambiguous(2-4) p(2)] p show ?thesis by blast
qed

text \<open>The terms of the classifier match inside words: a task about a \<open>preview\<close> counts as a review, for which
  the recipe implements nothing, and every \<open>build\<close> task counts as design work, since it contains \<open>ui\<close>.\<close>

theorem terms_match_inside_words:
  "fld (JObj (classify_task ''Fix the SwiftUI preview crash'')) ''type'' = JStr ''review-only'' \<and>
   required_platform_capabilities ''apple'' ''review-only'' [''debug''] = [] \<and>
   ''design'' \<in> set (task_disciplines (lower ''Fix the build''))"
  by code_simp

end
