(* ===== verification/Migrations.thy ===== *)
theory Migrations
  imports Registry
begin

text \<open>
  \<^verbatim>\<open>migrations.py\<close>: the graph of schema migrations, the breadth-first search for a path between two
  versions, and the migration along it with validation before and after every step.
\<close>

section \<open>Activation locks\<close>

text \<open>
  \<open>PurePosixPath(s).parts\<close>: the components between slashes without empty ones and single dots. A leading
  slash is a part of its own.
\<close>

definition path_parts :: "string \<Rightarrow> string list" where
  "path_parts s =
     (if startswith s ''/'' then [''/''] else []) @
     filter (\<lambda>p. p \<noteq> [] \<and> p \<noteq> ''.'') (split_on (CHR ''/'') s)"

definition check_activation_file :: "json \<Rightarrow> unit result" where
  "check_activation_file entry =
     seqE (reject_if (\<not> is_obj entry \<or> fst ` set (as_dict entry) \<noteq> set [''mode'', ''path'', ''sha256''])
       (ContractError ''activation-lock file entry is invalid''))
     (let path = fld entry ''path''; mode = fld entry ''mode''; h = fld entry ''sha256'' in
      seqE (reject_if (\<not> is_nonempty_str path \<or> startswith (as_str path) ''/'' \<or> ''..'' \<in> set (path_parts (as_str path)))
        (ContractError ''activation-lock file path is invalid''))
      (seqE (reject_if (\<not> is_strict_int mode \<or> as_int mode < 0 \<or> as_int mode > 511)
        (ContractError ''activation-lock file mode is invalid''))
      (reject_if (\<not> is_str h \<or> \<not> is_hex 64 (as_str h)) (ContractError ''activation-lock file hash is invalid''))))"

definition activation_handler :: string where
  "activation_handler = ''core.source-activation.apple-codex-v1''"

definition unsupported_version :: "world \<Rightarrow> json \<Rightarrow> unit result" where
  "unsupported_version w version =
     bindE (dumps w version) (\<lambda>t. Inl (ContractError (''unsupported activation-lock schema_version: '' @ butlast t)))"

definition validate_activation_lock :: "world \<Rightarrow> json \<Rightarrow> unit result" where
  "validate_activation_lock w value =
     seqE (reject_if (\<not> is_obj value) (ContractError ''activation-lock must be an object''))
     (let version = fld value ''schema_version''; files = fld value ''files'' in
      seqE (if version \<noteq> JStr ''2.0'' \<and> version \<noteq> JStr ''1.0'' then unsupported_version w version else Inr ())
      (seqE (reject_if (fst ` set (as_dict value) \<noteq> set ([''schema_version'', ''manager'', ''files''] @
            (if version = JStr ''2.0'' then [''handler''] else [])))
        (ContractError ''activation-lock fields differ from its versioned contract''))
      (seqE (reject_if (fld value ''manager'' \<noteq> JStr ''agent-development-skills'')
        (ContractError ''activation-lock manager is invalid''))
      (seqE (reject_if (version = JStr ''2.0'' \<and> fld value ''handler'' \<noteq> JStr activation_handler)
        (ContractError ''activation-lock handler is invalid''))
      (seqE (reject_if (\<not> is_list files) (ContractError ''activation-lock files must be an array''))
      (seqE (for_each check_activation_file (as_list files))
      (reject_if (has_duplicates (map (\<lambda>e. fld e ''path'') (as_list files)))
        (ContractError ''activation-lock file paths must be unique'')))))))) "

section \<open>The registry\<close>

text \<open>
  A transform is arbitrary code: its result may depend on how many transforms ran before it, the first
  argument here.
\<close>

record migration_edge =
  artifact :: string
  from_version :: string
  to_version :: string
  lossless :: json
  transform :: "(nat \<Rightarrow> json \<Rightarrow> json result) option"
  changes :: "string list"

definition edge_identity :: "migration_edge \<Rightarrow> string \<times> string \<times> string" where
  "edge_identity e = (artifact e, from_version e, to_version e)"

definition new_migrations :: "migration_edge list \<Rightarrow> migration_edge list result" where
  "new_migrations edges =
     (let items = sort_key artifact (sort_key from_version (sort_key to_version edges)) in
      seqE (reject_if (has_duplicates (map edge_identity items))
        (ContractError ''migration registry contains duplicate edges''))
      (seqE (reject_if (list_ex (\<lambda>e. from_version e = to_version e) items)
        (ContractError ''migration registry must not declare identity edges''))
      (seqE (reject_if (list_ex (\<lambda>e. \<not> is_bool (lossless e)) items)
        (ContractError ''migration registry lossless flags must be boolean''))
      (seqE (reject_if (list_ex (\<lambda>e. changes e \<noteq> sorted_set (changes e)) items)
        (ContractError ''migration registry changes must be sorted and unique''))
      (Inr items)))))"

section \<open>The search for a path\<close>

type_synonym migration_path = "migration_edge list"

text \<open>The edges that leave a version of an artifact: \<open>outgoing.get(version, [])\<close>.\<close>

definition leaving :: "migration_edge list \<Rightarrow> string \<Rightarrow> string \<Rightarrow> migration_edge list" where
  "leaving es a v = filter (\<lambda>e. from_version e = v) (filter (\<lambda>e. artifact e = a) es)"

text \<open>The inner loop over the edges of one version: a path that arrives, or the new visited set and queue.\<close>

fun expand :: "string \<Rightarrow> migration_path \<Rightarrow> migration_edge list \<Rightarrow> string list \<Rightarrow> (string \<times> migration_path) list \<Rightarrow>
    migration_path + (string list \<times> (string \<times> migration_path) list)" where
  "expand goal path [] visited queue = Inr (visited, queue)"
| "expand goal path (e # es) visited queue =
     (if to_version e = goal then Inl (path @ [e])
      else if to_version e \<notin> set visited
      then expand goal path es (to_version e # visited) (queue @ [(to_version e, path @ [e])])
      else expand goal path es visited queue)"

text \<open>Versions an edge leads to that are not visited yet.\<close>

definition unvisited :: "migration_edge list \<Rightarrow> string list \<Rightarrow> nat" where
  "unvisited es visited = card (to_version ` set es - set visited)"

lemma unvisited_Cons:
  assumes "v \<in> to_version ` set es" and "v \<notin> set visited"
  shows "Suc (unvisited es (v # visited)) = unvisited es visited"
proof -
  have "to_version ` set es - set (v # visited) = to_version ` set es - set visited - {v}" by auto
  moreover have "v \<in> to_version ` set es - set visited" using assms by blast
  ultimately show ?thesis unfolding unvisited_def by (metis List.finite_set card_Suc_Diff1 finite_Diff finite_imageI)
qed

lemma expand_bound:
  "expand goal path es visited queue = Inr (visited', queue') \<Longrightarrow> set es \<subseteq> set all \<Longrightarrow>
   length queue' + unvisited all visited' = length queue + unvisited all visited"
proof (induction es arbitrary: visited queue)
  case (Cons e es)
  have "Suc (unvisited all (to_version e # visited)) = unvisited all visited" if "to_version e \<notin> set visited"
    using Cons.prems(2) that by (intro unvisited_Cons) auto
  then show ?case using Cons by (fastforce split: if_splits)
qed simp

lemma leaving_subset: "set (leaving es a v) \<subseteq> set es"
  by (auto simp: leaving_def)

definition no_path :: "string \<Rightarrow> string \<Rightarrow> string \<Rightarrow> py_error" where
  "no_path a f t = ContractError (''no supported migration path for '' @ a @ '': '' @ f @ '' -> '' @ t)"

function search :: "migration_edge list \<Rightarrow> string \<Rightarrow> string \<Rightarrow> string list \<Rightarrow> (string \<times> migration_path) list \<Rightarrow> migration_path option" where
  "search es a goal visited [] = None"
| "search es a goal visited (vp # queue) =
     (case expand goal (snd vp) (leaving es a (fst vp)) visited queue of
        Inl p \<Rightarrow> Some p
      | Inr (visited', queue') \<Rightarrow> search es a goal visited' queue')"
  by pat_completeness auto
termination
  by (relation "measure (\<lambda>(es, a, goal, visited, queue). length queue + unvisited es visited)")
    (auto dest!: expand_bound [OF _ leaving_subset])

definition migration_path_of :: "migration_edge list \<Rightarrow> string \<Rightarrow> string \<Rightarrow> string \<Rightarrow> migration_path result" where
  "migration_path_of es a f t =
     (if a = [] \<or> f = [] \<or> t = [] then Inl (ContractError ''migration request identity is invalid'')
      else if f = t then Inr []
      else case search es a t [f] [(f, [])] of Some p \<Rightarrow> Inr p | None \<Rightarrow> Inl (no_path a f t))"

section \<open>Migration\<close>

definition step_report :: "migration_edge \<Rightarrow> json" where
  "step_report e = JObj [(''changes'', JList (map JStr (changes e))), (''from_version'', JStr (from_version e)),
     (''lossless'', lossless e), (''to_version'', JStr (to_version e))]"

text \<open>One edge: the transform runs twice and must agree with itself.\<close>

definition migrate_step :: "(json \<Rightarrow> unit result) \<Rightarrow> string \<Rightarrow> json \<times> nat \<Rightarrow> migration_edge \<Rightarrow> (json \<times> nat) result" where
  "migrate_step validator a st e =
     (case transform e of
        None \<Rightarrow> Inl (ContractError (''migration transform is unavailable for '' @ a @ '': '' @ from_version e @ '' -> '' @ to_version e))
      | Some f \<Rightarrow>
          bindE (f (snd st) (fst st)) (\<lambda>first. bindE (f (snd st + 1) (fst st)) (\<lambda>second.
          seqE (reject_if (\<not> py_eq first second) (ContractError ''migration transform is not deterministic''))
          (seqE (reject_if (\<not> is_obj first \<or> fld first ''schema_version'' \<noteq> JStr (to_version e))
            (ContractError ''migration transform produced the wrong schema_version''))
          (seqE (validator first) (Inr (first, snd st + 2)))))))"

definition migration_report :: "world \<Rightarrow> string \<Rightarrow> json \<Rightarrow> json \<Rightarrow> migration_path \<Rightarrow> string \<Rightarrow> string \<Rightarrow> json result" where
  "migration_report w a source current p status t =
     bindE (sha256 w current) (\<lambda>after. bindE (sha256 w source) (\<lambda>before.
     let report = [(''after_sha256'', JStr after), (''artifact'', JStr a), (''before_sha256'', JStr before),
         (''from_version'', fld source ''schema_version''), (''lossless'', JBool (list_all (\<lambda>e. truthy (lossless e)) p)),
         (''schema_version'', JStr ''1.0''), (''status'', JStr status), (''steps'', JList (map step_report p)),
         (''to_version'', JStr t)] in
     mapR (\<lambda>h. JObj (report @ [(''fingerprint'', JStr h)])) (sha256 w (JObj report))))"

definition migrate :: "world \<Rightarrow> migration_edge list \<Rightarrow> string \<Rightarrow> json \<Rightarrow> string \<Rightarrow> (json \<Rightarrow> unit result) \<Rightarrow> string \<Rightarrow> (json \<times> json) result" where
  "migrate w es a value t validator status =
     seqE (reject_if (status \<notin> set [''applied'', ''planned'']) (ContractError ''migration report status is invalid''))
     (seqE (reject_if (\<not> is_obj value \<or> \<not> is_str (fld value ''schema_version''))
       (ContractError ''migration input is missing schema_version''))
     (seqE (validator value)
     (bindE (migration_path_of es a (as_str (fld value ''schema_version'')) t) (\<lambda>p.
     bindE (foldE (migrate_step validator a) (value, 0) p) (\<lambda>st.
     mapR (\<lambda>report. (fst st, report)) (migration_report w a value (fst st) p status t))))))"

definition activation_v1_to_v2 :: "json \<Rightarrow> json result" where
  "activation_v1_to_v2 value =
     seqE (reject_if (fld value ''schema_version'' \<noteq> JStr ''1.0'' \<or> has_key value ''handler'')
       (ContractError ''activation-lock v1 -> v2 migration precondition failed''))
     (Inr (put (put value ''schema_version'' (JStr ''2.0'')) ''handler'' (JStr activation_handler)))"

definition DEFAULT_MIGRATIONS :: "migration_edge list" where
  "DEFAULT_MIGRATIONS = [\<lparr>artifact = ''activation-lock'', from_version = ''1.0'', to_version = ''2.0'', lossless = JBool True,
     transform = Some (\<lambda>_. activation_v1_to_v2), changes = [''add:/handler'', ''replace:/schema_version'']\<rparr>]"

definition migrate_activation_lock :: "world \<Rightarrow> json \<Rightarrow> string \<Rightarrow> (json \<times> json) result" where
  "migrate_activation_lock w value status =
     migrate w DEFAULT_MIGRATIONS ''activation-lock'' value ''2.0'' (validate_activation_lock w) status"

end
