(* ===== verification/LockSource.thy ===== *)
theory LockSource
  imports Migrations Policy
begin

text \<open>
  The sources of locked packages in \<^verbatim>\<open>package_lock.py\<close>: digests, package ids, relative paths and HTTPS
  addresses. \<open>host_ok\<close> stands for the checks \<open>urlsplit\<close> makes on the host itself (bracketed addresses, Unicode
  normalisation); everything else \<open>urlsplit\<close> does is written out.
\<close>

section \<open>Identities\<close>

definition LOCK_MANAGER :: string where "LOCK_MANAGER = ''agent-development-skills''"

definition MAX_LOCK_PACKAGES :: int where "MAX_LOCK_PACKAGES = 16384"
definition MAX_LOCK_DEPENDENCIES :: int where "MAX_LOCK_DEPENDENCIES = 65536"
definition MAX_LOCK_PROVIDERS :: int where "MAX_LOCK_PROVIDERS = 65536"
definition MAX_LOCK_SCHEMAS :: int where "MAX_LOCK_SCHEMAS = 65536"
definition MAX_LOCK_PATH_BYTES :: int where "MAX_LOCK_PATH_BYTES = 4096"

definition is_sha256 :: "json \<Rightarrow> bool" where
  "is_sha256 v \<longleftrightarrow> is_str v \<and> is_hex 64 (as_str v)"

definition letters :: string where
  "letters = ''ABCDEFGHIJKLMNOPQRSTUVWXYZabcdefghijklmnopqrstuvwxyz''"

text \<open>\<open>^[A-Za-z0-9][A-Za-z0-9._-]*$\<close>\<close>

definition is_safe_id :: "string \<Rightarrow> bool" where
  "is_safe_id s =
     (case s of [] \<Rightarrow> False
      | c # cs \<Rightarrow> c \<in> set (letters @ ''0123456789'') \<and> list_all (\<lambda>c. c \<in> set (letters @ ''0123456789._-'')) cs)"

text \<open>\<open>^[A-Za-z]:\<close>\<close>

definition windows_drive :: "string \<Rightarrow> bool" where
  "windows_drive s = (case s of a # b # _ \<Rightarrow> a \<in> set letters \<and> b = CHR '':'' | _ \<Rightarrow> False)"

definition backslash :: char where "backslash = CHR 0x5C"

text \<open>A component that would climb out of its directory, or none.\<close>

definition has_bad_part :: "string \<Rightarrow> bool" where
  "has_bad_part s \<longleftrightarrow> list_ex (\<lambda>p. p \<in> set ['''', ''.'', ''..'']) (path_parts s)"

section \<open>HTTPS addresses\<close>

record split_url =
  url_scheme :: string
  url_netloc :: string
  url_query :: string
  url_fragment :: string

text \<open>The text before and after the first occurrence of a character.\<close>

definition cut_before :: "char set \<Rightarrow> string \<Rightarrow> string" where
  "cut_before cs s = takeWhile (\<lambda>c. c \<notin> cs) s"

definition cut_after :: "char \<Rightarrow> string \<Rightarrow> string" where
  "cut_after c s = drop 1 (dropWhile (\<lambda>d. d \<noteq> c) s)"

definition split_scheme :: "string \<Rightarrow> string \<times> string" where
  "split_scheme url =
     (let pre = cut_before {CHR '':''} url in
      if CHR '':'' \<in> set url \<and> pre \<noteq> [] \<and> hd pre \<in> set letters \<and>
         list_all (\<lambda>c. c \<in> set (letters @ ''0123456789+-.'')) pre
      then (lower pre, cut_after (CHR '':'') url) else ([], url))"

definition bad_brackets :: "string \<Rightarrow> bool" where
  "bad_brackets netloc \<longleftrightarrow> (CHR ''['' \<in> set netloc) \<noteq> (CHR '']'' \<in> set netloc)"

definition urlsplit :: "(string \<Rightarrow> bool) \<Rightarrow> string \<Rightarrow> split_url result" where
  "urlsplit host_ok url =
     (let (scheme, rest) = split_scheme url;
          netloc = (if startswith rest ''//'' then cut_before {CHR ''/'', CHR ''?'', CHR ''#''} (drop 2 rest) else []);
          tail = (if startswith rest ''//'' then drop (2 + length netloc) rest else rest);
          body = cut_before {CHR ''#''} tail in
      if bad_brackets netloc \<or> \<not> host_ok netloc then Inl (ValueError ''Invalid URL'')
      else Inr \<lparr>url_scheme = scheme, url_netloc = netloc, url_query = cut_after (CHR ''?'') body,
        url_fragment = cut_after (CHR ''#'') tail\<rparr>)"

section \<open>Sources\<close>

definition source_error :: "string \<Rightarrow> string \<Rightarrow> py_error" where
  "source_error what package_id = ContractError (''package lock '' @ what @ '': '' @ package_id)"

definition is_control :: "char \<Rightarrow> bool" where
  "is_control c \<longleftrightarrow> (of_char c :: int) \<le> 32 \<or> (of_char c :: int) = 127"

definition check_relative_source :: "string \<Rightarrow> string \<Rightarrow> unit result" where
  "check_relative_source uri package_id =
     (let relative = (if startswith uri ''./'' then drop 2 uri else uri) in
      reject_if (\<not> startswith uri ''./'' \<or> backslash \<in> set uri \<or> windows_drive relative \<or>
          startswith relative ''/'' \<or> path_parts relative = [] \<or> has_bad_part relative)
        (source_error ''relative source is unsafe'' package_id))"

text \<open>A user name is present when the network location has an \<open>@\<close>; a password only then.\<close>

definition check_https_source :: "(string \<Rightarrow> bool) \<Rightarrow> string \<Rightarrow> json \<Rightarrow> string \<Rightarrow> unit result" where
  "check_https_source host_ok uri artifact_hash package_id =
     (let unsafe = source_error ''HTTPS source is unsafe'' package_id in
      case urlsplit host_ok uri of
        Inl e \<Rightarrow> Inl unsafe
      | Inr u \<Rightarrow>
          seqE (reject_if (url_scheme u \<noteq> ''https'' \<or> url_netloc u = [] \<or> CHR ''@'' \<in> set (url_netloc u) \<or>
            url_query u \<noteq> [] \<or> url_fragment u \<noteq> []) unsafe)
          (reject_if (\<not> is_sha256 artifact_hash) (source_error ''HTTPS source requires an artifact SHA-256'' package_id)))"

definition validate_source :: "(string \<Rightarrow> bool) \<Rightarrow> json \<Rightarrow> string \<Rightarrow> unit result" where
  "validate_source host_ok source package_id =
     seqE (reject_if (\<not> is_obj source \<or> fst ` set (as_dict source) \<noteq> set [''artifact_sha256'', ''kind'', ''sha256'', ''uri''])
       (source_error ''source is invalid'' package_id))
     (let kind = fld source ''kind''; uri = as_str (fld source ''uri''); artifact_hash = fld source ''artifact_sha256'';
          bad_identity = source_error ''source identity is invalid'' package_id in
      seqE (require_in kind [''local-registry'', ''relative-path'', ''https''] (source_error ''source kind is unsupported'' package_id))
      (seqE (reject_if (\<not> is_nonempty_str (fld source ''uri'') \<or> \<not> is_sha256 (fld source ''sha256'')) bad_identity)
      (seqE (reject_if (backslash \<in> set uri \<or> list_ex is_control uri) bad_identity)
      (seqE (reject_if (int (length uri) > MAX_LOCK_PATH_BYTES) bad_identity)
      (if kind = JStr ''local-registry'' then
         seqE (reject_if (artifact_hash \<noteq> JNull) (source_error ''registry source must not declare an artifact'' package_id))
         (reject_if (uri \<noteq> ''registry://'' @ package_id) (source_error ''registry source is invalid'' package_id))
       else if kind = JStr ''relative-path'' then
         seqE (reject_if (artifact_hash \<noteq> JNull) (source_error ''relative source must not declare an artifact'' package_id))
         (check_relative_source uri package_id)
       else check_https_source host_ok uri artifact_hash package_id)))))"

end
