(* ===== verification/DagStack.thy ===== *)
theory DagStack
  imports Dag
begin

text \<open>
  The package lock checks its dependency graph with a stack instead of a queue, and computes the packages
  reachable from the selection by passes over the dependencies until nothing changes.
\<close>

section \<open>Kahn's algorithm with a stack\<close>

text \<open>The top of the stack is the head of the list; free targets are pushed in the order of the edges.\<close>

function stack_loop :: "edges \<Rightarrow> (string, int) dict \<Rightarrow> string list \<Rightarrow> string list \<Rightarrow> string list result" where
  "stack_loop es inc [] res = Inr res"
| "stack_loop es inc (n # q) res =
     bindE (relax (outgoing es n) inc []) (\<lambda>p. stack_loop es (fst p) (rev (snd p) @ q) (res @ [n]))"
  by pat_completeness auto
termination
  by (relation "measure (\<lambda>(es, inc, q, res). length q + positives inc)") (auto dest!: relax_bound)

definition stack_sort :: "string list \<Rightarrow> edges \<Rightarrow> string list result" where
  "stack_sort ids es =
     bindE (incoming_counts ids es) (\<lambda>inc.
     stack_loop es inc (rev (filter (\<lambda>i. dict_get inc i = Some 0) ids)) [])"

lemma kahn_inv_perm:
  assumes "kahn_inv ids es inc q res" and "set q' = set q" and "distinct q'"
  shows "kahn_inv ids es inc q' res"
  using assms by (auto simp: kahn_inv_def)

lemma stack_loop_inv:
  assumes "kahn_inv ids es inc q res" and "edges_within ids es"
  shows "\<exists>xs inc'. stack_loop es inc q res = Inr xs \<and> kahn_inv ids es inc' [] xs"
  using assms
proof (induction es inc q res rule: stack_loop.induct)
  case (1 es inc res)
  then show ?case by auto
next
  case (2 es inc n q res)
  obtain inc' new where r: "relax (outgoing es n) inc [] = Inr (inc', [] @ new)"
      and inv: "kahn_inv ids es inc' (q @ new) (res @ [n])"
    using kahn_step_any [OF "2.prems" refl, of "[]"] by blast
  have "kahn_inv ids es inc' (rev new @ q) (res @ [n])"
    by (rule kahn_inv_perm [OF inv]) (use inv in \<open>auto simp: kahn_inv_def\<close>)
  with "2.IH" [of "(inc', [] @ new)"] r "2.prems"(2) show ?case by simp
qed

lemma stack_sort_result:
  assumes "distinct ids" and "edges_within ids es"
  shows "\<exists>xs. stack_sort ids es = Inr xs \<and> distinct xs \<and> closed_prefix es xs \<and>
    set xs = {t \<in> set ids. remaining es xs t = 0}"
proof -
  from incoming_counts_ok [OF assms(2)] obtain inc where inc: "incoming_counts ids es = Inr inc"
      "\<forall>t. dict_get inc t = (if t \<in> set ids then Some (int (remaining es [] t)) else None)"
    by blast
  let ?q = "rev (filter (\<lambda>i. dict_get inc i = Some 0) ids)"
  have "set ?q = {t \<in> set ids. remaining es [] t = 0}" using inc(2) by auto
  then have "kahn_inv ids es inc ?q []"
    using inc(2) assms(1) by (simp add: kahn_inv_def closed_prefix_def)
  from stack_loop_inv [OF this assms(2)] obtain xs inc' where
      "stack_loop es inc ?q [] = Inr xs" "kahn_inv ids es inc' [] xs" by blast
  then show ?thesis by (auto simp: stack_sort_def inc(1) kahn_inv_def)
qed

lemma stack_sort_complete:
  assumes "distinct ids" and "edges_within ids es" and "stack_sort ids es = Inr xs"
  shows "length xs = length ids \<longleftrightarrow> acyclic (set es)" and "acyclic (set es) \<Longrightarrow> topological ids es xs"
  using stack_sort_result [OF assms(1,2)] assms(3) sorted_prefix_complete [OF assms(1,2)] by auto

text \<open>The stack version is a second provider of the interface of \<^verbatim>\<open>Dag\<close>.\<close>

interpretation stack_sorter: node_sorter stack_sort
  by unfold_locales (use stack_sort_result in blast, rule stack_sort_complete(2))

section \<open>Reachability by repeated passes\<close>

text \<open>\<open>for d in dependencies: if d.from in reachable and d.to not in reachable: reachable.add(d.to)\<close>\<close>

definition closure_pass :: "edges \<Rightarrow> string list \<Rightarrow> string list" where
  "closure_pass es reach =
     fold (\<lambda>e r. if fst e \<in> set r \<and> snd e \<notin> set r then snd e # r else r) es reach"

lemma closure_pass_Cons:
  "closure_pass (e # es) r = closure_pass es (if fst e \<in> set r \<and> snd e \<notin> set r then snd e # r else r)"
  by (simp add: closure_pass_def)

lemma closure_pass_extends: "\<exists>new. closure_pass es r = new @ r \<and> set new \<subseteq> snd ` set es \<and> set new \<inter> set r = {}"
proof (induction es arbitrary: r)
  case Nil
  then show ?case by (simp add: closure_pass_def)
next
  case (Cons e es)
  let ?r = "if fst e \<in> set r \<and> snd e \<notin> set r then snd e # r else r"
  obtain new where "closure_pass es ?r = new @ ?r" "set new \<subseteq> snd ` set es" "set new \<inter> set ?r = {}"
    using Cons.IH by blast
  then show ?case unfolding closure_pass_Cons
    by (cases "fst e \<in> set r \<and> snd e \<notin> set r") (auto intro: exI [of _ new] exI [of _ "new @ [snd e]"])
qed

function closure :: "edges \<Rightarrow> string list \<Rightarrow> string list" where
  "closure es r = (let r' = closure_pass es r in if r' = r then r else closure es r')"
  by pat_completeness auto
termination
proof (relation "measure (\<lambda>(es, r). card (snd ` set es - set r))", goal_cases)
  case 1
  show ?case by simp
next
  case (2 es r r')
  obtain new where new: "closure_pass es r = new @ r" "set new \<subseteq> snd ` set es" "set new \<inter> set r = {}"
    using closure_pass_extends by blast
  then have "new \<noteq> []" using 2 by auto
  then obtain x where "x \<in> set new" by (meson list.set_sel(1))
  then have "snd ` set es - set (new @ r) \<subset> snd ` set es - set r" using new(2,3) by auto
  then show ?case using 2 new(1) by (auto intro: psubset_card_mono)
qed

declare closure.simps [simp del]

lemma closure_pass_sound: "set (closure_pass es r) \<subseteq> (set es)\<^sup>* `` set r"
proof -
  have "set (closure_pass ds r) \<subseteq> (set es)\<^sup>* `` R" if "set ds \<subseteq> set es" "set r \<subseteq> (set es)\<^sup>* `` R" for ds r R
    using that
  proof (induction ds arbitrary: r)
    case (Cons d ds)
    have "snd d \<in> (set es)\<^sup>* `` R" if "fst d \<in> (set es)\<^sup>* `` R"
      using that Cons.prems(1) by (cases d) (auto intro: rtrancl_into_rtrancl)
    then have "set (if fst d \<in> set r \<and> snd d \<notin> set r then snd d # r else r) \<subseteq> (set es)\<^sup>* `` R"
      using Cons.prems(2) by auto
    then show ?case using Cons by (simp only: closure_pass_Cons set_simps insert_subset simp_thms)
  qed (simp add: closure_pass_def)
  then show ?thesis by (meson order_refl rtrancl_refl ImageI subsetI)
qed

lemma closure_pass_fixed:
  assumes "closure_pass es r = r" and "e \<in> set es" and "fst e \<in> set r"
  shows "snd e \<in> set r"
proof -
  have "set r \<subseteq> set (closure_pass ds r)" for ds r
    using closure_pass_extends [of ds r] by auto
  then have "snd e \<in> set (closure_pass ds r)" if "e \<in> set ds" "fst e \<in> set r" for ds r
    using that
  proof (induction ds arbitrary: r)
    case (Cons d ds)
    show ?case
    proof (cases "d = e")
      case True
      have "snd e \<in> set (if fst e \<in> set r \<and> snd e \<notin> set r then snd e # r else r)" using Cons.prems(3) by simp
      then show ?thesis unfolding closure_pass_Cons True using Cons.prems(1) by blast
    next
      case False
      then show ?thesis unfolding closure_pass_Cons using Cons.IH [OF Cons.prems(1)] Cons.prems(2,3) by simp
    qed
  qed simp
  from this [OF assms(2,3)] assms(1) show ?thesis by simp
qed

lemma closure_reachable: "set (closure es r) = (set es)\<^sup>* `` set r"
proof (induction es r rule: closure.induct)
  case (1 es r)
  show ?case
  proof (cases "closure_pass es r = r")
    case True
    have "y \<in> set r" if "(x, y) \<in> (set es)\<^sup>*" "x \<in> set r" for x y
      using that by (induction rule: rtrancl_induct) (use closure_pass_fixed [OF True] in fastforce)+
    then show ?thesis using True by (subst closure.simps) (auto simp: Let_def)
  next
    case False
    have "set (closure es r) = (set es)\<^sup>* `` set (closure_pass es r)"
      using 1 False by (subst closure.simps) (simp add: Let_def)
    also have "\<dots> = (set es)\<^sup>* `` set r"
    proof
      have "(set es)\<^sup>* `` ((set es)\<^sup>* `` set r) = (set es)\<^sup>* `` set r"
        by (simp add: relcomp_Image [symmetric] rtrancl_idemp_self_comp)
      then show "(set es)\<^sup>* `` set (closure_pass es r) \<subseteq> (set es)\<^sup>* `` set r"
        using closure_pass_sound [of es r] by (metis Image_mono subset_refl)
      show "(set es)\<^sup>* `` set r \<subseteq> (set es)\<^sup>* `` set (closure_pass es r)"
        using closure_pass_extends [of es r] by auto
    qed
    finally show ?thesis .
  qed
qed

end
