(* ===== verification/PackageLock.thy ===== *)
theory PackageLock
  imports LockSource DagStack "HOL-Library.Product_Lexorder"
begin

text \<open>
  \<^verbatim>\<open>validate_package_lock\<close>, in the order of its checks: fields, core, packages, schema inventory, selection,
  permission and effect lists, capability providers, dependencies with their graph, instructions, lineage and
  fingerprint.
\<close>

definition lock_error :: "string \<Rightarrow> py_error" where
  "lock_error what = ContractError (''agent-skills-lock '' @ what)"

definition lock_fields :: "string list" where
  "lock_fields = [''assets_sha256'', ''bindings_sha256'', ''capability_providers'', ''core'', ''dependencies'',
     ''fingerprint'', ''install_plan_identity_hash'', ''instructions'', ''lineage'', ''manager'', ''packages'',
     ''permission_profiles'', ''schema_inventory'', ''schema_version'', ''selection'', ''side_effects'']"

text \<open>\<open>set(v) == {...}\<close> for an object\<close>

definition has_fields :: "json \<Rightarrow> string list \<Rightarrow> bool" where
  "has_fields v fs \<longleftrightarrow> is_obj v \<and> fst ` set (as_dict v) = set fs"

text \<open>\<open>(?:0|[1-9]\d*)\.(?:0|[1-9]\d*)\.(?:0|[1-9]\d*)\<close>\<close>

definition is_full_version :: "json \<Rightarrow> bool" where
  "is_full_version v \<longleftrightarrow> is_str v \<and>
     (let parts = split_on ''.'' (chars_of (as_str v)) in length parts = 3 \<and> list_all version_part parts)"

text \<open>A sorted list of distinct non-empty texts of bounded length.\<close>

definition sorted_texts :: "int \<Rightarrow> json \<Rightarrow> bool" where
  "sorted_texts limit v \<longleftrightarrow> is_list v \<and> int (length (as_list v)) \<le> limit \<and> list_all is_nonempty_str (as_list v) \<and>
     (let ss = map as_str (as_list v) in ss = sorted_set ss)"

section \<open>Core and packages\<close>

definition check_core :: "json \<Rightarrow> unit result" where
  "check_core core =
     seqE (reject_if (\<not> has_fields core [''package_version'', ''runtime_version'', ''source_sha256''])
       (lock_error ''core identity is invalid''))
     (seqE (reject_if (\<not> is_full_version (fld core ''package_version'') \<or> \<not> is_full_version (fld core ''runtime_version''))
       (lock_error ''core version is invalid''))
     (reject_if (\<not> is_sha256 (fld core ''source_sha256'')) (lock_error ''core source digest is invalid'')))"

definition package_fields :: "string list" where
  "package_fields = [''core_compatibility'', ''id'', ''kind'', ''manifest_sha256'', ''provider_compatibility'',
     ''provider_manifest_sha256'', ''provider_version'', ''source'', ''version'']"

definition package_kinds :: "string list" where
  "package_kinds = [''core'', ''platform'', ''stack'', ''discipline'', ''adapter'', ''runtime-config'']"

text \<open>\<open>not isinstance(range, str) or not satisfies(version, range)\<close>\<close>

definition unsatisfied :: "json \<Rightarrow> json \<Rightarrow> bool result" where
  "unsatisfied version expression = (if \<not> is_str expression then Inr True else mapR Not (satisfies version expression))"

definition check_package_provider :: "json \<Rightarrow> string \<Rightarrow> unit result" where
  "check_package_provider package package_id =
     (let version = fld package ''provider_version''; compatibility = fld package ''provider_compatibility'' in
      if fld package ''provider_manifest_sha256'' = JNull then
        reject_if (version \<noteq> JNull \<or> compatibility \<noteq> JNull)
          (lock_error (''provider compatibility is unexpected: '' @ package_id))
      else
        reject_when (if \<not> is_str version then Inr True else unsatisfied version compatibility)
          (lock_error (''provider compatibility is not satisfied: '' @ package_id)))"

definition check_lock_package :: "(string \<Rightarrow> bool) \<Rightarrow> json \<Rightarrow> json \<Rightarrow> unit result" where
  "check_lock_package host_ok core package =
     seqE (reject_if (\<not> has_fields package package_fields) (lock_error ''package fields are invalid''))
     (let pid = as_str (fld package ''id''); provider = fld package ''provider_manifest_sha256'' in
      seqE (reject_if (\<not> is_str (fld package ''id'') \<or> \<not> is_safe_id pid) (lock_error ''package id is invalid''))
      (seqE (reject_if (fld package ''kind'' \<notin> JStr ` set package_kinds) (lock_error (''package kind is invalid: '' @ pid)))
      (seqE (reject_if (\<not> is_full_version (fld package ''version'')) (lock_error (''package version is invalid: '' @ pid)))
      (seqE (reject_if (\<not> is_sha256 (fld package ''manifest_sha256'')) (lock_error (''manifest digest is invalid: '' @ pid)))
      (seqE (reject_if (provider \<noteq> JNull \<and> \<not> is_sha256 provider) (lock_error (''provider digest is invalid: '' @ pid)))
      (seqE (validate_source host_ok (fld package ''source'') pid)
      (seqE (reject_when (unsatisfied (fld core ''runtime_version'') (fld package ''core_compatibility''))
        (lock_error (''core compatibility is not satisfied: '' @ pid)))
      (check_package_provider package pid))))))))"

definition package_ids :: "json list \<Rightarrow> string list" where
  "package_ids packages = map (\<lambda>p. as_str (fld p ''id'')) packages"

text \<open>\<open>package_by_id[i]\<close>: the last package with the id; ids are unique when it is used.\<close>

definition package_of :: "json list \<Rightarrow> string \<Rightarrow> json" where
  "package_of packages i = (case find (\<lambda>p. fld p ''id'' = JStr i) packages of Some p \<Rightarrow> p | None \<Rightarrow> JNull)"

definition check_packages :: "(string \<Rightarrow> bool) \<Rightarrow> json \<Rightarrow> json \<Rightarrow> unit result" where
  "check_packages host_ok core v =
     seqE (reject_if (\<not> is_list v \<or> as_list v = []) (lock_error ''packages must not be empty''))
     (let packages = as_list v; ids = package_ids packages; own = package_of packages ''core'' in
      seqE (reject_if (int (length packages) > MAX_LOCK_PACKAGES) (lock_error ''packages exceed maximum of 16384''))
      (seqE (for_each (check_lock_package host_ok core) packages)
      (seqE (reject_if (hd ids \<noteq> ''core'' \<or> has_duplicates ids) (lock_error ''package order or identity is invalid''))
      (reject_if (fld core ''package_version'' \<noteq> fld own ''version'' \<or>
          fld core ''source_sha256'' \<noteq> fld (fld own ''source'') ''sha256'' \<or> fld own ''kind'' \<noteq> JStr ''core'' \<or>
          list_ex (\<lambda>p. fld p ''kind'' = JStr ''core'' \<and> fld p ''id'' \<noteq> JStr ''core'') packages)
        (lock_error ''core identity differs from package closure'')))))"

section \<open>Schema inventory, selection and lists\<close>

definition check_schema_entry :: "json \<Rightarrow> unit result" where
  "check_schema_entry item =
     seqE (reject_if (\<not> has_fields item [''path'', ''sha256'']) (lock_error ''schema entry is invalid''))
     (let path = fld item ''path''; s = as_str path in
      seqE (reject_if (\<not> is_str path \<or> \<not> endswith s ''.schema.json'' \<or> int (length s) > MAX_LOCK_PATH_BYTES \<or>
          backslash \<in> set s \<or> windows_drive s \<or> startswith s ''/'' \<or> has_bad_part s)
        (lock_error ''schema path is invalid''))
      (reject_if (\<not> is_sha256 (fld item ''sha256'')) (lock_error ''schema digest is invalid'')))"

definition check_inventory :: "world \<Rightarrow> json \<Rightarrow> unit result" where
  "check_inventory w inventory =
     seqE (reject_if (\<not> has_fields inventory [''algorithm'', ''content_sha256'', ''files'']) (lock_error ''schema inventory is invalid''))
     (let files = fld inventory ''files''; paths = map (\<lambda>i. as_str (fld i ''path'')) (as_list files) in
      seqE (reject_if (fld inventory ''algorithm'' \<noteq> JStr ''sha256'' \<or> \<not> is_sha256 (fld inventory ''content_sha256''))
        (lock_error ''schema inventory identity is invalid''))
      (seqE (reject_if (\<not> is_list files) (lock_error ''schema files are invalid''))
      (seqE (reject_if (int (length (as_list files)) > MAX_LOCK_SCHEMAS) (lock_error ''schema files exceed maximum of 65536''))
      (seqE (for_each check_schema_entry (as_list files))
      (reject_when (orE (Inr (paths = [] \<or> paths \<noteq> sorted_set paths))
          (mapR (\<lambda>h. fld inventory ''content_sha256'' \<noteq> JStr h) (sha256 w files)))
        (lock_error ''schema inventory digest is invalid''))))))"

definition selection_of :: "json \<Rightarrow> string \<Rightarrow> string list" where
  "selection_of selection key = map as_str (as_list (fld selection key))"

definition selected_packages :: "json \<Rightarrow> string list" where
  "selected_packages selection =
     selection_of selection ''disciplines'' @ selection_of selection ''platforms'' @ selection_of selection ''runtime_configs''"

definition check_selection :: "string list \<Rightarrow> json \<Rightarrow> unit result" where
  "check_selection ids selection =
     seqE (reject_if (\<not> has_fields selection [''disciplines'', ''platforms'', ''runtime_configs'']) (lock_error ''selection is invalid''))
     (seqE (for_each (\<lambda>kv. reject_if (\<not> sorted_texts MAX_LOCK_PACKAGES (snd kv))
         (lock_error (''selection '' @ fst kv @ '' is invalid''))) (as_dict selection))
     (reject_if (\<not> set (selected_packages selection) \<subseteq> set ids)
       (lock_error ''selection references unknown packages'')))"

definition check_text_lists :: "json \<Rightarrow> unit result" where
  "check_text_lists value =
     for_each (\<lambda>f. reject_if (\<not> sorted_texts MAX_LOCK_PROVIDERS (fld value f)) (lock_error (f @ '' is invalid'')))
       [''permission_profiles'', ''side_effects'']"

section \<open>Capability providers\<close>

definition check_lock_provider :: "json list \<Rightarrow> json \<Rightarrow> string \<times> json \<Rightarrow> unit result" where
  "check_lock_provider packages permissions kv =
     (let provider = snd kv; pid = fld provider ''package''; package = package_of packages (as_str pid);
          permission = fld provider ''permission_profile'' in
      seqE (reject_if (fst kv = [] \<or> \<not> is_obj provider) (lock_error ''capability provider is invalid''))
      (seqE (reject_if (\<not> has_fields provider [''binding'', ''package'', ''package_version'', ''permission_profile'', ''source_sha256''])
        (lock_error ''capability provider fields are invalid''))
      (seqE (reject_if (\<not> is_str pid \<or> as_str pid \<notin> set (package_ids packages))
        (lock_error ''capability provider references unknown package''))
      (reject_if (\<not> py_eq (fld provider ''package_version'') (fld package ''version'') \<or>
          \<not> py_eq (fld provider ''source_sha256'') (fld (fld package ''source'') ''sha256'') \<or>
          \<not> is_nonempty_str permission \<or> permission \<notin> set (as_list permissions))
        (lock_error ''capability provider identity is stale'')))))"

definition provider_bindings :: "(string \<times> json) list \<Rightarrow> json" where
  "provider_bindings providers =
     JObj (map (\<lambda>kv. (fst kv, JObj [(''binding'', fld (snd kv) ''binding''), (''package'', fld (snd kv) ''package'')]))
       (sort_key fst providers))"

definition check_providers :: "world \<Rightarrow> json \<Rightarrow> json list \<Rightarrow> unit result" where
  "check_providers w value packages =
     (let providers = fld value ''capability_providers'' in
      seqE (reject_if (\<not> is_obj providers) (lock_error ''capability providers are invalid''))
      (seqE (reject_if (int (length (as_dict providers)) > MAX_LOCK_PROVIDERS)
        (lock_error ''capability providers exceed maximum of 65536''))
      (seqE (for_each (check_lock_provider packages (fld value ''permission_profiles'')) (as_dict providers))
      (bindE (sha256 w (provider_bindings (as_dict providers))) (\<lambda>h.
      reject_if (fld value ''bindings_sha256'' \<noteq> JStr h) (lock_error ''bindings digest is inconsistent''))))))"

section \<open>Dependencies\<close>

definition dependency_edge :: "json \<Rightarrow> string \<times> string" where
  "dependency_edge d = (as_str (fld d ''from''), as_str (fld d ''to''))"

definition check_dependency :: "json list \<Rightarrow> json \<Rightarrow> unit result" where
  "check_dependency packages d =
     seqE (reject_if (\<not> has_fields d [''from'', ''to'', ''requirement'', ''version'', ''required_capabilities''])
       (lock_error ''dependency fields are invalid''))
     (let ids = package_ids packages; (a, b) = dependency_edge d; capabilities = fld d ''required_capabilities'' in
      seqE (reject_when
          (orE (Inr (\<not> is_str (fld d ''from'') \<or> \<not> is_str (fld d ''to'') \<or> a \<notin> set ids \<or> b \<notin> set ids \<or> a = b))
          (orE (not_in_strings (fld d ''requirement'') [''required'', ''optional''])
          (Inr (\<not> is_str (fld d ''version'') \<or> as_list capabilities = [] \<or> \<not> sorted_texts MAX_LOCK_PROVIDERS capabilities))))
        (lock_error ''dependency references unknown package''))
      (reject_when (mapR Not (satisfies (fld (package_of packages b) ''version'') (fld d ''version'')))
        (lock_error ''dependency version is not satisfied'')))"

definition check_dependency_graph :: "string list \<Rightarrow> string list \<Rightarrow> edges \<Rightarrow> unit result" where
  "check_dependency_graph ids selected es =
     seqE (reject_if (es \<noteq> sorted_set es) (lock_error ''dependency edges must be sorted and unique''))
     (bindE (stack_sort ids es) (\<lambda>visited.
     seqE (reject_if (length visited \<noteq> length ids) (lock_error ''dependency graph contains a cycle''))
     (reject_if (set (closure es (''core'' # selected)) \<noteq> set ids)
       (lock_error ''contains packages outside the selected dependency closure''))))"

definition check_selection_kinds :: "json list \<Rightarrow> json \<Rightarrow> unit result" where
  "check_selection_kinds packages selection =
     for_each (\<lambda>(key, kind). reject_if (list_ex (\<lambda>i. fld (package_of packages i) ''kind'' \<noteq> JStr kind) (selection_of selection key))
         (lock_error (''selection '' @ key @ '' package kind is invalid'')))
       [(''disciplines'', ''discipline''), (''platforms'', ''platform''), (''runtime_configs'', ''runtime-config'')]"

definition check_dependencies :: "json \<Rightarrow> json list \<Rightarrow> unit result" where
  "check_dependencies value packages =
     (let dependencies = fld value ''dependencies''; ids = package_ids packages; selection = fld value ''selection'' in
      seqE (reject_if (\<not> is_list dependencies) (lock_error ''dependencies are invalid''))
      (seqE (reject_if (int (length (as_list dependencies)) > MAX_LOCK_DEPENDENCIES)
        (lock_error ''dependencies exceed maximum of 65536''))
      (seqE (for_each (check_dependency packages) (as_list dependencies))
      (seqE (check_dependency_graph ids (selected_packages selection) (map dependency_edge (as_list dependencies)))
      (check_selection_kinds packages selection)))))"

section \<open>The lock\<close>

definition check_lock_tail :: "world \<Rightarrow> json \<Rightarrow> unit result" where
  "check_lock_tail w value =
     (let instructions = fld value ''instructions''; lineage = fld value ''lineage''; previous = fld lineage ''previous_lock_hash'' in
      seqE (reject_if (\<not> has_fields instructions [''rule_trace_sha256'', ''sha256''] \<or>
          list_ex (\<lambda>kv. \<not> is_sha256 (snd kv)) (as_dict instructions)) (lock_error ''instructions identity is invalid''))
      (seqE (reject_if (\<not> has_fields lineage [''previous_lock_hash'']) (lock_error ''lineage is invalid''))
      (seqE (reject_if (previous \<noteq> JNull \<and> \<not> is_sha256 previous) (lock_error ''previous lock hash is invalid''))
      (bindE (sha256 w (without_keys [''fingerprint''] value)) (\<lambda>expected.
      reject_if (fld value ''fingerprint'' \<noteq> JStr expected) (lock_error ''fingerprint mismatch''))))))"

definition check_lock_identity :: "json \<Rightarrow> unit result" where
  "check_lock_identity value =
     seqE (reject_if (\<not> has_fields value lock_fields) (lock_error ''fields are invalid''))
     (seqE (require_version value)
     (seqE (reject_if (fld value ''schema_version'' \<noteq> JStr ''1.0'' \<or> fld value ''manager'' \<noteq> JStr LOCK_MANAGER)
       (lock_error ''identity is invalid''))
     (for_each (\<lambda>f. reject_if (\<not> is_sha256 (fld value f)) (lock_error (f @ '' is invalid'')))
       [''assets_sha256'', ''bindings_sha256'', ''install_plan_identity_hash'', ''fingerprint''])))"

definition lock_packages :: "json \<Rightarrow> json list" where
  "lock_packages value = as_list (fld value ''packages'')"

definition validate_package_lock :: "world \<Rightarrow> (string \<Rightarrow> bool) \<Rightarrow> json \<Rightarrow> unit result" where
  "validate_package_lock w host_ok value =
     seqE (check_lock_identity value)
     (seqE (check_core (fld value ''core''))
     (seqE (check_packages host_ok (fld value ''core'') (fld value ''packages''))
     (seqE (check_inventory w (fld value ''schema_inventory''))
     (seqE (check_selection (package_ids (lock_packages value)) (fld value ''selection''))
     (seqE (check_text_lists value)
     (seqE (check_providers w value (lock_packages value))
     (seqE (check_dependencies value (lock_packages value))
     (check_lock_tail w value))))))))"

end
