(* ===== verification/InstallTree.thy ===== *)
theory InstallTree
  imports PackageLock
begin

text \<open>
  The parts of \<^verbatim>\<open>validate_install_plan\<close> on their own: the version comparison of install plans, the limits checked
  first, and the records of package and skill trees.
\<close>

section \<open>Version comparison\<close>

text \<open>\<open>int(text)\<close>: spaces around, an optional sign, digits with single underscores between them.\<close>

fun digit_run :: "string list \<Rightarrow> int \<Rightarrow> int option" where
  "digit_run [] n = None"
| "digit_run [c] n = map_option (\<lambda>d. n * 10 + d) (digit_of c)"
| "digit_run (c # d # cs) n =
     (case digit_of c of
        None \<Rightarrow> None
      | Some k \<Rightarrow> if d = ''_'' then digit_run cs (n * 10 + k) else digit_run (d # cs) (n * 10 + k))"

definition strip_spaces :: "string list \<Rightarrow> string list" where
  "strip_spaces cs = rev (dropWhile is_space (rev (dropWhile is_space cs)))"

definition int_of_text :: "string \<Rightarrow> int result" where
  "int_of_text s =
     (let cs = strip_spaces (chars_of s);
          (sign, digits) = (case cs of c # ds \<Rightarrow> if c = ''-'' then (-1, ds) else if c = ''+'' then (1, ds) else (1, cs) | [] \<Rightarrow> (1, cs)) in
      if length (filter (\<lambda>c. c \<noteq> ''_'') digits) > 4300 then Inl (ValueError ''Exceeds the limit for integer string conversion'')
      else case digit_run digits 0 of None \<Rightarrow> Inl (ValueError ''invalid literal for int()'') | Some n \<Rightarrow> Inr (sign * n))"

text \<open>Tuples of numbers of any length compare lexicographically.\<close>

fun tuple_less :: "int list \<Rightarrow> int list \<Rightarrow> bool" where
  "tuple_less xs [] = False"
| "tuple_less [] (y # ys) = True"
| "tuple_less (x # xs) (y # ys) = (x < y \<or> x = y \<and> tuple_less xs ys)"

definition compare_tuples :: "string \<Rightarrow> int list \<Rightarrow> int list \<Rightarrow> bool" where
  "compare_tuples oper a e =
     (if oper = ''>='' then \<not> tuple_less a e else if oper = ''<='' then \<not> tuple_less e a
      else if oper = ''>'' then tuple_less e a else if oper = ''<'' then tuple_less a e else a = e)"

text \<open>\<open>(>=|<=|>|<|==)(\d+)\.(\d+)\.(\d+)\<close>\<close>

definition install_constraint :: "string \<Rightarrow> (string \<times> string list) option" where
  "install_constraint token =
     (case constraint_parts token of
        None \<Rightarrow> None
      | Some (oper, rest) \<Rightarrow>
          let parts = split_on ''.'' (chars_of rest) in
          if length parts = 3 \<and> list_all (\<lambda>p. p \<noteq> [] \<and> list_all (\<lambda>c. digit_of c \<noteq> None) p) parts
          then Some (oper, map concat parts) else None)"

fun check_tokens :: "int list \<Rightarrow> string list \<Rightarrow> bool result" where
  "check_tokens actual [] = Inr True"
| "check_tokens actual (token # tokens) =
     (case install_constraint token of
        None \<Rightarrow> Inr False
      | Some (oper, parts) \<Rightarrow>
          bindE (mapE int_of_text parts) (\<lambda>expected.
          if compare_tuples oper actual expected then check_tokens actual tokens else Inr False))"

definition install_version_satisfies :: "json \<Rightarrow> json \<Rightarrow> bool result" where
  "install_version_satisfies version expression =
     (if \<not> is_str version \<or> \<not> is_str expression then Inl (AttributeError ''split'')
      else bindE (mapE int_of_text (split_on (CHR ''.'') (as_str version))) (\<lambda>actual.
        check_tokens actual (split_words (as_str expression))))"

section \<open>Limits\<close>

definition MAX_INSTALL_PACKAGES :: int where "MAX_INSTALL_PACKAGES = 16384"
definition MAX_INSTALL_DEPENDENCIES :: int where "MAX_INSTALL_DEPENDENCIES = 65536"
definition MAX_INSTALL_PROVIDERS :: int where "MAX_INSTALL_PROVIDERS = 65536"
definition MAX_INSTALL_TREE_ENTRIES :: int where "MAX_INSTALL_TREE_ENTRIES = 100000"

definition install_error :: "string \<Rightarrow> py_error" where
  "install_error what = ContractError (''install-plan '' @ what)"

definition list_over :: "int \<Rightarrow> json \<Rightarrow> bool" where
  "list_over limit v \<longleftrightarrow> is_list v \<and> int (length (as_list v)) > limit"

text \<open>\<open>shown\<close> is the limit as the message writes it.\<close>

definition limit_fields :: "json \<Rightarrow> int \<Rightarrow> string \<Rightarrow> string list \<Rightarrow> unit result" where
  "limit_fields value limit shown fs =
     for_each (\<lambda>f. reject_if (list_over limit (fld value f)) (install_error (f @ '' exceeds maximum of '' @ shown))) fs"

text \<open>The trees of one record of the list \<open>what\<close>; \<open>so_far\<close> counts the files of the packages.\<close>

definition limit_record :: "string \<Rightarrow> int \<Rightarrow> json \<Rightarrow> int result" where
  "limit_record what so_far record =
     (if \<not> is_obj record then Inr so_far
      else
        seqE (for_each (\<lambda>t. reject_if (list_over MAX_INSTALL_TREE_ENTRIES (fld record t))
            (install_error (what @ '' '' @ t @ '' exceeds maximum of 100000''))) [''files'', ''directories''])
        (let so_far' = so_far + int (length (as_list (fld record ''files''))) in
         if what = ''packages'' \<and> is_list (fld record ''files'') then
           seqE (reject_if (so_far' > MAX_INSTALL_TREE_ENTRIES) (install_error ''package files exceed maximum of 100000'')) (Inr so_far')
         else Inr so_far))"

definition limit_records :: "json \<Rightarrow> int \<Rightarrow> string \<Rightarrow> int result" where
  "limit_records value so_far what = foldE (limit_record what) so_far (as_list (fld value what))"

definition preflight_install_limits :: "json \<Rightarrow> unit result" where
  "preflight_install_limits value =
     seqE (limit_fields value MAX_INSTALL_PACKAGES ''16384'' [''packages'', ''selected_packages''])
     (seqE (limit_fields value MAX_INSTALL_DEPENDENCIES ''65536'' [''resolved_dependencies''])
     (seqE (limit_fields value MAX_INSTALL_PROVIDERS ''65536'' [''selected_platforms'', ''selected_disciplines'',
       ''selected_runtime_configs'', ''permission_profiles'', ''side_effects'', ''skills''])
     (seqE (reject_if (int (length (as_dict (fld value ''capability_providers''))) > MAX_INSTALL_PROVIDERS)
       (install_error ''capability_providers exceeds maximum of 65536''))
     (seqE (limit_fields (fld value ''instructions'') MAX_INSTALL_PROVIDERS ''65536'' [''fragments'', ''rule_trace''])
     (bindE (foldE (limit_records value) 0 [''packages'', ''skills'']) (\<lambda>_.
     limit_fields value MAX_INSTALL_TREE_ENTRIES ''100000'' [''assets'']))))))"

section \<open>Trees of files\<close>

definition unsafe_path :: "json \<Rightarrow> bool" where
  "unsafe_path v \<longleftrightarrow> \<not> is_nonempty_str v \<or> backslash \<in> set (as_str v) \<or> windows_drive (as_str v) \<or>
     startswith (as_str v) ''/'' \<or> has_bad_part (as_str v)"

definition bad_mode :: "json \<Rightarrow> bool" where
  "bad_mode v \<longleftrightarrow> \<not> is_strict_int v \<or> as_int v < 0 \<or> as_int v > 511"

definition validate_install_entry :: "json \<Rightarrow> string \<Rightarrow> unit result" where
  "validate_install_entry entry label =
     seqE (reject_if (unsafe_path (fld entry ''path'')) (ContractError (label @ '' path is unsafe'')))
     (reject_if (bad_mode (fld entry ''mode'')) (ContractError (label @ '' mode is invalid'')))"

text \<open>\<open>re.fullmatch(r"[0-9a-f]{64}", v)\<close>, which raises on a value that is no text\<close>

definition not_digest :: "json \<Rightarrow> bool result" where
  "not_digest v = (if is_str v then Inr (\<not> is_hex 64 (as_str v)) else Inl (TypeError ''expected string''))"

definition check_tree_file :: "string \<Rightarrow> json \<Rightarrow> unit result" where
  "check_tree_file label entry =
     seqE (require_fields entry [''path'', ''sha256'', ''mode''] (label @ ''.file''))
     (seqE (validate_install_entry entry (label @ ''.file''))
     (reject_when (not_digest (fld entry ''sha256'')) (ContractError (label @ '' file digest is invalid''))))"

definition check_tree_directory :: "string \<Rightarrow> json \<Rightarrow> unit result" where
  "check_tree_directory label entry =
     seqE (require_fields entry [''path'', ''mode''] (label @ ''.directory''))
     (validate_install_entry entry (label @ ''.directory''))"

definition paths_of :: "json \<Rightarrow> string list" where
  "paths_of entries = map (\<lambda>e. as_str (fld e ''path'')) (as_list entries)"

definition validate_tree_record :: "world \<Rightarrow> json \<Rightarrow> string \<Rightarrow> string \<Rightarrow> unit result" where
  "validate_tree_record w value digest_field label =
     (let files = fld value ''files''; directories = fld value ''directories'';
          file_paths = paths_of files; directory_paths = paths_of directories in
      seqE (reject_if (\<not> is_list files \<or> \<not> is_list directories) (ContractError (label @ '' tree entries must be arrays'')))
      (seqE (for_each (check_tree_file label) (as_list files))
      (seqE (for_each (check_tree_directory label) (as_list directories))
      (seqE (reject_if (file_paths \<noteq> sorted_set file_paths) (ContractError (label @ '' file paths must be sorted and unique'')))
      (seqE (reject_if (directory_paths \<noteq> sorted_set directory_paths)
        (ContractError (label @ '' directory paths must be sorted and unique'')))
      (seqE (reject_if (set file_paths \<inter> set directory_paths \<noteq> {})
        (ContractError (label @ '' file and directory paths conflict'')))
      (seqE (reject_if (\<not> is_int (fld value ''file_count'') \<or>
          \<not> py_eq (fld value ''file_count'') (JInt (int (length (as_list files)))))
        (ContractError (label @ '' file count is invalid'')))
      (seqE (bindE (sha256 w files) (\<lambda>h. reject_if (fld value digest_field \<noteq> JStr h) (ContractError (label @ '' tree digest mismatch''))))
      (seqE (reject_if (label = ''install-plan.package'' \<and> ''manifest.json'' \<notin> set file_paths)
        (ContractError ''install-plan package tree must contain manifest.json''))
      (reject_if (bad_mode (fld value ''root_mode'')) (ContractError (label @ '' root mode is invalid'')))))))))))) "

end
