(* ===== verification/InstallPlan.thy ===== *)
theory InstallPlan
  imports InstallTree
begin

text \<open>
  \<^verbatim>\<open>validate_install_plan\<close>: identity and version of the lock metadata, text lists, package and skill names,
  selected packages with the reasons they were selected for, resolved dependencies, package and skill trees,
  instructions, assets, capability providers and fingerprint, in the order of the code.
\<close>

section \<open>Identity\<close>

definition install_fields :: "string list" where
  "install_fields = [''manager'', ''core_version'', ''selected_platforms'', ''packages'', ''bindings'',
     ''permission_profiles'', ''side_effects'', ''instructions'', ''skills'', ''managed_roots'', ''status'', ''fingerprint'']"

definition lock_v2_fields :: "string list" where
  "lock_v2_fields = [''asset_summary'', ''assets'', ''capability_providers'', ''resolved_dependencies'',
     ''selected_disciplines'', ''selected_packages'', ''selected_runtime_configs'']"

definition is_lock_v2 :: "json \<Rightarrow> bool" where
  "is_lock_v2 value \<longleftrightarrow> fld value ''lock_schema_version'' = JStr ''2.0''"

definition has_anchor :: "json \<Rightarrow> bool" where
  "has_anchor value \<longleftrightarrow> fld value ''package_lock_hash'' \<noteq> JNull"

definition check_install_identity :: "json \<Rightarrow> unit result" where
  "check_install_identity value =
     (let version = fld value ''lock_schema_version''; missing = filter (\<lambda>f. \<not> has_key value f) lock_v2_fields in
      seqE (reject_if (fld value ''manager'' \<noteq> JStr ''agent-development-skills'') (install_error ''manager is invalid''))
      (seqE (reject_if (fld value ''managed_roots'' \<noteq> JList [JStr ''AGENTS.md'', JStr ''skills'', JStr ''.agent-skills''])
        (install_error ''managed roots are invalid''))
      (seqE (require_in (fld value ''status'') [''planned'', ''installed''] (install_error ''status is invalid''))
      (seqE (if version = JNull then Inr ()
             else require_in version [''2.0''] (install_error ''lock_schema_version is unsupported''))
      (seqE (reject_if (has_anchor value \<and> \<not> is_sha256 (fld value ''package_lock_hash''))
        (install_error ''package_lock_hash is invalid''))
      (reject_if (is_lock_v2 value \<and> missing \<noteq> [])
        (install_error (''lock v2 metadata is incomplete: '' @ join '', '' missing))))))))"

definition check_string_list :: "json \<Rightarrow> string \<Rightarrow> unit result" where
  "check_string_list value f =
     seqE (reject_if (\<not> nonempty_str_list (fld value f)) (install_error (f @ '' must be strings'')))
     (reject_if (has_duplicates (as_list (fld value f))) (install_error (f @ '' must be unique'')))"

definition check_string_lists :: "json \<Rightarrow> unit result" where
  "check_string_lists value =
     seqE (for_each (check_string_list value) [''selected_platforms'', ''permission_profiles'', ''side_effects''])
     (for_each (\<lambda>f. reject_if (\<not> unique_str_list (fld_or value f (JList []))) (install_error (f @ '' must be unique strings'')))
       [''selected_disciplines'', ''selected_runtime_configs''])"

text \<open>Packages by \<open>id\<close> and skills by \<open>name\<close>: every item is an object with a safe name, no name occurs twice.\<close>

definition named_items :: "json list \<Rightarrow> string \<Rightarrow> json list" where
  "named_items items key = map (\<lambda>i. fld i key) (filter is_obj items)"

definition check_names :: "json list \<Rightarrow> string \<Rightarrow> string \<Rightarrow> unit result" where
  "check_names items key what =
     (let names = named_items items key in
      reject_if (length names \<noteq> length items \<or> list_ex (\<lambda>n. \<not> is_str n \<or> \<not> is_safe_id (as_str n)) names \<or>
          has_duplicates names) (install_error (what @ '' are invalid'')))"

section \<open>Selected packages\<close>

definition dependency_metadata :: "string list" where
  "dependency_metadata = [''selected_packages'', ''selected_disciplines'', ''selected_runtime_configs'', ''resolved_dependencies'']"

definition check_metadata_complete :: "json \<Rightarrow> unit result" where
  "check_metadata_complete value =
     reject_if (list_ex (has_key value) dependency_metadata \<and> \<not> list_all (has_key value) dependency_metadata)
       (install_error ''dependency metadata must be complete'')"

definition selected_fields :: "bool \<Rightarrow> string list" where
  "selected_fields anchored = [''id'', ''kind'', ''version'', ''selection_reasons''] @
     (if anchored then [''core_compatibility'', ''provider_compatibility'', ''provider_version''] else [])"

definition install_unsatisfied :: "json \<Rightarrow> json \<Rightarrow> bool result" where
  "install_unsatisfied version expression =
     (if \<not> is_str expression then Inr True else mapR Not (install_version_satisfies version expression))"

definition check_anchored_package :: "json \<Rightarrow> json \<Rightarrow> unit result" where
  "check_anchored_package core item =
     (let version = fld item ''provider_version''; compatibility = fld item ''provider_compatibility'' in
      seqE (reject_when (install_unsatisfied core (fld item ''core_compatibility''))
        (install_error ''selected package core compatibility is invalid''))
      (seqE (reject_if ((version = JNull) \<noteq> (compatibility = JNull)) (install_error ''provider compatibility metadata is incomplete''))
      (reject_when (if version = JNull then Inr False else if \<not> is_str version then Inr True
          else install_unsatisfied version compatibility)
        (install_error ''provider compatibility is not satisfied''))))"

definition check_selected_package :: "json \<Rightarrow> json \<Rightarrow> unit result" where
  "check_selected_package value item =
     seqE (require_fields item (selected_fields (has_anchor value)) ''install-plan.selected-package'')
     (let reasons = fld item ''selection_reasons''; source = fld item ''source_sha256'' in
      seqE (reject_when (orE (not_in_strings (fld item ''kind'') package_kinds)
          (Inr (\<not> is_full_version (fld item ''version'') \<or> \<not> unique_str_list reasons \<or> as_list reasons = [])))
        (install_error ''selected package is invalid''))
      (seqE (if has_anchor value then check_anchored_package (fld value ''core_version'') item else Inr ())
      (seqE (reject_if (is_lock_v2 value \<and> source = JNull) (install_error ''lock v2 selected package source digest is required''))
      (reject_when (if source = JNull then Inr False else not_digest source)
        (install_error ''selected package source digest is invalid'')))))"

text \<open>\<open>package_metadata[i]\<close>; ids are unique when it is used.\<close>

definition item_of :: "json list \<Rightarrow> string \<Rightarrow> json" where
  "item_of items i = (case find (\<lambda>p. fld p ''id'' = JStr i) items of Some p \<Rightarrow> p | None \<Rightarrow> JNull)"

definition reasons_of :: "json \<Rightarrow> string list" where
  "reasons_of item = map as_str (as_list (fld item ''selection_reasons''))"

definition item_id :: "json \<Rightarrow> string" where
  "item_id item = as_str (fld item ''id'')"

text \<open>The packages selected explicitly, with the reason \<open>prefix:id\<close>.\<close>

definition explicit_ids :: "string \<Rightarrow> json list \<Rightarrow> string list" where
  "explicit_ids prefix items = map item_id (filter (\<lambda>i. prefix @ '':'' @ item_id i \<in> set (reasons_of i)) items)"

definition selection_kinds :: "(string \<times> string \<times> string) list" where
  "selection_kinds = [(''platform'', ''selected_platforms'', ''platform''), (''discipline'', ''selected_disciplines'', ''discipline''),
     (''runtime-config'', ''selected_runtime_configs'', ''runtime config'')]"

definition check_explicit :: "json \<Rightarrow> json list \<Rightarrow> unit result" where
  "check_explicit value items =
     seqE (for_each (\<lambda>(kind, f, name). reject_if (JStr ` set (explicit_ids kind items) \<noteq> set (as_list (fld_or value f (JList []))))
         (install_error (''selected '' @ name @ ''s differ from package reasons''))) selection_kinds)
     (for_each (\<lambda>(kind, f, name). reject_if (list_ex (\<lambda>i. fld (item_of items i) ''kind'' \<noteq> JStr kind) (explicit_ids kind items))
         (install_error (''selected '' @ name @ '' kind is invalid''))) selection_kinds)"

definition check_selected_packages :: "json \<Rightarrow> json list \<Rightarrow> json list \<Rightarrow> unit result" where
  "check_selected_packages value ids items =
     seqE (reject_if (named_items items ''id'' \<noteq> ids) (install_error ''selected_packages must match package order''))
     (seqE (case ids of [] \<Rightarrow> Inl (IndexError ''list index out of range'')
        | i # _ \<Rightarrow> reject_if (i \<noteq> JStr ''core'') (install_error ''core package must be first''))
     (seqE (for_each (check_selected_package value) items)
     (let core = item_of items ''core'' in
      seqE (reject_if (fld core ''kind'' \<noteq> JStr ''core'' \<or> fld core ''selection_reasons'' \<noteq> JList [JStr ''core''])
        (install_error ''core package metadata is invalid''))
      (check_explicit value items))))"

section \<open>Resolved dependencies\<close>

definition is_constraint :: "string \<Rightarrow> bool" where
  "is_constraint t = (case constraint_parts t of None \<Rightarrow> False | Some (_, rest) \<Rightarrow> is_full_version (JStr rest))"

text \<open>Constraints separated by single spaces.\<close>

definition is_constraint_list :: "json \<Rightarrow> bool" where
  "is_constraint_list v \<longleftrightarrow> is_str v \<and> list_all is_constraint (split_on (CHR '' '') (as_str v))"

definition position :: "string list \<Rightarrow> string \<Rightarrow> int" where
  "position ids i = int (length (takeWhile (\<lambda>j. j \<noteq> i) ids))"

definition bad_dependency :: "string list \<Rightarrow> json \<Rightarrow> bool result" where
  "bad_dependency ids d =
     orE (not_in_strings (fld d ''from'') ids)
     (orE (not_in_strings (fld d ''to'') ids)
     (orE (Inr (fld d ''from'' = fld d ''to''))
     (orE (not_in_strings (fld d ''requirement'') [''required'', ''optional''])
     (Inr (\<not> is_constraint_list (fld d ''version'') \<or> \<not> unique_str_list (fld d ''required_capabilities'') \<or>
       as_list (fld d ''required_capabilities'') = [])))))"

text \<open>One round of the loop over the edges seen so far and the required ones among them.\<close>

definition check_install_dependency :: "string list \<Rightarrow> json list \<Rightarrow> edges \<times> edges \<Rightarrow> json \<Rightarrow> (edges \<times> edges) result" where
  "check_install_dependency ids items seen d =
     seqE (reject_if (\<not> is_obj d) (install_error ''resolved dependency must be an object''))
     (seqE (require_fields d [''from'', ''to'', ''requirement'', ''version'', ''required_capabilities''] ''install-plan.resolved-dependency'')
     (seqE (reject_when (bad_dependency ids d) (install_error ''resolved dependency is invalid''))
     (let e = dependency_edge d in
      seqE (reject_if (e \<in> set (fst seen)) (install_error ''resolved dependency edges must be unique''))
      (seqE (reject_if (position ids (fst e) \<le> position ids (snd e))
        (install_error ''package order violates dependency topology''))
      (seqE (reject_when (mapR Not (install_version_satisfies (fld (item_of items (snd e)) ''version'') (fld d ''version'')))
        (install_error ''dependency version is not satisfied''))
      (Inr (e # fst seen, if fld d ''requirement'' = JStr ''required'' then e # snd seen else snd seen)))))))"

definition allowed_reasons :: "edges \<Rightarrow> string \<Rightarrow> string list" where
  "allowed_reasons required i = [''platform:'' @ i, ''discipline:'' @ i, ''runtime-config:'' @ i] @
     map (\<lambda>e. ''dependency:'' @ fst e) (filter (\<lambda>e. snd e = i) required)"

definition check_reasons :: "json list \<Rightarrow> edges \<Rightarrow> unit result" where
  "check_reasons items required =
     seqE (for_each (\<lambda>item. reject_if (\<not> set (reasons_of item) \<subseteq> set (allowed_reasons required (item_id item)))
         (install_error ''package selection reason is invalid'')) (drop 1 items))
     (for_each (\<lambda>e. reject_if (''dependency:'' @ fst e \<notin> set (reasons_of (item_of items (snd e))))
         (install_error ''required dependency selection reason is missing'')) required)"

definition check_install_dependencies :: "json \<Rightarrow> string list \<Rightarrow> json list \<Rightarrow> unit result" where
  "check_install_dependencies value ids items =
     (let dependencies = fld_or value ''resolved_dependencies'' (JList []) in
      seqE (reject_if (\<not> is_list dependencies) (install_error ''resolved_dependencies must be an array''))
      (bindE (foldE (check_install_dependency ids items) ([], []) (as_list dependencies)) (\<lambda>(_, required).
      if items = [] then Inr () else check_reasons items required)))"

section \<open>Packages and skills\<close>

definition check_install_package :: "world \<Rightarrow> json \<Rightarrow> unit result" where
  "check_install_package w package =
     seqE (require_fields package [''directories'', ''file_count'', ''files'', ''files_sha256'', ''id'',
       ''manifest_sha256'', ''provider_manifest_sha256'', ''root_mode''] ''install-plan.package'')
     (seqE (validate_tree_record w package ''files_sha256'' ''install-plan.package'')
     (let provider = fld package ''provider_manifest_sha256'' in
      seqE (reject_when (not_digest (fld package ''manifest_sha256'')) (install_error ''package manifest digest is invalid''))
      (reject_when (if provider = JNull then Inr False else not_digest provider)
        (install_error ''package provider digest is invalid''))))"

definition check_source_digests :: "json \<Rightarrow> json list \<Rightarrow> json list \<Rightarrow> unit result" where
  "check_source_digests value packages items =
     (if \<not> is_lock_v2 value then Inr ()
      else for_each (\<lambda>item. reject_if (fld item ''source_sha256'' \<noteq> fld (item_of packages (item_id item)) ''files_sha256'')
        (install_error ''selected package source digest differs from package files'')) items)"

definition check_install_skill :: "world \<Rightarrow> string list \<Rightarrow> json \<Rightarrow> unit result" where
  "check_install_skill w ids skill =
     seqE (require_fields skill [''directories'', ''file_count'', ''files'', ''name'', ''package'', ''root_mode'', ''sha256'']
       ''install-plan.skill'')
     (seqE (validate_tree_record w skill ''sha256'' ''install-plan.skill'')
     (require_in (fld skill ''package'') ids (install_error ''skill references an unknown package'')))"

section \<open>Instructions\<close>

definition bad_fragment :: "string list \<Rightarrow> json \<Rightarrow> bool result" where
  "bad_fragment ids f =
     orE (Inr (\<not> is_nonempty_str (fld f ''id'')))
     (orE (not_in_strings (fld f ''package'') ids)
     (orE (Inr (\<not> is_nonempty_str (fld f ''scope'') \<or> \<not> is_strict_int (fld f ''order'')))
     (orE (not_in_strings (fld f ''merge_strategy'') [''append'', ''locked''])
     (orE (Inr (unsafe_path (fld f ''path'')))
     (not_digest (fld f ''sha256''))))))"

definition check_fragment :: "string list \<Rightarrow> json \<Rightarrow> unit result" where
  "check_fragment ids f =
     seqE (require_fields f [''id'', ''merge_strategy'', ''order'', ''package'', ''path'', ''scope'', ''sha256'']
       ''install-plan.instruction-fragment'')
     (reject_when (bad_fragment ids f) (install_error ''instruction fragment identity is invalid''))"

definition fragment_key :: "string list \<Rightarrow> json \<Rightarrow> int \<times> int \<times> string" where
  "fragment_key ids f = (position ids (as_str (fld f ''package'')), as_int (fld f ''order''), as_str (fld f ''id''))"

definition check_fragments :: "string list \<Rightarrow> json \<Rightarrow> unit result" where
  "check_fragments ids v =
     bindE (iterate v) (\<lambda>fragments.
     let fragment_ids = named_items fragments ''id'' in
     seqE (reject_when (orE (Inr (length fragment_ids \<noteq> length fragments \<or> JNull \<in> set fragment_ids))
         (mapR Not (all_unique fragment_ids))) (install_error ''instruction fragment ids are invalid''))
     (seqE (for_each (check_fragment ids) fragments)
     (reject_if (v \<noteq> JList (sort_key (fragment_key ids) fragments)) (install_error ''instruction fragment order is not canonical''))))"

definition check_rule :: "json \<Rightarrow> unit result" where
  "check_rule rule =
     seqE (require_fields rule [''id'', ''effect'', ''locked'', ''package'', ''scope'', ''content_sha256'', ''decision'']
       ''install-plan.instruction-rule'')
     (reject_when (orE (not_in_strings (fld rule ''effect'') [''allow'', ''deny''])
         (orE (Inr (\<not> is_bool (fld rule ''locked'')))
         (orE (not_in_strings (fld rule ''decision'') [''accepted'', ''replaced'', ''deny-wins''])
         (not_digest (fld rule ''content_sha256'')))))
       (install_error ''instruction rule trace is invalid''))"

definition check_instructions :: "json \<Rightarrow> string list \<Rightarrow> unit result" where
  "check_instructions value ids =
     (let instructions = fld value ''instructions''; trace = fld_or instructions ''rule_trace'' (JList []) in
      seqE (require_fields instructions [''fragments'', ''path'', ''sha256''] ''install-plan.instructions'')
      (seqE (reject_when (orE (Inr (fld instructions ''path'' \<noteq> JStr ''AGENTS.md'')) (not_digest (fld instructions ''sha256'')))
        (install_error ''instructions identity is invalid''))
      (seqE (check_fragments ids (fld instructions ''fragments''))
      (seqE (reject_if (is_lock_v2 value \<and> \<not> has_key instructions ''rule_trace'')
        (install_error ''lock v2 instruction rule trace is required''))
      (seqE (reject_if (\<not> is_list trace) (install_error ''instruction rule trace must be an array''))
      (for_each check_rule (as_list trace)))))))"

section \<open>Assets and capability providers\<close>

definition expected_assets :: "json list \<Rightarrow> json list" where
  "expected_assets packages =
     concat (map (\<lambda>p. map (\<lambda>e. JObj [(''mode'', fld e ''mode''), (''package'', fld p ''id''), (''path'', fld e ''path''),
       (''sha256'', fld e ''sha256'')]) (as_list (fld p ''files''))) packages)"

definition counts :: "json \<Rightarrow> string \<Rightarrow> 'a list \<Rightarrow> bool" where
  "counts summary f xs = py_eq (fld summary f) (JInt (int (length xs)))"

definition check_assets :: "world \<Rightarrow> json \<Rightarrow> json list \<Rightarrow> json list \<Rightarrow> unit result" where
  "check_assets w value packages skills =
     (let assets = fld_or value ''assets'' (JList []); summary = fld value ''asset_summary'' in
      if \<not> is_lock_v2 value \<and> \<not> truthy assets \<and> summary = JNull then Inr ()
      else
        seqE (reject_if (\<not> is_list assets \<or> \<not> is_obj summary) (install_error ''asset allowlist metadata is incomplete''))
        (seqE (require_fields summary [''content_sha256'', ''file_count'', ''package_count'', ''skill_count'']
          ''install-plan.asset-summary'')
        (seqE (reject_if (\<not> py_eq assets (JList (expected_assets packages)))
          (install_error ''asset allowlist differs from selected package files''))
        (reject_when (orE (mapR (\<lambda>h. fld summary ''content_sha256'' \<noteq> JStr h) (sha256 w assets))
            (Inr (\<not> counts summary ''file_count'' (as_list assets) \<or> \<not> counts summary ''package_count'' packages \<or>
              \<not> counts summary ''skill_count'' skills)))
          (install_error ''asset allowlist digest is invalid'')))))"

definition expected_provider :: "json \<Rightarrow> json list \<Rightarrow> json list \<Rightarrow> (string \<times> json) list \<Rightarrow> string \<times> json \<Rightarrow> (string \<times> json) result" where
  "expected_provider value packages items providers bound_to =
     (let bound = snd bound_to; provider = fld (JObj providers) (fst bound_to) in
      seqE (reject_if (\<not> is_obj bound) (install_error ''binding record is invalid''))
      (seqE (require_fields bound [''binding'', ''package''] ''install-plan.binding'')
      (seqE (require_in (fld bound ''package'') (filter (\<lambda>i. i \<in> set (map item_id items)) (map item_id packages))
        (install_error ''binding references an unknown package''))
      (let i = as_str (fld bound ''package'');
           entry = [(''binding'', fld bound ''binding''), (''package'', JStr i),
             (''package_version'', fld (item_of items i) ''version''), (''source_sha256'', fld (item_of packages i) ''files_sha256'')] in
       bindE (text_in ''permission_profile'' provider) (\<lambda>given.
       if given then
         bindE (getitem provider ''permission_profile'') (\<lambda>profile.
         seqE (reject_if (\<not> is_nonempty_str profile) (install_error ''capability provider permission is invalid''))
         (Inr (fst bound_to, JObj (entry @ [(''permission_profile'', profile)]))))
       else seqE (reject_if (has_anchor value) (install_error ''capability provider permission is required''))
         (Inr (fst bound_to, JObj entry)))))))"

definition check_install_providers :: "json \<Rightarrow> json list \<Rightarrow> json list \<Rightarrow> unit result" where
  "check_install_providers value packages items =
     (let providers = fld_or value ''capability_providers'' (JObj []) in
      seqE (reject_if (\<not> is_obj providers) (install_error ''capability provider mapping must be an object''))
      (if \<not> is_lock_v2 value \<and> as_dict providers = [] then Inr ()
       else
         bindE (iterate (fld value ''bindings'')) (\<lambda>keys.
         seqE (reject_if (\<not> list_all hashable keys) (TypeError ''unhashable type''))
         (seqE (reject_if ((\<lambda>kv. JStr (fst kv)) ` set (as_dict providers) \<noteq> set keys)
           (install_error ''capability provider mapping differs from bindings''))
         (bindE (items_of (fld value ''bindings'')) (\<lambda>bindings.
         bindE (mapE (expected_provider value packages items (as_dict providers)) bindings) (\<lambda>expected.
         reject_if (\<not> py_eq providers (JObj expected)) (install_error ''capability provider mapping is inconsistent''))))))))"

section \<open>The plan\<close>

definition check_install_content :: "world \<Rightarrow> json \<Rightarrow> json list \<Rightarrow> json list \<Rightarrow> json list \<Rightarrow> unit result" where
  "check_install_content w value packages skills items =
     (let ids = map item_id packages in
      seqE (check_install_dependencies value ids items)
      (seqE (for_each (check_install_package w) packages)
      (seqE (check_source_digests value packages items)
      (seqE (for_each (check_install_skill w ids) skills)
      (seqE (check_instructions value ids)
      (seqE (check_assets w value packages skills)
      (check_install_providers value packages items)))))))"

definition install_fingerprint :: "world \<Rightarrow> json \<Rightarrow> string result" where
  "install_fingerprint w value = sha256 w (without_keys [''fingerprint'', ''status''] value)"

definition validate_install_plan :: "world \<Rightarrow> json \<Rightarrow> unit result" where
  "validate_install_plan w value =
     seqE (base value install_fields ''install-plan'')
     (seqE (preflight_install_limits value)
     (seqE (check_install_identity value)
     (seqE (check_string_lists value)
     (bindE (iterate (fld value ''packages'')) (\<lambda>packages.
      bindE (iterate (fld value ''skills'')) (\<lambda>skills.
      seqE (check_names packages ''id'' ''package ids'')
      (seqE (check_names skills ''name'' ''skill names'')
      (seqE (check_metadata_complete value)
      (let selected = fld_or value ''selected_packages'' (JList []) in
       bindE (iterate selected) (\<lambda>items.
       seqE (reject_if (list_ex (has_key value) dependency_metadata \<and> \<not> truthy selected)
         (install_error ''selected_packages must not be empty''))
       (seqE (if truthy selected then check_selected_packages value (named_items packages ''id'') items else Inr ())
       (seqE (check_install_content w value packages skills items)
       (bindE (install_fingerprint w value) (\<lambda>h.
       reject_if (fld value ''fingerprint'' \<noteq> JStr h) (install_error ''fingerprint mismatch'')))))))))))))))"

end
