(* ===== verification/LockFiles.thy ===== *)
theory LockFiles
  imports LockSource
begin

text \<open>
  The file-system side of \<^verbatim>\<open>package_lock.py\<close>: the inventory of schema files and the comparison of a relative
  package source with the files an install plan records. The file system is a record of the questions the code asks
  of it; a path is the list of its components. Errors of the operating system are not modelled. File contents are
  bytes; bytes that are no UTF-8 text count as a text the JSON parser rejects.
\<close>

type_synonym path = "string list"

record filesystem =
  is_link :: "path \<Rightarrow> bool"
  is_directory :: "path \<Rightarrow> bool"
  is_regular :: "path \<Rightarrow> bool"
  present :: "path \<Rightarrow> bool"
  dir_entries :: "path \<Rightarrow> string list"
  resolved :: "path \<Rightarrow> path"
  executable :: "path \<Rightarrow> bool"
  contents :: "path \<Rightarrow> string"

definition MAX_SCHEMA_DIRECTORY_ENTRIES :: int where "MAX_SCHEMA_DIRECTORY_ENTRIES = 100000"
definition MAX_PACKAGE_FILES :: int where "MAX_PACKAGE_FILES = 100000"

text \<open>\<open>path.is_symlink() or not path.is_dir()\<close> and \<open>path.is_symlink() or not path.is_file()\<close>\<close>

definition unsafe_directory :: "filesystem \<Rightarrow> path \<Rightarrow> bool" where
  "unsafe_directory fs p \<longleftrightarrow> is_link fs p \<or> \<not> is_directory fs p"

definition unsafe_file :: "filesystem \<Rightarrow> path \<Rightarrow> bool" where
  "unsafe_file fs p \<longleftrightarrow> is_link fs p \<or> \<not> is_regular fs p"

definition path_name :: "path \<Rightarrow> string" where
  "path_name p = (if p = [] then [] else last p)"

text \<open>\<open>path / part\<close>: an absolute part replaces the path.\<close>

definition join_path :: "path \<Rightarrow> string \<Rightarrow> path" where
  "join_path p part = (if part = ''/'' then [] else p @ [part])"

section \<open>Schema inventory\<close>

text \<open>The set of candidates and the number of directory entries seen.\<close>

type_synonym collected = "path list \<times> int"

definition count_entry :: "int \<Rightarrow> int result" where
  "count_entry n = seqE (reject_if (n + 1 > MAX_SCHEMA_DIRECTORY_ENTRIES)
     (ContractError ''schema inventory exceeds maximum of 100000 directory entries'')) (Inr (n + 1))"

definition collect_entry :: "filesystem \<Rightarrow> path \<Rightarrow> collected \<Rightarrow> string \<Rightarrow> collected result" where
  "collect_entry fs dir st name =
     bindE (count_entry (snd st)) (\<lambda>n.
     if \<not> endswith name ''.schema.json'' then Inr (fst st, n)
     else seqE (reject_if (unsafe_file fs (dir @ [name])) (ContractError (''schema file is unsafe: '' @ name)))
       (Inr ((dir @ [name]) # fst st, n)))"

definition collect_direct :: "filesystem \<Rightarrow> path \<Rightarrow> collected \<Rightarrow> collected result" where
  "collect_direct fs dir st =
     (if \<not> present fs dir then Inr st
      else seqE (reject_if (unsafe_directory fs dir) (ContractError ''schema directory is unsafe''))
        (foldE (collect_entry fs dir) st (dir_entries fs dir)))"

definition collect_child :: "filesystem \<Rightarrow> path \<Rightarrow> collected \<Rightarrow> string \<Rightarrow> collected result" where
  "collect_child fs package st name =
     (let child = package @ [name] in
      if present fs child \<and> \<not> unsafe_directory fs child then collect_direct fs child st else Inr st)"

definition collect_package :: "filesystem \<Rightarrow> path \<Rightarrow> string list \<Rightarrow> collected \<Rightarrow> string \<Rightarrow> collected result" where
  "collect_package fs container subdirs st name =
     bindE (count_entry (snd st)) (\<lambda>n.
     if unsafe_directory fs (container @ [name]) then Inr (fst st, n)
     else foldE (collect_child fs (container @ [name])) (fst st, n) subdirs)"

definition collect_container :: "filesystem \<Rightarrow> path \<Rightarrow> collected \<Rightarrow> string \<times> string list \<Rightarrow> collected result" where
  "collect_container fs repository st c =
     (let container = repository @ [fst c] in
      if \<not> present fs container then Inr st
      else seqE (reject_if (unsafe_directory fs container) (ContractError ''schema directory is unsafe''))
        (foldE (collect_package fs container (snd c)) st (dir_entries fs container)))"

definition schema_containers :: "(string \<times> string list) list" where
  "schema_containers = [(''disciplines'', [''contracts'']), (''platforms'', [''contracts'', ''config'']), (''stacks'', [''contracts''])]"

definition schema_candidates :: "filesystem \<Rightarrow> path \<Rightarrow> path \<Rightarrow> path list result" where
  "schema_candidates fs folder repository =
     bindE (collect_direct fs folder ([], 0)) (\<lambda>st.
     bindE (if path_name folder = ''schemas'' then foldE (collect_container fs repository) st schema_containers else Inr st) (\<lambda>st.
     let candidates = sorted_set (fst st) in
     seqE (reject_if (int (length candidates) > MAX_LOCK_SCHEMAS) (ContractError ''schema inventory exceeds maximum of 65536 files''))
     (Inr candidates)))"

text \<open>
  \<open>load(path)\<close> under \<open>except (..., json.JSONDecodeError, ContractError)\<close>: a text the parser rejects becomes a
  \<open>ContractError\<close>, the plain \<open>ValueError\<close> of the input limits passes through.
\<close>

definition load_schema :: "world \<Rightarrow> string \<Rightarrow> string \<Rightarrow> json result" where
  "load_schema w name text =
     seqE (reject_if (length text > MAX_CONTRACT_JSON_BYTES) (ValueError ''contract input has too many bytes''))
     (seqE (validate_text_limits text)
     (case parse_json w text of
        Inl e \<Rightarrow> Inl (ContractError (''schema file is invalid: '' @ name))
      | Inr value \<Rightarrow> seqE (validate_value_limits value) (Inr value)))"

definition schema_entry :: "world \<Rightarrow> filesystem \<Rightarrow> path \<Rightarrow> path \<Rightarrow> json result" where
  "schema_entry w fs repository p =
     seqE (reject_if (unsafe_file fs p) (ContractError (''schema file is unsafe: '' @ path_name p)))
     (bindE (load_schema w (path_name p) (contents fs p)) (\<lambda>value.
     seqE (reject_if (fld value ''$schema'' \<noteq> JStr ''https://json-schema.org/draft/2020-12/schema'')
       (ContractError (''schema file has unsupported draft: '' @ path_name p)))
     (Inr (JObj [(''path'', JStr (join ''/'' (drop (length repository) p))), (''sha256'', JStr (digest w (contents fs p)))]))))"

definition schema_inventory :: "world \<Rightarrow> filesystem \<Rightarrow> path \<Rightarrow> json result" where
  "schema_inventory w fs folder =
     seqE (reject_if (unsafe_directory fs folder) (ContractError ''schema root is missing or unsafe''))
     (let repository = (if path_name folder = ''schemas'' then butlast folder else folder) in
      bindE (schema_candidates fs folder repository) (\<lambda>candidates.
      bindE (mapE (schema_entry w fs repository) candidates) (\<lambda>files.
      seqE (reject_if (files = []) (ContractError ''schema inventory must not be empty''))
      (bindE (sha256 w (JList files)) (\<lambda>h.
      Inr (JObj [(''algorithm'', JStr ''sha256''), (''content_sha256'', JStr h), (''files'', JList files)]))))))"

section \<open>Relative sources\<close>

definition walk_source :: "filesystem \<Rightarrow> string \<Rightarrow> path \<Rightarrow> string \<Rightarrow> path result" where
  "walk_source fs package_id lexical part =
     (let p = join_path lexical part in
      seqE (reject_if (is_link fs p) (source_error ''relative source traverses a symlink'' package_id)) (Inr p))"

fun walk_file :: "filesystem \<Rightarrow> py_error \<Rightarrow> path \<Rightarrow> string list \<Rightarrow> path result" where
  "walk_file fs e p [] = Inr p"
| "walk_file fs e p (part # parts) =
     (let q = join_path p part in
      seqE (reject_if (is_link fs q) e)
      (seqE (reject_if (parts \<noteq> [] \<and> \<not> is_directory fs q) e) (walk_file fs e q parts)))"

definition source_file :: "world \<Rightarrow> filesystem \<Rightarrow> string \<Rightarrow> path \<Rightarrow> json \<Rightarrow> json result" where
  "source_file w fs package_id folder expected =
     (let relative = fld expected ''path''; s = as_str relative;
          e = source_error ''relative source file is missing or unsafe'' package_id in
      seqE (reject_if (\<not> is_str relative \<or> path_parts s = [] \<or> backslash \<in> set s \<or> windows_drive s \<or> has_bad_part s) e)
      (bindE (walk_file fs e folder (path_parts s)) (\<lambda>p.
      seqE (reject_if (\<not> is_regular fs p) e)
      (Inr (JObj [(''mode'', JInt (if executable fs p then 493 else 420)), (''path'', relative),
        (''sha256'', JStr (digest w (contents fs p)))])))))"

definition relative_snapshot :: "world \<Rightarrow> filesystem \<Rightarrow> path \<Rightarrow> string \<Rightarrow> json \<Rightarrow> string \<Rightarrow> unit result" where
  "relative_snapshot w fs source_base uri package package_id =
     seqE (reject_if (unsafe_directory fs source_base) (ContractError ''package lock source base is missing or unsafe''))
     (bindE (foldE (walk_source fs package_id) source_base (path_parts (drop 2 uri))) (\<lambda>lexical.
     let folder = resolved fs lexical; base_root = resolved fs source_base; expected = as_list (fld package ''files'') in
     seqE (reject_if (take (length base_root) folder \<noteq> base_root) (source_error ''relative source escapes source base'' package_id))
     (seqE (reject_if (unsafe_directory fs folder) (source_error ''relative source is missing or unsafe'' package_id))
     (seqE (reject_if (int (length expected) > MAX_PACKAGE_FILES) (ContractError ''package source exceeds maximum of 100000 files''))
     (bindE (mapE (source_file w fs package_id folder) expected) (\<lambda>actual.
     reject_when (orE (Inr (\<not> py_eq (JList actual) (fld package ''files'')))
         (mapR (\<lambda>h. fld package ''files_sha256'' \<noteq> JStr h) (sha256 w (JList actual))))
       (source_error ''relative source content differs from Install Plan'' package_id)))))))"

end
