(* ===== verification/LockOps.thy ===== *)
theory LockOps
  imports InstallPlan LockFiles Planner
begin

text \<open>
  The operations of \<^verbatim>\<open>package_lock.py\<close>: resolving an install plan into a lock, the difference of two locks, the
  summary of one, and the check of a workflow plan against a lock, which the plan compiler calls.
\<close>

definition install_plan_identity_hash :: "world \<Rightarrow> json \<Rightarrow> string result" where
  "install_plan_identity_hash w plan = sha256 w (without_keys [''fingerprint'', ''package_lock_hash'', ''status''] plan)"

section \<open>Resolving a lock\<close>

definition default_source :: "string \<Rightarrow> json" where
  "default_source i = JObj [(''kind'', JStr ''local-registry''), (''uri'', JStr (''registry://'' @ i))]"

text \<open>What \<open>resolve_package_lock\<close> is called with besides the plan.\<close>

record lock_inputs =
  schema_folder :: path
  source_overrides :: "(string, json) dict"
  artifact_hashes :: "(string, json) dict"
  source_base :: path
  previous_lock :: "json option"

definition dict_or :: "(string, json) dict \<Rightarrow> string \<Rightarrow> json \<Rightarrow> json" where
  "dict_or d k v = (case dict_get d k of Some x \<Rightarrow> x | None \<Rightarrow> v)"

definition lock_source :: "lock_inputs \<Rightarrow> json \<Rightarrow> json" where
  "lock_source inp selected =
     (let i = item_id selected in
      put (put (dict_or (source_overrides inp) i (default_source i)) ''sha256'' (fld selected ''source_sha256''))
        ''artifact_sha256'' (dict_or (artifact_hashes inp) i JNull))"

definition resolve_lock_package ::
    "world \<Rightarrow> filesystem \<Rightarrow> (string \<Rightarrow> bool) \<Rightarrow> lock_inputs \<Rightarrow> json list \<Rightarrow> json \<Rightarrow> json result" where
  "resolve_lock_package w fs host_ok inp packages selected =
     (let i = item_id selected; source = lock_source inp selected; package = item_of packages i in
      seqE (validate_source host_ok source i)
      (seqE (if fld source ''kind'' = JStr ''relative-path''
             then relative_snapshot w fs (source_base inp) (as_str (fld source ''uri'')) package i else Inr ())
      (bindE (getitem selected ''core_compatibility'') (\<lambda>core_range.
       bindE (getitem selected ''provider_compatibility'') (\<lambda>provider_range.
       bindE (getitem selected ''provider_version'') (\<lambda>provider.
       Inr (JObj [(''core_compatibility'', core_range), (''id'', JStr i), (''kind'', fld selected ''kind''),
         (''manifest_sha256'', fld package ''manifest_sha256''), (''provider_compatibility'', provider_range),
         (''provider_manifest_sha256'', fld package ''provider_manifest_sha256''), (''provider_version'', provider),
         (''source'', source), (''version'', fld selected ''version'')])))))))"

definition previous_hash :: "lock_inputs \<Rightarrow> json" where
  "previous_hash inp = (case previous_lock inp of None \<Rightarrow> JNull | Some p \<Rightarrow> fld p ''fingerprint'')"

definition lock_body :: "json \<Rightarrow> json list \<Rightarrow> json \<Rightarrow> json \<Rightarrow> string \<Rightarrow> string \<Rightarrow> string \<Rightarrow> (string \<times> json) list" where
  "lock_body plan packages previous inventory bindings_hash identity_hash trace_hash =
     (let core = item_of packages ''core'' in
      [(''assets_sha256'', fld (fld plan ''asset_summary'') ''content_sha256''), (''bindings_sha256'', JStr bindings_hash),
       (''capability_providers'', fld plan ''capability_providers''),
       (''core'', JObj [(''package_version'', fld core ''version''), (''runtime_version'', fld plan ''core_version''),
         (''source_sha256'', fld (fld core ''source'') ''sha256'')]),
       (''dependencies'', fld plan ''resolved_dependencies''), (''install_plan_identity_hash'', JStr identity_hash),
       (''instructions'', JObj [(''rule_trace_sha256'', JStr trace_hash), (''sha256'', fld (fld plan ''instructions'') ''sha256'')]),
       (''lineage'', JObj [(''previous_lock_hash'', previous)]), (''manager'', JStr LOCK_MANAGER),
       (''packages'', JList packages), (''permission_profiles'', fld plan ''permission_profiles''),
       (''schema_inventory'', inventory), (''schema_version'', JStr ''1.0''),
       (''selection'', JObj [(''disciplines'', fld plan ''selected_disciplines''), (''platforms'', fld plan ''selected_platforms''),
         (''runtime_configs'', fld plan ''selected_runtime_configs'')]),
       (''side_effects'', fld plan ''side_effects'')])"

text \<open>The plan's own anchor is compared only when nothing overrides the resolution.\<close>

definition check_anchor :: "json \<Rightarrow> lock_inputs \<Rightarrow> json \<Rightarrow> unit result" where
  "check_anchor plan inp lock =
     reject_if (has_anchor plan \<and> source_overrides inp = [] \<and> artifact_hashes inp = [] \<and> previous_lock inp = None \<and>
         fld plan ''package_lock_hash'' \<noteq> fld lock ''fingerprint'')
       (ContractError ''Install Plan package lock anchor differs from resolved Lockfile'')"

definition unknown_keys :: "(string, json) dict \<Rightarrow> string list \<Rightarrow> string list" where
  "unknown_keys d ids = sorted_set (filter (\<lambda>k. k \<notin> set ids) (map fst d))"

definition check_lock_inputs :: "world \<Rightarrow> (string \<Rightarrow> bool) \<Rightarrow> json \<Rightarrow> lock_inputs \<Rightarrow> unit result" where
  "check_lock_inputs w host_ok plan inp =
     (let ids = map item_id (as_list (fld plan ''selected_packages'')) in
      seqE (validate_install_plan w plan)
      (seqE (reject_if (\<not> is_lock_v2 plan) (ContractError ''persistent package lock requires Install Plan/Lock v2 metadata''))
      (seqE (case previous_lock inp of None \<Rightarrow> Inr () | Some p \<Rightarrow> validate_package_lock w host_ok p)
      (seqE (reject_if (int (length ids) > MAX_LOCK_PACKAGES) (ContractError ''package lock exceeds maximum of 16384 packages''))
      (seqE (reject_if (unknown_keys (source_overrides inp) ids \<noteq> [])
        (ContractError (''package lock source overrides reference unknown packages: '' @ join '', '' (unknown_keys (source_overrides inp) ids))))
      (reject_if (unknown_keys (artifact_hashes inp) ids \<noteq> [])
        (ContractError (''package lock artifact hashes reference unknown packages: '' @ join '', '' (unknown_keys (artifact_hashes inp) ids)))))))))"

definition resolve_package_lock :: "world \<Rightarrow> filesystem \<Rightarrow> (string \<Rightarrow> bool) \<Rightarrow> json \<Rightarrow> lock_inputs \<Rightarrow> json result" where
  "resolve_package_lock w fs host_ok plan inp =
     seqE (check_lock_inputs w host_ok plan inp)
     (bindE (mapE (resolve_lock_package w fs host_ok inp (as_list (fld plan ''packages''))) (as_list (fld plan ''selected_packages'')))
       (\<lambda>packages.
      bindE (sha256 w (fld plan ''bindings'')) (\<lambda>bindings_hash.
      bindE (install_plan_identity_hash w plan) (\<lambda>identity_hash.
      bindE (sha256 w (fld (fld plan ''instructions'') ''rule_trace'')) (\<lambda>trace_hash.
      bindE (schema_inventory w fs (schema_folder inp)) (\<lambda>inventory.
      let body = lock_body plan packages (previous_hash inp) inventory bindings_hash identity_hash trace_hash in
      bindE (sha256 w (JObj body)) (\<lambda>h.
      let lock = JObj (body @ [(''fingerprint'', JStr h)]) in
      seqE (validate_package_lock w host_ok lock)
      (seqE (check_anchor plan inp lock)
      (Inr lock)))))))))"

section \<open>Difference and summary\<close>

definition key_changes :: "(string, json) dict \<Rightarrow> (string, json) dict \<Rightarrow> json" where
  "key_changes left right =
     (let l = map fst left; r = map fst right; texts = (\<lambda>ks. JList (map JStr (sorted_set ks))) in
      JObj [(''added'', texts (filter (\<lambda>k. k \<notin> set l) r)),
        (''changed'', texts (filter (\<lambda>k. k \<in> set r \<and> \<not> py_eq (dict_or left k JNull) (dict_or right k JNull)) l)),
        (''removed'', texts (filter (\<lambda>k. k \<notin> set r) l))])"

definition packages_by_id :: "json \<Rightarrow> (string, json) dict" where
  "packages_by_id lock = map (\<lambda>p. (item_id p, p)) (lock_packages lock)"

definition schemas_by_path :: "json \<Rightarrow> (string, json) dict" where
  "schemas_by_path lock =
     map (\<lambda>i. (as_str (fld i ''path''), fld i ''sha256'')) (as_list (fld (fld lock ''schema_inventory'') ''files''))"

definition providers_of_lock :: "json \<Rightarrow> (string, json) dict" where
  "providers_of_lock lock = as_dict (fld lock ''capability_providers'')"

definition lock_permissions :: "json \<Rightarrow> string list" where
  "lock_permissions lock = map as_str (as_list (fld lock ''permission_profiles''))"

definition permission_changes :: "json \<Rightarrow> json \<Rightarrow> json" where
  "permission_changes before_lock after_lock =
     (let l = lock_permissions before_lock; r = lock_permissions after_lock;
          lc = providers_of_lock before_lock; rc = providers_of_lock after_lock;
          texts = (\<lambda>ks. JList (map JStr (sorted_set ks))) in
      JObj [(''added'', texts (filter (\<lambda>k. k \<notin> set l) r)),
        (''changed_capabilities'', texts (filter (\<lambda>k. k \<in> fst ` set rc \<and>
           \<not> py_eq (fld (dict_or lc k JNull) ''permission_profile'') (fld (dict_or rc k JNull) ''permission_profile'')) (map fst lc))),
        (''removed'', texts (filter (\<lambda>k. k \<notin> set r) l))])"

definition diff_body :: "json \<Rightarrow> json \<Rightarrow> (string \<times> json) list" where
  "diff_body before_lock after_lock =
     [(''bindings'', key_changes (providers_of_lock before_lock) (providers_of_lock after_lock)),
      (''from_lock_hash'', fld before_lock ''fingerprint''),
      (''packages'', key_changes (packages_by_id before_lock) (packages_by_id after_lock)),
      (''permissions'', permission_changes before_lock after_lock), (''schema_version'', JStr ''1.0''),
      (''schemas'', key_changes (schemas_by_path before_lock) (schemas_by_path after_lock)),
      (''selection_changed'', JBool (\<not> py_eq (fld before_lock ''selection'') (fld after_lock ''selection''))),
      (''to_lock_hash'', fld after_lock ''fingerprint''),
      (''status'', JStr (if fld before_lock ''fingerprint'' = fld after_lock ''fingerprint'' then ''unchanged'' else ''changed''))]"

definition diff_package_locks :: "world \<Rightarrow> (string \<Rightarrow> bool) \<Rightarrow> json \<Rightarrow> json \<Rightarrow> json result" where
  "diff_package_locks w host_ok before_lock after_lock =
     seqE (validate_package_lock w host_ok before_lock)
     (seqE (validate_package_lock w host_ok after_lock)
     (let body = diff_body before_lock after_lock in
      bindE (sha256 w (JObj body)) (\<lambda>h. Inr (JObj (body @ [(''fingerprint'', JStr h)])))))"

definition explain_package_lock :: "world \<Rightarrow> (string \<Rightarrow> bool) \<Rightarrow> json \<Rightarrow> json result" where
  "explain_package_lock w host_ok value =
     (let n = (\<lambda>xs. JInt (int (length xs))) in
      seqE (validate_package_lock w host_ok value)
      (Inr (JObj [(''binding_count'', JInt (int (length (providers_of_lock value)))),
        (''core_version'', fld (fld value ''core'') ''runtime_version''), (''lock_hash'', fld value ''fingerprint''),
        (''package_count'', n (lock_packages value)),
        (''packages'', JList (map (\<lambda>p. JObj [(''id'', fld p ''id''), (''kind'', fld p ''kind''),
           (''source'', fld (fld p ''source'') ''uri''), (''version'', fld p ''version'')]) (lock_packages value))),
        (''permission_profiles'', fld value ''permission_profiles''),
        (''schema_count'', n (as_list (fld (fld value ''schema_inventory'') ''files''))), (''schema_version'', JStr ''1.0''),
        (''selection'', fld value ''selection''), (''status'', JStr ''locked'')])))"

section \<open>A plan and its lock\<close>

text \<open>\<open>providers.get(capability)\<close>\<close>

definition locked_provider :: "json \<Rightarrow> json \<Rightarrow> json option result" where
  "locked_provider lock capability =
     (if \<not> hashable capability then Inl (TypeError ''unhashable type'')
      else Inr (if is_str capability then dict_get (providers_of_lock lock) (as_str capability) else None))"

definition expected_manifest :: "json \<Rightarrow> json" where
  "expected_manifest package =
     (if truthy (fld package ''provider_manifest_sha256'') then fld package ''provider_manifest_sha256''
      else fld package ''manifest_sha256'')"

definition check_locked_node :: "json \<Rightarrow> json \<Rightarrow> unit result" where
  "check_locked_node lock node =
     (if fld node ''provider'' = JNull then Inr ()
      else bindE (locked_provider lock (fld node ''capability'')) (\<lambda>found.
        case found of
          None \<Rightarrow> Inl (ContractError ''workflow capability is not frozen by package lock'')
        | Some locked \<Rightarrow>
            let package = item_of (lock_packages lock) (as_str (fld locked ''package'')); given = fld node ''provider_manifest_digest'' in
            seqE (reject_if (\<not> py_eq (fld node ''binding'') (fld locked ''binding''))
              (ContractError ''workflow binding differs from package lock''))
            (seqE (reject_if (\<not> py_eq (fld node ''permission_profile'') (fld locked ''permission_profile''))
              (ContractError ''workflow permission differs from package lock''))
            (reject_if (given \<noteq> JNull \<and> \<not> py_eq given (expected_manifest package))
              (ContractError ''workflow provider manifest differs from package lock'')))))"

definition validate_plan_package_lock :: "world \<Rightarrow> (string \<Rightarrow> bool) \<Rightarrow> json \<Rightarrow> json \<Rightarrow> unit result" where
  "validate_plan_package_lock w host_ok plan lock =
     seqE (validate_workflow_plan w plan)
     (seqE (validate_package_lock w host_ok lock)
     (seqE (reject_if (fld plan ''package_lock_hash'' \<noteq> fld lock ''fingerprint'')
       (ContractError ''workflow plan package lock hash does not match Lockfile''))
     (for_each (check_locked_node lock) (as_list (fld_or plan ''nodes'' (JList []))))))"

text \<open>The lock checks the plan compiler calls.\<close>

definition package_lock_checks :: "world \<Rightarrow> (string \<Rightarrow> bool) \<Rightarrow> lock_checks" where
  "package_lock_checks w host_ok =
     \<lparr>package_lock_ok = validate_package_lock w host_ok, plan_lock_ok = validate_plan_package_lock w host_ok\<rparr>"

end
