(* ===== verification/LockFacts.thy ===== *)
theory LockFacts
  imports LockOps
begin

text \<open>
  What the lock validator guarantees: distinct packages led by the core, a dependency graph over them without a
  cycle, and no package outside the closure of the selection. What a resolved lock and a plan checked against a lock
  inherit from it.
\<close>

definition lock_ids :: "json \<Rightarrow> string list" where
  "lock_ids lock = package_ids (lock_packages lock)"

definition lock_edges :: "json \<Rightarrow> edges" where
  "lock_edges lock = map dependency_edge (as_list (fld lock ''dependencies''))"

definition lock_selected :: "json \<Rightarrow> string list" where
  "lock_selected lock = ''core'' # selected_packages (fld lock ''selection'')"

lemma validate_package_lock_D:
  assumes "validate_package_lock w h v = Inr ()"
  shows "check_lock_identity v = Inr ()" "check_packages h (fld v ''core'') (fld v ''packages'') = Inr ()"
    "check_inventory w (fld v ''schema_inventory'') = Inr ()"
    "check_selection (lock_ids v) (fld v ''selection'') = Inr ()" "check_text_lists v = Inr ()"
    "check_providers w v (lock_packages v) = Inr ()" "check_dependencies v (lock_packages v) = Inr ()"
    "check_lock_tail w v = Inr ()"
  using assms by (simp_all add: validate_package_lock_def seqE_eq_Inr lock_ids_def)

lemma check_packages_D:
  assumes "check_packages h core v = Inr ()"
  shows "\<forall>p \<in> set (as_list v). check_lock_package h core p = Inr ()"
    "as_list v \<noteq> []" "hd (package_ids (as_list v)) = ''core''" "distinct (package_ids (as_list v))"
  using assms by (simp_all add: check_packages_def Let_def seqE_eq_Inr for_each_eq_Inr)

lemma check_lock_package_id:
  assumes "check_lock_package h core p = Inr ()"
  shows "fld p ''id'' = JStr (as_str (fld p ''id''))" "is_safe_id (as_str (fld p ''id''))"
  using assms by (auto simp: check_lock_package_def Let_def seqE_eq_Inr is_str_iff)

lemma package_of_in:
  assumes "\<forall>p \<in> set ps. fld p ''id'' = JStr (as_str (fld p ''id''))" and "i \<in> set (package_ids ps)"
  shows "package_of ps i \<in> set ps" and "fld (package_of ps i) ''id'' = JStr i"
proof -
  from assms obtain p where "p \<in> set ps" "fld p ''id'' = JStr i" by (force simp: package_ids_def)
  then have "find (\<lambda>p. fld p ''id'' = JStr i) ps \<noteq> None" by (auto simp: find_None_iff)
  then obtain q where q: "find (\<lambda>p. fld p ''id'' = JStr i) ps = Some q" by blast
  then have "q \<in> set ps \<and> fld q ''id'' = JStr i" by (auto simp: find_Some_iff)
  with q show "package_of ps i \<in> set ps" "fld (package_of ps i) ''id'' = JStr i" by (simp_all add: package_of_def)
qed

lemma item_of_is_package_of: "item_of = package_of"
  by (intro ext) (simp add: item_of_def package_of_def)

section \<open>The dependency graph\<close>

lemma check_dependency_D:
  assumes "check_dependency ps d = Inr ()"
  shows "fst (dependency_edge d) \<in> set (package_ids ps)" "snd (dependency_edge d) \<in> set (package_ids ps)"
    "satisfies (fld (package_of ps (snd (dependency_edge d))) ''version'') (fld d ''version'') = Inr True"
  using assms
  by (auto simp: check_dependency_def Let_def seqE_eq_Inr reject_when_eq_Inr orE_eq_False mapR_eq_Inr split: prod.splits)

lemma check_dependencies_D:
  assumes "check_dependencies v ps = Inr ()"
  shows "\<forall>d \<in> set (as_list (fld v ''dependencies'')). check_dependency ps d = Inr ()"
    "check_dependency_graph (package_ids ps) (selected_packages (fld v ''selection'')) (lock_edges v) = Inr ()"
    "check_selection_kinds ps (fld v ''selection'') = Inr ()"
  using assms by (simp_all add: check_dependencies_def Let_def seqE_eq_Inr for_each_eq_Inr lock_edges_def)

lemma lock_edges_within:
  assumes "check_dependencies v ps = Inr ()"
  shows "edges_within (package_ids ps) (lock_edges v)"
  using check_dependencies_D(1) [OF assms] check_dependency_D(1,2)
  by (fastforce simp: edges_within_def lock_edges_def)

lemma check_dependency_graph_D:
  assumes "check_dependency_graph ids sel es = Inr ()" and "distinct ids" and "edges_within ids es"
  shows "acyclic (set es)" and "set ids = (set es)\<^sup>* `` set (''core'' # sel)"
    and "\<exists>xs. topological ids es xs"
proof -
  obtain xs where xs: "stack_sort ids es = Inr xs" "length xs = length ids"
    and closed: "set (closure es (''core'' # sel)) = set ids"
    using assms(1) by (auto simp: check_dependency_graph_def seqE_eq_Inr bindE_eq_Inr)
  show a: "acyclic (set es)" using stack_sort_complete(1) [OF assms(2,3) xs(1)] xs(2) by blast
  show "\<exists>xs. topological ids es xs" using stack_sort_complete(2) [OF assms(2,3) xs(1) a] by blast
  show "set ids = (set es)\<^sup>* `` set (''core'' # sel)" using closed by (simp only: closure_reachable)
qed

lemma lock_graph:
  assumes "validate_package_lock w h v = Inr ()"
  shows "distinct (lock_ids v)" "hd (lock_ids v) = ''core''" "acyclic (set (lock_edges v))"
    "set (lock_ids v) = (set (lock_edges v))\<^sup>* `` set (lock_selected v)"
    "\<exists>xs. topological (lock_ids v) (lock_edges v) xs"
proof -
  note D = validate_package_lock_D [OF assms]
  show d: "distinct (lock_ids v)" and "hd (lock_ids v) = ''core''"
    using check_packages_D(3,4) [OF D(2)] by (simp_all add: lock_ids_def lock_packages_def)
  note graph = check_dependency_graph_D [OF check_dependencies_D(2) [OF D(7)] d [unfolded lock_ids_def] lock_edges_within [OF D(7)]]
  show "acyclic (set (lock_edges v))" "set (lock_ids v) = (set (lock_edges v))\<^sup>* `` set (lock_selected v)"
    "\<exists>xs. topological (lock_ids v) (lock_edges v) xs"
    using graph by (simp_all add: lock_ids_def lock_selected_def)
qed

section \<open>Identity\<close>

lemma lock_fingerprint:
  assumes "validate_package_lock w h v = Inr ()"
  shows "\<exists>s. sha256 w (without_keys [''fingerprint''] v) = Inr s \<and> fld v ''fingerprint'' = JStr s"
  using validate_package_lock_D(8) [OF assms]
  by (auto simp: check_lock_tail_def Let_def seqE_eq_Inr bindE_eq_Inr)

section \<open>Plans frozen by a lock\<close>

text \<open>The lock has the capability of a node with the same binding and permission, from a package of the lock.\<close>

definition frozen_by :: "json \<Rightarrow> json \<Rightarrow> bool" where
  "frozen_by lock node \<longleftrightarrow>
     (\<exists>locked. is_str (fld node ''capability'') \<and>
        dict_get (providers_of_lock lock) (as_str (fld node ''capability'')) = Some locked \<and>
        py_eq (fld node ''binding'') (fld locked ''binding'') \<and>
        py_eq (fld node ''permission_profile'') (fld locked ''permission_profile'') \<and>
        fld locked ''package'' \<in> JStr ` set (lock_ids lock))"

lemma lock_provider_package:
  assumes "check_providers w v (lock_packages v) = Inr ()" and "dict_get (providers_of_lock v) c = Some p"
  shows "fld p ''package'' \<in> JStr ` set (lock_ids v)" and "fld p ''permission_profile'' \<in> set (as_list (fld v ''permission_profiles''))"
proof -
  have "(c, p) \<in> set (as_dict (fld v ''capability_providers''))"
    using assms(2) by (auto simp: providers_of_lock_def dest: dict_get_SomeD)
  with assms(1) have "check_lock_provider (lock_packages v) (fld v ''permission_profiles'') (c, p) = Inr ()"
    unfolding check_providers_def Let_def by (simp add: seqE_eq_Inr for_each_eq_Inr)
  then show "fld p ''package'' \<in> JStr ` set (lock_ids v)" "fld p ''permission_profile'' \<in> set (as_list (fld v ''permission_profiles''))"
    by (auto simp: check_lock_provider_def Let_def seqE_eq_Inr lock_ids_def is_str_iff)
qed

lemma checked_node_frozen:
  assumes "check_locked_node lock node = Inr ()" and "fld node ''provider'' \<noteq> JNull"
    and "check_providers w lock (lock_packages lock) = Inr ()"
  shows "frozen_by lock node"
proof -
  obtain locked where "locked_provider lock (fld node ''capability'') = Inr (Some locked)"
      "py_eq (fld node ''binding'') (fld locked ''binding'')"
      "py_eq (fld node ''permission_profile'') (fld locked ''permission_profile'')"
    using assms(1,2) by (auto simp: check_locked_node_def bindE_eq_Inr seqE_eq_Inr Let_def split: option.splits)
  moreover from this(1) have "is_str (fld node ''capability'')"
      "dict_get (providers_of_lock lock) (as_str (fld node ''capability'')) = Some locked"
    by (auto simp: locked_provider_def split: if_splits)
  ultimately show ?thesis using lock_provider_package(1) [OF assms(3)] by (auto simp: frozen_by_def)
qed

section \<open>Resolution\<close>

lemma resolve_package_lock_D:
  assumes "resolve_package_lock w fs h plan inp = Inr lock"
  shows "validate_install_plan w plan = Inr ()" "validate_package_lock w h lock = Inr ()"
    "\<exists>packages. mapE (resolve_lock_package w fs h inp (as_list (fld plan ''packages''))) (as_list (fld plan ''selected_packages'')) =
        Inr packages \<and> lock_packages lock = packages"
    "fld lock ''dependencies'' = fld plan ''resolved_dependencies''"
    "fld lock ''lineage'' = JObj [(''previous_lock_hash'', previous_hash inp)]"
    "\<exists>s. install_plan_identity_hash w plan = Inr s \<and> fld lock ''install_plan_identity_hash'' = JStr s"
  using assms
  by (auto simp: resolve_package_lock_def check_lock_inputs_def Let_def seqE_eq_Inr bindE_eq_Inr lock_body_def fld_def lock_packages_def)

lemma resolve_lock_package_id:
  assumes "resolve_lock_package w fs h inp ps sel = Inr p"
  shows "fld p ''id'' = JStr (item_id sel)" "fld p ''version'' = fld sel ''version''" "fld p ''kind'' = fld sel ''kind''"
  using assms by (auto simp: resolve_lock_package_def Let_def seqE_eq_Inr bindE_eq_Inr fld_def)

lemma resolved_ids:
  assumes "mapE (resolve_lock_package w fs h inp ps) sels = Inr packages"
  shows "package_ids packages = map item_id sels"
  using assms
proof (induction sels arbitrary: packages)
  case (Cons s sels)
  then show ?case by (auto simp: bindE_eq_Inr package_ids_def dest: resolve_lock_package_id(1))
qed (simp add: package_ids_def)

end
