(* ===== verification/InstallFacts.thy ===== *)
theory InstallFacts
  imports InstallPlan
begin

text \<open>
  What the validator of install plans guarantees about dependencies: edges run from later packages to earlier ones
  whose version satisfies the constraint, and every package is the core, selected explicitly, or needed by one that is.
\<close>

definition plan_packages :: "json \<Rightarrow> json list" where
  "plan_packages plan = as_list (fld plan ''packages'')"

definition plan_package_ids :: "json \<Rightarrow> string list" where
  "plan_package_ids plan = map item_id (plan_packages plan)"

definition plan_dependencies :: "json \<Rightarrow> json list" where
  "plan_dependencies plan = as_list (fld plan ''resolved_dependencies'')"

definition required_edges :: "json list \<Rightarrow> (string \<times> string) set" where
  "required_edges ds = dependency_edge ` {d \<in> set ds. fld d ''requirement'' = JStr ''required''}"

text \<open>The packages a plan names itself.\<close>

definition plan_selection :: "json \<Rightarrow> string set" where
  "plan_selection plan = insert ''core'' (\<Union>f \<in> {''selected_platforms'', ''selected_disciplines'', ''selected_runtime_configs''}.
     as_str ` set (as_list (fld plan f)))"

section \<open>Dependencies\<close>

definition dependency_holds :: "string list \<Rightarrow> json list \<Rightarrow> json \<Rightarrow> bool" where
  "dependency_holds ids items d \<longleftrightarrow>
     fst (dependency_edge d) \<in> set ids \<and> snd (dependency_edge d) \<in> set ids \<and>
     position ids (snd (dependency_edge d)) < position ids (fst (dependency_edge d)) \<and>
     install_version_satisfies (fld (item_of items (snd (dependency_edge d))) ''version'') (fld d ''version'') = Inr True"

lemma not_in_strings_False: "not_in_strings v ss = Inr False \<longleftrightarrow> (\<exists>s \<in> set ss. v = JStr s)"
  by (auto simp: not_in_strings_def in_strings_def hashable_def mapR_eq_Inr)

lemma bad_dependency_False:
  assumes "bad_dependency ids d = Inr False"
  shows "fst (dependency_edge d) \<in> set ids" "snd (dependency_edge d) \<in> set ids"
    "\<exists>s \<in> set [''required'', ''optional'']. fld d ''requirement'' = JStr s"
  using assms unfolding bad_dependency_def orE_eq_False not_in_strings_False by (auto simp: dependency_edge_def)

lemma required_edges_single: "required_edges [d] = (if fld d ''requirement'' = JStr ''required'' then {dependency_edge d} else {})"
  by (auto simp: required_edges_def)

lemma check_install_dependency_D:
  assumes "check_install_dependency ids items seen d = Inr seen'"
  shows "dependency_holds ids items d" "fst seen' = dependency_edge d # fst seen" "dependency_edge d \<notin> set (fst seen)"
    "set (snd seen') = set (snd seen) \<union> required_edges [d]"
proof -
  have bad: "bad_dependency ids d = Inr False"
    and rest: "dependency_edge d \<notin> set (fst seen)" "\<not> position ids (fst (dependency_edge d)) \<le> position ids (snd (dependency_edge d))"
    and version: "mapR Not (install_version_satisfies (fld (item_of items (snd (dependency_edge d))) ''version'') (fld d ''version'')) = Inr False"
    and seen': "seen' = (dependency_edge d # fst seen,
      if fld d ''requirement'' = JStr ''required'' then dependency_edge d # snd seen else snd seen)"
    using assms by (simp_all add: check_install_dependency_def Let_def seqE_eq_Inr reject_when_eq_Inr)
  show "dependency_holds ids items d"
    using bad_dependency_False(1,2) [OF bad] rest(2) version by (auto simp: dependency_holds_def mapR_eq_Inr)
  show "fst seen' = dependency_edge d # fst seen" "dependency_edge d \<notin> set (fst seen)"
    "set (snd seen') = set (snd seen) \<union> required_edges [d]"
    using seen' rest(1) by (simp_all add: required_edges_single)
qed

lemma required_edges_Cons: "required_edges (d # ds) = required_edges [d] \<union> required_edges ds"
  by (auto simp: required_edges_def)

lemma check_dependency_loop:
  assumes "foldE (check_install_dependency ids items) seen ds = Inr seen'"
  shows "(\<forall>d \<in> set ds. dependency_holds ids items d) \<and>
    fst seen' = rev (map dependency_edge ds) @ fst seen \<and> (distinct (fst seen) \<longrightarrow> distinct (fst seen')) \<and>
    set (snd seen') = set (snd seen) \<union> required_edges ds"
  using assms
proof (induction ds arbitrary: seen)
  case (Cons d ds)
  then obtain s where s: "check_install_dependency ids items seen d = Inr s"
      "foldE (check_install_dependency ids items) s ds = Inr seen'"
    by (auto simp: bindE_eq_Inr)
  note D = check_install_dependency_D [OF s(1)]
  have IH: "\<forall>d \<in> set ds. dependency_holds ids items d" "fst seen' = rev (map dependency_edge ds) @ fst s"
    "distinct (fst s) \<longrightarrow> distinct (fst seen')" "set (snd seen') = set (snd s) \<union> required_edges ds"
    using Cons.IH [OF s(2)] by blast+
  show ?case
  proof (intro conjI impI)
    show "\<forall>d \<in> set (d # ds). dependency_holds ids items d" using IH(1) D(1) by simp
    show "fst seen' = rev (map dependency_edge (d # ds)) @ fst seen" using IH(2) D(2) by simp
    show "distinct (fst seen')" if "distinct (fst seen)" using IH(3) D(2,3) that by simp
    show "set (snd seen') = set (snd seen) \<union> required_edges (d # ds)"
      using IH(4) D(4) required_edges_Cons [of d ds] by (simp add: Un_assoc)
  qed
qed (simp add: required_edges_def)

lemma check_install_dependencies_D:
  assumes "check_install_dependencies plan ids items = Inr ()"
  shows "\<forall>d \<in> set (plan_dependencies plan). dependency_holds ids items d"
    "distinct (map dependency_edge (plan_dependencies plan))"
    "items \<noteq> [] \<Longrightarrow> \<exists>required. check_reasons items required = Inr () \<and> set required = required_edges (plan_dependencies plan)"
proof -
  have list: "as_list (fld_or plan ''resolved_dependencies'' (JList [])) = plan_dependencies plan"
    by (simp add: plan_dependencies_def fld_or_def fld_def split: option.splits)
  then obtain st where st: "foldE (check_install_dependency ids items) ([], []) (plan_dependencies plan) = Inr st"
    and reasons: "items \<noteq> [] \<Longrightarrow> check_reasons items (snd st) = Inr ()"
    using assms by (auto simp: check_install_dependencies_def Let_def seqE_eq_Inr bindE_eq_Inr split: prod.splits if_splits)
  note L = check_dependency_loop [OF st]
  show "\<forall>d \<in> set (plan_dependencies plan). dependency_holds ids items d" using L by blast
  show "distinct (map dependency_edge (plan_dependencies plan))" using L by auto
  show "\<exists>required. check_reasons items required = Inr () \<and> set required = required_edges (plan_dependencies plan)" if "items \<noteq> []"
    using reasons [OF that] L by (intro exI [of _ "snd st"]) simp
qed

lemma ordered_edges_acyclic:
  assumes "\<forall>d \<in> set ds. dependency_holds ids items d"
  shows "acyclic (set (map dependency_edge ds))"
proof (rule acyclic_subset)
  show "acyclic ((measure (\<lambda>i. nat (position ids i)))\<inverse>)" by (simp add: wf_acyclic acyclic_converse)
  have "(fst (dependency_edge d), snd (dependency_edge d)) \<in> (measure (\<lambda>i. nat (position ids i)))\<inverse>" if "d \<in> set ds" for d
    using assms that by (cases "dependency_edge d") (auto simp: dependency_holds_def position_def)
  then show "set (map dependency_edge ds) \<subseteq> (measure (\<lambda>i. nat (position ids i)))\<inverse>"
    by (simp only: set_map prod.collapse) blast
qed

section \<open>Reasons\<close>

lemma check_reasons_D:
  assumes "check_reasons items required = Inr ()"
  shows "\<forall>item \<in> set (drop 1 items). set (reasons_of item) \<subseteq> set (allowed_reasons required (item_id item))"
    "\<forall>e \<in> set required. ''dependency:'' @ fst e \<in> set (reasons_of (item_of items (snd e)))"
  using assms by (simp_all add: check_reasons_def seqE_eq_Inr for_each_eq_Inr)

lemma check_selected_package_reasons:
  assumes "check_selected_package plan item = Inr ()"
  shows "reasons_of item \<noteq> []"
proof -
  have "orE (not_in_strings (fld item ''kind'') package_kinds)
      (Inr (\<not> is_full_version (fld item ''version'') \<or> \<not> unique_str_list (fld item ''selection_reasons'') \<or>
        as_list (fld item ''selection_reasons'') = [])) = Inr False"
    using assms by (simp add: check_selected_package_def Let_def seqE_eq_Inr reject_when_eq_Inr)
  then show ?thesis by (simp add: orE_eq_False reasons_of_def)
qed

lemma explicit_idsI:
  "item \<in> set items \<Longrightarrow> prefix @ '':'' @ item_id item \<in> set (reasons_of item) \<Longrightarrow> item_id item \<in> set (explicit_ids prefix items)"
  by (auto simp: explicit_ids_def)

lemma check_explicit_D:
  assumes "check_explicit plan items = Inr ()" and "(kind, f, name) \<in> set selection_kinds"
    and "i \<in> set (explicit_ids kind items)"
  shows "i \<in> as_str ` set (as_list (fld plan f))"
proof -
  have "JStr ` set (explicit_ids kind items) = set (as_list (fld_or plan f (JList [])))"
  proof -
    have "\<forall>x \<in> set selection_kinds. (case x of (kind, f, name) \<Rightarrow>
        reject_if (JStr ` set (explicit_ids kind items) \<noteq> set (as_list (fld_or plan f (JList []))))
          (install_error (''selected '' @ name @ ''s differ from package reasons''))) = Inr ()"
      using assms(1) unfolding check_explicit_def seqE_eq_Inr for_each_eq_Inr by (rule conjunct1)
    from bspec [OF this assms(2)] show ?thesis by (simp only: prod.case reject_if_eq_Inr not_not)
  qed
  moreover have "as_list (fld_or plan f (JList [])) = as_list (fld plan f)"
    by (simp add: fld_or_def fld_def split: option.splits)
  moreover have "JStr i \<in> JStr ` set (explicit_ids kind items)" using assms(3) by (rule imageI)
  ultimately have "JStr i \<in> set (as_list (fld plan f))" by (simp only:)
  then have "as_str (JStr i) \<in> as_str ` set (as_list (fld plan f))" by (rule imageI)
  then show ?thesis by (simp only: as_str.simps)
qed

lemma explicit_in_selection:
  assumes "check_explicit plan items = Inr ()" and "kind \<in> {''platform'', ''discipline'', ''runtime-config''}"
    and "i \<in> set (explicit_ids kind items)"
  shows "i \<in> plan_selection plan"
proof -
  obtain f name where f: "(kind, f, name) \<in> set selection_kinds" "f \<in> {''selected_platforms'', ''selected_disciplines'', ''selected_runtime_configs''}"
    using assms(2) by (auto simp: selection_kinds_def)
  show ?thesis using check_explicit_D [OF assms(1) f(1) assms(3)] f(2) unfolding plan_selection_def by blast
qed

lemma allowed_reasons_cases:
  assumes "r \<in> set (allowed_reasons required i)"
  shows "(\<exists>kind \<in> {''platform'', ''discipline'', ''runtime-config''}. r = kind @ '':'' @ i) \<or> (\<exists>c. (c, i) \<in> set required)"
proof -
  have "r = ''platform:'' @ i \<or> r = ''discipline:'' @ i \<or> r = ''runtime-config:'' @ i \<or>
      r \<in> (\<lambda>e. ''dependency:'' @ fst e) ` {e \<in> set required. snd e = i}"
    using assms by (simp only: allowed_reasons_def set_append set_map set_filter Un_iff list.set insert_iff empty_iff) blast
  moreover have "\<exists>c. (c, i) \<in> set required" if dep: "r \<in> (\<lambda>e. ''dependency:'' @ fst e) ` {e \<in> set required. snd e = i}"
  proof -
    obtain e where "e \<in> set required" "snd e = i" using dep by blast
    then show ?thesis by (metis prod.collapse)
  qed
  ultimately show ?thesis by (elim disjE) simp_all
qed

text \<open>Each package that is not the core has a reason that leads back to the selection.\<close>

lemma package_justified:
  assumes "check_explicit plan items = Inr ()" and "check_reasons items required = Inr ()"
    and "item \<in> set (drop 1 items)" and "reasons_of item \<noteq> []"
  shows "item_id item \<in> plan_selection plan \<or> (\<exists>c. (c, item_id item) \<in> set required)"
proof -
  obtain r where r: "r \<in> set (reasons_of item)" using assms(4) by (cases "reasons_of item") auto
  have item: "item \<in> set items" using assms(3) by (rule in_set_dropD)
  from r have "r \<in> set (allowed_reasons required (item_id item))" using check_reasons_D(1) [OF assms(2)] assms(3) by blast
  from allowed_reasons_cases [OF this] show ?thesis using explicit_in_selection [OF assms(1)] explicit_idsI [OF item] r by blast
qed

lemma position_less: "i \<in> set ids \<Longrightarrow> position ids i < int (length ids)"
  by (induction ids) (auto simp: position_def)

lemma packages_in_closure:
  assumes edges: "\<And>c i. (c, i) \<in> R \<Longrightarrow> c \<in> set ids \<and> position ids i < position ids c"
    and justified: "\<And>i. i \<in> set ids \<Longrightarrow> i \<in> S \<or> (\<exists>c. (c, i) \<in> R)"
  shows "set ids \<subseteq> R\<^sup>* `` S"
proof
  fix i
  assume "i \<in> set ids"
  then show "i \<in> R\<^sup>* `` S"
  proof (induction "nat (int (length ids) - position ids i)" arbitrary: i rule: less_induct)
    case less
    show ?case
    proof (cases "i \<in> S")
      case False
      then obtain c where c: "(c, i) \<in> R" using justified less.prems by blast
      then have "c \<in> set ids" "position ids i < position ids c" using edges by blast+
      then have "c \<in> R\<^sup>* `` S" using less.hyps [of c] position_less [of c ids] by simp
      with c show ?thesis by (blast intro: rtrancl_into_rtrancl)
    qed blast
  qed
qed

section \<open>The plan\<close>

lemma named_items_names:
  assumes "check_names ps ''id'' what = Inr ()"
  shows "named_items ps ''id'' = map JStr (map item_id ps)" "distinct (map item_id ps)"
proof -
  have len: "length (filter is_obj ps) = length ps" and str: "\<forall>n \<in> set (named_items ps ''id''). is_str n"
    and d: "distinct (named_items ps ''id'')"
    using assms by (auto simp: check_names_def Let_def named_items_def list_ex_iff)
  have "filter is_obj ps = ps" using len by (metis filter_id_conv length_filter_less less_irrefl)
  then have n: "named_items ps ''id'' = map (\<lambda>p. fld p ''id'') ps" by (simp add: named_items_def)
  with str show "named_items ps ''id'' = map JStr (map item_id ps)" by (force simp: item_id_def is_str_iff)
  with d show "distinct (map item_id ps)" by (metis distinct_map)
qed

lemma iterate_as_list: "iterate v = Inr xs \<Longrightarrow> xs \<noteq> [] \<Longrightarrow> is_obj (hd xs) \<Longrightarrow> xs = as_list v"
  by (cases v; cases xs) (auto simp: Cons_eq_map_conv)

text \<open>The parts of an accepted plan with dependency metadata.\<close>

lemma validate_install_plan_D:
  assumes "validate_install_plan w plan = Inr ()" and "has_key plan ''selected_packages''"
  obtains packages items where "iterate (fld plan ''packages'') = Inr packages" "iterate (fld plan ''selected_packages'') = Inr items"
    "check_names packages ''id'' ''package ids'' = Inr ()"
    "check_selected_packages plan (named_items packages ''id'') items = Inr ()"
    "check_install_dependencies plan (map item_id packages) items = Inr ()" "items \<noteq> []"
proof -
  have sel: "fld_or plan ''selected_packages'' (JList []) = fld plan ''selected_packages''"
    using assms(2) by (auto simp: has_key_def fld_or_def fld_def)
  have key: "list_ex (has_key plan) dependency_metadata" using assms(2) by (simp add: dependency_metadata_def)
  obtain packages skills items where p: "iterate (fld plan ''packages'') = Inr packages" "check_names packages ''id'' ''package ids'' = Inr ()"
    and i: "iterate (fld plan ''selected_packages'') = Inr items" and t: "truthy (fld plan ''selected_packages'')"
    and s: "check_selected_packages plan (named_items packages ''id'') items = Inr ()"
    and c: "check_install_content w plan packages skills items = Inr ()"
    using assms(1) by (auto simp: validate_install_plan_def Let_def seqE_eq_Inr bindE_eq_Inr sel key)
  have "check_install_dependencies plan (map item_id packages) items = Inr ()"
    using c by (simp add: check_install_content_def Let_def seqE_eq_Inr)
  moreover have "items \<noteq> []" using s by (auto simp: check_selected_packages_def named_items_def seqE_eq_Inr)
  ultimately show ?thesis using that p i s by blast
qed

lemma check_selected_packages_D:
  assumes "check_selected_packages plan ids items = Inr ()"
  shows "named_items items ''id'' = ids" "ids \<noteq> []" "hd ids = JStr ''core''"
    "\<forall>item \<in> set items. check_selected_package plan item = Inr ()" "check_explicit plan items = Inr ()"
  using assms by (auto simp: check_selected_packages_def Let_def seqE_eq_Inr for_each_eq_Inr split: list.splits)

lemma check_selected_package_obj: "check_selected_package plan item = Inr () \<Longrightarrow> is_obj item"
  by (cases item) (auto simp: check_selected_package_def require_fields_def keys_of_def seqE_eq_Inr bindE_eq_Inr)

lemma named_items_objects: "\<forall>i \<in> set items. is_obj i \<Longrightarrow> named_items items key = map (\<lambda>i. fld i key) items"
  by (simp add: named_items_def)

lemma accepted_plan_parts:
  assumes "validate_install_plan w plan = Inr ()" and "has_key plan ''selected_packages''"
  obtains items where "items = as_list (fld plan ''selected_packages'')" "map item_id items = plan_package_ids plan"
    "distinct (plan_package_ids plan)" "hd items \<in> set items" "item_id (hd items) = ''core''"
    "\<forall>item \<in> set items. check_selected_package plan item = Inr ()" "check_explicit plan items = Inr ()"
    "check_install_dependencies plan (plan_package_ids plan) items = Inr ()" "items \<noteq> []"
proof -
  obtain packages items where p: "iterate (fld plan ''packages'') = Inr packages"
    and i: "iterate (fld plan ''selected_packages'') = Inr items"
    and n: "check_names packages ''id'' ''package ids'' = Inr ()"
    and s: "check_selected_packages plan (named_items packages ''id'') items = Inr ()"
    and d: "check_install_dependencies plan (map item_id packages) items = Inr ()" "items \<noteq> []"
    by (rule validate_install_plan_D [OF assms])
  note S = check_selected_packages_D [OF s] and N = named_items_names [OF n]
  have obj: "\<forall>i \<in> set items. is_obj i" using S(4) check_selected_package_obj by blast
  have items: "items = as_list (fld plan ''selected_packages'')"
    using iterate_as_list [OF i d(2)] obj d(2) by simp
  have ne: "packages \<noteq> []" using S(2) by (auto simp: named_items_def)
  have "length (filter is_obj packages) = length packages" using arg_cong [OF N(1), of length] by (simp add: named_items_def)
  then have "filter is_obj packages = packages" by (metis filter_id_conv length_filter_less less_irrefl)
  then have "is_obj (hd packages)" using ne by (metis filter_id_conv hd_in_set)
  then have ids: "plan_package_ids plan = map item_id packages"
    using iterate_as_list [OF p ne] by (simp add: plan_package_ids_def plan_packages_def)
  have "map (\<lambda>i. fld i ''id'') items = map JStr (map item_id packages)"
    using S(1) N(1) named_items_objects [OF obj] by simp
  then have "map as_str (map (\<lambda>i. fld i ''id'') items) = map as_str (map JStr (map item_id packages))" by (simp only:)
  then have same: "map item_id items = map item_id packages" by (simp add: comp_def item_id_def [abs_def])
  have "hd (map JStr (map item_id packages)) = JStr ''core''" using S(3) N(1) by simp
  then have "item_id (hd packages) = ''core''" using ne by (simp add: hd_map)
  then have "item_id (hd items) = ''core''" using same ne d(2) by (metis hd_map)
  then show ?thesis using that [OF items] same ids N(2) S(4,5) d by simp
qed

lemma core_reasons:
  assumes "validate_install_plan w plan = Inr ()" and "has_key plan ''selected_packages''"
  shows "fld (item_of (as_list (fld plan ''selected_packages'')) ''core'') ''selection_reasons'' = JList [JStr ''core'']"
proof -
  obtain packages items where i: "iterate (fld plan ''selected_packages'') = Inr items"
    and s: "check_selected_packages plan (named_items packages ''id'') items = Inr ()" and ne: "items \<noteq> []"
    by (rule validate_install_plan_D [OF assms])
  have "is_obj (hd items)" using check_selected_packages_D(4) [OF s] check_selected_package_obj ne by (meson hd_in_set)
  then have "items = as_list (fld plan ''selected_packages'')" by (rule iterate_as_list [OF i ne])
  moreover have "fld (item_of items ''core'') ''selection_reasons'' = JList [JStr ''core'']"
    using s by (simp add: check_selected_packages_def Let_def seqE_eq_Inr)
  ultimately show ?thesis by simp
qed

text \<open>Every package is reached from the selection along required dependencies.\<close>

lemma selection_closure:
  assumes "validate_install_plan w plan = Inr ()" and "has_key plan ''selected_packages''"
  shows "set (plan_package_ids plan) \<subseteq> (required_edges (plan_dependencies plan))\<^sup>* `` plan_selection plan"
proof -
  obtain items where ids: "map item_id items = plan_package_ids plan" and core: "item_id (hd items) = ''core''"
    and each: "\<forall>item \<in> set items. check_selected_package plan item = Inr ()" "check_explicit plan items = Inr ()"
    and deps: "check_install_dependencies plan (plan_package_ids plan) items = Inr ()" "items \<noteq> []"
    by (rule accepted_plan_parts [OF assms])
  note D = check_install_dependencies_D [OF deps(1)]
  obtain required where r: "check_reasons items required = Inr ()" "set required = required_edges (plan_dependencies plan)"
    using D(3) [OF deps(2)] by blast
  show ?thesis
  proof (rule packages_in_closure)
    fix i
    assume "i \<in> set (plan_package_ids plan)"
    then obtain item where item: "item \<in> set items" "i = item_id item" using ids by (metis imageE set_map)
    show "i \<in> plan_selection plan \<or> (\<exists>c. (c, i) \<in> required_edges (plan_dependencies plan))"
    proof (cases "item = hd items")
      case True
      then show ?thesis using core item(2) by (simp add: plan_selection_def)
    next
      case False
      then have "item \<in> set (drop 1 items)" using item(1) deps(2) by (cases items) auto
      then show ?thesis
        using package_justified [OF each(2) r(1)] check_selected_package_reasons each(1) item r(2) by blast
    qed
  next
    fix c i
    assume "(c, i) \<in> required_edges (plan_dependencies plan)"
    then obtain d where d: "d \<in> set (plan_dependencies plan)" "(c, i) = dependency_edge d" unfolding required_edges_def by blast
    then have "dependency_holds (plan_package_ids plan) items d" using D(1) by blast
    then show "c \<in> set (plan_package_ids plan) \<and> position (plan_package_ids plan) i < position (plan_package_ids plan) c"
      by (simp add: dependency_holds_def flip: d(2))
  qed
qed

end
