(* ===== verification/JsonFacts.thy ===== *)
theory JsonFacts
  imports CanonicalFacts PolicyFacts
begin

text \<open>
  Facts on JSON values the later theories share: fields after an update, values without repeated keys, which equal
  themselves, and values that can be hashed.
\<close>

lemma put_fld: "fld (put v k x) j = (if is_obj v \<and> j = k then x else fld v j)"
  by (cases v) (auto simp: fld_def dict_get_set)

lemma put_obj [simp]: "is_obj (put v k x) = is_obj v"
  by (cases v) simp_all

lemma put_keys: "is_obj v \<Longrightarrow> fst ` set (as_dict (put v k x)) = insert k (fst ` set (as_dict v))"
  by (cases v) (simp_all add: set_keys_dict_set)

lemma set_dict_set: "set (dict_set k x d) \<subseteq> insert (k, x) (set d)"
  by (induction d) auto

lemma put_text_dumps:
  assumes "dumps w v = Inr s" and "is_obj v"
  shows "\<exists>t. dumps w (put v k (JStr x)) = Inr t"
proof -
  obtain kvs where v: "v = JObj kvs" using assms(2) by (cases v) simp_all
  have "limits_ok v 0" "\<not> has_nonfinite v" using assms(1) by (simp_all add: dumps_eq_Inr)
  then have "limits_ok (put v k (JStr x)) 0" "\<not> has_nonfinite (put v k (JStr x))"
    using set_dict_set [of k "JStr x" kvs] by (fastforce simp: v list_ex_iff)+
  then show ?thesis by (simp add: dumps_eq_Inr)
qed

text \<open>No object repeats a key, as no dictionary does.\<close>

function unique_keys :: "json \<Rightarrow> bool" where
  "unique_keys v \<longleftrightarrow> dict_ok (as_dict v) \<and> (\<forall>x \<in> set (children v). unique_keys x)"
  by pat_completeness auto
termination
  by (relation "measure size") (auto simp: size_children)

declare unique_keys.simps [simp del]

lemma py_eq_refl:
  assumes "unique_keys v" and "\<not> has_nonfinite v"
  shows "py_eq v v"
  using assms
proof (induction v rule: unique_keys.induct)
  case (1 v)
  have each: "py_eq x x" if "x \<in> set (children v)" "\<not> has_nonfinite x" for x
    using 1 that by (auto simp: unique_keys.simps [of v])
  show ?case
  proof (cases v)
    case (JObj kvs)
    then have "dict_ok kvs" using "1.prems"(1) by (simp add: unique_keys.simps [of "JObj kvs"])
    then have "\<exists>y. dict_get kvs (fst p) = Some y \<and> py_eq (snd p) y" if "p \<in> set kvs" for p
      using each [of "snd p"] dict_get_in [of kvs "fst p" "snd p"] that "1.prems"(2) JObj by (auto simp: list_ex_iff)
    then show ?thesis by (simp add: JObj py_eq_JObj)
  next
    case (JList xs)
    then have "\<forall>x \<in> set xs. py_eq x x" using each "1.prems"(2) by (auto simp: list_ex_iff)
    then show ?thesis by (simp add: JList py_eq_JList list_all2_same)
  next
    case (JFloat f)
    then show ?thesis using "1.prems"(2) by (cases f) (simp_all add: py_eq_number)
  qed (simp_all add: py_eq_JNull py_eq_number)
qed

lemma dict_set_children: "x \<in> snd ` set (dict_set k y d) \<Longrightarrow> x = y \<or> x \<in> snd ` set d"
  using set_dict_set [of k y d] by auto

lemma unique_keys_put: "unique_keys v \<Longrightarrow> unique_keys (put v k (JStr x))"
  by (cases v) (auto simp: unique_keys.simps [of "JObj _"] unique_keys.simps [of "JStr _"] dest!: dict_set_children [OF imageI])

lemma sha256_total: "limits_ok v 0 \<Longrightarrow> \<not> has_nonfinite v \<Longrightarrow> \<exists>h. sha256 w v = Inr h"
  using dumps_eq_Inr [of w v "json_text (float_text w) v @ [CHR 0x0A]"] by (simp add: sha256_def)

lemma sha256_dumps: "dumps w v = Inr s \<Longrightarrow> sha256 w v = Inr (digest w s)"
  by (simp add: sha256_def)

end
