(* ===== verification/LockFilesFacts.thy ===== *)
theory LockFilesFacts
  imports PackageLock LockFiles JsonFacts Sample
begin

text \<open>
  What the file-system checks of \<^verbatim>\<open>package_lock.py\<close> guarantee, and where the inventory of schemas and the validator
  of locks disagree: candidates are sorted by path components, the lock wants them sorted by path text.
\<close>

section \<open>Relative sources\<close>

text \<open>The paths that joining the parts one by one goes through.\<close>

fun walked :: "path \<Rightarrow> string list \<Rightarrow> path list" where
  "walked p [] = []"
| "walked p (part # parts) = join_path p part # walked (join_path p part) parts"

text \<open>
  A recorded file lies below the folder: its path is relative and goes through directories only, none of them nor the
  file a link, and ends at a regular file with the recorded content and mode.
\<close>

definition file_matches :: "world \<Rightarrow> filesystem \<Rightarrow> path \<Rightarrow> json \<Rightarrow> bool" where
  "file_matches w fs folder entry \<longleftrightarrow>
     (let s = as_str (fld entry ''path''); trail = walked folder (path_parts s); p = last trail in
      trail \<noteq> [] \<and> \<not> has_bad_part s \<and> list_all (\<lambda>q. \<not> is_link fs q) trail \<and> list_all (is_directory fs) (butlast trail) \<and>
      is_regular fs p \<and> fld entry ''sha256'' = JStr (digest w (contents fs p)) \<and>
      py_eq (JInt (if executable fs p then 493 else 420)) (fld entry ''mode''))"

lemma walked_Nil [simp]: "walked p parts = [] \<longleftrightarrow> parts = []"
  by (cases parts) simp_all

lemma walk_file_D:
  "walk_file fs e p parts = Inr q \<Longrightarrow> list_all (\<lambda>x. \<not> is_link fs x) (walked p parts) \<and>
     list_all (is_directory fs) (butlast (walked p parts)) \<and> (parts \<noteq> [] \<longrightarrow> q = last (walked p parts))"
proof (induction parts arbitrary: p)
  case (Cons part parts)
  have "walk_file fs e (join_path p part) parts = Inr q \<and> \<not> is_link fs (join_path p part) \<and>
      (parts = [] \<or> is_directory fs (join_path p part))"
    using Cons.prems by (simp add: Let_def seqE_eq_Inr)
  then show ?case using Cons.IH [of "join_path p part"] by (cases "parts = []") auto
qed simp

lemma walk_source_eq_Inr: "walk_source fs i p part = Inr q \<longleftrightarrow> q = join_path p part \<and> \<not> is_link fs q"
  by (auto simp: walk_source_def Let_def seqE_eq_Inr)

lemma walk_source_D:
  "foldE (walk_source fs i) p parts = Inr q \<Longrightarrow> list_all (\<lambda>x. \<not> is_link fs x) (walked p parts) \<and> q = last (p # walked p parts)"
proof (induction parts arbitrary: p)
  case (Cons part parts)
  have "foldE (walk_source fs i) (join_path p part) parts = Inr q \<and> \<not> is_link fs (join_path p part)"
    using Cons.prems by (auto simp: walk_source_eq_Inr bindE_eq_Inr)
  then show ?case using Cons.IH [of "join_path p part"] by simp
qed simp

lemma source_file_D:
  assumes "source_file w fs i folder entry = Inr actual"
  shows "let s = as_str (fld entry ''path''); trail = walked folder (path_parts s); p = last trail in
    trail \<noteq> [] \<and> \<not> has_bad_part s \<and> list_all (\<lambda>q. \<not> is_link fs q) trail \<and> list_all (is_directory fs) (butlast trail) \<and>
    is_regular fs p \<and>
    actual = JObj [(''mode'', JInt (if executable fs p then 493 else 420)), (''path'', fld entry ''path''),
      (''sha256'', JStr (digest w (contents fs p)))]"
proof -
  let ?parts = "path_parts (as_str (fld entry ''path''))" and ?e = "source_error ''relative source file is missing or unsafe'' i"
  obtain p where p: "walk_file fs ?e folder ?parts = Inr p" and ne: "?parts \<noteq> []" "\<not> has_bad_part (as_str (fld entry ''path''))"
    and reg: "is_regular fs p"
    and actual: "actual = JObj [(''mode'', JInt (if executable fs p then 493 else 420)), (''path'', fld entry ''path''),
      (''sha256'', JStr (digest w (contents fs p)))]"
    using assms by (auto simp: source_file_def Let_def seqE_eq_Inr bindE_eq_Inr)
  show ?thesis using walk_file_D [OF p] ne reg actual unfolding Let_def by simp
qed

lemma py_eq_entry:
  assumes "py_eq (JObj [(''mode'', m), (''path'', q), (''sha256'', JStr h)]) entry"
  shows "fld entry ''sha256'' = JStr h" "py_eq m (fld entry ''mode'')"
  using assms by (auto simp: py_eq_JObj fld_def py_eq_JStr_iff)

lemma snapshot_files:
  assumes "mapE (source_file w fs i folder) expected = Inr actual" and "list_all2 py_eq actual expected"
  shows "\<forall>entry \<in> set expected. file_matches w fs folder entry"
  using assms
proof (induction expected arbitrary: actual)
  case (Cons e es)
  then obtain a as where a: "source_file w fs i folder e = Inr a" "mapE (source_file w fs i folder) es = Inr as" "actual = a # as"
    by (auto simp: bindE_eq_Inr)
  then have "py_eq a e" "list_all2 py_eq as es" using Cons.prems(2) by simp_all
  then have "file_matches w fs folder e"
    using source_file_D [OF a(1)] py_eq_entry by (auto simp: file_matches_def Let_def)
  then show ?case using Cons.IH [OF a(2)] \<open>list_all2 py_eq as es\<close> by simp
qed simp

lemma relative_snapshot_D:
  assumes "relative_snapshot w fs src_base uri package i = Inr ()"
  shows "let trail = walked src_base (path_parts (drop 2 uri)); folder = resolved fs (last (src_base # trail)) in
    \<not> unsafe_directory fs src_base \<and> list_all (\<lambda>p. \<not> is_link fs p) trail \<and>
    take (length (resolved fs src_base)) folder = resolved fs src_base \<and> \<not> unsafe_directory fs folder \<and>
    (\<forall>entry \<in> set (as_list (fld package ''files'')). file_matches w fs folder entry)"
proof -
  obtain lexical actual where l: "foldE (walk_source fs i) src_base (path_parts (drop 2 uri)) = Inr lexical"
    and start: "\<not> unsafe_directory fs src_base" and inside: "take (length (resolved fs src_base)) (resolved fs lexical) = resolved fs src_base"
    and safe: "\<not> unsafe_directory fs (resolved fs lexical)"
    and actual: "mapE (source_file w fs i (resolved fs lexical)) (as_list (fld package ''files'')) = Inr actual"
    and same: "py_eq (JList actual) (fld package ''files'')"
    using assms by (auto simp: relative_snapshot_def Let_def seqE_eq_Inr bindE_eq_Inr reject_when_eq_Inr orE_eq_False)
  from same have "list_all2 py_eq actual (as_list (fld package ''files''))" by (auto simp: py_eq_JList)
  then have "\<forall>entry \<in> set (as_list (fld package ''files'')). file_matches w fs (resolved fs lexical) entry"
    by (rule snapshot_files [OF actual])
  then show ?thesis using start walk_source_D [OF l] inside safe by (simp add: Let_def)
qed

section \<open>The schema inventory\<close>

text \<open>
  A slash comes after a hyphen or a full stop, so the texts of two paths whose first difference is a name against
  its extension by such a character are ordered the other way round than the paths.
\<close>

lemma join_step: "xs \<noteq> [] \<Longrightarrow> join sep (x # xs) = x @ sep @ join sep xs"
  by (cases xs) simp_all

lemma join_append: "xs \<noteq> [] \<Longrightarrow> join sep (ps @ xs) = concat (map (\<lambda>p. p @ sep) ps) @ join sep xs"
  by (induction ps) (simp_all add: join_step)

lemma append_less_cancel: "a @ b < a @ (c :: 'a::linorder list) \<longleftrightarrow> b < c"
  by (induction a) simp_all

lemma component_order: "ps @ n # xs < ps @ (n @ d # m) # (ys :: string list)"
proof -
  have "n < n @ d # m" using append_less_cancel [of n "[]" "d # m"] by simp
  then show ?thesis by (simp add: append_less_cancel)
qed

lemma text_order:
  assumes "d < CHR ''/''" and "xs \<noteq> []"
  shows "join ''/'' (ps @ (n @ d # m) # ys) < join ''/'' (ps @ n # xs)"
proof (cases ys)
  case Nil
  then show ?thesis using assms by (simp add: join_append join_step append_less_cancel)
next
  case (Cons y ys')
  then show ?thesis using assms by (simp add: join_append join_step append_less_cancel)
qed

lemma schema_entry_path: "schema_entry w fs repository p = Inr e \<Longrightarrow> fld e ''path'' = JStr (join ''/'' (drop (length repository) p))"
  by (auto simp: schema_entry_def bindE_eq_Inr seqE_eq_Inr fld_def)

lemma inventory_unsorted:
  assumes inv: "schema_inventory w fs folder = Inr v"
    and repo: "repository = (if path_name folder = ''schemas'' then butlast folder else folder)"
    and cs: "schema_candidates fs folder repository = Inr cs"
    and p: "repository @ container @ n # xs \<in> set cs" "xs \<noteq> []"
    and q: "repository @ container @ (n @ d # m) # ys \<in> set cs" "d < CHR ''/''"
  shows "\<not> is_ok (check_inventory w v)"
proof -
  obtain files where files: "mapE (schema_entry w fs repository) cs = Inr files" and v: "fld v ''files'' = JList files"
    using inv cs repo by (auto simp: schema_inventory_def Let_def seqE_eq_Inr bindE_eq_Inr fld_def)
  have sorted: "sorted cs" "distinct cs"
    using cs by (auto simp: schema_candidates_def Let_def seqE_eq_Inr bindE_eq_Inr)
  obtain i j where i: "i < length cs" "cs ! i = repository @ container @ n # xs"
      and j: "j < length cs" "cs ! j = repository @ container @ (n @ d # m) # ys"
    using p(1) q(1) by (auto simp: in_set_conv_nth)
  have "cs ! i < cs ! j" using component_order [of "repository @ container"] by (simp add: i j)
  then have ij: "i < j" using sorted(1) i(1) j(1) by (meson leD not_le_imp_less sorted_nth_mono)
  let ?paths = "map (\<lambda>i. as_str (fld i ''path'')) files"
  have path: "?paths ! k = join ''/'' (drop (length repository) (cs ! k))" if "k < length cs" for k
    using mapE_Inr_nth [OF files that] mapE_Inr_length [OF files] that schema_entry_path by simp
  have len: "length ?paths = length cs" using mapE_Inr_length [OF files] by simp
  have "?paths ! j < ?paths ! i"
    using text_order [OF q(2) p(2), of container n m ys] path [OF i(1)] path [OF j(1)] by (simp add: i(2) j(2))
  then have "\<not> sorted ?paths" using ij len j(1) by (metis leD less_imp_le sorted_nth_mono)
  then have "?paths \<noteq> sorted_set ?paths" by (simp add: sorted_set_eq_iff)
  then show ?thesis
    by (auto simp: is_ok_def check_inventory_def v Let_def seqE_eq_Inr reject_when_eq_Inr orE_eq_False split: sum.splits)
qed

text \<open>A repository whose two stacks \<open>a\<close> and \<open>a-b\<close> have one schema each.\<close>

definition schema_world :: world where
  "schema_world = sample_world\<lparr>parse_json := \<lambda>_. Inr (JObj [(''$schema'', JStr ''https://json-schema.org/draft/2020-12/schema'')])\<rparr>"

definition stack_files :: "string list \<Rightarrow> path list" where
  "stack_files names = map (\<lambda>n. [''repo'', ''stacks'', n, ''contracts'', ''x.schema.json'']) names"

definition stack_dirs :: "string list \<Rightarrow> path list" where
  "stack_dirs names = [[''repo'', ''schemas''], [''repo'', ''stacks'']] @
     concat (map (\<lambda>n. [[''repo'', ''stacks'', n], [''repo'', ''stacks'', n, ''contracts'']]) names)"

definition stack_repository :: "string list \<Rightarrow> filesystem" where
  "stack_repository names = \<lparr>is_link = (\<lambda>p. False), is_directory = (\<lambda>p. p \<in> set (stack_dirs names)),
     is_regular = (\<lambda>p. p \<in> set (stack_files names)),
     present = (\<lambda>p. p \<in> set (stack_dirs names) \<or> p \<in> set (stack_files names)),
     dir_entries = (\<lambda>p. if p = [''repo'', ''stacks''] then names else if last p = ''contracts'' then [''x.schema.json''] else []),
     resolved = (\<lambda>p. p), executable = (\<lambda>p. False), contents = (\<lambda>p. ''{}'')\<rparr>"

lemma sample_candidates:
  "schema_candidates (stack_repository [''a-b'', ''a'']) [''repo'', ''schemas''] [''repo''] =
     Inr [[''repo'', ''stacks'', ''a'', ''contracts'', ''x.schema.json''], [''repo'', ''stacks'', ''a-b'', ''contracts'', ''x.schema.json'']]"
  by code_simp

lemma sample_inventory_made: "is_ok (schema_inventory schema_world (stack_repository [''a-b'', ''a'']) [''repo'', ''schemas''])"
  by code_simp

lemma sample_inventory_accepted:
  "bindE (schema_inventory schema_world (stack_repository [''b'', ''a'']) [''repo'', ''schemas''])
     (check_inventory schema_world) = Inr ()"
  by code_simp

end
