(* ===== verification/SampleLock.thy ===== *)
theory SampleLock
  imports LockOps LockFilesFacts FastText
begin

text \<open>
  A lock of three packages, an install plan it comes from, and a workflow plan frozen by the lock, on which the
  witnesses evaluate.
\<close>

definition zeros :: json where
  "zeros = JStr ''0000000000000000000000000000000000000000000000000000000000000000''"

definition any_host :: "string \<Rightarrow> bool" where
  "any_host h = True"

definition sample_lock_package :: "string \<Rightarrow> string \<Rightarrow> json" where
  "sample_lock_package i kind = JObj [(''core_compatibility'', JStr ''>=1.0.0''), (''id'', JStr i), (''kind'', JStr kind),
     (''manifest_sha256'', zeros), (''provider_compatibility'', JNull), (''provider_manifest_sha256'', JNull),
     (''provider_version'', JNull),
     (''source'', JObj [(''kind'', JStr ''local-registry''), (''uri'', JStr (''registry://'' @ i)), (''sha256'', zeros),
       (''artifact_sha256'', JNull)]),
     (''version'', JStr ''1.0.0'')]"

definition sample_dependency :: json where
  "sample_dependency = JObj [(''from'', JStr ''apple''), (''to'', JStr ''review''), (''requirement'', JStr ''required''),
     (''version'', JStr ''>=1.0.0''), (''required_capabilities'', JList [JStr ''review.static''])]"

definition sample_provider :: json where
  "sample_provider = JObj [(''binding'', JStr ''core.report''), (''package'', JStr ''core''), (''package_version'', JStr ''1.0.0''),
     (''permission_profile'', JStr ''read-only''), (''source_sha256'', zeros)]"

definition sample_lock :: json where
  "sample_lock = JObj [(''assets_sha256'', zeros), (''bindings_sha256'', zeros),
     (''capability_providers'', JObj [(''report.compose'', sample_provider)]),
     (''core'', JObj [(''package_version'', JStr ''1.0.0''), (''runtime_version'', JStr ''1.2.0''), (''source_sha256'', zeros)]),
     (''dependencies'', JList [sample_dependency]), (''install_plan_identity_hash'', zeros),
     (''instructions'', JObj [(''rule_trace_sha256'', zeros), (''sha256'', zeros)]),
     (''lineage'', JObj [(''previous_lock_hash'', JNull)]), (''manager'', JStr ''agent-development-skills''),
     (''packages'', JList [sample_lock_package ''core'' ''core'', sample_lock_package ''review'' ''discipline'',
       sample_lock_package ''apple'' ''platform'']),
     (''permission_profiles'', JList [JStr ''read-only'']),
     (''schema_inventory'', JObj [(''algorithm'', JStr ''sha256''), (''content_sha256'', zeros),
       (''files'', JList [JObj [(''path'', JStr ''stacks/a/contracts/x.schema.json''), (''sha256'', zeros)]])]),
     (''schema_version'', JStr ''1.0''),
     (''selection'', JObj [(''disciplines'', JList []), (''platforms'', JList [JStr ''apple'']), (''runtime_configs'', JList [])]),
     (''side_effects'', JList []), (''fingerprint'', zeros)]"

text \<open>Every part of the lock is checked on its own.\<close>

lemma sample_lock_identity: "check_lock_identity sample_lock = Inr ()"
  by code_simp

lemma sample_lock_core: "check_core (fld sample_lock ''core'') = Inr ()"
  by code_simp

lemma sample_lock_packages: "check_packages any_host (fld sample_lock ''core'') (fld sample_lock ''packages'') = Inr ()"
  by code_simp

lemma sample_lock_inventory: "check_inventory schema_world (fld sample_lock ''schema_inventory'') = Inr ()"
  by code_simp

lemma sample_lock_selection: "check_selection (package_ids (lock_packages sample_lock)) (fld sample_lock ''selection'') = Inr ()"
  by code_simp

lemma sample_lock_lists: "check_text_lists sample_lock = Inr ()"
  by code_simp

lemma sample_lock_providers: "check_providers schema_world sample_lock (lock_packages sample_lock) = Inr ()"
  by code_simp

lemma sample_lock_dependencies: "check_dependencies sample_lock (lock_packages sample_lock) = Inr ()"
  by code_simp

lemma sample_lock_tail: "check_lock_tail schema_world sample_lock = Inr ()"
  by code_simp

lemma sample_lock_accepted: "validate_package_lock schema_world any_host sample_lock = Inr ()"
  by (simp only: validate_package_lock_def sample_lock_identity sample_lock_core sample_lock_packages sample_lock_inventory
      sample_lock_selection sample_lock_lists sample_lock_providers sample_lock_dependencies sample_lock_tail seqE_Inr)

section \<open>An install plan\<close>

definition sample_files :: json where
  "sample_files = JList [JObj [(''mode'', JInt 420), (''path'', JStr ''manifest.json''), (''sha256'', zeros)]]"

definition sample_install_package :: "string \<Rightarrow> json" where
  "sample_install_package i = JObj [(''directories'', JList []), (''file_count'', JInt 1), (''files'', sample_files),
     (''files_sha256'', zeros), (''id'', JStr i), (''manifest_sha256'', zeros), (''provider_manifest_sha256'', JNull),
     (''root_mode'', JInt 493)]"

definition sample_selected :: "string \<Rightarrow> string \<Rightarrow> string \<Rightarrow> json" where
  "sample_selected i kind reason = JObj [(''id'', JStr i), (''kind'', JStr kind), (''version'', JStr ''1.0.0''),
     (''selection_reasons'', JList [JStr reason]), (''source_sha256'', zeros), (''core_compatibility'', JStr ''>=1.0.0''),
     (''provider_compatibility'', JNull), (''provider_version'', JNull)]"

definition sample_asset :: "string \<Rightarrow> json" where
  "sample_asset i = JObj [(''mode'', JInt 420), (''package'', JStr i), (''path'', JStr ''manifest.json''), (''sha256'', zeros)]"

definition sample_install_plan :: json where
  "sample_install_plan = JObj [(''schema_version'', JStr ''1.0''), (''manager'', JStr ''agent-development-skills''),
     (''core_version'', JStr ''1.2.0''), (''selected_platforms'', JList [JStr ''apple'']),
     (''packages'', JList (map sample_install_package [''core'', ''review'', ''apple''])),
     (''bindings'', JObj [(''report.compose'', JObj [(''binding'', JStr ''core.report''), (''package'', JStr ''core'')])]),
     (''permission_profiles'', JList [JStr ''read-only'']), (''side_effects'', JList []),
     (''instructions'', JObj [(''fragments'', JList []), (''path'', JStr ''AGENTS.md''), (''sha256'', zeros), (''rule_trace'', JList [])]),
     (''skills'', JList []), (''managed_roots'', JList [JStr ''AGENTS.md'', JStr ''skills'', JStr ''.agent-skills'']),
     (''status'', JStr ''planned''), (''lock_schema_version'', JStr ''2.0''),
     (''assets'', JList (map sample_asset [''core'', ''review'', ''apple''])),
     (''asset_summary'', JObj [(''content_sha256'', zeros), (''file_count'', JInt 3), (''package_count'', JInt 3), (''skill_count'', JInt 0)]),
     (''capability_providers'', JObj [(''report.compose'', sample_provider)]), (''resolved_dependencies'', JList [sample_dependency]),
     (''selected_disciplines'', JList []), (''selected_runtime_configs'', JList []),
     (''selected_packages'', JList [sample_selected ''core'' ''core'' ''core'', sample_selected ''review'' ''discipline'' ''dependency:apple'',
       sample_selected ''apple'' ''platform'' ''platform:apple'']),
     (''package_lock_hash'', zeros), (''fingerprint'', zeros)]"

text \<open>Its parts are checked one by one, too.\<close>

definition sample_packages :: "json list" where
  "sample_packages = map sample_install_package [''core'', ''review'', ''apple'']"

definition sample_items :: "json list" where
  "sample_items = as_list (fld sample_install_plan ''selected_packages'')"

lemma sample_plan_lists:
  "iterate (fld sample_install_plan ''packages'') = Inr sample_packages" "iterate (fld sample_install_plan ''skills'') = Inr []"
  "iterate (fld_or sample_install_plan ''selected_packages'' (JList [])) = Inr sample_items"
  "truthy (fld_or sample_install_plan ''selected_packages'' (JList [])) = True"
  by (simp_all add: sample_install_plan_def sample_packages_def sample_items_def fld_def fld_or_def)

lemma sample_plan_base: "base sample_install_plan install_fields ''install-plan'' = Inr ()"
  by code_simp

lemma sample_plan_limits: "preflight_install_limits sample_install_plan = Inr ()"
  by code_simp

lemma sample_plan_identity: "check_install_identity sample_install_plan = Inr ()"
  by code_simp

lemma sample_plan_strings: "check_string_lists sample_install_plan = Inr ()"
  by code_simp

lemma sample_plan_names: "check_names sample_packages ''id'' ''package ids'' = Inr ()" "check_names [] ''name'' ''skill names'' = Inr ()"
  by code_simp+

lemma sample_plan_metadata: "check_metadata_complete sample_install_plan = Inr ()"
  by code_simp

lemma sample_plan_selected: "check_selected_packages sample_install_plan (named_items sample_packages ''id'') sample_items = Inr ()"
  by code_simp

lemma sample_plan_dependencies:
  "check_install_dependencies sample_install_plan (map item_id sample_packages) sample_items = Inr ()"
  by code_simp

lemma sample_plan_trees: "for_each (check_install_package schema_world) sample_packages = Inr ()"
  by code_simp

lemma sample_plan_digests: "check_source_digests sample_install_plan sample_packages sample_items = Inr ()"
  by code_simp

lemma sample_plan_instructions: "check_instructions sample_install_plan (map item_id sample_packages) = Inr ()"
  by code_simp

lemma sample_plan_assets: "check_assets schema_world sample_install_plan sample_packages [] = Inr ()"
  by code_simp

lemma sample_plan_providers: "check_install_providers sample_install_plan sample_packages sample_items = Inr ()"
  by code_simp

lemma sample_plan_fingerprint: "install_fingerprint schema_world sample_install_plan = Inr (as_str zeros)"
  by code_simp

lemma sample_plan_fingerprint_field: "fld sample_install_plan ''fingerprint'' = JStr (as_str zeros)"
  by (simp add: sample_install_plan_def fld_def zeros_def)

lemma sample_install_plan_accepted: "validate_install_plan schema_world sample_install_plan = Inr ()"
  by (simp add: validate_install_plan_def check_install_content_def sample_plan_lists sample_plan_base sample_plan_limits
      sample_plan_identity sample_plan_strings sample_plan_names sample_plan_metadata sample_plan_selected
      sample_plan_dependencies sample_plan_trees sample_plan_digests sample_plan_instructions sample_plan_assets
      sample_plan_providers sample_plan_fingerprint sample_plan_fingerprint_field)

section \<open>Resolution\<close>

definition sample_inputs :: lock_inputs where
  "sample_inputs = \<lparr>schema_folder = [''repo'', ''schemas''], source_overrides = [], artifact_hashes = [], source_base = [],
     previous_lock = None\<rparr>"

definition sample_repository :: filesystem where
  "sample_repository = stack_repository [''a'']"

lemma sample_plan_is_v2: "is_lock_v2 sample_install_plan"
  by code_simp

lemma sample_plan_ids: "map item_id (as_list (fld sample_install_plan ''selected_packages'')) = [''core'', ''review'', ''apple'']"
  by code_simp

lemma sample_inputs_accepted: "check_lock_inputs schema_world any_host sample_install_plan sample_inputs = Inr ()"
  by (simp add: check_lock_inputs_def sample_install_plan_accepted sample_plan_is_v2 sample_plan_ids sample_inputs_def
      unknown_keys_def sorted_set_def MAX_LOCK_PACKAGES_def)

lemma sample_lock_records:
  "mapE (resolve_lock_package schema_world sample_repository any_host sample_inputs sample_packages) sample_items =
     Inr (lock_packages sample_lock)"
  by code_simp

lemma sample_hashes:
  "sha256 schema_world (fld sample_install_plan ''bindings'') = Inr (as_str zeros)"
  "sha256 schema_world (fld (fld sample_install_plan ''instructions'') ''rule_trace'') = Inr (as_str zeros)"
  by code_simp+

lemma sample_identity_hash: "install_plan_identity_hash schema_world sample_install_plan = Inr (as_str zeros)"
  by code_simp

lemma sample_inventory: "schema_inventory schema_world sample_repository [''repo'', ''schemas''] = Inr (fld sample_lock ''schema_inventory'')"
  by code_simp

definition sample_body :: "(string \<times> json) list" where
  "sample_body = filter (\<lambda>kv. fst kv \<noteq> ''fingerprint'') (as_dict sample_lock)"

lemma sample_lock_body:
  "lock_body sample_install_plan (lock_packages sample_lock) (previous_hash sample_inputs) (fld sample_lock ''schema_inventory'')
     (as_str zeros) (as_str zeros) (as_str zeros) = sample_body"
  by code_simp

lemma sample_lock_of_body: "JObj (sample_body @ [(''fingerprint'', zeros)]) = sample_lock"
  by (simp add: sample_body_def sample_lock_def)

lemma sample_body_hash: "sha256 schema_world (JObj sample_body) = Inr (as_str zeros)"
  by code_simp

lemma sample_anchor: "check_anchor sample_install_plan sample_inputs sample_lock = Inr ()"
  by code_simp

lemma sample_resolved:
  "resolve_package_lock schema_world sample_repository any_host sample_install_plan sample_inputs = Inr sample_lock"
proof -
  have "as_list (fld sample_install_plan ''packages'') = sample_packages"
    by (simp add: sample_install_plan_def sample_packages_def fld_def)
  moreover have "JStr (as_str zeros) = zeros" by (simp add: zeros_def)
  moreover have "schema_folder sample_inputs = [''repo'', ''schemas'']" by (simp add: sample_inputs_def)
  ultimately show ?thesis
    by (simp add: resolve_package_lock_def Let_def sample_inputs_accepted sample_lock_records [unfolded sample_items_def]
        sample_hashes sample_identity_hash sample_inventory sample_lock_body sample_lock_of_body sample_body_hash
        sample_lock_accepted sample_anchor)
qed

section \<open>A plan frozen by the lock\<close>

definition sample_frozen_node :: json where
  "sample_frozen_node = JObj [(''id'', JStr ''report''), (''capability'', JStr ''report.compose''), (''mandatory'', JBool True),
     (''status'', JStr ''pending''), (''timeout_seconds'', JInt 300), (''max_retries'', JInt 0), (''provider'', JStr ''core''),
     (''binding'', JStr ''core.report''), (''permission_profile'', JStr ''read-only''), (''provider_manifest_digest'', zeros)]"

definition sample_frozen_plan :: json where
  "sample_frozen_plan = JObj [(''schema_version'', JStr ''1.0''), (''plan_id'', JStr ''plan-000000000000''), (''fingerprint'', zeros),
     (''nodes'', JList [sample_frozen_node]), (''edges'', JList []), (''status'', JStr ''ready''), (''package_lock_hash'', zeros)]"

lemma sample_frozen_plan_valid: "validate_workflow_plan schema_world sample_frozen_plan = Inr ()"
  by code_simp

lemma sample_frozen_nodes: "for_each (check_locked_node sample_lock) (as_list (fld_or sample_frozen_plan ''nodes'' (JList []))) = Inr ()"
  by code_simp

lemma sample_frozen_accepted: "validate_plan_package_lock schema_world any_host sample_frozen_plan sample_lock = Inr ()"
proof -
  have "fld sample_frozen_plan ''package_lock_hash'' = fld sample_lock ''fingerprint''"
    by (simp add: sample_frozen_plan_def sample_lock_def fld_def)
  then show ?thesis
    by (simp add: validate_plan_package_lock_def sample_frozen_plan_valid sample_lock_accepted sample_frozen_nodes)
qed

section \<open>A relative source\<close>

definition source_repository :: filesystem where
  "source_repository = \<lparr>is_link = (\<lambda>p. False), is_directory = (\<lambda>p. p \<in> set [[''src''], [''src'', ''pkg'']]),
     is_regular = (\<lambda>p. p = [''src'', ''pkg'', ''manifest.json'']), present = (\<lambda>p. True), dir_entries = (\<lambda>p. []),
     resolved = (\<lambda>p. p), executable = (\<lambda>p. False), contents = (\<lambda>p. ''{}'')\<rparr>"

lemma sample_snapshot: "relative_snapshot schema_world source_repository [''src''] ''./pkg'' (sample_install_package ''pkg'') ''pkg'' = Inr ()"
  by code_simp

end
