(* ===== verification/LockSpec.thy ===== *)
theory LockSpec
  imports LockFacts InstallFacts LockFilesFacts SampleLock KeySorted
begin

text \<open>
  The properties of locks and install plans: what acceptance guarantees, what a fingerprint identifies, what a
  resolved lock takes from its plan, what a plan checked against a lock has frozen, and what a relative source was
  compared with.
\<close>

section \<open>Locks\<close>

text \<open>C10: an accepted lock lists distinct packages led by the core, its dependency graph has no cycle, and its packages
  are exactly those reachable from the core and the selection.\<close>

theorem accepted_lock_is_closed:
  assumes "validate_package_lock w host_ok v = Inr ()"
  shows "distinct (lock_ids v) \<and> hd (lock_ids v) = ''core'' \<and> acyclic (set (lock_edges v)) \<and>
    set (lock_ids v) = (set (lock_edges v))\<^sup>* `` set (lock_selected v)"
  using lock_graph [OF assms] by blast

lemma accepted_lock_is_closed_sample:
  "set (lock_ids sample_lock) = (set (lock_edges sample_lock))\<^sup>* `` set (lock_selected sample_lock)"
  using accepted_lock_is_closed [OF sample_lock_accepted] by blast

text \<open>C15: as long as the digest does not collide on the two texts hashed, two accepted locks have the same fingerprint
  exactly when they agree in every field but the fingerprint, up to the order of object keys.\<close>

theorem lock_fingerprint_identifies:
  assumes "float_text_ok (float_text w)" and "validate_package_lock w host_ok u = Inr ()" and "validate_package_lock w host_ok v = Inr ()"
    and "dumps w (without_keys [''fingerprint''] u) = Inr s" and "dumps w (without_keys [''fingerprint''] v) = Inr t"
    and "digest w s = digest w t \<Longrightarrow> s = t"
  shows "fld u ''fingerprint'' = fld v ''fingerprint'' \<longleftrightarrow>
    key_sorted (without_keys [''fingerprint''] u) = key_sorted (without_keys [''fingerprint''] v)"
proof -
  have "fld u ''fingerprint'' = JStr (digest w s)" "fld v ''fingerprint'' = JStr (digest w t)"
    using lock_fingerprint [OF assms(2)] lock_fingerprint [OF assms(3)] sha256_dumps [OF assms(4)] sha256_dumps [OF assms(5)] by auto
  then have "fld u ''fingerprint'' = fld v ''fingerprint'' \<longleftrightarrow> s = t" using assms(6) by auto
  also have "s = t \<longleftrightarrow> key_sorted (without_keys [''fingerprint''] u) = key_sorted (without_keys [''fingerprint''] v)"
  proof
    assume "s = t"
    with assms(5) have "dumps w (without_keys [''fingerprint''] v) = Inr s" by simp
    then show "key_sorted (without_keys [''fingerprint''] u) = key_sorted (without_keys [''fingerprint''] v)"
      by (rule dumps_determines_value [OF assms(1,4)])
  next
    assume "key_sorted (without_keys [''fingerprint''] u) = key_sorted (without_keys [''fingerprint''] v)"
    from same_key_sorted_text [OF this, of "float_text w"] show "s = t" using assms(4,5) by (simp add: dumps_eq_Inr)
  qed
  finally show ?thesis .
qed

lemma lock_fingerprint_identifies_sample:
  "(fld sample_lock ''fingerprint'' = fld sample_lock ''fingerprint'') =
   (key_sorted (without_keys [''fingerprint''] sample_lock) = key_sorted (without_keys [''fingerprint''] sample_lock))"
proof -
  obtain s where s: "dumps schema_world (without_keys [''fingerprint''] sample_lock) = Inr s"
    using lock_fingerprint [OF sample_lock_accepted] by (auto simp: sha256_def bindE_eq_Inr)
  show ?thesis
    by (rule lock_fingerprint_identifies [OF _ sample_lock_accepted sample_lock_accepted s s]) (simp_all add: schema_world_def fraction_text_ok)
qed

section \<open>Plans\<close>

text \<open>C11: a workflow plan checked against a lock carries the lock's fingerprint, and the lock has frozen the
  capability of every node with a provider: the same binding, the same permission, a package of the lock.\<close>

theorem checked_plan_is_frozen:
  assumes "validate_plan_package_lock w host_ok plan lock = Inr ()"
  shows "fld plan ''package_lock_hash'' = fld lock ''fingerprint'' \<and>
    (\<forall>node \<in> set (as_list (fld plan ''nodes'')). fld node ''provider'' = JNull \<or> frozen_by lock node)"
proof -
  have lock: "validate_package_lock w host_ok lock = Inr ()" and hash: "fld plan ''package_lock_hash'' = fld lock ''fingerprint''"
    and nodes: "\<forall>node \<in> set (as_list (fld_or plan ''nodes'' (JList []))). check_locked_node lock node = Inr ()"
    using assms by (simp_all add: validate_plan_package_lock_def seqE_eq_Inr for_each_eq_Inr)
  have "as_list (fld_or plan ''nodes'' (JList [])) = as_list (fld plan ''nodes'')"
    by (simp add: fld_or_def fld_def split: option.splits)
  with nodes hash show ?thesis using checked_node_frozen validate_package_lock_D(6) [OF lock] by metis
qed

lemma checked_plan_is_frozen_sample: "frozen_by sample_lock sample_frozen_node"
proof -
  have "sample_frozen_node \<in> set (as_list (fld sample_frozen_plan ''nodes''))" "fld sample_frozen_node ''provider'' \<noteq> JNull"
    by (simp_all add: sample_frozen_plan_def sample_frozen_node_def fld_def)
  then show ?thesis using checked_plan_is_frozen [OF sample_frozen_accepted] by blast
qed



text \<open>No accepted install plan has a required dependency on the core: the core may only be selected with the reason
  \<open>core\<close>, and a required dependency must be among the reasons of its target. The resolver of packages produces
  such dependencies when a manifest asks for them.\<close>

theorem no_required_dependency_on_core:
  assumes "validate_install_plan w plan = Inr ()" and "has_key plan ''selected_packages''"
  shows "(c, ''core'') \<notin> required_edges (plan_dependencies plan)"
proof
  assume edge: "(c, ''core'') \<in> required_edges (plan_dependencies plan)"
  obtain items where items: "items = as_list (fld plan ''selected_packages'')" "items \<noteq> []"
    and core: "fld (item_of items ''core'') ''selection_reasons'' = JList [JStr ''core'']"
    and deps: "check_install_dependencies plan (plan_package_ids plan) items = Inr ()"
    by (rule accepted_plan_parts [OF assms]) (use core_reasons [OF assms] in blast)
  obtain required where r: "check_reasons items required = Inr ()" "set required = required_edges (plan_dependencies plan)"
    using check_install_dependencies_D(3) [OF deps items(2)] by blast
  then have "''dependency:'' @ c \<in> set (reasons_of (item_of items ''core''))"
    using check_reasons_D(2) [OF r(1)] edge by fastforce
  then show False by (simp add: reasons_of_def core)
qed

lemma no_required_dependency_on_core_sample: "(''apple'', ''core'') \<notin> required_edges (plan_dependencies sample_install_plan)"
proof -
  have "has_key sample_install_plan ''selected_packages''" by (simp add: has_key_def sample_install_plan_def)
  from no_required_dependency_on_core [OF sample_install_plan_accepted this] show ?thesis .
qed

section \<open>Resolution\<close>

text \<open>C13: a lock that resolution returns is accepted; its packages are the selected packages of the plan in their
  order, its dependencies the plan's, and it names the plan's identity and the lock it replaces.\<close>

theorem resolved_lock_freezes_plan:
  assumes "resolve_package_lock w fs host_ok plan inp = Inr lock"
  shows "validate_package_lock w host_ok lock = Inr () \<and>
    lock_ids lock = map item_id (as_list (fld plan ''selected_packages'')) \<and>
    fld lock ''dependencies'' = fld plan ''resolved_dependencies'' \<and>
    (\<exists>h. install_plan_identity_hash w plan = Inr h \<and> fld lock ''install_plan_identity_hash'' = JStr h) \<and>
    fld (fld lock ''lineage'') ''previous_lock_hash'' = previous_hash inp"
proof -
  note D = resolve_package_lock_D [OF assms]
  obtain packages where p: "mapE (resolve_lock_package w fs host_ok inp (as_list (fld plan ''packages''))) (as_list (fld plan ''selected_packages'')) =
      Inr packages" "lock_packages lock = packages" using D(3) by blast
  have "lock_ids lock = map item_id (as_list (fld plan ''selected_packages''))"
    using resolved_ids [OF p(1)] p(2) by (simp add: lock_ids_def)
  then show ?thesis using D(2,4,5,6) by (simp add: fld_def)
qed

lemma resolved_lock_freezes_plan_sample:
  "lock_ids sample_lock = map item_id (as_list (fld sample_install_plan ''selected_packages''))"
  using resolved_lock_freezes_plan [OF sample_resolved] by blast

section \<open>Files\<close>



text \<open>C16: when the schema files found below one container belong to a package \<open>n\<close> and to one whose name continues \<open>n\<close> with a
  character below the slash, as \<open>a\<close> and \<open>a-b\<close> or \<open>a.b\<close>, the inventory is sorted by path components but the validator wants
  the path texts sorted: the inventory is refused, and no install plan can be resolved to a lock against these schemas.\<close>

theorem inventory_order_breaks_lock:
  assumes "repository = (if path_name (schema_folder inp) = ''schemas'' then butlast (schema_folder inp) else schema_folder inp)"
    and "schema_candidates fs (schema_folder inp) repository = Inr cs"
    and "repository @ container @ n # rest \<in> set cs" and "rest \<noteq> []"
    and "repository @ container @ (n @ d # m) # rest' \<in> set cs" and "d < CHR ''/''"
  shows "\<not> is_ok (bindE (schema_inventory w fs (schema_folder inp)) (check_inventory w)) \<and>
    \<not> is_ok (resolve_package_lock w fs host_ok plan inp)"
proof (cases "schema_inventory w fs (schema_folder inp)")
  case (Inl e)
  then show ?thesis by (auto simp: is_ok_def resolve_package_lock_def seqE_eq_Inr bindE_eq_Inr split: sum.splits)
next
  case (Inr v)
  note refused = inventory_unsorted [OF Inr assms]
  have "\<not> is_ok (resolve_package_lock w fs host_ok plan inp)"
  proof
    assume "is_ok (resolve_package_lock w fs host_ok plan inp)"
    then obtain lock where lock: "resolve_package_lock w fs host_ok plan inp = Inr lock" by (auto simp: is_ok_def split: sum.splits)
    then have "fld lock ''schema_inventory'' = v"
      using Inr by (auto simp: resolve_package_lock_def Let_def seqE_eq_Inr bindE_eq_Inr lock_body_def fld_def)
    moreover have "check_inventory w (fld lock ''schema_inventory'') = Inr ()"
      using resolve_package_lock_D(2) [OF lock] by (simp add: validate_package_lock_def Let_def seqE_eq_Inr)
    ultimately show False using refused by (simp add: is_ok_def)
  qed
  then show ?thesis using refused Inr by simp
qed

lemma inventory_order_breaks_lock_sample:
  "is_ok (schema_inventory schema_world (stack_repository [''a-b'', ''a'']) [''repo'', ''schemas'']) \<and>
   \<not> is_ok (resolve_package_lock schema_world (stack_repository [''a-b'', ''a'']) any_host sample_install_plan sample_inputs)"
proof -
  have f: "schema_folder sample_inputs = [''repo'', ''schemas'']" by (simp add: sample_inputs_def)
  have r: "[''repo''] = (if path_name (schema_folder sample_inputs) = ''schemas'' then butlast (schema_folder sample_inputs) else schema_folder sample_inputs)"
    by (simp add: f path_name_def)
  have "CHR ''-'' < CHR ''/''" by (simp add: less_char_def)
  with inventory_order_breaks_lock [OF r sample_candidates [folded f], where container = "[''stacks'']" and n = "''a''"
      and rest = "[''contracts'', ''x.schema.json'']" and d = "CHR ''-''" and m = "''b''" and rest' = "[''contracts'', ''x.schema.json'']"]
  have "\<not> is_ok (resolve_package_lock schema_world (stack_repository [''a-b'', ''a'']) any_host sample_install_plan sample_inputs)"
    by simp
  then show ?thesis using sample_inventory_made by simp
qed

end
