(* ===== verification/MigrationFacts.thy ===== *)
theory MigrationFacts
  imports Migrations
begin

text \<open>
  The breadth-first search finds a shortest path between two versions exactly when there is one, and what a
  migration along it promises.
\<close>

section \<open>Paths\<close>

text \<open>A chain of edges of one artifact from one version to another.\<close>

fun chain :: "migration_edge list \<Rightarrow> string \<Rightarrow> string \<Rightarrow> migration_path \<Rightarrow> string \<Rightarrow> bool" where
  "chain es a v [] u = (v = u)"
| "chain es a v (e # p) u = (e \<in> set es \<and> artifact e = a \<and> from_version e = v \<and> chain es a (to_version e) p u)"

lemma chain_append: "chain es a v (p @ q) u \<longleftrightarrow> (\<exists>x. chain es a v p x \<and> chain es a x q u)"
  by (induction p arbitrary: v) auto

lemma chain_snoc: "chain es a v (p @ [e]) u \<longleftrightarrow>
    chain es a v p (from_version e) \<and> e \<in> set es \<and> artifact e = a \<and> to_version e = u"
  by (auto simp: chain_append)

lemma leaving_iff: "e \<in> set (leaving es a v) \<longleftrightarrow> e \<in> set es \<and> artifact e = a \<and> from_version e = v"
  by (auto simp: leaving_def)

section \<open>The inner loop\<close>

lemma expand_Inl:
  "expand goal p es visited queue = Inl r \<Longrightarrow> \<exists>e \<in> set es. to_version e = goal \<and> r = p @ [e]"
  by (induction es arbitrary: visited queue) (auto split: if_splits)

lemma expand_Inr:
  assumes "expand goal p es visited queue = Inr (visited', queue')"
  shows "\<exists>new. queue' = queue @ map (\<lambda>e. (to_version e, p @ [e])) new \<and> set new \<subseteq> set es \<and>
    to_version ` set new \<inter> set visited = {} \<and> set visited' = set visited \<union> to_version ` set es \<and>
    set visited' = set visited \<union> to_version ` set new \<and> goal \<notin> to_version ` set es"
  using assms
proof (induction es arbitrary: visited queue)
  case Nil
  then show ?case by simp
next
  case (Cons e es)
  have goal: "to_version e \<noteq> goal" using Cons.prems by (auto split: if_splits)
  show ?case
  proof (cases "to_version e \<in> set visited")
    case True
    then obtain new where "queue' = queue @ map (\<lambda>e. (to_version e, p @ [e])) new" "set new \<subseteq> set es"
        "to_version ` set new \<inter> set visited = {}" "set visited' = set visited \<union> to_version ` set es"
        "set visited' = set visited \<union> to_version ` set new" "goal \<notin> to_version ` set es"
      using Cons.IH [of visited queue] Cons.prems goal by auto
    then show ?thesis using True goal by (intro exI [of _ new]) auto
  next
    case False
    then obtain new where "queue' = (queue @ [(to_version e, p @ [e])]) @ map (\<lambda>e. (to_version e, p @ [e])) new"
        "set new \<subseteq> set es" "to_version ` set new \<inter> set (to_version e # visited) = {}"
        "set visited' = set (to_version e # visited) \<union> to_version ` set es"
        "set visited' = set (to_version e # visited) \<union> to_version ` set new" "goal \<notin> to_version ` set es"
      using Cons.IH [of "to_version e # visited" "queue @ [(to_version e, p @ [e])]"] Cons.prems goal by auto
    then show ?thesis using False goal by (intro exI [of _ "e # new"]) auto
  qed
qed

section \<open>The invariant of the search\<close>

definition minimal :: "migration_edge list \<Rightarrow> string \<Rightarrow> string \<Rightarrow> migration_path \<Rightarrow> string \<Rightarrow> bool" where
  "minimal es a f p v \<longleftrightarrow> chain es a f p v \<and> (\<forall>q. chain es a f q v \<longrightarrow> length p \<le> length q)"

text \<open>
  Queued paths are shortest and their lengths ascend by at most one; all successors of a visited version that
  is not queued are visited; the goal is not.
\<close>

definition bfs_inv :: "migration_edge list \<Rightarrow> string \<Rightarrow> string \<Rightarrow> string \<Rightarrow> string list \<Rightarrow> (string \<times> migration_path) list \<Rightarrow> bool" where
  "bfs_inv es a f t visited queue \<longleftrightarrow>
     f \<in> set visited \<and> t \<notin> set visited \<and> fst ` set queue \<subseteq> set visited \<and>
     (\<forall>vp \<in> set queue. minimal es a f (snd vp) (fst vp)) \<and>
     sorted (map (length \<circ> snd) queue) \<and>
     (\<forall>vp \<in> set queue. length (snd vp) \<le> Suc (length (snd (hd queue)))) \<and>
     (\<forall>v \<in> set visited - fst ` set queue. \<forall>e \<in> set (leaving es a v). to_version e \<in> set visited)"

text \<open>A chain to an unvisited version passes a queued one.\<close>

lemma chain_leaves_visited:
  assumes "bfs_inv es a f t visited queue" and "chain es a f q u" and "u \<notin> set visited"
  shows "\<exists>q1 e q2 x. q = q1 @ e # q2 \<and> x \<in> fst ` set queue \<and> chain es a f q1 x"
proof -
  have "\<exists>q1 e q2 x. q = q1 @ e # q2 \<and> x \<in> fst ` set queue \<and> chain es a v q1 x"
    if "chain es a v q u" "v \<in> set visited" for v q
    using that
  proof (induction q arbitrary: v)
    case Nil
    then show ?case using assms(3) by simp
  next
    case (Cons e q)
    show ?case
    proof (cases "v \<in> fst ` set queue")
      case True
      then show ?thesis by (intro exI [of _ "[]"] exI [of _ e] exI [of _ q] exI [of _ v]) simp
    next
      case False
      then have "to_version e \<in> set visited"
        using assms(1) Cons.prems by (auto simp: bfs_inv_def leaving_iff)
      moreover have "chain es a (to_version e) q u" using Cons.prems(1) by simp
      ultimately obtain q1 e' q2 x where "q = q1 @ e' # q2" "x \<in> fst ` set queue" "chain es a (to_version e) q1 x"
        using Cons.IH by blast
      then show ?thesis using Cons.prems(1)
        by (intro exI [of _ "e # q1"] exI [of _ e'] exI [of _ q2] exI [of _ x]) simp
    qed
  qed
  moreover have "f \<in> set visited" using assms(1) by (simp add: bfs_inv_def)
  ultimately show ?thesis using assms(2) by blast
qed

lemma unvisited_far:
  assumes "bfs_inv es a f t visited (vp # queue)" and "chain es a f q u" and "u \<notin> set visited"
  shows "Suc (length (snd vp)) \<le> length q"
proof -
  obtain q1 e q2 x where q: "q = q1 @ e # q2" "x \<in> fst ` set (vp # queue)" "chain es a f q1 x"
    using chain_leaves_visited [OF assms] by blast
  then obtain y where y: "y \<in> set (vp # queue)" "x = fst y" by blast
  then have "length (snd vp) \<le> length (snd y)" using assms(1) by (auto simp: bfs_inv_def)
  moreover have "minimal es a f (snd y) x" using assms(1) y unfolding bfs_inv_def by blast
  ultimately show ?thesis using q by (auto simp: minimal_def)
qed

lemma extended_minimal:
  assumes "bfs_inv es a f t visited (vp # queue)" and "e \<in> set (leaving es a (fst vp))" and "to_version e \<notin> set visited"
  shows "minimal es a f (snd vp @ [e]) (to_version e)"
proof -
  have "chain es a f (snd vp) (fst vp)" using assms(1) by (simp add: bfs_inv_def minimal_def)
  then have "chain es a f (snd vp @ [e]) (to_version e)" using assms(2) by (simp add: chain_snoc leaving_iff)
  then show ?thesis using unvisited_far [OF assms(1) _ assms(3)] by (auto simp: minimal_def)
qed

lemma bfs_step:
  assumes inv: "bfs_inv es a f t visited (vp # queue)"
    and step: "expand t (snd vp) (leaving es a (fst vp)) visited queue = Inr (visited', queue')"
  shows "bfs_inv es a f t visited' queue'"
proof -
  obtain new where queue': "queue' = queue @ map (\<lambda>e. (to_version e, snd vp @ [e])) new"
    and new: "set new \<subseteq> set (leaving es a (fst vp))" "to_version ` set new \<inter> set visited = {}"
    and visited': "set visited' = set visited \<union> to_version ` set (leaving es a (fst vp))"
      "set visited' = set visited \<union> to_version ` set new"
    and goal: "t \<notin> to_version ` set (leaving es a (fst vp))"
    using expand_Inr [OF step] by (elim exE conjE) (rule that; assumption)
  let ?k = "length (snd vp)"
  have old: "length (snd x) \<le> Suc ?k" "?k \<le> length (snd x)" if "x \<in> set queue" for x
    using inv that by (auto simp: bfs_inv_def)
  have bound: "length (snd x) \<le> Suc ?k" "?k \<le> length (snd x)" if "x \<in> set queue'" for x
    using that old [of x] by (auto simp: queue')
  have added: "minimal es a f (snd vp @ [e]) (to_version e)" if "e \<in> set new" for e
    by (rule extended_minimal [OF inv]) (use new that in blast)+
  have "minimal es a f (snd x) (fst x)" if "x \<in> set queue'" for x
    using that inv added by (auto simp: queue' bfs_inv_def)
  moreover have "sorted (map (length \<circ> snd) queue')"
  proof -
    have "sorted (map (length \<circ> snd) queue)" using inv by (simp add: bfs_inv_def)
    moreover have "map (length \<circ> snd) queue' = map (length \<circ> snd) queue @ map (\<lambda>_. Suc ?k) new" by (simp add: queue' comp_def)
    ultimately show ?thesis using old(1) by (auto simp: sorted_append sorted_wrt_map)
  qed
  moreover have "length (snd x) \<le> Suc (length (snd (hd queue')))" if "x \<in> set queue'" for x
  proof -
    have "hd queue' \<in> set queue'" using that by (cases queue') simp_all
    from bound(2) [OF this] bound(1) [OF that] show ?thesis by linarith
  qed
  moreover have "to_version e \<in> set visited'" if "v \<in> set visited' - fst ` set queue'" "e \<in> set (leaving es a v)" for v e
  proof (cases "v = fst vp")
    case True
    then show ?thesis using that(2) visited'(1) by blast
  next
    case False
    have "fst ` set queue' = fst ` set queue \<union> to_version ` set new" by (simp add: queue' image_Un image_image)
    then have "v \<in> set visited - fst ` set (vp # queue)" using that(1) False visited'(2) by auto
    then show ?thesis using inv that(2) visited'(1) by (auto simp: bfs_inv_def)
  qed
  moreover have "fst ` set queue' \<subseteq> set visited'"
    using inv visited'(2) by (auto simp: queue' bfs_inv_def)
  moreover have "f \<in> set visited'" "t \<notin> set visited'" using inv goal visited'(1) by (auto simp: bfs_inv_def)
  ultimately show ?thesis unfolding bfs_inv_def by blast
qed

lemma search_shortest:
  assumes "bfs_inv es a f t visited queue"
  shows "case search es a t visited queue of
     Some p \<Rightarrow> minimal es a f p t
   | None \<Rightarrow> \<forall>q. \<not> chain es a f q t"
  using assms
proof (induction es a t visited queue rule: search.induct)
  case (1 es a goal visited)
  have "\<not> chain es a f q goal" for q
    using chain_leaves_visited [OF 1, of q goal] 1 by (auto simp: bfs_inv_def)
  then show ?case by simp
next
  case (2 es a goal visited vp queue)
  show ?case
  proof (cases "expand goal (snd vp) (leaving es a (fst vp)) visited queue")
    case (Inl p)
    then obtain e where e: "e \<in> set (leaving es a (fst vp))" "to_version e = goal" "p = snd vp @ [e]"
      using expand_Inl by blast
    moreover have "goal \<notin> set visited" using "2.prems" by (simp add: bfs_inv_def)
    ultimately show ?thesis using extended_minimal [OF "2.prems", of e] Inl by simp
  next
    case (Inr r)
    then obtain visited' queue' where r: "expand goal (snd vp) (leaving es a (fst vp)) visited queue = Inr (visited', queue')"
      by (cases r) simp
    then show ?thesis using "2.IH" [OF r refl bfs_step [OF "2.prems" r]] by simp
  qed
qed

lemma start_inv: "f \<noteq> t \<Longrightarrow> bfs_inv es a f t [f] [(f, [])]"
  by (auto simp: bfs_inv_def minimal_def)

lemma migration_path_shortest:
  assumes "a \<noteq> []" and "f \<noteq> []" and "t \<noteq> []"
  shows "case migration_path_of es a f t of
     Inr p \<Rightarrow> minimal es a f p t
   | Inl e \<Rightarrow> e = no_path a f t \<and> (\<forall>q. \<not> chain es a f q t)"
proof (cases "f = t")
  case True
  then show ?thesis using assms by (simp add: migration_path_of_def minimal_def)
next
  case False
  show ?thesis using search_shortest [OF start_inv [OF False], of es a] assms False
    by (auto simp: migration_path_of_def split: option.splits)
qed

section \<open>Migration\<close>

lemma migrate_steps:
  assumes "foldE (migrate_step validator a) st p = Inr st'" and "validator (fst st) = Inr ()"
    and "fld (fst st) ''schema_version'' = JStr v" and "is_obj (fst st)" and "chain es a v p u"
  shows "validator (fst st') = Inr () \<and> fld (fst st') ''schema_version'' = JStr u \<and> is_obj (fst st')"
  using assms
proof (induction p arbitrary: st v)
  case (Cons e p)
  then obtain s where s: "migrate_step validator a st e = Inr s" "foldE (migrate_step validator a) s p = Inr st'"
    by (auto simp: bindE_eq_Inr)
  then have "validator (fst s) = Inr ()" "fld (fst s) ''schema_version'' = JStr (to_version e)" "is_obj (fst s)"
    by (auto simp: migrate_step_def bindE_eq_Inr seqE_eq_Inr split: option.splits)
  then show ?case using Cons.IH [OF s(2)] Cons.prems(5) by simp
qed simp

lemma migrate_promise:
  assumes "migrate w es a value t validator status = Inr (result, report)" and "a \<noteq> []" and "t \<noteq> []"
  shows "validator result = Inr () \<and> fld result ''schema_version'' = JStr t \<and>
    (\<exists>p. minimal es a (as_str (fld value ''schema_version'')) p t \<and>
       fld report ''steps'' = JList (map step_report p) \<and>
       fld report ''lossless'' = JBool (list_all (\<lambda>e. truthy (lossless e)) p))"
proof -
  obtain p st where valid: "is_obj value" "is_str (fld value ''schema_version'')" "validator value = Inr ()"
    and p: "migration_path_of es a (as_str (fld value ''schema_version'')) t = Inr p"
    and st: "foldE (migrate_step validator a) (value, 0) p = Inr st" "result = fst st"
    and report: "migration_report w a value (fst st) p status t = Inr report"
    using assms(1) by (auto simp: migrate_def bindE_eq_Inr seqE_eq_Inr mapR_eq_Inr)
  let ?v = "as_str (fld value ''schema_version'')"
  have "?v \<noteq> []" using p by (auto simp: migration_path_of_def split: if_splits)
  then have min: "minimal es a ?v p t" using migration_path_shortest [OF assms(2) _ assms(3), of ?v es] p by simp
  have "fld value ''schema_version'' = JStr ?v" using valid(2) by (cases "fld value ''schema_version''") simp_all
  moreover have "chain es a ?v p t" using min by (simp add: minimal_def)
  ultimately have "validator result = Inr ()" "fld result ''schema_version'' = JStr t"
    using migrate_steps [OF st(1), of ?v es t] valid(1,3) st(2) by simp_all
  moreover have "fld report ''steps'' = JList (map step_report p)"
      "fld report ''lossless'' = JBool (list_all (\<lambda>e. truthy (lossless e)) p)"
    using report by (auto simp: migration_report_def Let_def bindE_eq_Inr mapR_eq_Inr fld_def)
  ultimately show ?thesis using min by blast
qed

end
