(* ===== verification/MigrationSpec.thy ===== *)
theory MigrationSpec
  imports MigrationFacts JsonFacts Sample
begin

text \<open>
  The properties of the migration graph: the search finds a shortest path or there is none, a migration keeps its
  promises, and every valid activation lock of version 1.0 migrates to a valid one of version 2.0.
\<close>

section \<open>The path\<close>

text \<open>C27: between two named versions the search returns a shortest chain of registered edges, and raises the
  "no supported migration path" error exactly when there is no chain.\<close>

theorem search_finds_shortest_path:
  assumes "a \<noteq> []" and "f \<noteq> []" and "t \<noteq> []"
  shows "case migration_path_of es a f t of
     Inr p \<Rightarrow> chain es a f p t \<and> (\<forall>q. chain es a f q t \<longrightarrow> length p \<le> length q)
   | Inl e \<Rightarrow> e = no_path a f t \<and> (\<forall>q. \<not> chain es a f q t)"
  using migration_path_shortest [OF assms, of es] by (simp add: minimal_def split: sum.splits)

definition sample_edge :: "string \<Rightarrow> string \<Rightarrow> migration_edge" where
  "sample_edge f t = \<lparr>artifact = ''plan'', from_version = f, to_version = t, lossless = JBool True, transform = None, changes = []\<rparr>"

definition sample_edges :: "migration_edge list" where
  "sample_edges = [sample_edge ''1'' ''2'', sample_edge ''2'' ''1'', sample_edge ''2'' ''3'', sample_edge ''1'' ''3'', sample_edge ''3'' ''4'']"

lemma sample_path: "mapR (map to_version) (migration_path_of sample_edges ''plan'' ''1'' ''4'') = Inr [''3'', ''4'']"
  by code_simp

lemma search_finds_shortest_path_sample:
  "\<exists>p. migration_path_of sample_edges ''plan'' ''1'' ''4'' = Inr p \<and> map to_version p = [''3'', ''4''] \<and>
     chain sample_edges ''plan'' ''1'' p ''4''"
proof -
  obtain p where p: "migration_path_of sample_edges ''plan'' ''1'' ''4'' = Inr p" "map to_version p = [''3'', ''4'']"
    using sample_path by (auto simp: mapR_eq_Inr)
  then show ?thesis using search_finds_shortest_path [of "''plan''" "''1''" "''4''" sample_edges] by simp
qed

section \<open>Migration\<close>

text \<open>C28: a migration that returns has validated its result, which has the requested version; the report lists the
  steps of a shortest path and calls the migration lossless exactly when every step is.\<close>

theorem migration_keeps_promise:
  assumes "migrate w es a value t validator status = Inr (result, report)" and "a \<noteq> []" and "t \<noteq> []"
  shows "validator result = Inr () \<and> fld result ''schema_version'' = JStr t \<and>
    (\<exists>p. minimal es a (as_str (fld value ''schema_version'')) p t \<and>
       fld report ''steps'' = JList (map step_report p) \<and>
       fld report ''lossless'' = JBool (list_all (\<lambda>e. truthy (lossless e)) p))"
  by (rule migrate_promise [OF assms])

definition sample_activation_lock :: json where
  "sample_activation_lock = JObj [(''schema_version'', JStr ''1.0''), (''manager'', JStr ''agent-development-skills''),
     (''files'', JList [JObj [(''mode'', JInt 420), (''path'', JStr ''skills/a.md''), (''sha256'', JStr (replicate 64 (CHR ''0'')))]])]"

definition sample_migrated :: "(json \<times> json) result" where
  "sample_migrated = migrate sample_world DEFAULT_MIGRATIONS ''activation-lock'' sample_activation_lock ''2.0''
     (validate_activation_lock sample_world) ''planned''"

lemma sample_migrated_ok: "is_ok sample_migrated"
  by code_simp

lemma migration_keeps_promise_sample:
  "\<exists>r. sample_migrated = Inr r \<and> validate_activation_lock sample_world (fst r) = Inr ()"
proof -
  obtain r where r: "sample_migrated = Inr r" using sample_migrated_ok by (auto simp: is_ok_def split: sum.splits)
  then have "migrate sample_world DEFAULT_MIGRATIONS ''activation-lock'' sample_activation_lock ''2.0''
      (validate_activation_lock sample_world) ''planned'' = Inr (fst r, snd r)"
    by (simp add: sample_migrated_def)
  from migration_keeps_promise [OF this] r show ?thesis by blast
qed

section \<open>Activation locks\<close>

lemma activation_lock_upgrade:
  assumes "validate_activation_lock w v = Inr ()" and "fld v ''schema_version'' = JStr ''1.0''"
  shows "\<exists>r. activation_v1_to_v2 v = Inr r \<and> validate_activation_lock w r = Inr () \<and> is_obj r \<and>
    fld r ''schema_version'' = JStr ''2.0'' \<and> fld r ''files'' = fld v ''files'' \<and>
    r = put (put v ''schema_version'' (JStr ''2.0'')) ''handler'' (JStr activation_handler)"
proof -
  define r where "r = put (put v ''schema_version'' (JStr ''2.0'')) ''handler'' (JStr activation_handler)"
  have obj: "is_obj v" and keys: "fst ` set (as_dict v) = set [''schema_version'', ''manager'', ''files'']"
    using assms by (simp_all add: validate_activation_lock_def Let_def seqE_eq_Inr)
  have "\<not> has_key v ''handler''" unfolding has_key_def dict_get_None_iff keys by simp
  then have run: "activation_v1_to_v2 v = Inr r" using assms(2) by (simp add: activation_v1_to_v2_def r_def)
  have fields: "fld r ''schema_version'' = JStr ''2.0''" "fld r ''handler'' = JStr activation_handler"
    "fld r ''manager'' = fld v ''manager''" "fld r ''files'' = fld v ''files''" "is_obj r"
    using obj by (simp_all add: r_def put_fld)
  have "fst ` set (as_dict r) = set ([''schema_version'', ''manager'', ''files''] @ [''handler''])"
    using obj keys by (auto simp: r_def put_keys)
  then have "validate_activation_lock w r = Inr ()"
    using assms by (simp add: validate_activation_lock_def Let_def seqE_eq_Inr fields)
  with run fields show ?thesis unfolding r_def by blast
qed

text \<open>C29: every valid activation lock of version 1.0 that can be hashed migrates to a valid lock of version 2.0 with the
  same files, and the report calls the migration lossless.\<close>

theorem activation_lock_migrates:
  assumes "validate_activation_lock w v = Inr ()" and "fld v ''schema_version'' = JStr ''1.0''"
    and "unique_keys v" and "dumps w v = Inr text" and "status \<in> set [''applied'', ''planned'']"
  shows "\<exists>r report. migrate_activation_lock w v status = Inr (r, report) \<and> validate_activation_lock w r = Inr () \<and>
    fld r ''schema_version'' = JStr ''2.0'' \<and> fld r ''files'' = fld v ''files'' \<and> fld report ''lossless'' = JBool True"
proof -
  obtain r where r: "activation_v1_to_v2 v = Inr r" "validate_activation_lock w r = Inr ()" "is_obj r"
      "fld r ''schema_version'' = JStr ''2.0''" "fld r ''files'' = fld v ''files''"
      "r = put (put v ''schema_version'' (JStr ''2.0'')) ''handler'' (JStr activation_handler)"
    using activation_lock_upgrade [OF assms(1,2)] by blast
  have obj: "is_obj v" using assms(1) by (simp add: validate_activation_lock_def seqE_eq_Inr)
  obtain t where "dumps w (put v ''schema_version'' (JStr ''2.0'')) = Inr t" using put_text_dumps [OF assms(4) obj] by blast
  from put_text_dumps [OF this, of "''handler''" activation_handler] obtain s where s: "dumps w r = Inr s" using obj r(6) by auto
  have "py_eq r r" by (rule py_eq_refl) (use s r(6) assms(3) in \<open>simp_all add: unique_keys_put dumps_eq_Inr\<close>)
  moreover have "\<exists>report. migration_report w ''activation-lock'' v r DEFAULT_MIGRATIONS status ''2.0'' = Inr report \<and>
      fld report ''lossless'' = JBool True"
  proof -
    define body where "body = [(''after_sha256'', JStr (digest w s)), (''artifact'', JStr ''activation-lock''),
      (''before_sha256'', JStr (digest w text)), (''from_version'', JStr ''1.0''), (''lossless'', JBool True),
      (''schema_version'', JStr ''1.0''), (''status'', JStr status), (''steps'', JList (map step_report DEFAULT_MIGRATIONS)),
      (''to_version'', JStr ''2.0'')]"
    have "limits_ok (JObj body) 0" "\<not> has_nonfinite (JObj body)"
      by (simp_all add: body_def DEFAULT_MIGRATIONS_def step_report_def MAX_CANONICAL_JSON_DEPTH_def)
    then obtain h where "sha256 w (JObj body) = Inr h" using sha256_total by blast
    then have "migration_report w ''activation-lock'' v r DEFAULT_MIGRATIONS status ''2.0'' = Inr (JObj (body @ [(''fingerprint'', JStr h)]))"
      unfolding migration_report_def sha256_dumps [OF s] sha256_dumps [OF assms(4)] bindE_Inr assms(2) Let_def
      by (simp add: body_def DEFAULT_MIGRATIONS_def)
    then show ?thesis by (simp add: body_def fld_def)
  qed
  moreover have "migration_path_of DEFAULT_MIGRATIONS ''activation-lock'' ''1.0'' ''2.0'' = Inr DEFAULT_MIGRATIONS"
    by (simp add: migration_path_of_def DEFAULT_MIGRATIONS_def leaving_def)
  moreover have "foldE (migrate_step (validate_activation_lock w) ''activation-lock'') (v, 0) DEFAULT_MIGRATIONS = Inr (r, 2)"
    if "py_eq r r"
    using that r(1-4) by (simp add: DEFAULT_MIGRATIONS_def migrate_step_def)
  ultimately show ?thesis
    using assms(1,2,5) obj r(2,4,5) by (auto simp: migrate_activation_lock_def migrate_def)
qed

lemma sample_activation_lock_ok:
  "validate_activation_lock sample_world sample_activation_lock = Inr () \<and>
   fld sample_activation_lock ''schema_version'' = JStr ''1.0'' \<and> unique_keys sample_activation_lock \<and>
   is_ok (dumps sample_world sample_activation_lock)"
  by code_simp

lemma activation_lock_migrates_sample:
  "\<exists>r report. migrate_activation_lock sample_world sample_activation_lock ''planned'' = Inr (r, report) \<and>
     fld r ''schema_version'' = JStr ''2.0'' \<and> fld r ''files'' = fld sample_activation_lock ''files''"
proof -
  obtain enc where enc: "dumps sample_world sample_activation_lock = Inr enc"
    using sample_activation_lock_ok by (auto simp: is_ok_def split: sum.splits)
  have "\<exists>r report. migrate_activation_lock sample_world sample_activation_lock ''planned'' = Inr (r, report) \<and>
      validate_activation_lock sample_world r = Inr () \<and> fld r ''schema_version'' = JStr ''2.0'' \<and>
      fld r ''files'' = fld sample_activation_lock ''files'' \<and> fld report ''lossless'' = JBool True"
    by (rule activation_lock_migrates [OF _ _ _ enc]) (use sample_activation_lock_ok in simp_all)
  then show ?thesis by blast
qed

end
