(* ===== verification/ManifestContract.thy ===== *)
theory ManifestContract
  imports PlanContracts
begin

text \<open>
  \<^verbatim>\<open>validate_manifest\<close>: the contract of a plugin manifest, in the order of its checks.
\<close>

definition manifest_error :: "string \<Rightarrow> py_error" where
  "manifest_error what = ContractError (''plugin-manifest '' @ what)"

definition check_implementation_status :: "json \<Rightarrow> unit result" where
  "check_implementation_status value =
     (let status = fld value ''implementation_status'' in
      seqE (if has_key value ''implementation_status''
            then require_in status [''implemented'', ''bootstrap-only''] (manifest_error ''implementation_status is invalid'')
            else Inr ())
      (reject_if (status \<noteq> JNull \<and> fld value ''kind'' \<noteq> JStr ''platform'')
        (manifest_error ''implementation_status is only valid for platform packages'')))"

definition check_capability_ids :: "json \<Rightarrow> unit result" where
  "check_capability_ids capabilities =
     bindE (iterate capabilities) (\<lambda>items.
     bindE (mapE (\<lambda>i. get_opt i ''id'') items) (\<lambda>ids.
     reject_when (orE (Inr (JNull \<in> set ids)) (mapR Not (all_unique ids)))
       (manifest_error ''capability ids must be present and unique'')))"

definition manifest_role :: "json \<Rightarrow> json" where
  "manifest_role value = fld_or value ''role'' (JStr ''builtin'')"

definition check_bootstrap_only :: "json \<Rightarrow> unit result" where
  "check_bootstrap_only value =
     (let status = fld value ''implementation_status''; installation = fld value ''installation'' in
      seqE (reject_if (status = JStr ''bootstrap-only'' \<and> (manifest_role value \<noteq> JStr ''bootstrap'' \<or>
          truthy (fld value ''capabilities'') \<or> truthy (fld_or value ''bindings'' (JObj [])) \<or> installation \<noteq> JNull))
        (ContractError ''bootstrap-only platform must use a bootstrap role without capabilities, bindings, or installation''))
      (reject_if (status = JStr ''implemented'' \<and> installation = JNull)
        (ContractError ''implemented platform must provide an installation contract'')))"

section \<open>Installation\<close>

definition check_manifest_fragment :: "json \<Rightarrow> unit result" where
  "check_manifest_fragment fragment =
     seqE (reject_if (\<not> is_obj fragment) (manifest_error ''installation instruction fragment must be an object''))
     (seqE (require_fields fragment [''id'', ''path'', ''scope'', ''order'', ''merge_strategy'']
       ''plugin-manifest.installation.instruction-fragment'')
     (reject_when (orE (Inr (list_ex (\<lambda>f. \<not> is_nonempty_str (fld fragment f)) [''id'', ''path'', ''scope''] \<or>
         \<not> is_int (fld fragment ''order'')))
         (not_in_strings (fld fragment ''merge_strategy'') [''append'', ''locked'']))
       (manifest_error ''installation instruction fragment is invalid'')))"

definition check_installation :: "json \<Rightarrow> json \<Rightarrow> unit result" where
  "check_installation value installation =
     seqE (reject_if (\<not> is_obj installation) (manifest_error ''installation must be an object''))
     (seqE (require_fields installation [''asset_roots'', ''instruction_fragments'', ''skill_roots''] ''plugin-manifest.installation'')
     (seqE (for_each (\<lambda>f. reject_if (\<not> unique_str_list (fld installation f))
         (manifest_error (''installation '' @ f @ '' must be unique strings''))) [''asset_roots'', ''skill_roots''])
     (let fragments = fld installation ''instruction_fragments'' in
      seqE (reject_if (\<not> is_list fragments) (manifest_error ''installation instruction_fragments must be an array''))
      (seqE (for_each check_manifest_fragment (as_list fragments))
      (seqE (reject_if (has_duplicates (map (\<lambda>f. fld f ''id'') (as_list fragments)))
        (manifest_error ''installation instruction fragment ids must be unique''))
      (seqE (reject_if (has_key installation ''provider_manifest'' \<and> \<not> is_nonempty_str (fld installation ''provider_manifest''))
        (manifest_error ''installation provider_manifest is invalid''))
      (reject_if (\<not> is_nonempty_str (fld value ''version''))
        (ContractError ''installable plugin-manifest version is required''))))))))"

section \<open>The provider contract of a bootstrap manifest\<close>

definition contract_lists :: "string list" where
  "contract_lists = [''required_capabilities'', ''optional_capabilities'', ''advisory_capabilities'',
     ''allowed_permission_profiles'', ''allowed_side_effects'']"

definition check_contract_list :: "json \<Rightarrow> string \<Rightarrow> unit result" where
  "check_contract_list contract f =
     seqE (reject_if (\<not> nonempty_str_list (fld contract f)) (manifest_error (''provider_contract '' @ f @ '' must be strings'')))
     (reject_if (has_duplicates (as_list (fld contract f))) (manifest_error (''provider_contract '' @ f @ '' must be unique'')))"

definition contract_group :: "json \<Rightarrow> string \<Rightarrow> string list" where
  "contract_group contract f = map as_str (as_list (fld contract f))"

definition disjoint_lists :: "string list \<Rightarrow> string list \<Rightarrow> bool" where
  "disjoint_lists xs ys \<longleftrightarrow> set xs \<inter> set ys = {}"

definition check_provider_contract :: "json \<Rightarrow> unit result" where
  "check_provider_contract contract =
     seqE (reject_if (\<not> is_obj contract) (ContractError ''bootstrap manifest provider_contract is required''))
     (seqE (require_fields contract ([''package_id'', ''package_compatibility''] @ contract_lists @
       [''capability_permissions'', ''capability_side_effects'']) ''plugin-manifest.provider_contract'')
     (seqE (for_each (check_contract_list contract) contract_lists)
     (let required = contract_group contract ''required_capabilities''; optional = contract_group contract ''optional_capabilities'';
          advisory = contract_group contract ''advisory_capabilities''; permissions = fld contract ''capability_permissions'';
          effects = fld contract ''capability_side_effects'' in
      seqE (reject_if (\<not> disjoint_lists required optional \<or> \<not> disjoint_lists required advisory \<or> \<not> disjoint_lists optional advisory)
        (manifest_error ''provider_contract capability groups must not overlap''))
      (seqE (for_each (\<lambda>f. reject_if (\<not> is_obj (fld contract f) \<or>
          fst ` set (as_dict (fld contract f)) \<noteq> set required \<union> set optional \<union> set advisory)
        (manifest_error (''provider_contract '' @ f @ '' must cover every declared capability'')))
        [''capability_permissions'', ''capability_side_effects''])
      (seqE (reject_if (list_ex (\<lambda>kv. \<not> is_nonempty_str (snd kv)) (as_dict permissions))
        (manifest_error ''provider_contract capability_permissions values must be strings''))
      (reject_if (list_ex (\<lambda>kv. \<not> nonempty_str_list (snd kv)) (as_dict effects))
        (manifest_error ''provider_contract capability_side_effects values must be string arrays'')))))))"

section \<open>Package dependencies\<close>

definition check_package_requirement :: "json \<Rightarrow> unit result" where
  "check_package_requirement d =
     (let required = fld d ''required_capabilities'' in
      seqE (reject_if (\<not> is_obj d) (manifest_error ''package dependency must be an object''))
      (seqE (require_fields d [''id'', ''version'', ''requirement'', ''required_capabilities''] ''plugin-manifest.package-dependency'')
      (reject_when (orE (Inr (\<not> is_nonempty_str (fld d ''id'') \<or> \<not> is_nonempty_str (fld d ''version'')))
          (orE (not_in_strings (fld d ''requirement'') [''required'', ''optional''])
          (Inr (\<not> unique_str_list required \<or> as_list required = []))))
        (manifest_error ''package dependency is invalid''))))"

definition check_package_requires :: "json \<Rightarrow> unit result" where
  "check_package_requires requires =
     seqE (reject_if (\<not> is_list requires) (manifest_error ''package_requires must be an array''))
     (seqE (for_each check_package_requirement (as_list requires))
     (reject_if (has_duplicates (map (\<lambda>d. fld d ''id'') (as_list requires)))
       (manifest_error ''package dependency ids must be unique'')))"

section \<open>The manifest\<close>

definition manifest_kinds :: "string list" where
  "manifest_kinds = [''core'', ''platform'', ''stack'', ''discipline'', ''adapter'', ''runtime-config'']"

definition check_role_parts :: "json \<Rightarrow> unit result" where
  "check_role_parts value =
     (let installation = fld value ''installation''; role = manifest_role value; package = fld value ''package'' in
      seqE (if installation = JNull then Inr () else check_installation value installation)
      (seqE (if role = JStr ''bootstrap'' then check_provider_contract (fld value ''provider_contract'') else Inr ())
      (seqE (if role = JStr ''provider''
             then seqE (reject_if (\<not> is_obj package) (ContractError ''provider manifest package metadata is required''))
               (require_fields package [''version'', ''core_compatibility''] ''plugin-manifest.package'')
             else Inr ())
      (check_package_requires (fld_or value ''package_requires'' (JList []))))))"

definition validate_manifest :: "json \<Rightarrow> unit result" where
  "validate_manifest value =
     seqE (base value [''id'', ''kind'', ''detection'', ''capabilities''] ''plugin-manifest'')
     (seqE (require_in (fld value ''kind'') manifest_kinds (manifest_error ''kind is invalid''))
     (seqE (check_implementation_status value)
     (seqE (require_fields (fld value ''detection'') [''strong'', ''medium'', ''weak''] ''plugin-manifest.detection'')
     (seqE (check_capability_ids (fld value ''capabilities''))
     (seqE (reject_if (\<not> is_str (manifest_role value) \<or> as_str (manifest_role value) \<notin> set [''builtin'', ''bootstrap'', ''provider''])
       (manifest_error ''role is invalid''))
     (seqE (reject_if (\<not> is_obj (fld_or value ''bindings'' (JObj []))) (manifest_error ''bindings must be an object''))
     (seqE (check_bootstrap_only value)
     (check_role_parts value))))))))"

end
