(* ===== verification/PackageResolve.thy ===== *)
theory PackageResolve
  imports PackageLock
begin

text \<open>
  \<^verbatim>\<open>_resolve_packages\<close> of installation.py: the depth-first closure of the selected packages along required
  dependencies, the optional dependencies among them, and the order of installation by Kahn's algorithm with a
  priority. The catalogue maps a package id to its manifest, which \<^verbatim>\<open>validate_manifest\<close> has accepted, so ids and
  versions of dependencies are texts; the directory each package comes from is left out.
\<close>

section \<open>Kahn's algorithm with a priority\<close>

fun relax_sorted :: "(string \<Rightarrow> 'k::linorder) \<Rightarrow> string list \<Rightarrow> (string, int) dict \<Rightarrow> string list \<Rightarrow>
    ((string, int) dict \<times> string list) result" where
  "relax_sorted key [] inc q = Inr (inc, q)"
| "relax_sorted key (t # ts) inc q =
     (case dict_get inc t of
        None \<Rightarrow> Inl (KeyError t)
      | Some c \<Rightarrow> relax_sorted key ts (dict_set t (c - 1) inc) (if c - 1 = 0 then sort_key key (q @ [t]) else q))"

lemma relax_sorted_bound:
  "relax_sorted key ts inc q = Inr (inc', q') \<Longrightarrow> length q' + positives inc' \<le> length q + positives inc"
proof (induction ts arbitrary: inc q)
  case (Cons t ts)
  then obtain c where c: "dict_get inc t = Some c"
      and r: "relax_sorted key ts (dict_set t (c - 1) inc) (if c - 1 = 0 then sort_key key (q @ [t]) else q) = Inr (inc', q')"
    by (auto split: option.splits)
  from Cons.IH [OF r] positives_set [OF c, of "c - 1"] show ?case by (auto split: if_splits)
qed simp

function priority_loop :: "(string \<Rightarrow> 'k::linorder) \<Rightarrow> edges \<Rightarrow> (string, int) dict \<Rightarrow> string list \<Rightarrow> string list \<Rightarrow> string list result" where
  "priority_loop key es inc [] res = Inr res"
| "priority_loop key es inc (n # q) res =
     bindE (relax_sorted key (sort_key key (outgoing es n)) inc q) (\<lambda>p. priority_loop key es (fst p) (snd p) (res @ [n]))"
  by pat_completeness auto
termination
  by (relation "measure (\<lambda>(key, es, inc, q, res). length q + positives inc)") (auto dest!: relax_sorted_bound)

definition priority_sort :: "(string \<Rightarrow> 'k::linorder) \<Rightarrow> string list \<Rightarrow> edges \<Rightarrow> string list result" where
  "priority_sort key ids es =
     bindE (incoming_counts ids es) (\<lambda>inc.
     priority_loop key es inc (sort_key key (filter (\<lambda>i. dict_get inc i = Some 0) ids)) [])"

lemma relax_extends: "relax ts inc q = Inr (inc', q') \<Longrightarrow> \<exists>new. q' = q @ new"
proof (induction ts arbitrary: inc q)
  case (Cons t ts)
  then obtain c where "relax ts (dict_set t (c - 1) inc) (if c - 1 = 0 then q @ [t] else q) = Inr (inc', q')"
    by (auto split: option.splits)
  from Cons.IH [OF this] show ?case by (auto split: if_splits)
qed simp

lemma relax_sorted_same:
  assumes "relax ts inc q = Inr (inc', q @ new)"
  shows "\<exists>q2. relax_sorted key ts inc q0 = Inr (inc', q2) \<and> set q2 = set q0 \<union> set new \<and>
    (distinct (q0 @ new) \<longrightarrow> distinct q2)"
  using assms
proof (induction ts arbitrary: inc q q0 new)
  case (Cons t ts)
  then obtain c where c: "dict_get inc t = Some c"
      and r: "relax ts (dict_set t (c - 1) inc) (if c - 1 = 0 then q @ [t] else q) = Inr (inc', q @ new)"
    by (auto split: option.splits)
  show ?case
  proof (cases "c - 1 = 0")
    case True
    with r have r': "relax ts (dict_set t (c - 1) inc) (q @ [t]) = Inr (inc', q @ new)" by simp
    then obtain rest where rest: "q @ new = (q @ [t]) @ rest" using relax_extends by blast
    then have "relax ts (dict_set t (c - 1) inc) (q @ [t]) = Inr (inc', (q @ [t]) @ rest)" using r' by simp
    from Cons.IH [OF this, of "sort_key key (q0 @ [t])"] show ?thesis using c True rest by auto
  next
    case False
    with r Cons.IH show ?thesis using c by auto
  qed
qed simp

lemma priority_loop_inv:
  assumes "kahn_inv ids es inc q res" and "edges_within ids es"
  shows "\<exists>xs inc'. priority_loop key es inc q res = Inr xs \<and> kahn_inv ids es inc' [] xs"
  using assms
proof (induction key es inc q res rule: priority_loop.induct)
  case (1 key es inc res)
  then show ?case by auto
next
  case (2 key es inc n q res)
  have count: "count_list (sort_key key (outgoing es n)) t = count_list (outgoing es n) t" for t
  proof -
    have "count_list (insort_key key x ys) t = count_list (x # ys) t" for x ys
      by (induction ys) auto
    then have "count_list (sort_key key xs) t = count_list xs t" for xs
      by (induction xs) auto
    then show ?thesis .
  qed
  obtain inc' new where r: "relax (sort_key key (outgoing es n)) inc q = Inr (inc', q @ new)"
      and inv: "kahn_inv ids es inc' (q @ new) (res @ [n])"
    using kahn_step_any [OF "2.prems" count, of q] by blast
  obtain q2 where q2: "relax_sorted key (sort_key key (outgoing es n)) inc q = Inr (inc', q2)" "set q2 = set q \<union> set new"
      "distinct (q @ new) \<longrightarrow> distinct q2"
    using relax_sorted_same [OF r] by blast
  have "kahn_inv ids es inc' q2 (res @ [n])"
    by (rule kahn_inv_perm [OF inv]) (use inv q2(2,3) in \<open>auto simp: kahn_inv_def\<close>)
  with "2.IH" [of "(inc', q2)"] q2(1) "2.prems"(2) show ?case by simp
qed

lemma priority_sort_result:
  assumes "distinct ids" and "edges_within ids es"
  shows "\<exists>xs. priority_sort key ids es = Inr xs \<and> distinct xs \<and> closed_prefix es xs \<and>
    set xs = {t \<in> set ids. remaining es xs t = 0}"
proof -
  from incoming_counts_ok [OF assms(2)] obtain inc where inc: "incoming_counts ids es = Inr inc"
      "\<forall>t. dict_get inc t = (if t \<in> set ids then Some (int (remaining es [] t)) else None)"
    by blast
  let ?q = "sort_key key (filter (\<lambda>i. dict_get inc i = Some 0) ids)"
  have "set ?q = {t \<in> set ids. remaining es [] t = 0}" using inc(2) by auto
  then have "kahn_inv ids es inc ?q []"
    using inc(2) assms(1) by (simp add: kahn_inv_def closed_prefix_def)
  from priority_loop_inv [OF this assms(2)] obtain xs inc' where
      "priority_loop key es inc ?q [] = Inr xs" "kahn_inv ids es inc' [] xs" by blast
  then show ?thesis by (auto simp: priority_sort_def inc(1) kahn_inv_def)
qed

lemma priority_sort_complete:
  assumes "distinct ids" and "edges_within ids es" and "priority_sort key ids es = Inr xs"
  shows "length xs = length ids \<longleftrightarrow> acyclic (set es)" and "acyclic (set es) \<Longrightarrow> topological ids es xs"
  using priority_sort_result [OF assms(1,2), of key] assms(3) sorted_prefix_complete [OF assms(1,2)] by auto

text \<open>A third provider of the interface of \<^verbatim>\<open>Dag\<close>, for every priority.\<close>

interpretation priority_sorter: node_sorter "priority_sort key" for key :: "string \<Rightarrow> 'k::linorder"
  by unfold_locales (use priority_sort_result in blast, rule priority_sort_complete(2))

section \<open>Depth-first closure\<close>

type_synonym catalog = "(string, json) dict"

record visit_state =
  v_reasons :: "(string, string list) dict"
  v_resolved :: "string list"
  v_dependencies :: "json list"
  v_optional :: "(string \<times> json) list"

definition package_version_of :: "json \<Rightarrow> string result" where
  "package_version_of manifest =
     (if is_nonempty_str (fld manifest ''version'') then Inr (as_str (fld manifest ''version''))
      else Inl (ContractError (''installable package '' @ as_str (fld manifest ''id'') @ '' version is required'')))"

definition is_optional :: "json \<Rightarrow> bool" where
  "is_optional d \<longleftrightarrow> fld d ''requirement'' = JStr ''optional''"

definition requirement_id :: "json \<Rightarrow> string" where
  "requirement_id d = as_str (fld d ''id'')"

definition requirements_of :: "json \<Rightarrow> json list" where
  "requirements_of manifest = sort_key requirement_id (as_list (fld manifest ''package_requires''))"

definition dependency_record :: "string \<Rightarrow> json \<Rightarrow> json" where
  "dependency_record i d = JObj [(''from'', JStr i), (''required_capabilities'', fld d ''required_capabilities''),
     (''requirement'', fld d ''requirement''), (''to'', JStr (requirement_id d)), (''version'', fld d ''version'')]"

definition add_reason :: "string \<Rightarrow> string \<Rightarrow> (string, string list) dict \<Rightarrow> (string, string list) dict" where
  "add_reason i reason reasons =
     (let old = (case dict_get reasons i of Some rs \<Rightarrow> rs | None \<Rightarrow> []) in dict_set i (List.insert reason old) reasons)"

text \<open>The version of a dependency's target, checked: \<open>relation\<close> is \<open>requires\<close> or \<open>optionally requires\<close>.\<close>

definition check_target :: "string \<Rightarrow> string \<Rightarrow> json \<Rightarrow> json \<Rightarrow> unit result" where
  "check_target i relation d manifest =
     bindE (package_version_of manifest) (\<lambda>version.
     reject_when (mapR Not (satisfies (JStr version) (fld d ''version'')))
       (ContractError (''package '' @ i @ '' '' @ relation @ '' '' @ requirement_id d @ '' '' @ as_str (fld d ''version'') @ '', found '' @ version)))"

definition note_dependency :: "string \<Rightarrow> json \<Rightarrow> visit_state \<Rightarrow> visit_state" where
  "note_dependency i d st = st\<lparr>v_reasons := add_reason (requirement_id d) (''dependency:'' @ i) (v_reasons st),
     v_dependencies := v_dependencies st @ [dependency_record i d]\<rparr>"

definition cycle_error :: "string list \<Rightarrow> string \<Rightarrow> py_error" where
  "cycle_error visiting i =
     ContractError (''package dependency cycle: '' @ join '' -> '' (dropWhile (\<lambda>j. j \<noteq> i) visiting @ [i]))"

lemma visiting_shrinks:
  assumes "i \<notin> set visiting" and "dict_get cat i = Some m"
  shows "card (fst ` set cat - insert i (set visiting)) < card (fst ` set cat - set visiting)"
proof -
  have "(i, m) \<in> set cat" using assms(2) by (rule dict_get_SomeD)
  then have "i \<in> fst ` set cat" by force
  then have "fst ` set cat - insert i (set visiting) \<subset> fst ` set cat - set visiting" using assms(1) by blast
  then show ?thesis by (intro psubset_card_mono) simp_all
qed

function visit :: "catalog \<Rightarrow> string list \<Rightarrow> visit_state \<Rightarrow> string \<Rightarrow> visit_state result" where
  "visit cat visiting st i =
     (if i \<in> set visiting then Inl (cycle_error visiting i)
      else if i \<in> set (v_resolved st) then Inr st
      else case dict_get cat i of
          None \<Rightarrow> Inl (ContractError (''required package is not installable: '' @ i))
        | Some manifest \<Rightarrow>
            bindE (foldE (\<lambda>st d.
                if is_optional d then Inr (st\<lparr>v_optional := v_optional st @ [(i, d)]\<rparr>)
                else case dict_get cat (requirement_id d) of
                    None \<Rightarrow> Inl (ContractError (''package '' @ i @ '' requires missing package: '' @ requirement_id d))
                  | Some target \<Rightarrow>
                      seqE (check_target i ''requires'' d target)
                      (visit cat (visiting @ [i]) (note_dependency i d st) (requirement_id d)))
              st (requirements_of manifest)) (\<lambda>st.
            Inr (st\<lparr>v_resolved := v_resolved st @ [i]\<rparr>)))"
  by pat_completeness auto
termination
  by (relation "measure (\<lambda>(cat, visiting, st, i). card (fst ` set cat - set visiting))") (auto simp: visiting_shrinks)

declare visit.simps [simp del]

section \<open>The resolver\<close>

definition not_of_kind :: "catalog \<Rightarrow> string \<Rightarrow> string list \<Rightarrow> string list" where
  "not_of_kind cat kind items =
     sort (filter (\<lambda>i. case dict_get cat i of None \<Rightarrow> True | Some m \<Rightarrow> fld m ''kind'' \<noteq> JStr kind) items)"

text \<open>One list of requested packages: unique, and every one installable; \<open>shown\<close> names them in messages.\<close>

definition check_requested :: "catalog \<Rightarrow> string \<Rightarrow> string \<Rightarrow> string list \<Rightarrow> unit result" where
  "check_requested cat kind shown items =
     seqE (reject_if (has_duplicates items) (ContractError (''selected '' @ shown @ '' must be unique'')))
     (reject_if (not_of_kind cat kind items \<noteq> [])
       (ContractError (kind @ '' package is not installable: '' @ join '', '' (not_of_kind cat kind items))))"

definition initial_reasons :: "string list \<Rightarrow> string list \<Rightarrow> string list \<Rightarrow> (string, string list) dict" where
  "initial_reasons platforms disciplines configs =
     fold (\<lambda>(prefix, i). dict_set i [prefix @ i])
       (map (Pair ''platform:'') platforms @ map (Pair ''discipline:'') disciplines @ map (Pair ''runtime-config:'') configs)
       [(''core'', [''core''])]"

definition explicit_packages :: "string list \<Rightarrow> string list \<Rightarrow> string list \<Rightarrow> string list" where
  "explicit_packages platforms disciplines configs = sorted_set (''core'' # platforms @ disciplines @ configs)"

text \<open>An optional dependency counts when its target was resolved anyway.\<close>

definition add_optional :: "catalog \<Rightarrow> string list \<Rightarrow> json list \<Rightarrow> string \<times> json \<Rightarrow> json list result" where
  "add_optional cat resolved dependencies p =
     (if requirement_id (snd p) \<notin> set resolved then Inr dependencies
      else seqE (check_target (fst p) ''optionally requires'' (snd p)
          (case dict_get cat (requirement_id (snd p)) of Some m \<Rightarrow> m | None \<Rightarrow> JNull))
        (Inr (dependencies @ [dependency_record (fst p) (snd p)])))"

definition package_rank :: "catalog \<Rightarrow> string \<Rightarrow> int" where
  "package_rank cat i =
     (if i = ''core'' then 0
      else case map_of [(JStr ''core'', 0), (JStr ''discipline'', 1), (JStr ''platform'', 2), (JStr ''stack'', 3), (JStr ''adapter'', 4),
          (JStr ''runtime-config'', 5)] (fld (case dict_get cat i of Some m \<Rightarrow> m | None \<Rightarrow> JNull) ''kind'') of
        Some r \<Rightarrow> r | None \<Rightarrow> 9)"

definition order_key :: "catalog \<Rightarrow> string \<Rightarrow> int \<times> string" where
  "order_key cat i = (package_rank cat i, i)"

text \<open>From provider to consumer, each pair once.\<close>

definition install_edges :: "json list \<Rightarrow> edges" where
  "install_edges dependencies = remdups (map (\<lambda>d. (as_str (fld d ''to''), as_str (fld d ''from''))) dependencies)"

record resolved_packages =
  package_order :: "string list"
  r_disciplines :: "string list"
  r_runtime_configs :: "string list"
  r_dependencies :: "json list"
  r_reasons :: "(string, string list) dict"

definition start_visit :: "string list \<Rightarrow> string list \<Rightarrow> string list \<Rightarrow> visit_state" where
  "start_visit platforms disciplines configs =
     \<lparr>v_reasons = initial_reasons platforms disciplines configs, v_resolved = [], v_dependencies = [], v_optional = []\<rparr>"

definition reasons_in_order :: "(string, string list) dict \<Rightarrow> string list \<Rightarrow> (string, string list) dict" where
  "reasons_in_order reasons ordered = map (\<lambda>i. (i, case dict_get reasons i of Some rs \<Rightarrow> sort rs | None \<Rightarrow> [])) ordered"

definition resolve_packages :: "catalog \<Rightarrow> string list \<Rightarrow> string list \<Rightarrow> string list \<Rightarrow> resolved_packages result" where
  "resolve_packages cat platforms disciplines configs =
     seqE (reject_if (dict_get cat ''core'' = None) (ContractError ''core package is not installable''))
     (seqE (check_requested cat ''discipline'' ''disciplines'' disciplines)
     (seqE (check_requested cat ''runtime-config'' ''runtime configs'' configs)
     (bindE (foldE (visit cat []) (start_visit platforms disciplines configs) (explicit_packages platforms disciplines configs)) (\<lambda>st.
     bindE (foldE (add_optional cat (v_resolved st)) (v_dependencies st)
       (sort_key (\<lambda>p. (fst p, requirement_id (snd p))) (v_optional st))) (\<lambda>dependencies.
     bindE (priority_sort (order_key cat) (v_resolved st) (install_edges dependencies)) (\<lambda>ordered.
     seqE (reject_if (length ordered \<noteq> length (v_resolved st))
       (ContractError ''package dependency cycle includes selected optional packages''))
     (Inr \<lparr>package_order = ordered, r_disciplines = sort disciplines, r_runtime_configs = sort configs,
        r_dependencies = sort_key dependency_edge dependencies, r_reasons = reasons_in_order (v_reasons st) ordered\<rparr>)))))))"

end
