(* ===== verification/PackageResolveFacts.thy ===== *)
theory PackageResolveFacts
  imports PackageResolve
begin

text \<open>
  The depth-first search resolves exactly the packages reachable from the selected ones along required dependencies,
  and records every required dependency of theirs with a version that satisfies it; the order of installation is
  topological.
\<close>

lemma foldE_prefix_invariant:
  assumes "foldE f s xs = Inr s'" and "P [] s"
    and "\<And>ys x s s'. x \<in> set xs \<Longrightarrow> P ys s \<Longrightarrow> f s x = Inr s' \<Longrightarrow> P (ys @ [x]) s'"
  shows "P xs s'"
proof -
  have "P (ys @ zs) s'" if "foldE f s zs = Inr s'" "P ys s" "set zs \<subseteq> set xs" for ys zs s
    using that
  proof (induction zs arbitrary: ys s)
    case (Cons z zs)
    then obtain s1 where "f s z = Inr s1" "foldE f s1 zs = Inr s'" by (auto simp: bindE_eq_Inr)
    then show ?case using Cons.IH [of s1 "ys @ [z]"] Cons.prems assms(3) by simp
  qed simp
  from this [of s xs "[]"] show ?thesis using assms(1,2) by simp
qed

definition requires_in :: "catalog \<Rightarrow> string \<Rightarrow> json \<Rightarrow> bool" where
  "requires_in cat i d \<longleftrightarrow> (\<exists>m. dict_get cat i = Some m \<and> d \<in> set (requirements_of m))"

text \<open>The graph of required dependencies.\<close>

definition required_in :: "catalog \<Rightarrow> (string \<times> string) set" where
  "required_in cat = {(i, requirement_id d) | i d. requires_in cat i d \<and> \<not> is_optional d}"

definition target_holds :: "catalog \<Rightarrow> json \<Rightarrow> bool" where
  "target_holds cat x \<longleftrightarrow> (\<exists>m v. dict_get cat (snd (dependency_edge x)) = Some m \<and> package_version_of m = Inr v \<and>
     satisfies (JStr v) (fld x ''version'') = Inr True)"

lemma dependency_record_fields [simp]:
  "dependency_edge (dependency_record i d) = (i, requirement_id d)" "fld (dependency_record i d) ''version'' = fld d ''version''"
  by (simp_all add: dependency_edge_def dependency_record_def fld_def)

definition visit_inv :: "catalog \<Rightarrow> string list \<Rightarrow> visit_state \<Rightarrow> bool" where
  "visit_inv cat visiting st \<longleftrightarrow>
     distinct (v_resolved st) \<and> set (v_resolved st) \<inter> set visiting = {} \<and>
     (\<forall>i \<in> set (v_resolved st). dict_get cat i \<noteq> None) \<and>
     (\<forall>i \<in> set (v_resolved st). \<forall>d. requires_in cat i d \<and> \<not> is_optional d \<longrightarrow>
        requirement_id d \<in> set (v_resolved st) \<and> dependency_record i d \<in> set (v_dependencies st)) \<and>
     (\<forall>x \<in> set (v_dependencies st). fst (dependency_edge x) \<in> set (v_resolved st) \<union> set visiting \<and>
        dependency_edge x \<in> required_in cat \<and> target_holds cat x) \<and>
     (\<forall>p \<in> set (v_optional st). fst p \<in> set (v_resolved st) \<union> set visiting)"

lemma check_target_holds:
  assumes "check_target i relation d m = Inr ()" and "dict_get cat (requirement_id d) = Some m"
  shows "target_holds cat (dependency_record i d)"
  using assms by (auto simp: check_target_def target_holds_def bindE_eq_Inr reject_when_eq_Inr mapR_eq_Inr)

lemma note_dependency_inv:
  assumes "visit_inv cat visiting st" and "i \<in> set visiting" and "requires_in cat i d" and "\<not> is_optional d"
    and "target_holds cat (dependency_record i d)"
  shows "visit_inv cat visiting (note_dependency i d st)"
  using assms by (auto simp: visit_inv_def note_dependency_def required_in_def)

text \<open>What one visit adds.\<close>

definition visit_adds :: "catalog \<Rightarrow> string \<Rightarrow> visit_state \<Rightarrow> visit_state \<Rightarrow> bool" where
  "visit_adds cat i st st' \<longleftrightarrow>
     set (v_resolved st) \<subseteq> set (v_resolved st') \<and> set (v_dependencies st) \<subseteq> set (v_dependencies st') \<and>
     set (v_resolved st') \<subseteq> set (v_resolved st) \<union> (required_in cat)\<^sup>* `` {i}"

lemma visit_spec:
  assumes "visit cat visiting st i = Inr st'" and "visit_inv cat visiting st"
  shows "visit_inv cat visiting st' \<and> visit_adds cat i st st' \<and> i \<in> set (v_resolved st')"
  using assms
proof (induction cat visiting st i arbitrary: st' rule: visit.induct)
  case (1 cat visiting st i)
  show ?case
  proof (cases "i \<in> set (v_resolved st)")
    case True
    then show ?thesis using 1 by (auto simp: visit.simps [of cat visiting st i] visit_adds_def split: if_splits)
  next
    case False
    let ?vis = "visiting @ [i]" and ?R = "required_in cat"
    obtain m st1 where i: "i \<notin> set visiting" and m: "dict_get cat i = Some m"
      and loop: "foldE (\<lambda>st d. if is_optional d then Inr (st\<lparr>v_optional := v_optional st @ [(i, d)]\<rparr>)
          else case dict_get cat (requirement_id d) of
              None \<Rightarrow> Inl (ContractError (''package '' @ i @ '' requires missing package: '' @ requirement_id d))
            | Some target \<Rightarrow> seqE (check_target i ''requires'' d target)
                (visit cat ?vis (note_dependency i d st) (requirement_id d))) st (requirements_of m) = Inr st1"
      and st': "st' = st1\<lparr>v_resolved := v_resolved st1 @ [i]\<rparr>"
      using "1.prems"(1) False by (auto simp: visit.simps [of cat visiting st i] bindE_eq_Inr split: if_splits option.splits)
    let ?P = "\<lambda>ys s. visit_inv cat ?vis s \<and> visit_adds cat i st s \<and>
      (\<forall>d \<in> set ys. \<not> is_optional d \<longrightarrow> requirement_id d \<in> set (v_resolved s) \<and> dependency_record i d \<in> set (v_dependencies s))"
    have "?P (requirements_of m) st1"
    proof (rule foldE_prefix_invariant [OF loop])
      show "?P [] st" using "1.prems"(2) i False by (auto simp: visit_inv_def visit_adds_def)
    next
      fix ys d s s'
      assume d: "d \<in> set (requirements_of m)" and P: "?P ys s"
        and step: "(if is_optional d then Inr (s\<lparr>v_optional := v_optional s @ [(i, d)]\<rparr>)
          else case dict_get cat (requirement_id d) of
              None \<Rightarrow> Inl (ContractError (''package '' @ i @ '' requires missing package: '' @ requirement_id d))
            | Some target \<Rightarrow> seqE (check_target i ''requires'' d target)
                (visit cat ?vis (note_dependency i d s) (requirement_id d))) = Inr s'"
      show "?P (ys @ [d]) s'"
      proof (cases "is_optional d")
        case True
        then show ?thesis using P step by (auto simp: visit_inv_def visit_adds_def)
      next
        case required: False
        then obtain target where target: "dict_get cat (requirement_id d) = Some target" "check_target i ''requires'' d target = Inr ()"
            and v: "visit cat ?vis (note_dependency i d s) (requirement_id d) = Inr s'"
          using step by (auto simp: seqE_eq_Inr split: option.splits)
        have req: "requires_in cat i d" using m d by (auto simp: requires_in_def)
        have "visit_inv cat ?vis (note_dependency i d s)"
          by (rule note_dependency_inv) (use P req required check_target_holds [OF target(2,1)] in simp_all)
        from "1.IH" [OF i False m d required target(1) v this]
        have s': "visit_inv cat ?vis s'" "visit_adds cat (requirement_id d) (note_dependency i d s) s'"
            "requirement_id d \<in> set (v_resolved s')" by blast+
        have "(i, requirement_id d) \<in> ?R" using req required by (auto simp: required_in_def)
        then have "?R\<^sup>* `` {requirement_id d} \<subseteq> ?R\<^sup>* `` {i}" by (auto intro: converse_rtrancl_into_rtrancl)
        moreover have "v_resolved (note_dependency i d s) = v_resolved s"
            "set (v_dependencies (note_dependency i d s)) = insert (dependency_record i d) (set (v_dependencies s))"
          by (simp_all add: note_dependency_def)
        ultimately have adds: "visit_adds cat i s s'" "dependency_record i d \<in> set (v_dependencies s')"
            "set (v_resolved s) \<subseteq> set (v_resolved s')" "set (v_dependencies s) \<subseteq> set (v_dependencies s')"
          using s'(2) by (auto simp: visit_adds_def)
        have "visit_adds cat i st s'" using P adds(1) by (auto simp: visit_adds_def)
        then show ?thesis using P s' adds by auto
      qed
    qed
    then have inv: "visit_inv cat ?vis st1" and adds: "visit_adds cat i st st1"
      and all: "\<forall>d. requires_in cat i d \<and> \<not> is_optional d \<longrightarrow>
        requirement_id d \<in> set (v_resolved st1) \<and> dependency_record i d \<in> set (v_dependencies st1)"
      using m by (auto simp: requires_in_def)
    have "visit_inv cat visiting st'" using inv all i m by (auto simp: st' visit_inv_def)
    moreover have "visit_adds cat i st st'" using adds by (auto simp: st' visit_adds_def)
    ultimately show ?thesis by (simp add: st')
  qed
qed

lemma visits_closure:
  assumes "foldE (visit cat []) st roots = Inr st'" and "visit_inv cat [] st" and "v_resolved st = []"
  shows "visit_inv cat [] st'" and "set (v_resolved st') = (required_in cat)\<^sup>* `` set roots"
proof -
  let ?P = "\<lambda>ys s. visit_inv cat [] s \<and> set ys \<subseteq> set (v_resolved s) \<and> set (v_resolved s) \<subseteq> (required_in cat)\<^sup>* `` set ys"
  have P: "?P roots st'"
  proof (rule foldE_prefix_invariant [OF assms(1)])
    show "?P [] st" using assms(2,3) by simp
  next
    fix ys x s s'
    assume "?P ys s" and "visit cat [] s x = Inr s'"
    with visit_spec [of cat "[]" s x s'] show "?P (ys @ [x]) s'" by (fastforce simp: visit_adds_def)
  qed
  then show inv: "visit_inv cat [] st'" by blast
  have "y \<in> set (v_resolved st')" if "(x, y) \<in> (required_in cat)\<^sup>*" "x \<in> set (v_resolved st')" for x y
    using that inv by (induction rule: rtrancl_induct) (auto simp: visit_inv_def required_in_def)
  with P show "set (v_resolved st') = (required_in cat)\<^sup>* `` set roots" by blast
qed

section \<open>Optional dependencies and order\<close>

text \<open>Dependencies among resolved packages with a version that satisfies them.\<close>

definition dependencies_ok :: "catalog \<Rightarrow> string list \<Rightarrow> json list \<Rightarrow> bool" where
  "dependencies_ok cat resolved ds \<longleftrightarrow> (\<forall>x \<in> set ds. fst (dependency_edge x) \<in> set resolved \<and>
     snd (dependency_edge x) \<in> set resolved \<and> target_holds cat x)"

lemma visited_dependencies_ok:
  assumes "visit_inv cat [] st"
  shows "dependencies_ok cat (v_resolved st) (v_dependencies st)"
  unfolding dependencies_ok_def
proof
  fix x
  assume "x \<in> set (v_dependencies st)"
  then have x: "fst (dependency_edge x) \<in> set (v_resolved st)" "dependency_edge x \<in> required_in cat" "target_holds cat x"
    using assms by (auto simp: visit_inv_def)
  then obtain i d where "dependency_edge x = (i, requirement_id d)" "requires_in cat i d" "\<not> is_optional d"
    by (auto simp: required_in_def)
  with x assms show "fst (dependency_edge x) \<in> set (v_resolved st) \<and> snd (dependency_edge x) \<in> set (v_resolved st) \<and> target_holds cat x"
    by (auto simp: visit_inv_def)
qed

lemma add_optional_ok:
  assumes "add_optional cat resolved ds p = Inr ds'" and "dependencies_ok cat resolved ds" and "fst p \<in> set resolved"
    and "\<forall>i \<in> set resolved. dict_get cat i \<noteq> None"
  shows "dependencies_ok cat resolved ds' \<and> set ds \<subseteq> set ds'"
proof (cases "requirement_id (snd p) \<in> set resolved")
  case True
  then obtain m where m: "dict_get cat (requirement_id (snd p)) = Some m" using assms(4) by blast
  then have "check_target (fst p) ''optionally requires'' (snd p) m = Inr ()" "ds' = ds @ [dependency_record (fst p) (snd p)]"
    using assms(1) True by (simp_all add: add_optional_def seqE_eq_Inr)
  then show ?thesis using check_target_holds [OF _ m] assms(2,3) True by (auto simp: dependencies_ok_def)
next
  case False
  then show ?thesis using assms(1,2) by (simp add: add_optional_def)
qed

lemma optional_ok:
  assumes "foldE (add_optional cat resolved) ds ps = Inr ds'" and "dependencies_ok cat resolved ds"
    and "\<forall>p \<in> set ps. fst p \<in> set resolved" and "\<forall>i \<in> set resolved. dict_get cat i \<noteq> None"
  shows "dependencies_ok cat resolved ds' \<and> set ds \<subseteq> set ds'"
  by (rule foldE_invariant [OF assms(1)]) (use assms(2-4) add_optional_ok in blast)+

lemma install_edges_iff: "e \<in> set (install_edges ds) \<longleftrightarrow> (\<exists>x \<in> set ds. e = (snd (dependency_edge x), fst (dependency_edge x)))"
  by (auto simp: install_edges_def dependency_edge_def)

lemma start_visit_inv: "visit_inv cat [] (start_visit platforms disciplines configs)"
  by (simp add: visit_inv_def start_visit_def)

lemma resolve_packages_spec:
  assumes "resolve_packages cat platforms disciplines configs = Inr r"
  shows "set (package_order r) = (required_in cat)\<^sup>* `` set (explicit_packages platforms disciplines configs)"
    and "topological (package_order r) (install_edges (r_dependencies r)) (package_order r)"
    and "dependencies_ok cat (package_order r) (r_dependencies r)"
    and "\<forall>i \<in> set (package_order r). \<forall>d. requires_in cat i d \<and> \<not> is_optional d \<longrightarrow>
      dependency_record i d \<in> set (r_dependencies r)"
proof -
  obtain st ds ordered where
    st: "foldE (visit cat []) (start_visit platforms disciplines configs) (explicit_packages platforms disciplines configs) = Inr st"
    and ds: "foldE (add_optional cat (v_resolved st)) (v_dependencies st)
        (sort_key (\<lambda>p. (fst p, requirement_id (snd p))) (v_optional st)) = Inr ds"
    and ordered: "priority_sort (order_key cat) (v_resolved st) (install_edges ds) = Inr ordered"
      "length ordered = length (v_resolved st)"
    and r: "package_order r = ordered" "r_dependencies r = sort_key dependency_edge ds"
    using assms by (auto simp: resolve_packages_def seqE_eq_Inr bindE_eq_Inr)
  note closure = visits_closure [OF st start_visit_inv]
  have inv: "visit_inv cat [] st" and resolved: "set (v_resolved st) = (required_in cat)\<^sup>* `` set (explicit_packages platforms disciplines configs)"
    using closure by (simp_all add: start_visit_def)
  have known: "\<forall>i \<in> set (v_resolved st). dict_get cat i \<noteq> None" and d: "distinct (v_resolved st)"
    and opt: "\<forall>p \<in> set (sort_key (\<lambda>p. (fst p, requirement_id (snd p))) (v_optional st)). fst p \<in> set (v_resolved st)"
    using inv by (auto simp: visit_inv_def)
  have ok: "dependencies_ok cat (v_resolved st) ds" and kept: "set (v_dependencies st) \<subseteq> set ds"
    using optional_ok [OF ds visited_dependencies_ok [OF inv] opt known] by blast+
  have within: "edges_within (v_resolved st) (install_edges ds)"
    using ok by (fastforce simp: edges_within_def install_edges_iff dependencies_ok_def)
  have acyclic: "acyclic (set (install_edges ds))" using priority_sort_complete(1) [OF d within ordered(1)] ordered(2) by simp
  have topo: "topological (v_resolved st) (install_edges ds) ordered"
    by (rule priority_sort_complete(2) [OF d within ordered(1) acyclic])
  then have same: "set ordered = set (v_resolved st)" by (simp add: topological_def)
  have edges: "set (install_edges (r_dependencies r)) = set (install_edges ds)" by (auto simp: install_edges_iff r)
  show "set (package_order r) = (required_in cat)\<^sup>* `` set (explicit_packages platforms disciplines configs)"
    using same resolved r by simp
  show "topological (package_order r) (install_edges (r_dependencies r)) (package_order r)"
    using topo same unfolding topological_def edges by (simp add: r)
  show "dependencies_ok cat (package_order r) (r_dependencies r)"
    using ok same by (simp add: dependencies_ok_def r)
  show "\<forall>i \<in> set (package_order r). \<forall>d. requires_in cat i d \<and> \<not> is_optional d \<longrightarrow> dependency_record i d \<in> set (r_dependencies r)"
    using inv kept same by (auto simp: visit_inv_def r)
qed

end
