(* ===== verification/ResolveSpec.thy ===== *)
theory ResolveSpec
  imports PackageResolveFacts
begin

text \<open>
  The property of the package resolver: closure, versions and order.
\<close>

text \<open>C17: the resolver selects exactly the packages reachable from the core and the requested ones along required
  dependencies, records every required dependency of theirs, and lists a package only after those it depends on, each
  of them, optional ones included, with a version that satisfies the constraint.\<close>

theorem packages_are_resolved:
  assumes "resolve_packages cat platforms disciplines configs = Inr r"
  shows "set (package_order r) = (required_in cat)\<^sup>* `` set (explicit_packages platforms disciplines configs) \<and>
    distinct (package_order r) \<and>
    (\<forall>x \<in> set (r_dependencies r). before (package_order r) (snd (dependency_edge x)) (fst (dependency_edge x)) \<and> target_holds cat x) \<and>
    (\<forall>i \<in> set (package_order r). \<forall>d. requires_in cat i d \<longrightarrow> is_optional d \<or> dependency_record i d \<in> set (r_dependencies r))"
proof -
  note S = resolve_packages_spec [OF assms]
  have "before (package_order r) (snd (dependency_edge x)) (fst (dependency_edge x))" if "x \<in> set (r_dependencies r)" for x
  proof -
    have "(snd (dependency_edge x), fst (dependency_edge x)) \<in> set (install_edges (r_dependencies r))"
      using that by (auto simp: install_edges_iff)
    then show ?thesis using S(2) by (auto simp: topological_def)
  qed
  then show ?thesis using S(1,3,4) S(2) [unfolded topological_def] by (auto simp: dependencies_ok_def)
qed

definition sample_manifest :: "string \<Rightarrow> string \<Rightarrow> (string \<times> string) list \<Rightarrow> string \<times> json" where
  "sample_manifest i kind requires = (i, JObj [(''id'', JStr i), (''kind'', JStr kind), (''version'', JStr ''1.0.0''),
     (''package_requires'', JList (map (\<lambda>(t, requirement). JObj [(''id'', JStr t), (''version'', JStr ''>=1.0.0''),
        (''requirement'', JStr requirement), (''required_capabilities'', JList [JStr ''x''])]) requires))])"

definition sample_catalog :: catalog where
  "sample_catalog = [sample_manifest ''core'' ''core'' [], sample_manifest ''apple'' ''platform'' [(''review'', ''required''), (''qa'', ''optional'')],
     sample_manifest ''review'' ''discipline'' [(''core'', ''optional'')], sample_manifest ''qa'' ''discipline'' []]"

lemma sample_packages_resolved:
  "mapR (\<lambda>r. (package_order r, map dependency_edge (r_dependencies r), r_reasons r)) (resolve_packages sample_catalog [''apple''] [] []) =
   Inr ([''core'', ''review'', ''apple''], [(''apple'', ''review''), (''review'', ''core'')],
     [(''core'', [''core'']), (''review'', [''dependency:apple'']), (''apple'', [''platform:apple''])])"
  by code_simp

lemma packages_are_resolved_sample:
  "{''core'', ''review'', ''apple''} = (required_in sample_catalog)\<^sup>* `` set (explicit_packages [''apple''] [] [])"
proof -
  obtain r where "resolve_packages sample_catalog [''apple''] [] [] = Inr r" "package_order r = [''core'', ''review'', ''apple'']"
    using sample_packages_resolved by (auto simp: mapR_eq_Inr)
  with packages_are_resolved [OF this(1)] show ?thesis by simp
qed

text \<open>A required dependency on the core gives the core a second reason, which the validator of install plans refuses.\<close>

lemma resolver_makes_core_dependency:
  "mapR (\<lambda>r. (package_order r, map dependency_edge (r_dependencies r), dict_get (r_reasons r) ''core''))
     (resolve_packages [sample_manifest ''core'' ''core'' [], sample_manifest ''web'' ''platform'' [(''core'', ''required'')]] [''web''] [] []) =
   Inr ([''core'', ''web''], [(''web'', ''core'')], Some [''core'', ''dependency:web''])"
  by code_simp

end
