(* ===== verification/QaCoverage.thy ===== *)
theory QaCoverage
  imports LedgerContracts
begin

text \<open>
  \<^verbatim>\<open>qa/coverage.py\<close>: the compiler that maps scored risks to a coverage level, and the order of the levels. The level
  is the least one that meets every floor: the requested one, the one of the highest score, the one of each category
  and, for releases, the last one.
\<close>

definition COVERAGE_LEVELS :: "string list" where
  "COVERAGE_LEVELS = [''smoke'', ''targeted'', ''regression'', ''compatibility'', ''end-to-end'', ''release-candidate'']"

definition CATEGORY_FLOORS :: "(string, string) dict" where
  "CATEGORY_FLOORS =
     [(''accessibility'', ''regression''), (''compatibility'', ''compatibility''), (''cross-system'', ''end-to-end''),
      (''data-loss'', ''regression''), (''privacy'', ''regression''), (''release-critical'', ''release-candidate''),
      (''security'', ''regression'')]"

text \<open>\<open>COVERAGE_LEVELS.index(level)\<close>, for a level.\<close>

definition level_index :: "string \<Rightarrow> nat" where
  "level_index level = length (takeWhile (\<lambda>l. l \<noteq> level) COVERAGE_LEVELS)"

definition score_level :: "int \<Rightarrow> string" where
  "score_level score =
     (if score = 0 then ''smoke'' else if score \<le> 4 then ''targeted'' else if score \<le> 12 then ''regression''
      else if score \<le> 19 then ''compatibility'' else ''end-to-end'')"

section \<open>The compiler\<close>

text \<open>The locals of the loop over the risks.\<close>

record coverage_scan =
  risk_ids :: "string list"
  risk_categories :: "string list"
  maximum_score :: int

definition is_score :: "json \<Rightarrow> bool" where
  "is_score v \<longleftrightarrow> is_strict_int v \<and> 1 \<le> as_int v \<and> as_int v \<le> 5"

definition risk_score :: "json \<Rightarrow> int" where
  "risk_score risk = as_int (fld risk ''likelihood'') * as_int (fld risk ''impact'')"

definition categories_of :: "json \<Rightarrow> string list" where
  "categories_of risk = map as_str (as_list (fld risk ''categories''))"

definition scan_risk :: "coverage_scan \<Rightarrow> json \<Rightarrow> coverage_scan result" where
  "scan_risk scan risk =
     seqE (reject_if (\<not> is_obj risk) (ContractError ''coverage compiler risk must be an object''))
     (seqE (reject_if (\<not> is_nonempty_str (fld risk ''id'')) (ContractError ''coverage compiler risk id is invalid''))
     (seqE (reject_if (\<not> is_score (fld risk ''likelihood'') \<or> \<not> is_score (fld risk ''impact''))
       (ContractError ''coverage compiler risk score is invalid''))
     (seqE (reject_if (\<not> is_list (fld risk ''categories'') \<or> as_list (fld risk ''categories'') = [] \<or>
         list_ex (\<lambda>c. \<not> is_nonempty_str c) (as_list (fld risk ''categories'')))
       (ContractError ''coverage compiler risk categories are invalid''))
     (Inr \<lparr>risk_ids = risk_ids scan @ [as_str (fld risk ''id'')],
        risk_categories = risk_categories scan @ categories_of risk,
        maximum_score = max (maximum_score scan) (risk_score risk)\<rparr>))))"

text \<open>The floors and rationales of the categories, in sorted order.\<close>

definition category_floors :: "string list \<Rightarrow> (string \<times> string) list" where
  "category_floors categories =
     concat (map (\<lambda>c. case dict_get CATEGORY_FLOORS c of None \<Rightarrow> [] | Some f \<Rightarrow> [(c, f)]) (sorted_set categories))"

text \<open>\<open>max(floors, key=COVERAGE_LEVELS.index)\<close>: the first of the largest.\<close>

definition highest :: "string \<Rightarrow> string list \<Rightarrow> string" where
  "highest f fs = fold (\<lambda>f best. if level_index best < level_index f then f else best) fs f"

definition floors_of :: "coverage_scan \<Rightarrow> string \<Rightarrow> string list" where
  "floors_of scan kind =
     score_level (maximum_score scan) # map snd (category_floors (risk_categories scan)) @
     (if kind = ''release'' then [''release-candidate''] else [])"

definition rationales_of :: "coverage_scan \<Rightarrow> string \<Rightarrow> string \<Rightarrow> string list" where
  "rationales_of scan kind requested =
     [''requested-floor:'' @ requested, ''max-risk-score:'' @ int_text (maximum_score scan)] @
     map (\<lambda>p. ''category-floor:'' @ fst p @ '':'' @ snd p) (category_floors (risk_categories scan)) @
     (if kind = ''release'' then [''workflow-floor:release:release-candidate''] else [])"

definition compile_coverage :: "json list \<Rightarrow> string \<Rightarrow> json \<Rightarrow> json result" where
  "compile_coverage risks kind requested =
     seqE (reject_if (kind \<notin> set [''prd'', ''bug'', ''release'']) (ContractError ''coverage compiler workflow_kind is invalid''))
     (seqE (reject_if (\<not> list_ex (\<lambda>l. requested = JStr l) COVERAGE_LEVELS)
       (ContractError ''coverage compiler requested_level is invalid''))
     (bindE (foldE scan_risk \<lparr>risk_ids = [], risk_categories = [], maximum_score = 0\<rparr> risks) (\<lambda>scan.
     seqE (reject_if (risk_ids scan \<noteq> sorted_set (risk_ids scan))
       (ContractError ''coverage compiler risk ids must be sorted and unique''))
     (Inr (JObj
       [(''compiled_level'', JStr (highest (as_str requested) (floors_of scan kind))),
        (''dimensions'', JList (map JStr (sorted_set
           (if risk_categories scan = [] then [''functional''] else risk_categories scan)))),
        (''rationales'', JList (map JStr (sorted_set (rationales_of scan kind (as_str requested))))),
        (''requested_level'', requested),
        (''risk_refs'', JList (map JStr (risk_ids scan)))])))))"

section \<open>Facts\<close>

lemma highest_ge: "f \<in> set (g # fs) \<Longrightarrow> level_index f \<le> level_index (highest g fs)"
proof (induction fs arbitrary: f g)
  case (Cons h fs)
  let ?g = "if level_index g < level_index h then h else g"
  have eq: "highest g (h # fs) = highest ?g fs" by (simp add: highest_def)
  have "level_index ?g \<le> level_index (highest ?g fs)" using Cons.IH by simp
  moreover have "level_index g \<le> level_index ?g" "level_index h \<le> level_index ?g" by auto
  ultimately show ?case using Cons.prems Cons.IH [of f ?g] eq by auto
qed (simp add: highest_def)

lemma highest_in: "highest g fs \<in> set (g # fs)"
proof (induction fs arbitrary: g)
  case (Cons h fs)
  show ?case using Cons.IH [of "if level_index g < level_index h then h else g"] by (auto simp: highest_def split: if_splits)
qed (simp add: highest_def)

text \<open>What the loop asks of a risk.\<close>

definition risk_ok :: "json \<Rightarrow> bool" where
  "risk_ok r \<longleftrightarrow> is_obj r \<and> is_nonempty_str (fld r ''id'') \<and> is_score (fld r ''likelihood'') \<and> is_score (fld r ''impact'') \<and>
       is_list (fld r ''categories'') \<and> as_list (fld r ''categories'') \<noteq> [] \<and>
       (\<forall>c \<in> set (as_list (fld r ''categories'')). is_nonempty_str c)"

lemma scan_risks:
  assumes "foldE scan_risk scan risks = Inr scan'"
  shows "risk_ids scan' = risk_ids scan @ map (\<lambda>r. as_str (fld r ''id'')) risks \<and>
    risk_categories scan' = risk_categories scan @ concat (map categories_of risks) \<and>
    maximum_score scan' = fold max (map risk_score risks) (maximum_score scan) \<and>
    list_all risk_ok risks"
  using assms
proof (induction risks arbitrary: scan)
  case (Cons r risks)
  then obtain s where s: "scan_risk scan r = Inr s" and "foldE scan_risk s risks = Inr scan'"
    by (auto simp: result_simps)
  from Cons.IH [OF this(2)] s show ?case
    by (auto simp: scan_risk_def risk_ok_def result_simps list_ex_iff max.commute)
qed simp

lemma scan_risks_ok:
  assumes "list_all risk_ok risks"
  shows "\<exists>scan'. foldE scan_risk scan risks = Inr scan'"
  using assms
proof (induction risks arbitrary: scan)
  case (Cons r risks)
  then obtain s where "scan_risk scan r = Inr s"
    by (auto simp: scan_risk_def risk_ok_def list_ex_iff)
  with Cons.IH [of s] Cons.prems show ?case by simp
qed simp

lemma fold_max_ge: "(x::int) \<in> set xs \<or> x = m \<Longrightarrow> x \<le> fold max xs m"
proof (induction xs arbitrary: x m)
  case (Cons y xs)
  have "max y m \<le> fold max xs (max y m)" using Cons.IH by blast
  with Cons show ?case by fastforce
qed simp

lemma score_level_mono: "0 \<le> a \<Longrightarrow> a \<le> b \<Longrightarrow> level_index (score_level a) \<le> level_index (score_level b)"
proof -
  have "level_index ''smoke'' = 0" "level_index ''targeted'' = 1" "level_index ''regression'' = 2"
      "level_index ''compatibility'' = 3" "level_index ''end-to-end'' = 4"
    by code_simp+
  then show "0 \<le> a \<Longrightarrow> a \<le> b \<Longrightarrow> level_index (score_level a) \<le> level_index (score_level b)" by (simp add: score_level_def)
qed

lemma category_floors_iff: "(c, f) \<in> set (category_floors cs) \<longleftrightarrow> c \<in> set cs \<and> dict_get CATEGORY_FLOORS c = Some f"
  by (force simp: category_floors_def split: option.splits)

end
