(* ===== verification/QaContracts.thy ===== *)
theory QaContracts
  imports QaCoverage "HOL-Library.Product_Lexorder"
begin

text \<open>
  The validators of \<^verbatim>\<open>qa/contracts.py\<close>: QA plans, test cases, test results, defect reports and
  regression sets. Loops over a set of fields visit them in the order of the listing.
\<close>

section \<open>Shared checks\<close>

definition QA_WORKFLOWS :: "string list" where "QA_WORKFLOWS = [''prd'', ''bug'', ''release'']"

definition VERIFICATION_LEVELS :: "string list" where
  "VERIFICATION_LEVELS =
     [''none'', ''static'', ''lint'', ''affected-tests'', ''module-build'', ''integration'', ''ui-smoke'', ''full'']"

definition TERMINAL_QA_STATUSES :: "string list" where
  "TERMINAL_QA_STATUSES = [''passed'', ''partial'', ''blocked'', ''failed'', ''cancelled'']"

definition EVIDENCE_KINDS :: "string list" where
  "EVIDENCE_KINDS = [''log'', ''screenshot'', ''test-report'', ''trace'', ''structured-report'', ''video'']"

definition RECOMMENDATIONS :: "string list" where
  "RECOMMENDATIONS = [''go'', ''conditional-go'', ''no-go'', ''not-applicable'']"

text \<open>A text in a namespace followed by 64 hexadecimal digits.\<close>

definition in_namespace :: "string \<Rightarrow> string \<Rightarrow> bool" where
  "in_namespace ns s \<longleftrightarrow> startswith s (ns @ '':'') \<and> is_hex 64 (drop (length ns + 1) s)"

definition require_fingerprint :: "json \<Rightarrow> string \<Rightarrow> unit result" where
  "require_fingerprint v label =
     reject_if (\<not> is_str v \<or> \<not> in_namespace ''qa-v1'' (as_str v)) (ContractError (label @ '' is invalid''))"

definition require_environment_fingerprint :: "json \<Rightarrow> string \<Rightarrow> unit result" where
  "require_environment_fingerprint v label =
     reject_if (\<not> is_str v \<or> \<not> in_namespace ''qa-v1'' (as_str v) \<and> \<not> in_namespace ''desktop-v1'' (as_str v))
       (ContractError (label @ '' is invalid''))"

definition nonblank :: "json \<Rightarrow> bool" where
  "nonblank v \<longleftrightarrow> is_str v \<and> \<not> is_blank (as_str v)"

definition require_nonblank :: "json \<Rightarrow> string list \<Rightarrow> string \<Rightarrow> unit result" where
  "require_nonblank value fs label =
     for_each (\<lambda>f. reject_if (\<not> nonblank (fld value f)) (ContractError (label @ '' '' @ f @ '' is invalid''))) fs"

definition require_strings :: "json \<Rightarrow> string \<Rightarrow> bool \<Rightarrow> unit result" where
  "require_strings value label nonempty =
     reject_if (\<not> is_list value \<or> nonempty \<and> as_list value = [] \<or> list_ex (\<lambda>i. \<not> nonblank i) (as_list value))
       (ContractError (label @ '' must be '' @ (if nonempty then ''non-empty '' else '''') @ ''strings''))"

definition sorted_unique :: "string list \<Rightarrow> string \<Rightarrow> unit result" where
  "sorted_unique xs label = reject_if (xs \<noteq> sorted_set xs) (ContractError (label @ '' must be sorted and unique''))"

definition text_items :: "json \<Rightarrow> string list" where
  "text_items v = map as_str (as_list v)"

text \<open>The two checks the code makes of most arrays of texts.\<close>

definition require_text_set :: "json \<Rightarrow> string \<Rightarrow> bool \<Rightarrow> unit result" where
  "require_text_set value label nonempty =
     seqE (require_strings value label nonempty) (sorted_unique (text_items value) label)"

text \<open>A reference under \<^verbatim>\<open>artifact://\<close> that is not the bare scheme, does not go up and has no white space.\<close>

definition controlled_uri :: "json \<Rightarrow> bool" where
  "controlled_uri v \<longleftrightarrow> is_str v \<and> startswith (as_str v) ''artifact://'' \<and> as_str v \<noteq> ''artifact://'' \<and>
     \<not> contains (as_str v) ''..'' \<and> \<not> list_ex is_space (chars_of (as_str v))"

definition evidence_identity :: "json \<Rightarrow> string \<times> string" where
  "evidence_identity r = (as_str (fld r ''kind''), as_str (fld r ''uri''))"

definition check_evidence_ref :: "string \<Rightarrow> json \<Rightarrow> unit result" where
  "check_evidence_ref label reference =
     seqE (exact_object reference [''kind'', ''sha256'', ''uri''] (label @ ''.evidence_ref''))
     (seqE (require_in (fld reference ''kind'') EVIDENCE_KINDS (ContractError (label @ '' evidence kind is invalid'')))
     (seqE (reject_if (\<not> is_str (fld reference ''sha256'') \<or> \<not> is_hex 64 (as_str (fld reference ''sha256'')))
       (ContractError (label @ '' evidence sha256 is invalid'')))
     (reject_if (\<not> controlled_uri (fld reference ''uri'')) (ContractError (label @ '' evidence uri is uncontrolled'')))))"

definition validate_evidence_refs :: "json \<Rightarrow> string \<Rightarrow> bool \<Rightarrow> unit result" where
  "validate_evidence_refs value label allow_empty =
     seqE (reject_if (\<not> is_list value \<or> \<not> allow_empty \<and> as_list value = [])
       (ContractError (label @ '' evidence_refs are invalid'')))
     (seqE (for_each (check_evidence_ref label) (as_list value))
     (let identities = map evidence_identity (as_list value) in
      reject_if (identities \<noteq> sorted_set identities) (ContractError (label @ '' evidence_refs must be sorted and unique''))))"

definition qa_fingerprint :: "world \<Rightarrow> json \<Rightarrow> string result" where
  "qa_fingerprint w value = mapR (\<lambda>h. ''qa-v1:'' @ h) (sha256 w value)"

text \<open>The listed fields of an artifact but its fingerprint.\<close>

definition qa_body :: "json \<Rightarrow> string list \<Rightarrow> json" where
  "qa_body value fs = JObj (map (\<lambda>f. (f, fld value f)) (filter (\<lambda>f. f \<noteq> ''fingerprint'') fs))"

definition validate_qa_fingerprint :: "world \<Rightarrow> json \<Rightarrow> string list \<Rightarrow> string \<Rightarrow> string \<Rightarrow> unit result" where
  "validate_qa_fingerprint w value fs label identity_field =
     seqE (require_fingerprint (fld value ''fingerprint'') (label @ '' fingerprint''))
     (seqE (reject_if (\<not> nonblank (fld value identity_field)) (ContractError (label @ '' '' @ identity_field @ '' is invalid'')))
     (bindE (qa_fingerprint w (qa_body value fs)) (\<lambda>expected.
     reject_if (fld value ''fingerprint'' \<noteq> JStr expected)
       (ContractError (label @ '' fingerprint does not match artifact body'')))))"

section \<open>QA plan\<close>

definition validate_scope :: "json \<Rightarrow> string \<Rightarrow> unit result" where
  "validate_scope value label =
     seqE (exact_object value [''included'', ''excluded''] label)
     (seqE (require_text_set (fld value ''included'') (label @ '' included'') True)
     (seqE (require_text_set (fld value ''excluded'') (label @ '' excluded'') False)
     (reject_if (set (text_items (fld value ''included'')) \<inter> set (text_items (fld value ''excluded'')) \<noteq> {})
       (ContractError (label @ '' included/excluded overlap'')))))"

definition check_environment :: "string \<Rightarrow> json \<Rightarrow> unit result" where
  "check_environment label environment =
     seqE (exact_object environment [''id'', ''platform'', ''attributes'', ''fingerprint''] (label @ ''.environment''))
     (seqE (require_nonblank environment [''id'', ''platform''] (label @ ''.environment''))
     (seqE (reject_if (\<not> is_obj (fld environment ''attributes'') \<or> \<not> truthy (fld environment ''attributes''))
       (ContractError (label @ '' environment attributes must be non-empty'')))
     (require_environment_fingerprint (fld environment ''fingerprint'') (label @ '' environment fingerprint''))))"

definition ids_of :: "string \<Rightarrow> json list \<Rightarrow> string list" where
  "ids_of k xs = map (\<lambda>x. as_str (fld x k)) xs"

definition validate_environments :: "json \<Rightarrow> string \<Rightarrow> unit result" where
  "validate_environments value label =
     seqE (reject_if (\<not> is_list value \<or> as_list value = []) (ContractError (label @ '' environments must be non-empty'')))
     (seqE (for_each (check_environment label) (as_list value))
     (sorted_unique (ids_of ''id'' (as_list value)) (label @ '' environment ids'')))"

definition check_qa_risk :: "json \<Rightarrow> unit result" where
  "check_qa_risk risk =
     seqE (exact_object risk [''id'', ''title'', ''likelihood'', ''impact'', ''categories'', ''requirement_refs''] ''qa-plan.risk'')
     (seqE (require_nonblank risk [''id'', ''title''] ''qa-plan.risk'')
     (seqE (for_each (\<lambda>f. reject_if (\<not> is_score (fld risk f)) (ContractError (''qa-plan risk '' @ f @ '' is invalid'')))
       [''likelihood'', ''impact''])
     (seqE (require_text_set (fld risk ''categories'') ''qa-plan risk categories'' True)
     (require_text_set (fld risk ''requirement_refs'') ''qa-plan risk requirement_refs'' False))))"

definition validate_coverage :: "json \<Rightarrow> string list \<Rightarrow> unit result" where
  "validate_coverage value risks =
     seqE (exact_object value [''requested_level'', ''compiled_level'', ''dimensions'', ''risk_refs'', ''rationales''] ''qa-plan.coverage'')
     (seqE (reject_when
         (orE (not_in_strings (fld value ''requested_level'') COVERAGE_LEVELS)
              (not_in_strings (fld value ''compiled_level'') COVERAGE_LEVELS))
         (ContractError ''qa-plan coverage level is invalid''))
     (seqE (reject_if (level_index (as_str (fld value ''compiled_level'')) < level_index (as_str (fld value ''requested_level'')))
       (ContractError ''qa-plan compiled coverage cannot be below requested level''))
     (seqE (for_each (\<lambda>f. require_text_set (fld value f) (''qa-plan coverage '' @ f) (f \<noteq> ''risk_refs''))
       [''dimensions'', ''risk_refs'', ''rationales''])
     (reject_if (\<not> set (text_items (fld value ''risk_refs'')) \<subseteq> set risks)
       (ContractError ''qa-plan coverage references unknown risks'')))))"

text \<open>The verification block of plans and reports.\<close>

definition validate_verification :: "json \<Rightarrow> string \<Rightarrow> string list \<Rightarrow> unit result" where
  "validate_verification verification label statuses =
     seqE (exact_object verification [''level'', ''status'', ''evidence_refs''] (label @ ''.verification''))
     (seqE (require_in (fld verification ''level'') VERIFICATION_LEVELS (ContractError (label @ '' verification level is invalid'')))
     (seqE (require_in (fld verification ''status'') statuses (ContractError (label @ '' verification status is invalid'')))
     (seqE (validate_evidence_refs (fld verification ''evidence_refs'') (label @ ''.verification'') True)
     (reject_if (fld verification ''status'' = JStr ''passed'' \<and> as_list (fld verification ''evidence_refs'') = [])
       (ContractError (''passed '' @ label @ '' verification requires evidence''))))))"

definition qa_plan_fields :: "string list" where
  "qa_plan_fields = [''schema_version'', ''plan_id'', ''workflow_kind'', ''objective'', ''scope'', ''risks'', ''environments'',
     ''entry_criteria'', ''exit_criteria'', ''coverage'', ''verification'', ''status'', ''blockers'', ''fingerprint'']"

text \<open>The coverage block: well formed and the one the compiler makes of the risks.\<close>

definition check_plan_coverage :: "json \<Rightarrow> unit result" where
  "check_plan_coverage value =
     seqE (validate_coverage (fld value ''coverage'') (ids_of ''id'' (as_list (fld value ''risks''))))
     (bindE (compile_coverage (as_list (fld value ''risks'')) (as_str (fld value ''workflow_kind''))
         (fld (fld value ''coverage'') ''requested_level'')) (\<lambda>expected.
     reject_if (\<not> py_eq (fld value ''coverage'') expected)
       (ContractError ''qa-plan coverage differs from canonical risk compilation'')))"

definition check_plan_status :: "json \<Rightarrow> unit result" where
  "check_plan_status value =
     seqE (require_in (fld value ''status'') [''planned'', ''partial'', ''blocked'', ''cancelled''] (ContractError ''qa-plan status is invalid''))
     (seqE (reject_if (fld value ''status'' = JStr ''blocked'' \<and> as_list (fld value ''blockers'') = [])
       (ContractError ''blocked qa-plan requires blockers''))
     (reject_if (fld value ''status'' \<noteq> JStr ''blocked'' \<and> as_list (fld value ''blockers'') \<noteq> [])
       (ContractError ''non-blocked qa-plan cannot carry blockers'')))"

definition validate_qa_plan :: "world \<Rightarrow> json \<Rightarrow> unit result" where
  "validate_qa_plan w value =
     seqE (exact_object value qa_plan_fields ''qa-plan'')
     (seqE (require_version value)
     (seqE (require_nonblank value [''plan_id'', ''objective''] ''qa-plan'')
     (seqE (require_in (fld value ''workflow_kind'') QA_WORKFLOWS (ContractError ''qa-plan workflow_kind is invalid''))
     (seqE (validate_scope (fld value ''scope'') ''qa-plan.scope'')
     (seqE (reject_if (\<not> is_list (fld value ''risks'')) (ContractError ''qa-plan risks must be an array''))
     (seqE (for_each check_qa_risk (as_list (fld value ''risks'')))
     (seqE (sorted_unique (ids_of ''id'' (as_list (fld value ''risks''))) ''qa-plan risk ids'')
     (seqE (validate_environments (fld value ''environments'') ''qa-plan'')
     (seqE (for_each (\<lambda>f. require_text_set (fld value f) (''qa-plan '' @ f) (f \<noteq> ''blockers''))
       [''entry_criteria'', ''exit_criteria'', ''blockers''])
     (seqE (check_plan_coverage value)
     (seqE (validate_verification (fld value ''verification'') ''qa-plan'' (''pending'' # TERMINAL_QA_STATUSES))
     (seqE (check_plan_status value)
     (validate_qa_fingerprint w value qa_plan_fields ''qa-plan'' ''plan_id'')))))))))))))"

section \<open>Test cases and results\<close>

definition test_case_fields :: "string list" where
  "test_case_fields = [''schema_version'', ''case_id'', ''title'', ''requirement_refs'', ''risk_refs'', ''preconditions'', ''test_data'',
     ''steps'', ''expected_results'', ''coverage_tags'', ''automation_suitability'', ''status'', ''fingerprint'']"

text \<open>One step; \<open>n\<close> is its place, from 1.\<close>

definition check_test_step :: "nat \<times> json \<Rightarrow> unit result" where
  "check_test_step p =
     seqE (exact_object (snd p) [''number'', ''action'', ''expected''] ''test-case.step'')
     (seqE (reject_if (\<not> py_eq (fld (snd p) ''number'') (JInt (int (fst p))))
       (ContractError ''test-case step numbers must be contiguous''))
     (require_nonblank (snd p) [''action'', ''expected''] ''test-case.step''))"

definition validate_test_case :: "world \<Rightarrow> json \<Rightarrow> unit result" where
  "validate_test_case w value =
     seqE (exact_object value test_case_fields ''test-case'')
     (seqE (require_version value)
     (seqE (require_nonblank value [''case_id'', ''title''] ''test-case'')
     (seqE (for_each (\<lambda>f. require_text_set (fld value f) (''test-case '' @ f) (f \<in> set [''preconditions'', ''expected_results'', ''coverage_tags'']))
       [''requirement_refs'', ''risk_refs'', ''preconditions'', ''expected_results'', ''coverage_tags''])
     (seqE (reject_if (\<not> is_obj (fld value ''test_data'')) (ContractError ''test-case test_data must be an object''))
     (seqE (reject_if (\<not> is_list (fld value ''steps'') \<or> as_list (fld value ''steps'') = [])
       (ContractError ''test-case steps must be non-empty''))
     (seqE (for_each check_test_step (List.enumerate 1 (as_list (fld value ''steps''))))
     (seqE (require_in (fld value ''automation_suitability'') [''high'', ''medium'', ''low'', ''none'']
       (ContractError ''test-case automation_suitability is invalid''))
     (seqE (require_in (fld value ''status'') [''active'', ''deprecated''] (ContractError ''test-case status is invalid''))
     (validate_qa_fingerprint w value test_case_fields ''test-case'' ''case_id'')))))))))"

definition test_result_fields :: "string list" where
  "test_result_fields = [''schema_version'', ''result_id'', ''attempt_id'', ''case_id'', ''plan_fingerprint'', ''environment_fingerprint'',
     ''test_data_fingerprint'', ''status'', ''evidence_refs'', ''defect_refs'', ''blockers'', ''fingerprint'']"

text \<open>What the status of a result asks of its evidence, defects and blockers.\<close>

definition check_result_status :: "json \<Rightarrow> unit result" where
  "check_result_status value =
     (let status = as_str (fld value ''status''); evidence = as_list (fld value ''evidence_refs'');
          defects = as_list (fld value ''defect_refs''); blockers = as_list (fld value ''blockers'') in
      seqE (reject_if (status \<in> set [''passed'', ''failed''] \<and> evidence = []) (ContractError ''passed/failed test-result requires evidence''))
      (seqE (reject_if (status = ''passed'' \<and> (defects \<noteq> [] \<or> blockers \<noteq> []))
        (ContractError ''passed test-result cannot carry defects or blockers''))
      (seqE (reject_if (status = ''failed'' \<and> defects = []) (ContractError ''failed test-result requires defect_refs''))
      (seqE (reject_if (status = ''blocked'' \<and> blockers = []) (ContractError ''blocked test-result requires blockers''))
      (reject_if (status \<notin> set [''blocked'', ''cancelled'', ''skipped''] \<and> blockers \<noteq> [])
        (ContractError ''test-result blockers conflict with status''))))))"

definition validate_test_result :: "world \<Rightarrow> json \<Rightarrow> unit result" where
  "validate_test_result w value =
     seqE (exact_object value test_result_fields ''test-result'')
     (seqE (require_version value)
     (seqE (require_nonblank value [''result_id'', ''attempt_id'', ''case_id''] ''test-result'')
     (seqE (for_each (\<lambda>f. require_fingerprint (fld value f) (''test-result '' @ f)) [''plan_fingerprint'', ''test_data_fingerprint''])
     (seqE (require_environment_fingerprint (fld value ''environment_fingerprint'') ''test-result environment_fingerprint'')
     (seqE (require_in (fld value ''status'') [''passed'', ''blocked'', ''failed'', ''cancelled'', ''skipped'']
       (ContractError ''test-result status is invalid''))
     (seqE (validate_evidence_refs (fld value ''evidence_refs'') ''test-result'' True)
     (seqE (for_each (\<lambda>f. require_text_set (fld value f) (''test-result '' @ f) False) [''defect_refs'', ''blockers''])
     (seqE (check_result_status value)
     (validate_qa_fingerprint w value test_result_fields ''test-result'' ''result_id'')))))))))"

section \<open>Defect reports\<close>

definition defect_fields :: "string list" where
  "defect_fields = [''schema_version'', ''defect_id'', ''title'', ''reproduction'', ''severity'', ''priority'', ''environment_fingerprint'',
     ''evidence_refs'', ''attribution'', ''impact'', ''owner'', ''status'', ''fix_verification_result_refs'', ''regression_case_refs'',
     ''blockers'', ''fingerprint'']"

definition check_reproduction :: "json \<Rightarrow> unit result" where
  "check_reproduction reproduction =
     seqE (exact_object reproduction [''rate'', ''steps'', ''expected'', ''actual''] ''defect-report.reproduction'')
     (seqE (require_in (fld reproduction ''rate'') [''always'', ''intermittent'', ''once'', ''not-reproduced'']
       (ContractError ''defect-report reproduction rate is invalid''))
     (seqE (require_strings (fld reproduction ''steps'') ''defect-report reproduction steps'' True)
     (require_nonblank reproduction [''expected'', ''actual''] ''defect-report.reproduction'')))"

definition check_attribution :: "json \<Rightarrow> unit result" where
  "check_attribution attribution =
     seqE (exact_object attribution [''category'', ''confidence'', ''component''] ''defect-report.attribution'')
     (seqE (require_in (fld attribution ''category'') [''code'', ''environment'', ''test-data'', ''requirement'', ''unknown'']
       (ContractError ''defect-report attribution category is invalid''))
     (seqE (reject_if (\<not> is_number (fld attribution ''confidence'') \<or> is_bool (fld attribution ''confidence'') \<or>
         \<not> in_unit_interval (fld attribution ''confidence'')) (ContractError ''defect-report attribution confidence is invalid''))
     (reject_if (fld attribution ''component'' \<noteq> JNull \<and> \<not> nonblank (fld attribution ''component''))
       (ContractError ''defect-report attribution component is invalid''))))"

definition check_impact :: "json \<Rightarrow> unit result" where
  "check_impact impact =
     seqE (exact_object impact [''scope'', ''regression_risk''] ''defect-report.impact'')
     (seqE (require_text_set (fld impact ''scope'') ''defect-report impact scope'' True)
     (require_in (fld impact ''regression_risk'') [''low'', ''medium'', ''high''] (ContractError ''defect-report regression_risk is invalid'')))"

definition check_defect_status :: "json \<Rightarrow> unit result" where
  "check_defect_status value =
     (let status = as_str (fld value ''status''); blockers = as_list (fld value ''blockers'') in
      seqE (reject_if (status \<in> set [''verified'', ''closed''] \<and>
          (as_list (fld value ''fix_verification_result_refs'') = [] \<or> as_list (fld value ''regression_case_refs'') = []))
        (ContractError ''verified/closed defect-report requires fix verification and regression ownership''))
      (seqE (reject_if (status = ''blocked'' \<and> blockers = []) (ContractError ''blocked defect-report requires blockers''))
      (seqE (reject_if (fld (fld value ''reproduction'') ''rate'' = JStr ''not-reproduced'' \<and> blockers = [])
        (ContractError ''not-reproduced defect-report requires next evidence blocker''))
      (reject_if (status \<notin> set [''blocked'', ''open''] \<and> blockers \<noteq> []) (ContractError ''defect-report blockers conflict with status'')))))"

definition validate_defect_report :: "world \<Rightarrow> json \<Rightarrow> unit result" where
  "validate_defect_report w value =
     seqE (exact_object value defect_fields ''defect-report'')
     (seqE (require_version value)
     (seqE (require_nonblank value [''defect_id'', ''title'', ''owner''] ''defect-report'')
     (seqE (check_reproduction (fld value ''reproduction''))
     (seqE (require_in (fld value ''severity'') [''blocker'', ''critical'', ''major'', ''minor'', ''trivial'']
       (ContractError ''defect-report severity is invalid''))
     (seqE (require_in (fld value ''priority'') [''p0'', ''p1'', ''p2'', ''p3'', ''p4''] (ContractError ''defect-report priority is invalid''))
     (seqE (require_environment_fingerprint (fld value ''environment_fingerprint'') ''defect-report environment_fingerprint'')
     (seqE (validate_evidence_refs (fld value ''evidence_refs'') ''defect-report'' False)
     (seqE (check_attribution (fld value ''attribution''))
     (seqE (check_impact (fld value ''impact''))
     (seqE (require_in (fld value ''status'') [''open'', ''fixed'', ''verified'', ''closed'', ''blocked'', ''reopened'']
       (ContractError ''defect-report status is invalid''))
     (seqE (for_each (\<lambda>f. require_text_set (fld value f) (''defect-report '' @ f) False)
       [''fix_verification_result_refs'', ''regression_case_refs'', ''blockers''])
     (seqE (check_defect_status value)
     (validate_qa_fingerprint w value defect_fields ''defect-report'' ''defect_id'')))))))))))))"

section \<open>Regression sets\<close>

definition regression_fields :: "string list" where
  "regression_fields = [''schema_version'', ''set_id'', ''case_refs'', ''defect_refs'', ''source_fingerprints'', ''environment_fingerprints'',
     ''status'', ''stale_reasons'', ''fingerprint'']"

definition check_regression_fingerprints :: "json \<Rightarrow> string \<Rightarrow> unit result" where
  "check_regression_fingerprints value f =
     seqE (require_text_set (fld value f) (''regression-set '' @ f) True)
     (for_each (\<lambda>i. if f = ''environment_fingerprints'' then require_environment_fingerprint i (''regression-set '' @ f)
         else require_fingerprint i (''regression-set '' @ f)) (as_list (fld value f)))"

definition validate_regression_set :: "world \<Rightarrow> json \<Rightarrow> unit result" where
  "validate_regression_set w value =
     seqE (exact_object value regression_fields ''regression-set'')
     (seqE (require_version value)
     (seqE (require_nonblank value [''set_id''] ''regression-set'')
     (seqE (for_each (\<lambda>f. require_text_set (fld value f) (''regression-set '' @ f) (f = ''case_refs'')) [''case_refs'', ''defect_refs''])
     (seqE (for_each (check_regression_fingerprints value) [''source_fingerprints'', ''environment_fingerprints''])
     (seqE (require_in (fld value ''status'') [''current'', ''stale'', ''blocked''] (ContractError ''regression-set status is invalid''))
     (seqE (require_text_set (fld value ''stale_reasons'') ''regression-set stale_reasons'' False)
     (seqE (reject_if (fld value ''status'' = JStr ''current'' \<and> as_list (fld value ''stale_reasons'') \<noteq> [])
       (ContractError ''current regression-set cannot carry stale reasons''))
     (seqE (reject_if (as_str (fld value ''status'') \<in> set [''stale'', ''blocked''] \<and> as_list (fld value ''stale_reasons'') = [])
       (ContractError ''stale/blocked regression-set requires reasons''))
     (validate_qa_fingerprint w value regression_fields ''regression-set'' ''set_id'')))))))))"

end
