(* ===== verification/QaReport.thy ===== *)
theory QaReport
  imports QaContracts
begin

text \<open>
  The QA report of \<^verbatim>\<open>qa/contracts.py\<close>: calendar dates, quality counts, waivers, and the rules that tie the status and
  the release recommendation to the evidence. A date is read from ten ASCII characters; the pattern of the code also
  lets other decimal digits through, which \<open>date.fromisoformat\<close> then refuses with the same error.
\<close>

section \<open>Dates\<close>

definition is_leap :: "int \<Rightarrow> bool" where
  "is_leap y \<longleftrightarrow> 4 dvd y \<and> (\<not> 100 dvd y \<or> 400 dvd y)"

definition days_in_month :: "int \<Rightarrow> int \<Rightarrow> int" where
  "days_in_month y m = (if m = 2 then (if is_leap y then 29 else 28) else if m = 4 \<or> m = 6 \<or> m = 9 \<or> m = 11 then 30 else 31)"

definition number_of :: "string \<Rightarrow> int" where
  "number_of s = foldl (\<lambda>n c. 10 * n + (of_char c - 48)) 0 s"

definition is_date_text :: "string \<Rightarrow> bool" where
  "is_date_text s \<longleftrightarrow> length s = 10 \<and> list_all is_digit (take 4 s) \<and> s ! 4 = CHR ''-'' \<and>
     list_all is_digit (take 2 (drop 5 s)) \<and> s ! 7 = CHR ''-'' \<and> list_all is_digit (drop 8 s)"

text \<open>\<open>date.fromisoformat\<close>: year, month and day, from the first day of year 1 on.\<close>

definition iso_date :: "string \<Rightarrow> (int \<times> int \<times> int) option" where
  "iso_date s =
     (let y = number_of (take 4 s); m = number_of (take 2 (drop 5 s)); d = number_of (drop 8 s) in
      if is_date_text s \<and> 1 \<le> y \<and> 1 \<le> m \<and> m \<le> 12 \<and> 1 \<le> d \<and> d \<le> days_in_month y m then Some (y, m, d) else None)"

section \<open>Parts of the report\<close>

definition count_fields :: "string list" where
  "count_fields = [''total'', ''executed'', ''passed'', ''failed'', ''blocked'', ''skipped'', ''cancelled'']"

definition count_of :: "json \<Rightarrow> string \<Rightarrow> int" where
  "count_of quality f = as_int (fld quality f)"

definition check_quality :: "json \<Rightarrow> unit result" where
  "check_quality quality =
     seqE (exact_object quality (''coverage_level'' # count_fields @ [''gaps'', ''defect_refs'']) ''qa-report.quality'')
     (seqE (require_in (fld quality ''coverage_level'') COVERAGE_LEVELS (ContractError ''qa-report quality coverage_level is invalid''))
     (seqE (for_each (\<lambda>f. reject_if (\<not> is_strict_int (fld quality f) \<or> count_of quality f < 0)
         (ContractError ''qa-report quality counts are invalid'')) count_fields)
     (seqE (reject_if (count_of quality ''executed'' \<noteq>
         count_of quality ''passed'' + count_of quality ''failed'' + count_of quality ''blocked'')
       (ContractError ''qa-report executed count is inconsistent''))
     (seqE (reject_if (count_of quality ''total'' \<noteq>
         count_of quality ''executed'' + count_of quality ''skipped'' + count_of quality ''cancelled'')
       (ContractError ''qa-report total count is inconsistent''))
     (seqE (for_each (\<lambda>f. require_text_set (fld quality f) (''qa-report quality '' @ f) False) [''gaps'', ''defect_refs''])
     (reject_if (count_of quality ''failed'' \<noteq> 0 \<and> as_list (fld quality ''defect_refs'') = [])
       (ContractError ''qa-report failed cases require defect_refs'')))))))"

text \<open>A waiver; \<open>today\<close> is the day of the evaluation.\<close>

definition check_waiver :: "int \<times> int \<times> int \<Rightarrow> json \<Rightarrow> unit result" where
  "check_waiver today waiver =
     seqE (exact_object waiver [''id'', ''owner'', ''expires_on'', ''reason''] ''qa-report.waiver'')
     (seqE (require_nonblank waiver [''id'', ''owner'', ''expires_on'', ''reason''] ''qa-report.waiver'')
     (case iso_date (as_str (fld waiver ''expires_on'')) of
        None \<Rightarrow> Inl (ContractError ''qa-report waiver expires_on is invalid'')
      | Some expires_on \<Rightarrow> reject_if (expires_on < today) (ContractError ''qa-report waiver is expired for evaluated_on'')))"

definition check_waivers :: "int \<times> int \<times> int \<Rightarrow> json \<Rightarrow> unit result" where
  "check_waivers today waivers =
     seqE (reject_if (\<not> is_list waivers) (ContractError ''qa-report waivers must be an array''))
     (seqE (for_each (check_waiver today) (as_list waivers))
     (sorted_unique (ids_of ''id'' (as_list waivers)) ''qa-report waiver ids''))"

text \<open>What the status of a report asks of its counts, gaps, blockers and evidence.\<close>

definition check_report_status :: "json \<Rightarrow> unit result" where
  "check_report_status value =
     (let status = as_str (fld value ''status''); quality = fld value ''quality''; gaps = as_list (fld quality ''gaps'');
          blockers = as_list (fld value ''blockers'') in
      seqE (reject_if (status = ''passed'' \<and> (gaps \<noteq> [] \<or> count_of quality ''failed'' \<noteq> 0 \<or> count_of quality ''blocked'' \<noteq> 0 \<or>
          count_of quality ''skipped'' \<noteq> 0 \<or> count_of quality ''cancelled'' \<noteq> 0 \<or> blockers \<noteq> []))
        (ContractError ''passed qa-report cannot hide gaps, failures, or blockers''))
      (seqE (reject_if (status = ''passed'' \<and> (count_of quality ''executed'' = 0 \<or> as_list (fld value ''evidence_refs'') = []))
        (ContractError ''passed qa-report requires executed cases and QA evidence''))
      (seqE (reject_if (status = ''partial'' \<and> gaps = []) (ContractError ''partial qa-report requires explicit coverage gaps''))
      (seqE (reject_if (status = ''blocked'' \<and> blockers = []) (ContractError ''blocked qa-report requires blockers''))
      (seqE (reject_if (status = ''failed'' \<and> count_of quality ''failed'' = 0)
        (ContractError ''failed qa-report requires failed test results''))
      (reject_if (status = ''cancelled'' \<and> count_of quality ''cancelled'' = 0)
        (ContractError ''cancelled qa-report requires cancelled test results'')))))))"

definition check_recommendation :: "json \<Rightarrow> unit result" where
  "check_recommendation value =
     (let status = as_str (fld value ''status''); kind = as_str (fld value ''workflow_kind'');
          recommendation = as_str (fld value ''release_recommendation'');
          verified = as_str (fld (fld value ''verification'') ''status''); quality = fld value ''quality'';
          risks = as_list (fld value ''residual_risks''); waivers = as_list (fld value ''waivers'') in
      seqE (reject_if (kind = ''release'' \<and> recommendation = ''not-applicable'')
        (ContractError ''release qa-report requires a release recommendation''))
      (seqE (reject_if (kind \<noteq> ''release'' \<and> recommendation \<noteq> ''not-applicable'')
        (ContractError ''non-release qa-report cannot make a release recommendation''))
      (seqE (reject_if (recommendation = ''go'' \<and> (status \<noteq> ''passed'' \<or> verified \<noteq> ''passed'' \<or> risks \<noteq> [] \<or> waivers \<noteq> []))
        (ContractError ''go recommendation requires passed QA and verification without waivers or residual risks''))
      (seqE (reject_if (recommendation = ''conditional-go'' \<and> (status \<notin> set [''partial'', ''passed''] \<or>
          verified \<notin> set [''passed'', ''partial''] \<or> waivers = [] \<or> risks = []))
        (ContractError ''conditional-go requires explicit waivers and residual risks''))
      (seqE (reject_if (recommendation = ''no-go'' \<and> \<not> (as_list (fld value ''blockers'') \<noteq> [] \<or> count_of quality ''failed'' \<noteq> 0 \<or>
          count_of quality ''blocked'' \<noteq> 0 \<or> verified \<in> set [''failed'', ''blocked'', ''cancelled'']))
        (ContractError ''no-go requires failed or blocked quality evidence''))
      (reject_if (kind = ''release'' \<and> verified \<in> set [''failed'', ''blocked'', ''cancelled''] \<and> recommendation \<noteq> ''no-go'')
        (ContractError ''failed or blocked release verification requires no-go'')))))))"

section \<open>The validator\<close>

definition qa_report_fields :: "string list" where
  "qa_report_fields = [''schema_version'', ''report_id'', ''plan_fingerprint'', ''workflow_kind'', ''status'', ''delivery_context'',
     ''evaluated_on'', ''verification'', ''quality'', ''waivers'', ''release_recommendation'', ''residual_risks'', ''evidence_refs'',
     ''blockers'', ''fingerprint'']"

definition context_fields :: "string list" where
  "context_fields = [''workflow_plan_id'', ''workflow_plan_fingerprint'', ''run_id'']"

definition validate_qa_report :: "world \<Rightarrow> json \<Rightarrow> unit result" where
  "validate_qa_report w value =
     seqE (exact_object value qa_report_fields ''qa-report'')
     (seqE (require_version value)
     (seqE (require_nonblank value [''report_id''] ''qa-report'')
     (seqE (require_fingerprint (fld value ''plan_fingerprint'') ''qa-report plan_fingerprint'')
     (seqE (require_in (fld value ''workflow_kind'') QA_WORKFLOWS (ContractError ''qa-report workflow_kind is invalid''))
     (case iso_date (as_str (fld value ''evaluated_on'')) of
        None \<Rightarrow> Inl (ContractError ''qa-report evaluated_on is invalid'')
      | Some today \<Rightarrow>
     seqE (exact_object (fld value ''delivery_context'') context_fields ''qa-report.delivery_context'')
     (seqE (require_nonblank (fld value ''delivery_context'') context_fields ''qa-report.delivery_context'')
     (seqE (require_in (fld value ''status'') TERMINAL_QA_STATUSES (ContractError ''qa-report status is invalid''))
     (seqE (validate_verification (fld value ''verification'') ''qa-report'' TERMINAL_QA_STATUSES)
     (seqE (check_quality (fld value ''quality''))
     (seqE (check_waivers today (fld value ''waivers''))
     (seqE (require_in (fld value ''release_recommendation'') RECOMMENDATIONS
       (ContractError ''qa-report release_recommendation is invalid''))
     (seqE (for_each (\<lambda>f. require_text_set (fld value f) (''qa-report '' @ f) False) [''residual_risks'', ''blockers''])
     (seqE (validate_evidence_refs (fld value ''evidence_refs'') ''qa-report'' True)
     (seqE (check_report_status value)
     (seqE (check_recommendation value)
     (validate_qa_fingerprint w value qa_report_fields ''qa-report'' ''report_id''))))))))))))))))"

lemma iso_date_text: "iso_date s = Some d \<Longrightarrow> length s = 10"
  by (simp add: iso_date_def is_date_text_def Let_def split: if_splits)

lemma iso_date_leap_days:
  "iso_date ''2024-02-29'' = Some (2024, 2, 29)" "iso_date ''2023-02-29'' = None" "iso_date ''1900-02-29'' = None"
  by code_simp+

end
