(* ===== verification/Delivery.thy ===== *)
theory Delivery
  imports Executor Registry QaReport
begin

text \<open>
  \<^verbatim>\<open>ledger_status.py\<close>, \<^verbatim>\<open>reporting/delivery.py\<close> and the delivery report of \<^verbatim>\<open>contracts.py\<close>: the status projection of a
  run ledger, the report made of a plan, a ledger and an optional QA report, and its validator.
\<close>

section \<open>Status projection\<close>

text \<open>The first attempt of each node with the highest number.\<close>

definition note_highest :: "(json \<times> json) list \<Rightarrow> json \<Rightarrow> (json \<times> json) list result" where
  "note_highest d a =
     bindE (getitem a ''node_id'') (\<lambda>n.
     if \<not> hashable n then Inl (TypeError ''unhashable type'')
     else case keyed_get d n of
         None \<Rightarrow> Inr (keyed_set n a d)
       | Some previous \<Rightarrow>
           bindE (getitem a ''attempt_number'') (\<lambda>k.
           bindE (getitem previous ''attempt_number'') (\<lambda>p.
           bindE (py_lt p k) (\<lambda>later. Inr (if later then keyed_set n a d else d)))))"

definition highest_attempts :: "json list \<Rightarrow> (json \<times> json) list result" where
  "highest_attempts attempts = foldE note_highest [] attempts"

text \<open>The set of the attempt ids of a dictionary of attempts.\<close>

definition attempt_ids_of :: "(json \<times> json) list \<Rightarrow> json list result" where
  "attempt_ids_of d =
     mapE (\<lambda>p. bindE (getitem (snd p) ''attempt_id'') (\<lambda>i. if hashable i then Inr i else Inl (TypeError ''unhashable type''))) d"

text \<open>\<open>item.get("attempt_id") in ids\<close>\<close>

definition refers_to :: "json list \<Rightarrow> json \<Rightarrow> bool result" where
  "refers_to ids item = bindE (get_opt item ''attempt_id'') (\<lambda>i. py_member i ids)"

definition SEVERITY :: "(string, int) dict" where
  "SEVERITY = [(''completed'', 0), (''passed'', 0), (''partial'', 1), (''blocked'', 2), (''failed'', 3)]"

definition severity_of :: "json \<Rightarrow> (int \<times> string) result" where
  "severity_of status =
     (if \<not> hashable status then Inl (TypeError ''unhashable type'')
      else case dict_get SEVERITY (as_str status) of
          Some n \<Rightarrow> Inr (n, as_str status) | None \<Rightarrow> Inl (KeyError (as_str status)))"

definition current_validation_status :: "json \<Rightarrow> json result" where
  "current_validation_status rl =
     bindE (getitem rl ''node_attempts'') (\<lambda>v. bindE (iterate v) (\<lambda>attempts.
     bindE (highest_attempts attempts) (\<lambda>latest.
     bindE (attempt_ids_of latest) (\<lambda>ids.
     bindE (get_default rl ''evidence'' (JList [])) (\<lambda>v. bindE (iterate v) (\<lambda>evidence.
     bindE (filterE (\<lambda>item. bindE (refers_to ids item) (\<lambda>b.
         if b then mapR (\<lambda>k. k = JStr ''validation'') (get_opt item ''kind'') else Inr False)) evidence) (\<lambda>items.
     bindE (mapE (\<lambda>item. getitem item ''status'') items) (\<lambda>statuses.
     if statuses = [] then getitem rl ''final_status''
     else bindE (mapE severity_of statuses) (\<lambda>keys. Inr (JStr (snd (fold max (tl keys) (hd keys)))))))))))))"

section \<open>The delivery report\<close>

definition known_risks :: "bool \<Rightarrow> bool \<Rightarrow> json" where
  "known_risks structured history =
     JList (if structured then [] else if history then [JStr ''missing-current-structured-evidence'']
       else [JStr ''fake-adapter-evidence-only''])"

definition reviews_block :: "json list \<Rightarrow> (string \<times> json) list result" where
  "reviews_block reviews =
     (if reviews = [] then Inr []
      else mapR (\<lambda>s. [(''review'', JObj [(''evidence'', JList reviews), (''status'', s)])]) (getitem (last reviews) ''status''))"

text \<open>The report without QA: everything comes from the plan and the latest attempts of the ledger.\<close>

definition base_report :: "json \<Rightarrow> json \<Rightarrow> json result" where
  "base_report plan rl =
     bindE (getitem rl ''node_attempts'') (\<lambda>v. bindE (iterate v) (\<lambda>attempts.
     bindE (latest_attempts attempts) (\<lambda>latest.
     bindE (attempt_ids_of latest) (\<lambda>ids.
     bindE (filterE (\<lambda>p. mapR (\<lambda>s. s = JStr ''blocked'') (getitem (snd p) ''status'')) latest) (\<lambda>stuck.
     bindE (get_opt plan ''status'') (\<lambda>plan_status.
     bindE (get_default plan ''missing_capabilities'' (JList [])) (\<lambda>missing.
     bindE (if plan_status = JStr ''blocked'' then iterate missing else Inr []) (\<lambda>lacking.
     bindE (get_default rl ''evidence'' (JList [])) (\<lambda>v. bindE (iterate v) (\<lambda>items.
     bindE (filterE (refers_to ids) items) (\<lambda>evidence.
     bindE (mapE (\<lambda>i. get_opt i ''kind'') evidence) (\<lambda>_.
     bindE (get_opt rl ''adapter_outcomes'') (\<lambda>outcomes.
     bindE (getitem plan ''plan_id'') (\<lambda>plan_id.
     bindE (getitem rl ''run_id'') (\<lambda>run_id.
     bindE (getitem rl ''final_status'') (\<lambda>final.
     bindE (current_validation_status rl) (\<lambda>validation_status.
     let structured = (evidence \<noteq> []); history = truthy outcomes;
         of_kind = (\<lambda>k. filter (\<lambda>i. fld i ''kind'' = JStr k) evidence) in
     bindE (reviews_block (of_kind ''review'')) (\<lambda>review.
     Inr (JObj ([(''blocked_items'', JList (map fst stuck @ lacking)),
        (''known_risks'', known_risks structured history),
        (''routing'', JObj [(''missing_capabilities'', missing), (''plan_id'', plan_id)]),
        (''run_id'', run_id),
        (''schema_version'', JStr ''1.0''),
        (''status'', final),
        (''validation'', JObj [(''evidence'', JList (of_kind ''validation'')),
           (''mode'', JStr (if structured \<or> history then ''structured-provider'' else ''phase-1-fake-adapters'')),
           (''status'', validation_status)])] @ review))))))))))))))))))))"

text \<open>The context a QA report must name: this run of this plan.\<close>

definition expected_context :: "json \<Rightarrow> json \<Rightarrow> json" where
  "expected_context plan rl =
     JObj [(''run_id'', fld rl ''run_id''), (''workflow_plan_fingerprint'', fld plan ''fingerprint''),
       (''workflow_plan_id'', fld plan ''plan_id'')]"

definition quality_block :: "json \<Rightarrow> json" where
  "quality_block qa =
     (let context = fld qa ''delivery_context'' in JObj
       [(''coverage_level'', fld (fld qa ''quality'') ''coverage_level''),
        (''evidence_refs'', fld qa ''evidence_refs''),
        (''qa_plan_fingerprint'', fld qa ''plan_fingerprint''),
        (''release_recommendation'', fld qa ''release_recommendation''),
        (''report_fingerprint'', fld qa ''fingerprint''),
        (''run_id'', fld context ''run_id''),
        (''status'', fld qa ''status''),
        (''verification_status'', fld (fld qa ''verification'') ''status''),
        (''workflow_plan_fingerprint'', fld context ''workflow_plan_fingerprint''),
        (''workflow_plan_id'', fld context ''workflow_plan_id'')])"

text \<open>The QA report is valid, about this run, and agrees with the status of the delivery.\<close>

definition check_qa_report :: "world \<Rightarrow> json \<Rightarrow> json \<Rightarrow> json \<Rightarrow> json \<Rightarrow> unit result" where
  "check_qa_report w plan rl report qa =
     seqE (validate_qa_report w qa)
     (bindE (getitem plan ''fingerprint'') (\<lambda>_.
     seqE (reject_if (\<not> py_eq (fld qa ''delivery_context'') (expected_context plan rl))
       (ContractError ''qa-report delivery_context does not match current workflow run''))
     (seqE (reject_if (\<not> py_eq (fld (fld qa ''verification'') ''status'') (fld (fld report ''validation'') ''status''))
       (ContractError ''qa-report verification status conflicts with current ledger validation''))
     (seqE (reject_if (fld qa ''release_recommendation'' = JStr ''go'' \<and> fld report ''status'' \<noteq> JStr ''completed'')
       (ContractError ''qa-report go conflicts with non-completed delivery status''))
     (if fld qa ''release_recommendation'' = JStr ''conditional-go''
      then require_in (fld report ''status'') [''completed'', ''partial'']
        (ContractError ''qa-report conditional-go conflicts with blocked or cancelled delivery status'')
      else Inr ())))))"

definition delivery_report :: "world \<Rightarrow> json \<Rightarrow> json \<Rightarrow> json option \<Rightarrow> json result" where
  "delivery_report w plan rl qa_report =
     bindE (base_report plan rl) (\<lambda>report.
     case qa_report of
       None \<Rightarrow> Inr report
     | Some qa \<Rightarrow> seqE (check_qa_report w plan rl report qa) (Inr (put report ''quality'' (quality_block qa))))"

section \<open>The validator\<close>

definition check_delivery_evidence :: "json \<Rightarrow> unit result" where
  "check_delivery_evidence reference =
     seqE (exact_object reference [''kind'', ''sha256'', ''uri''] ''delivery-report.quality.evidence-ref'')
     (seqE (require_in (fld reference ''kind'') EVIDENCE_KINDS (ContractError ''delivery-report quality evidence kind is invalid''))
     (seqE (reject_if (\<not> is_str (fld reference ''sha256'') \<or> \<not> is_hex 64 (as_str (fld reference ''sha256'')))
       (ContractError ''delivery-report quality evidence sha256 is invalid''))
     (reject_if (\<not> controlled_uri (fld reference ''uri'')) (ContractError ''delivery-report quality evidence uri is uncontrolled''))))"

definition quality_fields :: "string list" where
  "quality_fields = [''status'', ''verification_status'', ''coverage_level'', ''release_recommendation'', ''qa_plan_fingerprint'',
     ''workflow_plan_id'', ''workflow_plan_fingerprint'', ''run_id'', ''report_fingerprint'', ''evidence_refs'']"

definition check_quality_block :: "json \<Rightarrow> json \<Rightarrow> unit result" where
  "check_quality_block value quality =
     seqE (exact_object quality quality_fields ''delivery-report.quality'')
     (seqE (require_in (fld quality ''status'') TERMINAL_QA_STATUSES (ContractError ''delivery-report quality status is invalid''))
     (seqE (require_in (fld quality ''verification_status'') TERMINAL_QA_STATUSES
       (ContractError ''delivery-report quality verification_status is invalid''))
     (seqE (require_in (fld quality ''coverage_level'') COVERAGE_LEVELS (ContractError ''delivery-report quality coverage_level is invalid''))
     (seqE (require_in (fld quality ''release_recommendation'') RECOMMENDATIONS
       (ContractError ''delivery-report quality release_recommendation is invalid''))
     (seqE (for_each (\<lambda>f. require_fingerprint (fld quality f) (''delivery-report quality '' @ f))
       [''qa_plan_fingerprint'', ''report_fingerprint''])
     (seqE (reject_if (\<not> is_nonempty_str (fld quality ''workflow_plan_fingerprint''))
       (ContractError ''delivery-report quality workflow_plan_fingerprint is invalid''))
     (reject_if (\<not> is_obj (fld value ''routing'') \<or>
         \<not> py_eq (fld quality ''workflow_plan_id'') (fld (fld value ''routing'') ''plan_id'') \<or>
         \<not> py_eq (fld quality ''run_id'') (fld value ''run_id''))
       (ContractError ''delivery-report quality workflow/run identity is inconsistent''))))))))"

definition check_quality_evidence :: "json \<Rightarrow> unit result" where
  "check_quality_evidence quality =
     (let refs = as_list (fld quality ''evidence_refs''); identities = map evidence_identity refs in
      seqE (reject_if (\<not> is_list (fld quality ''evidence_refs'')) (ContractError ''delivery-report quality evidence_refs must be an array''))
      (seqE (for_each check_delivery_evidence refs)
      (seqE (reject_if (identities \<noteq> sorted_set identities)
        (ContractError ''delivery-report quality evidence_refs must be sorted and unique''))
      (reject_if (fld quality ''status'' = JStr ''passed'' \<and> refs = [])
        (ContractError ''passed delivery-report quality requires evidence'')))))"

definition check_quality_verdict :: "json \<Rightarrow> json \<Rightarrow> unit result" where
  "check_quality_verdict value quality =
     (let recommendation = fld quality ''release_recommendation''; validation = fld value ''validation'' in
      seqE (reject_if (recommendation = JStr ''go'' \<and> (fld quality ''status'' \<noteq> JStr ''passed'' \<or>
          fld quality ''verification_status'' \<noteq> JStr ''passed'' \<or> fld value ''status'' \<noteq> JStr ''completed'' \<or>
          \<not> is_obj validation \<or> fld validation ''status'' \<noteq> JStr ''passed''))
        (ContractError ''delivery-report go requires completed delivery with passed QA and verification''))
      (seqE (reject_if (recommendation = JStr ''conditional-go'' \<and> fld value ''status'' \<notin> {JStr ''completed'', JStr ''partial''})
        (ContractError ''delivery-report conditional-go conflicts with blocked or cancelled delivery''))
      (reject_if (\<not> is_obj validation \<or> \<not> py_eq (fld quality ''verification_status'') (fld validation ''status''))
        (ContractError ''delivery-report quality verification conflicts with validation''))))"

definition validate_delivery_report :: "json \<Rightarrow> unit result" where
  "validate_delivery_report value =
     seqE (base value [''run_id'', ''status'', ''routing'', ''validation'', ''known_risks'', ''blocked_items''] ''delivery-report'')
     (seqE (require_in (fld value ''status'') [''completed'', ''partial'', ''blocked'', ''cancelled'']
       (ContractError ''delivery-report status is invalid''))
     (let quality = fld value ''quality'' in
      if quality = JNull then Inr ()
      else seqE (check_quality_block value quality) (seqE (check_quality_evidence quality) (check_quality_verdict value quality))))"

end
