(* ===== verification/QaWorkflows.thy ===== *)
theory QaWorkflows
  imports Delivery PlanContracts
begin

text \<open>
  The compilers of \<^verbatim>\<open>qa/workflows.py\<close>: a request is normalised, its risks are compiled to a coverage level, and every
  subject gets one test case per mandatory dimension of its kind of workflow. The result is checked by the validator
  of compiled workflows before it is returned.
\<close>

section \<open>Shared checks\<close>

definition PRD_DIMENSIONS :: "string list" where
  "PRD_DIMENSIONS = [''accessibility'', ''boundary'', ''compatibility'', ''exception'', ''offline'', ''permission'']"

definition BUG_DIMENSIONS :: "string list" where
  "BUG_DIMENSIONS = [''fix-verification'', ''regression-impact'', ''reproduction'']"

definition RELEASE_DIMENSIONS :: "string list" where
  "RELEASE_DIMENSIONS = [''change-inventory'', ''compatibility'', ''known-issues'', ''risk-sampling'']"

definition WORKFLOW_OUTCOMES :: "string list" where
  "WORKFLOW_OUTCOMES = [''passed'', ''failed'', ''blocked'', ''partial'', ''cancelled'']"

definition compiled_fields :: "string list" where
  "compiled_fields = [''schema_version'', ''workflow_id'', ''workflow_kind'', ''plan'', ''test_cases'', ''traceability'',
     ''known_issues'', ''fingerprint'']"

text \<open>Non-blank texts, as a sorted list without repetitions.\<close>

definition sorted_strings :: "json \<Rightarrow> string \<Rightarrow> bool \<Rightarrow> string list result" where
  "sorted_strings value label some =
     seqE (require_strings value label some) (Inr (sorted_set (text_items value)))"

definition ordered_strings :: "json \<Rightarrow> string \<Rightarrow> bool \<Rightarrow> string list result" where
  "ordered_strings value label some = seqE (require_strings value label some) (Inr (text_items value))"

definition texts :: "string list \<Rightarrow> json" where
  "texts xs = JList (map JStr xs)"

definition exact_fields :: "json \<Rightarrow> string list \<Rightarrow> bool" where
  "exact_fields value fs \<longleftrightarrow> is_obj value \<and> set (map fst (as_dict value)) = set fs"

definition validate_body_fingerprint :: "world \<Rightarrow> json \<Rightarrow> string list \<Rightarrow> string \<Rightarrow> unit result" where
  "validate_body_fingerprint w value fs label =
     seqE (reject_if (\<not> is_str (fld value ''fingerprint'') \<or> \<not> startswith (as_str (fld value ''fingerprint'')) ''qa-v1:'' \<or>
         str_len (as_str (fld value ''fingerprint'')) \<noteq> 70) (ContractError (label @ '' fingerprint is invalid'')))
     (bindE (qa_fingerprint w (qa_body value fs)) (\<lambda>expected.
     reject_if (fld value ''fingerprint'' \<noteq> JStr expected)
       (ContractError (label @ '' fingerprint does not match artifact body''))))"

text \<open>An artifact with its identity and its fingerprint.\<close>

definition identified :: "world \<Rightarrow> string \<Rightarrow> string \<Rightarrow> (string \<times> json) list \<Rightarrow> json result" where
  "identified w identity_field identity body =
     mapR (\<lambda>h. JObj ((identity_field, JStr identity) # body @ [(''fingerprint'', JStr h)]))
       (qa_fingerprint w (JObj ((identity_field, JStr identity) # body)))"

section \<open>Traceability\<close>

definition check_trace_row :: "string \<Rightarrow> string list \<Rightarrow> json \<Rightarrow> string list result" where
  "check_trace_row label case_ids row =
     seqE (reject_if (\<not> exact_fields row [''requirement_ref'', ''case_refs'', ''coverage_dimensions''])
       (ContractError (label @ '' traceability row is invalid'')))
     (seqE (require_nonblank row [''requirement_ref''] (label @ '' traceability''))
     (bindE (sorted_strings (fld row ''case_refs'') (label @ '' case_refs'') True) (\<lambda>row_cases.
     bindE (sorted_strings (fld row ''coverage_dimensions'') (label @ '' coverage_dimensions'') True) (\<lambda>_.
     seqE (reject_if (\<not> set row_cases \<subseteq> set case_ids) (ContractError (label @ '' traceability references unknown cases'')))
     (Inr row_cases)))))"

definition check_traceability :: "string \<Rightarrow> string list \<Rightarrow> json \<Rightarrow> unit result" where
  "check_traceability label case_ids rows =
     seqE (reject_if (\<not> is_list rows \<or> as_list rows = []) (ContractError (label @ '' traceability must be non-empty'')))
     (bindE (mapE (check_trace_row label case_ids) (as_list rows)) (\<lambda>traced.
     reject_if (ids_of ''requirement_ref'' (as_list rows) \<noteq> sorted_set (ids_of ''requirement_ref'' (as_list rows)) \<or>
         set (concat traced) \<noteq> set case_ids)
       (ContractError (label @ '' traceability is incomplete''))))"

section \<open>Compiled workflows\<close>

definition check_planning_only :: "json \<Rightarrow> unit result" where
  "check_planning_only value =
     (let plan = fld value ''plan'' in
      seqE (reject_if (fld plan ''workflow_kind'' \<noteq> fld value ''workflow_kind'')
        (ContractError ''compiled-qa-workflow plan kind is inconsistent''))
      (seqE (reject_if (fld plan ''status'' \<noteq> JStr ''planned'' \<or> fld (fld plan ''verification'') ''status'' \<noteq> JStr ''pending'')
        (ContractError ''compiled-qa-workflow cannot claim execution status''))
      (reject_if (as_list (fld (fld plan ''verification'') ''evidence_refs'') \<noteq> [] \<or> as_list (fld plan ''blockers'') \<noteq> [])
        (ContractError ''compiled-qa-workflow cannot contain execution evidence or blockers''))))"

definition validate_compiled_workflow :: "world \<Rightarrow> json \<Rightarrow> unit result" where
  "validate_compiled_workflow w value =
     seqE (reject_if (\<not> exact_fields value compiled_fields) (ContractError ''compiled-qa-workflow fields are invalid''))
     (seqE (require_version value)
     (seqE (require_nonblank value [''workflow_id''] ''compiled-qa-workflow'')
     (seqE (require_in (fld value ''workflow_kind'') QA_WORKFLOWS (ContractError ''compiled-qa-workflow workflow_kind is invalid''))
     (seqE (validate_qa_plan w (fld value ''plan''))
     (seqE (check_planning_only value)
     (seqE (mapR (\<lambda>_. ()) (sorted_strings (fld value ''known_issues'') ''compiled-qa-workflow known_issues'' False))
     (seqE (reject_if (fld value ''workflow_kind'' \<noteq> JStr ''release'' \<and> as_list (fld value ''known_issues'') \<noteq> [])
       (ContractError ''non-release compiled workflow cannot carry known issues''))
     (let cases = fld value ''test_cases''; case_ids = ids_of ''case_id'' (as_list cases) in
      seqE (reject_if (\<not> is_list cases \<or> as_list cases = []) (ContractError ''compiled-qa-workflow test_cases must be non-empty''))
      (seqE (for_each (validate_test_case w) (as_list cases))
      (seqE (reject_if (case_ids \<noteq> sorted_set case_ids) (ContractError ''compiled-qa-workflow case ids must be sorted and unique''))
      (seqE (check_traceability ''compiled-qa-workflow'' case_ids (fld value ''traceability''))
      (validate_body_fingerprint w value compiled_fields ''compiled-qa-workflow''))))))))))))"

section \<open>Normalisation of a request\<close>

definition check_risk_fields :: "json \<Rightarrow> json result" where
  "check_risk_fields risk =
     seqE (reject_if (\<not> exact_fields risk [''id'', ''title'', ''likelihood'', ''impact'', ''categories'', ''requirement_refs''])
       (ContractError ''qa workflow risk fields are invalid''))
     (bindE (sorted_strings (fld risk ''categories'') ''qa workflow risk categories'' True) (\<lambda>categories.
     bindE (sorted_strings (fld risk ''requirement_refs'') ''qa workflow risk requirement_refs'' False) (\<lambda>refs.
     Inr (put (put risk ''categories'' (texts categories)) ''requirement_refs'' (texts refs)))))"

text \<open>
  \<open>risks.sort(key=lambda item: item["id"])\<close>. Ids that are no texts are refused by the coverage compiler, whatever their
  order; here two or more of them that are not all numbers count as not comparable.
\<close>

definition sort_by_id :: "json list \<Rightarrow> json list result" where
  "sort_by_id xs =
     (let ids = map (\<lambda>x. fld x ''id'') xs in
      if list_all is_str ids then Inr (sort_key (\<lambda>x. as_str (fld x ''id'')) xs)
      else if length xs \<le> 1 \<or> list_all is_number ids then Inr xs
      else Inl (TypeError ''<''))"

definition normalize_risks :: "json \<Rightarrow> json list result" where
  "normalize_risks value =
     seqE (reject_if (\<not> is_list value) (ContractError ''qa workflow risks must be an array''))
     (bindE (mapE check_risk_fields (as_list value)) sort_by_id)"

definition check_request_environment :: "json \<Rightarrow> unit result" where
  "check_request_environment environment =
     seqE (reject_if (\<not> exact_fields environment [''id'', ''platform'', ''attributes'', ''fingerprint''])
       (ContractError ''qa workflow environment fields are invalid''))
     (seqE (require_nonblank environment [''id'', ''platform''] ''qa workflow environment'')
     (reject_if (\<not> is_obj (fld environment ''attributes'') \<or> \<not> truthy (fld environment ''attributes''))
       (ContractError ''qa workflow environment attributes are invalid'')))"

definition sorted_by :: "string \<Rightarrow> json list \<Rightarrow> json list" where
  "sorted_by k xs = sort_key (\<lambda>x. as_str (fld x k)) xs"

definition normalize_environments :: "json \<Rightarrow> json list result" where
  "normalize_environments value =
     seqE (reject_if (\<not> is_list value \<or> as_list value = []) (ContractError ''qa workflow environments must be non-empty''))
     (seqE (for_each check_request_environment (as_list value))
     (seqE (reject_if (has_duplicates (ids_of ''id'' (as_list value))) (ContractError ''qa workflow environment ids must be unique''))
     (Inr (sorted_by ''id'' (as_list value)))))"

definition normalize_scope :: "string \<Rightarrow> json \<Rightarrow> json result" where
  "normalize_scope kind scope =
     seqE (reject_if (\<not> exact_fields scope [''included'', ''excluded'']) (ContractError (kind @ '' workflow scope is invalid'')))
     (bindE (sorted_strings (fld scope ''excluded'') (kind @ '' scope excluded'') False) (\<lambda>excluded.
     bindE (sorted_strings (fld scope ''included'') (kind @ '' scope included'') True) (\<lambda>included.
     Inr (JObj [(''excluded'', texts excluded), (''included'', texts included)]))))"

section \<open>Test cases of a plan\<close>

record subject =
  s_id :: string
  s_title :: string
  s_acceptance :: string
  s_dimensions :: "string list"

text \<open>\<open>f"{n:02d}"\<close>\<close>

definition two_digits :: "nat \<Rightarrow> string" where
  "two_digits n = (if n < 10 then ''0'' else []) @ decimal n"

definition case_id_of :: "string \<Rightarrow> nat \<Rightarrow> string" where
  "case_id_of workflow_id n = ''TC-'' @ workflow_id @ ''-'' @ two_digits n"

text \<open>The pairs of a subject and one of its dimensions, numbered from 1.\<close>

definition numbered_cases :: "subject list \<Rightarrow> (nat \<times> subject \<times> string) list" where
  "numbered_cases subjects = List.enumerate 1 (concat (map (\<lambda>s. map (Pair s) (s_dimensions s)) subjects))"

definition case_risks :: "json list \<Rightarrow> string \<Rightarrow> string list" where
  "case_risks risks i =
     sort (ids_of ''id'' (filter (\<lambda>r. as_list (fld r ''requirement_refs'') = [] \<or> i \<in> set (text_items (fld r ''requirement_refs''))) risks))"

text \<open>The title has an em dash, three bytes in UTF-8.\<close>

definition make_case :: "world \<Rightarrow> string \<Rightarrow> string \<Rightarrow> json list \<Rightarrow> nat \<times> subject \<times> string \<Rightarrow> json result" where
  "make_case w workflow_id kind risks p =
     (case p of (n, s, dimension) \<Rightarrow>
      identified w ''case_id'' (case_id_of workflow_id n)
       [(''automation_suitability'', JStr (if dimension \<in> set [''accessibility'', ''known-issues'', ''permission''] then ''medium'' else ''high'')),
        (''coverage_tags'', texts (sorted_set [dimension, kind])),
        (''expected_results'', texts [s_acceptance s]),
        (''preconditions'', texts [''environment-fingerprint-frozen'', ''scope-frozen'']),
        (''requirement_refs'', texts [s_id s]),
        (''risk_refs'', texts (case_risks risks (s_id s))),
        (''schema_version'', JStr ''1.0''),
        (''status'', JStr ''active''),
        (''steps'', JList [JObj [(''action'', JStr (''Exercise '' @ dimension @ '' behavior for '' @ s_title s @ ''.'')),
           (''expected'', JStr (s_acceptance s)), (''number'', JInt 1)]]),
        (''test_data'', JObj [(''dimension'', JStr dimension), (''subject'', JStr (s_id s))]),
        (''title'', JStr (s_title s @ '' '' @ [CHR 0xE2, CHR 0x80, CHR 0x94] @ '' '' @ dimension))])"

definition trace_row :: "string \<Rightarrow> (nat \<times> subject \<times> string) list \<Rightarrow> string \<Rightarrow> json" where
  "trace_row workflow_id numbered i =
     (let mine = filter (\<lambda>p. s_id (fst (snd p)) = i) numbered in JObj
       [(''case_refs'', texts (sorted_set (map (\<lambda>p. case_id_of workflow_id (fst p)) mine))),
        (''coverage_dimensions'', texts (sorted_set (map (\<lambda>p. snd (snd p)) mine))),
        (''requirement_ref'', JStr i)])"

definition trace_rows :: "string \<Rightarrow> (nat \<times> subject \<times> string) list \<Rightarrow> json" where
  "trace_rows workflow_id numbered =
     JList (map (trace_row workflow_id numbered) (sorted_set (map (\<lambda>p. s_id (fst (snd p))) numbered)))"

section \<open>The compilers\<close>

definition forbidden_inputs :: "string list" where
  "forbidden_inputs = [''outcome'', ''test_results'', ''defect_reports'', ''verification'', ''evidence_refs'', ''report'',
     ''release_recommendation'', ''blockers'', ''gaps'', ''waivers'']"

text \<open>The plan, from normalised risks, environments, scope and coverage.\<close>

definition make_plan :: "world \<Rightarrow> json \<Rightarrow> string \<Rightarrow> json list \<Rightarrow> json list \<Rightarrow> json \<Rightarrow> json \<Rightarrow> json result" where
  "make_plan w req kind risks environments scope coverage =
     bindE (sorted_strings (fld_or req ''entry_criteria'' (texts [''scope-frozen''])) ''qa entry_criteria'' True) (\<lambda>entry.
     bindE (sorted_strings (fld_or req ''exit_criteria'' (texts [''evidence-reviewed'', ''risks-disclosed'']))
         ''qa exit_criteria'' True) (\<lambda>exit_criteria.
     identified w ''plan_id'' (''QAP-'' @ as_str (fld req ''workflow_id''))
       [(''blockers'', JList []),
        (''coverage'', coverage),
        (''entry_criteria'', texts entry),
        (''environments'', JList environments),
        (''exit_criteria'', texts exit_criteria),
        (''objective'', fld req ''objective''),
        (''risks'', JList risks),
        (''schema_version'', JStr ''1.0''),
        (''scope'', scope),
        (''status'', JStr ''planned''),
        (''verification'', JObj [(''evidence_refs'', JList []),
           (''level'', fld_or req ''verification_level'' (JStr ''affected-tests'')), (''status'', JStr ''pending'')]),
        (''workflow_kind'', JStr kind)]))"

definition compile_workflow :: "world \<Rightarrow> json \<Rightarrow> string \<Rightarrow> subject list \<Rightarrow> string list \<Rightarrow> json result" where
  "compile_workflow w req kind subjects known_issues =
     seqE (require_version req)
     (seqE (reject_if (list_ex (has_key req) forbidden_inputs)
       (ContractError (kind @ '' workflow compiler accepts planning inputs only'')))
     (seqE (require_nonblank req [''workflow_id'', ''objective''] (kind @ '' workflow''))
     (bindE (normalize_risks (fld_or req ''risks'' (JList []))) (\<lambda>risks.
     bindE (normalize_environments (fld req ''environments'')) (\<lambda>environments.
     bindE (normalize_scope kind (fld req ''scope'')) (\<lambda>scope.
     bindE (compile_coverage risks kind (fld_or req ''requested_level'' (JStr ''targeted''))) (\<lambda>coverage.
     bindE (make_plan w req kind risks environments scope coverage) (\<lambda>plan.
     let workflow_id = as_str (fld req ''workflow_id''); numbered = numbered_cases subjects in
     bindE (mapE (make_case w workflow_id kind risks) numbered) (\<lambda>cases.
     let body = [(''known_issues'', texts known_issues), (''plan'', plan), (''schema_version'', JStr ''1.0''),
        (''test_cases'', JList cases), (''traceability'', trace_rows workflow_id numbered),
        (''workflow_id'', JStr workflow_id), (''workflow_kind'', JStr kind)] in
     bindE (qa_fingerprint w (JObj body)) (\<lambda>h.
     let compiled = JObj (body @ [(''fingerprint'', JStr h)]) in
     seqE (validate_compiled_workflow w compiled) (Inr compiled)))))))))))"

text \<open>PRD: one subject per requirement and acceptance criterion.\<close>

definition prd_requirement :: "json \<Rightarrow> (string \<times> string \<times> string list) result" where
  "prd_requirement requirement =
     seqE (reject_if (\<not> exact_fields requirement [''id'', ''title'', ''acceptance_criteria''])
       (ContractError ''prd workflow requirement fields are invalid''))
     (seqE (require_nonblank requirement [''id'', ''title''] ''prd workflow requirement'')
     (bindE (sorted_strings (fld requirement ''acceptance_criteria'') ''prd acceptance_criteria'' True) (\<lambda>criteria.
     Inr (as_str (fld requirement ''id''), as_str (fld requirement ''title''), criteria))))"

definition prd_subjects :: "string \<times> string \<times> string list \<Rightarrow> subject list" where
  "prd_subjects r = map (\<lambda>c. \<lparr>s_id = fst r, s_title = fst (snd r), s_acceptance = c, s_dimensions = PRD_DIMENSIONS\<rparr>) (snd (snd r))"

definition compile_prd_workflow :: "world \<Rightarrow> json \<Rightarrow> json result" where
  "compile_prd_workflow w req =
     bindE (get_opt req ''requirements'') (\<lambda>requirements.
     seqE (reject_if (\<not> is_list requirements \<or> as_list requirements = []) (ContractError ''prd workflow requirements must be non-empty''))
     (bindE (mapE prd_requirement (as_list requirements)) (\<lambda>normalized.
     seqE (reject_if (has_duplicates (map fst normalized)) (ContractError ''prd workflow requirement ids must be unique''))
     (compile_workflow w req ''prd'' (concat (map prd_subjects (sort_key fst normalized))) []))))"

definition bug_fields :: "string list" where
  "bug_fields = [''id'', ''title'', ''expected'', ''actual'', ''owner'', ''severity'', ''priority'']"

definition compile_bug_workflow :: "world \<Rightarrow> json \<Rightarrow> json result" where
  "compile_bug_workflow w req =
     bindE (get_opt req ''defect'') (\<lambda>defect.
     seqE (reject_if (\<not> exact_fields defect (''reproduction_steps'' # bug_fields)) (ContractError ''bug workflow defect fields are invalid''))
     (seqE (require_nonblank defect bug_fields ''bug workflow defect'')
     (bindE (ordered_strings (fld defect ''reproduction_steps'') ''bug reproduction_steps'' True) (\<lambda>_.
     compile_workflow w req ''bug''
       [\<lparr>s_id = as_str (fld defect ''id''), s_title = as_str (fld defect ''title''),
         s_acceptance = ''Expected '' @ as_str (fld defect ''expected'') @ ''; reported '' @ as_str (fld defect ''actual''),
         s_dimensions = BUG_DIMENSIONS\<rparr>] []))))"

definition release_subject :: "json \<Rightarrow> subject result" where
  "release_subject change =
     seqE (reject_if (\<not> exact_fields change [''id'', ''title'', ''acceptance_criteria''])
       (ContractError ''release workflow change fields are invalid''))
     (seqE (require_nonblank change [''id'', ''title'', ''acceptance_criteria''] ''release workflow change'')
     (Inr \<lparr>s_id = as_str (fld change ''id''), s_title = as_str (fld change ''title''),
        s_acceptance = as_str (fld change ''acceptance_criteria''), s_dimensions = RELEASE_DIMENSIONS\<rparr>))"

definition compile_release_workflow :: "world \<Rightarrow> json \<Rightarrow> json result" where
  "compile_release_workflow w req =
     bindE (get_opt req ''changes'') (\<lambda>changes.
     seqE (reject_if (\<not> is_list changes \<or> as_list changes = []) (ContractError ''release workflow changes must be non-empty''))
     (bindE (mapE release_subject (as_list changes)) (\<lambda>subjects.
     seqE (reject_if (has_duplicates (map s_id subjects)) (ContractError ''release workflow change ids must be unique''))
     (bindE (sorted_strings (fld_or req ''known_issues'' (JList [])) ''release known_issues'' False) (\<lambda>known_issues.
     compile_workflow w req ''release'' (sort_key s_id subjects) known_issues)))))"

end
