(* ===== verification/QaAggregate.thy ===== *)
theory QaAggregate
  imports QaWorkflows
begin

text \<open>
  The second half of \<^verbatim>\<open>qa/workflows.py\<close>: execution artifacts of a compiled workflow are linked to its plan and to the
  run ledger, aggregated to a status and a release recommendation, and bundled; the bundle is validated before it is
  returned.
\<close>

definition execution_fields :: "string list" where
  "execution_fields = [''schema_version'', ''test_results'', ''defect_reports'', ''regression_set'', ''verification'',
     ''qa_evidence_refs'', ''workflow_plan'', ''run_ledger'', ''evaluated_on'', ''declared_gaps'', ''blockers'', ''waivers'',
     ''residual_risks'']"

definition status_in :: "json \<Rightarrow> string list \<Rightarrow> bool" where
  "status_in x ss \<longleftrightarrow> as_str (fld x ''status'') \<in> set ss"

definition texts_in :: "json \<Rightarrow> string \<Rightarrow> string list" where
  "texts_in x k = text_items (fld x k)"

section \<open>Links between the artifacts\<close>

text \<open>The ledger is valid, the plan is valid, and the ledger is of this plan.\<close>

definition ledger_identity :: "world \<Rightarrow> json \<Rightarrow> json result" where
  "ledger_identity w execution =
     (let plan = fld execution ''workflow_plan''; rl = fld execution ''run_ledger'' in
      seqE (validate_workflow_plan w plan)
      (seqE (validate_run_ledger rl)
      (seqE (reject_if (\<not> py_eq (fld rl ''plan_fingerprint'') (fld plan ''fingerprint''))
        (ContractError ''qa workflow ledger references a different workflow plan''))
      (Inr (JObj [(''run_id'', fld rl ''run_id''), (''workflow_plan_fingerprint'', fld plan ''fingerprint''),
         (''workflow_plan_id'', fld plan ''plan_id'')])))))"

definition find_by :: "string \<Rightarrow> json list \<Rightarrow> string \<Rightarrow> json option" where
  "find_by k xs i = find (\<lambda>x. fld x k = JStr i) xs"

definition check_execution_result :: "world \<Rightarrow> json \<Rightarrow> json list \<Rightarrow> string list \<Rightarrow> json \<Rightarrow> unit result" where
  "check_execution_result w plan cases environments r =
     seqE (validate_test_result w r)
     (case find_by ''case_id'' cases (as_str (fld r ''case_id'')) of
        None \<Rightarrow> Inl (ContractError ''qa workflow execution result linkage is invalid'')
      | Some tc \<Rightarrow>
          seqE (reject_if (fld r ''plan_fingerprint'' \<noteq> fld plan ''fingerprint'')
            (ContractError ''qa workflow execution result linkage is invalid''))
          (seqE (reject_if (as_str (fld r ''environment_fingerprint'') \<notin> set environments)
            (ContractError ''qa workflow execution result environment is outside the frozen plan''))
          (bindE (qa_fingerprint w (fld tc ''test_data'')) (\<lambda>h.
          reject_if (fld r ''test_data_fingerprint'' \<noteq> JStr h) (ContractError ''qa workflow execution result test data is stale'')))))"

definition check_execution_results :: "world \<Rightarrow> json \<Rightarrow> json list \<Rightarrow> string list \<Rightarrow> json \<Rightarrow> unit result" where
  "check_execution_results w plan cases environments results =
     (let rs = as_list results in
      seqE (reject_if (\<not> is_list results \<or> rs = []) (ContractError ''qa workflow execution test_results must be non-empty''))
      (seqE (for_each (check_execution_result w plan cases environments) rs)
      (reject_if (ids_of ''result_id'' rs \<noteq> sorted_set (ids_of ''result_id'' rs) \<or>
          ids_of ''case_id'' rs \<noteq> sort (ids_of ''case_id'' cases))
        (ContractError ''qa workflow execution must provide one sorted result per frozen case''))))"

definition check_execution_defect :: "world \<Rightarrow> string list \<Rightarrow> string list \<Rightarrow> string list \<Rightarrow> json \<Rightarrow> unit result" where
  "check_execution_defect w environments result_ids case_ids defect =
     seqE (validate_defect_report w defect)
     (seqE (reject_if (as_str (fld defect ''environment_fingerprint'') \<notin> set environments)
       (ContractError ''qa workflow execution defect environment is outside the frozen plan''))
     (seqE (reject_if (\<not> set (texts_in defect ''fix_verification_result_refs'') \<subseteq> set result_ids)
       (ContractError ''qa workflow execution defect fix result is unknown''))
     (reject_if (\<not> set (texts_in defect ''regression_case_refs'') \<subseteq> set case_ids)
       (ContractError ''qa workflow execution defect regression case is unknown''))))"

definition check_execution_defects :: "world \<Rightarrow> string list \<Rightarrow> json list \<Rightarrow> string list \<Rightarrow> json \<Rightarrow> unit result" where
  "check_execution_defects w environments results case_ids defects =
     (let ds = as_list defects; defect_ids = ids_of ''defect_id'' ds in
      seqE (reject_if (\<not> is_list defects) (ContractError ''qa workflow execution defect_reports must be an array''))
      (seqE (for_each (check_execution_defect w environments (ids_of ''result_id'' results) case_ids) ds)
      (seqE (reject_if (defect_ids \<noteq> sorted_set defect_ids) (ContractError ''qa workflow execution defect ids must be sorted and unique''))
      (for_each (\<lambda>r. reject_if (\<not> set (texts_in r ''defect_refs'') \<subseteq> set defect_ids)
        (ContractError ''qa workflow execution result defect is unknown'')) results))))"

definition check_execution_regression :: "world \<Rightarrow> string \<Rightarrow> string list \<Rightarrow> string list \<Rightarrow> string list \<Rightarrow> json \<Rightarrow> unit result" where
  "check_execution_regression w kind environments case_ids defect_ids regression =
     seqE (if regression = JNull then Inr ()
       else seqE (validate_regression_set w regression)
         (seqE (reject_if (\<not> set (texts_in regression ''case_refs'') \<subseteq> set case_ids \<or>
             \<not> set (texts_in regression ''defect_refs'') \<subseteq> set defect_ids)
           (ContractError ''qa workflow execution regression linkage is invalid''))
         (reject_if (\<not> set (texts_in regression ''environment_fingerprints'') \<subseteq> set environments)
           (ContractError ''qa workflow execution regression environment is outside the frozen plan''))))
     (reject_if (kind = ''bug'' \<and> regression = JNull) (ContractError ''bug workflow execution requires a regression set''))"

text \<open>A verified or closed defect: its fixes passed, and a current regression set owns it.\<close>

definition regression_owns :: "json \<Rightarrow> json \<Rightarrow> bool" where
  "regression_owns regression defect \<longleftrightarrow> regression \<noteq> JNull \<and> fld regression ''status'' = JStr ''current'' \<and>
     as_str (fld defect ''defect_id'') \<in> set (texts_in regression ''defect_refs'') \<and>
     set (texts_in defect ''regression_case_refs'') \<subseteq> set (texts_in regression ''case_refs'') \<and>
     as_str (fld defect ''fingerprint'') \<in> set (texts_in regression ''source_fingerprints'')"

definition result_passed :: "json list \<Rightarrow> string \<Rightarrow> bool" where
  "result_passed results i =
     (case find_by ''result_id'' results i of Some r \<Rightarrow> fld r ''status'' = JStr ''passed'' | None \<Rightarrow> False)"

definition check_closed_defect :: "string \<Rightarrow> string \<Rightarrow> json list \<Rightarrow> json \<Rightarrow> json \<Rightarrow> unit result" where
  "check_closed_defect unfixed unowned results regression defect =
     (if status_in defect [''verified'', ''closed'']
      then seqE (reject_if (\<not> list_all (result_passed results) (texts_in defect ''fix_verification_result_refs'')) (ContractError unfixed))
        (reject_if (\<not> regression_owns regression defect) (ContractError unowned))
      else Inr ())"

definition check_execution_verification :: "json \<Rightarrow> json \<Rightarrow> unit result" where
  "check_execution_verification rl verification =
     seqE (reject_if (\<not> exact_fields verification [''level'', ''status'', ''evidence_refs''])
       (ContractError ''qa workflow execution verification fields are invalid''))
     (seqE (reject_if (fld verification ''status'' = JStr ''passed'' \<and> \<not> truthy (fld verification ''evidence_refs''))
       (ContractError ''passed verification requires caller-supplied evidence''))
     (bindE (current_validation_status rl) (\<lambda>ledger_status.
     reject_if (\<not> py_eq (fld verification ''status'') ledger_status)
       (ContractError ''qa workflow verification conflicts with the current run ledger''))))"

section \<open>Aggregation\<close>

definition unresolved :: "json list \<Rightarrow> json list" where
  "unresolved defects = filter (\<lambda>d. status_in d [''open'', ''fixed'', ''reopened'', ''blocked'']) defects"

definition artifact_blockers :: "json list \<Rightarrow> json \<Rightarrow> string list" where
  "artifact_blockers defects regression =
     map (\<lambda>d. ''blocked-defect:'' @ as_str (fld d ''defect_id'')) (filter (\<lambda>d. status_in d [''blocked'']) (unresolved defects)) @
     (if regression \<noteq> JNull \<and> status_in regression [''blocked''] then [''blocked-regression-set:'' @ as_str (fld regression ''set_id'')] else [])"

definition artifact_gaps :: "json list \<Rightarrow> json \<Rightarrow> string list" where
  "artifact_gaps defects regression =
     map (\<lambda>d. ''unresolved-defect:'' @ as_str (fld d ''defect_id'')) (filter (\<lambda>d. \<not> status_in d [''blocked'']) (unresolved defects)) @
     (if regression \<noteq> JNull \<and> status_in regression [''stale''] then [''stale-regression-set:'' @ as_str (fld regression ''set_id'')] else [])"

definition count_status :: "json list \<Rightarrow> string \<Rightarrow> nat" where
  "count_status results status = length (filter (\<lambda>r. fld r ''status'' = JStr status) results)"

definition unexecuted :: "json list \<Rightarrow> string list" where
  "unexecuted results =
     map (\<lambda>r. ''unexecuted:'' @ as_str (fld r ''case_id'')) (filter (\<lambda>r. status_in r [''skipped'', ''cancelled'']) results)"

definition aggregate_status :: "json list \<Rightarrow> string list \<Rightarrow> string list \<Rightarrow> string" where
  "aggregate_status results blockers gaps =
     (if count_status results ''cancelled'' \<noteq> 0 then ''cancelled''
      else if blockers \<noteq> [] \<or> count_status results ''blocked'' \<noteq> 0 then ''blocked''
      else if count_status results ''failed'' \<noteq> 0 then ''failed''
      else if count_status results ''skipped'' \<noteq> 0 \<or> gaps \<noteq> [] then ''partial''
      else ''passed'')"

definition recommendation_for :: "string \<Rightarrow> string \<Rightarrow> json \<Rightarrow> string list \<Rightarrow> json \<Rightarrow> string result" where
  "recommendation_for kind status verified residual_risks waivers =
     (if kind \<noteq> ''release'' then Inr ''not-applicable''
      else if status = ''passed'' \<and> verified = JStr ''passed'' \<and> residual_risks = [] \<and> as_list waivers = [] then Inr ''go''
      else if status \<in> set [''passed'', ''partial'']
      then bindE (in_strings verified [''passed'', ''partial'']) (\<lambda>b.
        if \<not> b then Inr ''no-go''
        else seqE (reject_if (as_list waivers = [] \<or> residual_risks = [])
            (ContractError ''conditional release requires caller-supplied waivers and residual risks''))
          (Inr ''conditional-go''))
      else Inr ''no-go'')"

definition next_actions_for :: "string \<Rightarrow> string list" where
  "next_actions_for status =
     (case map_of [(''passed'', [''none'']), (''failed'', [''fix'', ''rerun-regression'']),
        (''blocked'', [''collect-evidence'', ''resolve-platform-blocker'']), (''partial'', [''close-coverage-gaps'']),
        (''cancelled'', [''confirm-cleanup'', ''reschedule''])] status of Some xs \<Rightarrow> xs | None \<Rightarrow> [])"

definition quality_summary :: "json \<Rightarrow> json list \<Rightarrow> string list \<Rightarrow> string list \<Rightarrow> json" where
  "quality_summary plan results defect_ids gaps =
     (let count = (\<lambda>s. JInt (int (count_status results s))) in JObj
       [(''blocked'', count ''blocked''),
        (''cancelled'', count ''cancelled''),
        (''coverage_level'', fld (fld plan ''coverage'') ''compiled_level''),
        (''defect_refs'', texts defect_ids),
        (''executed'', JInt (int (count_status results ''passed'' + count_status results ''failed'' + count_status results ''blocked''))),
        (''failed'', count ''failed''),
        (''gaps'', texts gaps),
        (''passed'', count ''passed''),
        (''skipped'', count ''skipped''),
        (''total'', JInt (int (length results)))])"

section \<open>The bundle and its validator\<close>

definition bundle_fields :: "string list" where
  "bundle_fields = [''schema_version'', ''workflow_id'', ''workflow_kind'', ''status'', ''plan'', ''test_cases'', ''test_results'',
     ''defect_reports'', ''regression_set'', ''traceability'', ''gaps'', ''blockers'', ''next_actions'', ''report'',
     ''ledger_identity'', ''fingerprint'']"

definition check_bundle_head :: "world \<Rightarrow> json \<Rightarrow> unit result" where
  "check_bundle_head w value =
     (let plan = fld value ''plan''; report = fld value ''report''; context = fld value ''ledger_identity'' in
      seqE (reject_if (\<not> exact_fields value bundle_fields) (ContractError ''qa-workflow-bundle fields are invalid''))
      (seqE (require_version value)
      (seqE (require_nonblank value [''workflow_id''] ''qa-workflow-bundle'')
      (seqE (require_in (fld value ''workflow_kind'') QA_WORKFLOWS (ContractError ''qa-workflow-bundle workflow_kind is invalid''))
      (seqE (require_in (fld value ''status'') WORKFLOW_OUTCOMES (ContractError ''qa-workflow-bundle status is invalid''))
      (seqE (validate_qa_plan w plan)
      (seqE (validate_qa_report w report)
      (seqE (reject_if (fld plan ''workflow_kind'' \<noteq> fld value ''workflow_kind'' \<or> fld report ''workflow_kind'' \<noteq> fld value ''workflow_kind'')
        (ContractError ''qa-workflow-bundle workflow kind linkage is invalid''))
      (seqE (reject_if (fld report ''plan_fingerprint'' \<noteq> fld plan ''fingerprint'')
        (ContractError ''qa-workflow-bundle report references a stale plan''))
      (seqE (reject_if (fld report ''status'' \<noteq> fld value ''status'') (ContractError ''qa-workflow-bundle status differs from report''))
      (seqE (reject_if (\<not> exact_fields context [''run_id'', ''workflow_plan_id'', ''workflow_plan_fingerprint''])
        (ContractError ''qa-workflow-bundle ledger identity fields are invalid''))
      (seqE (require_nonblank context [''run_id'', ''workflow_plan_id''] ''qa-workflow-bundle ledger identity'')
      (seqE (reject_if (\<not> is_str (fld context ''workflow_plan_fingerprint'') \<or> \<not> is_hex 64 (as_str (fld context ''workflow_plan_fingerprint'')))
        (ContractError ''qa-workflow-bundle workflow plan fingerprint is invalid''))
      (reject_if (\<not> py_eq (fld report ''delivery_context'')
          (JObj (map (\<lambda>k. (k, fld context k)) [''run_id'', ''workflow_plan_id'', ''workflow_plan_fingerprint''])))
        (ContractError ''qa-workflow-bundle report ledger identity is inconsistent'')))))))))))))))"

definition check_bundle_result :: "world \<Rightarrow> json \<Rightarrow> string list \<Rightarrow> json \<Rightarrow> unit result" where
  "check_bundle_result w plan case_ids r =
     seqE (validate_test_result w r)
     (reject_if (as_str (fld r ''case_id'') \<notin> set case_ids \<or> fld r ''plan_fingerprint'' \<noteq> fld plan ''fingerprint'')
       (ContractError ''qa-workflow-bundle result linkage is invalid''))"

definition check_bundle_defect :: "world \<Rightarrow> string list \<Rightarrow> string list \<Rightarrow> json \<Rightarrow> unit result" where
  "check_bundle_defect w result_ids case_ids defect =
     seqE (validate_defect_report w defect)
     (seqE (reject_if (\<not> set (texts_in defect ''fix_verification_result_refs'') \<subseteq> set result_ids)
       (ContractError ''qa-workflow-bundle defect fix result is unknown''))
     (reject_if (\<not> set (texts_in defect ''regression_case_refs'') \<subseteq> set case_ids)
       (ContractError ''qa-workflow-bundle defect regression case is unknown'')))"

definition check_bundle_artifacts :: "world \<Rightarrow> json \<Rightarrow> unit result" where
  "check_bundle_artifacts w value =
     (let cases = as_list (fld value ''test_cases''); results = as_list (fld value ''test_results'');
          defects = as_list (fld value ''defect_reports''); regression = fld value ''regression_set'';
          case_ids = ids_of ''case_id'' cases; result_ids = ids_of ''result_id'' results; defect_ids = ids_of ''defect_id'' defects in
      seqE (reject_if (\<not> is_list (fld value ''test_cases'') \<or> cases = [] \<or> \<not> is_list (fld value ''test_results'') \<or>
          \<not> is_list (fld value ''defect_reports'')) (ContractError ''qa-workflow-bundle artifact arrays are invalid''))
      (seqE (for_each (validate_test_case w) cases)
      (seqE (for_each (check_bundle_result w (fld value ''plan'') case_ids) results)
      (seqE (for_each (check_bundle_defect w result_ids case_ids) defects)
      (seqE (for_each (\<lambda>r. reject_if (\<not> set (texts_in r ''defect_refs'') \<subseteq> set defect_ids)
        (ContractError ''qa-workflow-bundle result defect is unknown'')) results)
      (seqE (reject_if (case_ids \<noteq> sorted_set case_ids \<or> result_ids \<noteq> sorted_set result_ids \<or> defect_ids \<noteq> sorted_set defect_ids)
        (ContractError ''qa-workflow-bundle artifact ids must be sorted and unique''))
      (seqE (if regression = JNull then Inr ()
        else seqE (validate_regression_set w regression)
          (seqE (reject_if (\<not> set (texts_in regression ''case_refs'') \<subseteq> set case_ids)
            (ContractError ''qa-workflow-bundle regression case is unknown''))
          (reject_if (\<not> set (texts_in regression ''defect_refs'') \<subseteq> set defect_ids)
            (ContractError ''qa-workflow-bundle regression defect is unknown''))))
      (seqE (reject_if (fld (fld (fld value ''report'') ''quality'') ''defect_refs'' \<noteq> texts defect_ids)
        (ContractError ''qa-workflow-bundle report must disclose every defect''))
      (for_each (check_closed_defect ''qa-workflow-bundle closed defect fix verification is not passed''
          ''qa-workflow-bundle closed defect lacks current regression ownership'' results regression) defects)))))))))"

definition check_bundle_passed :: "json \<Rightarrow> unit result" where
  "check_bundle_passed value =
     (let regression = fld value ''regression_set'' in
      if fld value ''status'' \<noteq> JStr ''passed'' then Inr ()
      else seqE (reject_if (list_ex (\<lambda>d. \<not> status_in d [''verified'', ''closed'']) (as_list (fld value ''defect_reports'')))
          (ContractError ''passed qa-workflow-bundle cannot hide unresolved defects''))
        (reject_if (fld value ''workflow_kind'' = JStr ''bug'' \<and> (regression = JNull \<or> fld regression ''status'' \<noteq> JStr ''current''))
          (ContractError ''passed bug workflow requires a current regression set'')))"

definition check_bundle_outcome :: "json \<Rightarrow> unit result" where
  "check_bundle_outcome value =
     bindE (sorted_strings (fld value ''gaps'') ''qa-workflow-bundle gaps'' False) (\<lambda>gaps.
     bindE (sorted_strings (fld value ''blockers'') ''qa-workflow-bundle blockers'' False) (\<lambda>blockers.
     bindE (sorted_strings (fld value ''next_actions'') ''qa-workflow-bundle next_actions'' True) (\<lambda>_.
     seqE (reject_if (fld value ''status'' = JStr ''passed'' \<and> (gaps \<noteq> [] \<or> blockers \<noteq> [] \<or>
         list_ex (\<lambda>r. fld r ''status'' \<noteq> JStr ''passed'') (as_list (fld value ''test_results''))))
       (ContractError ''passed qa-workflow-bundle cannot hide unexecuted coverage''))
     (seqE (reject_if (fld value ''status'' = JStr ''partial'' \<and> gaps = [])
       (ContractError ''partial qa-workflow-bundle requires explicit gaps''))
     (reject_if (fld value ''status'' = JStr ''blocked'' \<and> blockers = [])
       (ContractError ''blocked qa-workflow-bundle requires blockers''))))))"

definition validate_workflow_bundle :: "world \<Rightarrow> json \<Rightarrow> unit result" where
  "validate_workflow_bundle w value =
     seqE (check_bundle_head w value)
     (seqE (check_bundle_artifacts w value)
     (seqE (check_bundle_passed value)
     (seqE (check_traceability ''qa-workflow-bundle'' (ids_of ''case_id'' (as_list (fld value ''test_cases''))) (fld value ''traceability''))
     (seqE (check_bundle_outcome value)
     (bindE (qa_fingerprint w (qa_body value bundle_fields)) (\<lambda>h.
     reject_if (fld value ''fingerprint'' \<noteq> JStr h) (ContractError ''qa-workflow-bundle fingerprint does not match artifact body'')))))))"

section \<open>The aggregator\<close>

definition make_report :: "world \<Rightarrow> json \<Rightarrow> json \<Rightarrow> json \<Rightarrow> string list \<Rightarrow> string list \<Rightarrow> string list \<Rightarrow> string \<Rightarrow> string \<Rightarrow> json result" where
  "make_report w compiled execution context blockers gaps residual_risks status recommendation =
     identified w ''report_id'' (''QAR-'' @ as_str (fld compiled ''workflow_id''))
       [(''blockers'', texts blockers),
        (''delivery_context'', context),
        (''evaluated_on'', fld execution ''evaluated_on''),
        (''evidence_refs'', fld execution ''qa_evidence_refs''),
        (''plan_fingerprint'', fld (fld compiled ''plan'') ''fingerprint''),
        (''quality'', quality_summary (fld compiled ''plan'') (as_list (fld execution ''test_results''))
           (ids_of ''defect_id'' (as_list (fld execution ''defect_reports''))) gaps),
        (''release_recommendation'', JStr recommendation),
        (''residual_risks'', texts residual_risks),
        (''schema_version'', JStr ''1.0''),
        (''status'', JStr status),
        (''verification'', fld execution ''verification''),
        (''waivers'', fld execution ''waivers''),
        (''workflow_kind'', fld compiled ''workflow_kind'')]"

definition bundle_body :: "json \<Rightarrow> json \<Rightarrow> json \<Rightarrow> string list \<Rightarrow> string list \<Rightarrow> string \<Rightarrow> json \<Rightarrow> (string \<times> json) list" where
  "bundle_body compiled execution context blockers gaps status report =
     [(''blockers'', texts blockers),
      (''defect_reports'', fld execution ''defect_reports''),
      (''gaps'', texts gaps),
      (''ledger_identity'', context),
      (''next_actions'', texts (next_actions_for status)),
      (''plan'', fld compiled ''plan''),
      (''regression_set'', fld execution ''regression_set''),
      (''report'', report),
      (''schema_version'', JStr ''1.0''),
      (''status'', JStr status),
      (''test_cases'', fld compiled ''test_cases''),
      (''test_results'', fld execution ''test_results''),
      (''traceability'', fld compiled ''traceability''),
      (''workflow_id'', fld compiled ''workflow_id''),
      (''workflow_kind'', fld compiled ''workflow_kind'')]"

text \<open>The checks of the execution artifacts, in order; the answer is the identity of the run.\<close>

definition check_execution :: "world \<Rightarrow> json \<Rightarrow> json \<Rightarrow> json result" where
  "check_execution w compiled execution =
     seqE (validate_compiled_workflow w compiled)
     (seqE (reject_if (\<not> exact_fields execution execution_fields) (ContractError ''qa workflow execution fields are invalid''))
     (seqE (require_version execution)
     (bindE (ledger_identity w execution) (\<lambda>context.
     let plan = fld compiled ''plan''; cases = as_list (fld compiled ''test_cases''); case_ids = ids_of ''case_id'' cases;
         environments = ids_of ''fingerprint'' (as_list (fld plan ''environments''));
         results = as_list (fld execution ''test_results''); defects = as_list (fld execution ''defect_reports'');
         regression = fld execution ''regression_set'' in
     seqE (check_execution_results w plan cases environments (fld execution ''test_results''))
     (seqE (check_execution_defects w environments results case_ids (fld execution ''defect_reports''))
     (seqE (check_execution_regression w (as_str (fld compiled ''workflow_kind'')) environments case_ids (ids_of ''defect_id'' defects) regression)
     (seqE (for_each (check_closed_defect ''closed defect fix verification must reference passed results''
         ''closed defect requires current regression ownership'' results regression) defects)
     (seqE (check_execution_verification (fld execution ''run_ledger'') (fld execution ''verification''))
     (Inr context)))))))))"

definition aggregate_workflow_results :: "world \<Rightarrow> json \<Rightarrow> json \<Rightarrow> json result" where
  "aggregate_workflow_results w compiled execution =
     bindE (check_execution w compiled execution) (\<lambda>context.
     let results = as_list (fld execution ''test_results''); defects = as_list (fld execution ''defect_reports'');
         regression = fld execution ''regression_set'' in
     bindE (sorted_strings (fld execution ''declared_gaps'') ''qa workflow execution declared_gaps'' False) (\<lambda>declared.
     bindE (sorted_strings (fld execution ''blockers'') ''qa workflow execution blockers'' False) (\<lambda>supplied.
     let blockers = sorted_set (supplied @ concat (map (\<lambda>r. texts_in r ''blockers'') results) @ artifact_blockers defects regression);
         gaps = sorted_set (declared @ unexecuted results @ artifact_gaps defects regression);
         status = aggregate_status results blockers gaps in
     seqE (reject_if (status = ''blocked'' \<and> blockers = []) (ContractError ''blocked QA aggregation requires explicit blockers''))
     (seqE (reject_if (status = ''partial'' \<and> gaps = []) (ContractError ''partial QA aggregation requires explicit gaps''))
     (seqE (reject_if (\<not> is_list (fld execution ''waivers'')) (ContractError ''qa workflow execution waivers must be an array''))
     (bindE (sorted_strings (fld execution ''residual_risks'') ''qa workflow execution residual_risks'' False) (\<lambda>risks.
     let residual_risks = sorted_set (risks @ texts_in compiled ''known_issues'' @ gaps) in
     bindE (recommendation_for (as_str (fld compiled ''workflow_kind'')) status (fld (fld execution ''verification'') ''status'')
         residual_risks (fld execution ''waivers'')) (\<lambda>recommendation.
     bindE (make_report w compiled execution context blockers gaps residual_risks status recommendation) (\<lambda>report.
     let body = bundle_body compiled execution context blockers gaps status report in
     bindE (qa_fingerprint w (JObj body)) (\<lambda>h.
     let bundle = JObj (body @ [(''fingerprint'', JStr h)]) in
     seqE (validate_workflow_bundle w bundle) (Inr bundle)))))))))))"

end
