(* ===== verification/QaRuntime.thy ===== *)
theory QaRuntime
  imports QaContracts PlanContracts
begin

text \<open>
  \<^verbatim>\<open>qa/runtime.py\<close>: the identity of a test execution and the reuse of its evidence, the refresh of regression sets, the
  reopening of defects, and the guard that stops a fix-and-rerun loop.
\<close>

section \<open>Execution identity\<close>

definition has_namespace :: "string list \<Rightarrow> json \<Rightarrow> bool" where
  "has_namespace namespaces v \<longleftrightarrow> is_str v \<and> list_ex (\<lambda>ns. in_namespace ns (as_str v)) namespaces"

definition check_fingerprint :: "json \<Rightarrow> string \<Rightarrow> string list \<Rightarrow> unit result" where
  "check_fingerprint v label namespaces = reject_if (\<not> has_namespace namespaces v) (ContractError (label @ '' is invalid''))"

definition unique_strings :: "json \<Rightarrow> string \<Rightarrow> string list result" where
  "unique_strings value label =
     seqE (reject_if (\<not> is_list value \<or> list_ex (\<lambda>i. \<not> is_nonempty_str i) (as_list value)) (ContractError (label @ '' must be strings'')))
     (Inr (sorted_set (text_items value)))"

definition check_fingerprints :: "json \<Rightarrow> string \<Rightarrow> string list \<Rightarrow> string list result" where
  "check_fingerprints value label namespaces =
     bindE (unique_strings value label) (\<lambda>items.
     seqE (for_each (\<lambda>i. check_fingerprint (JStr i) label namespaces) items) (Inr items))"

definition identity_body :: "json \<Rightarrow> json \<Rightarrow> json \<Rightarrow> string list \<Rightarrow> json" where
  "identity_body plan_fp environment_fp data_fp sources =
     JObj [(''environment_fingerprint'', environment_fp), (''plan_fingerprint'', plan_fp),
       (''source_fingerprints'', JList (map JStr sources)), (''test_data_fingerprint'', data_fp)]"

definition qa_execution_identity :: "world \<Rightarrow> json \<Rightarrow> json \<Rightarrow> json \<Rightarrow> json \<Rightarrow> string result" where
  "qa_execution_identity w plan_fp environment_fp data_fp source_fps =
     seqE (check_fingerprint plan_fp ''QA execution plan fingerprint'' [''qa-v1''])
     (seqE (check_fingerprint environment_fp ''QA execution environment fingerprint'' [''qa-v1'', ''desktop-v1''])
     (seqE (check_fingerprint data_fp ''QA execution test data fingerprint'' [''qa-v1''])
     (bindE (check_fingerprints source_fps ''QA execution source fingerprints'' [''qa-v1'']) (\<lambda>sources.
     qa_fingerprint w (identity_body plan_fp environment_fp data_fp sources)))))"

definition reuse_reasons :: "json \<Rightarrow> json \<Rightarrow> json \<Rightarrow> json \<Rightarrow> string list \<Rightarrow> string list \<Rightarrow> string list" where
  "reuse_reasons r plan_fp environment_fp data_fp recorded current =
     (if fld r ''plan_fingerprint'' \<noteq> plan_fp then [''plan-fingerprint-changed''] else []) @
     (if fld r ''environment_fingerprint'' \<noteq> environment_fp then [''environment-fingerprint-changed''] else []) @
     (if fld r ''test_data_fingerprint'' \<noteq> data_fp then [''test-data-fingerprint-changed''] else []) @
     (if recorded \<noteq> current then [''source-fingerprint-changed''] else [])"

definition evidence_reuse_status :: "world \<Rightarrow> json \<Rightarrow> json \<Rightarrow> json \<Rightarrow> json \<Rightarrow> json \<Rightarrow> json \<Rightarrow> json result" where
  "evidence_reuse_status w r plan_fp environment_fp data_fp recorded_fps current_fps =
     seqE (validate_test_result w r)
     (bindE (check_fingerprints recorded_fps ''recorded source fingerprints'' [''qa-v1'']) (\<lambda>recorded.
     bindE (check_fingerprints current_fps ''current source fingerprints'' [''qa-v1'']) (\<lambda>current.
     let reasons = reuse_reasons r plan_fp environment_fp data_fp recorded current in
     bindE (qa_execution_identity w plan_fp environment_fp data_fp (JList (map JStr current))) (\<lambda>current_identity.
     bindE (qa_execution_identity w (fld r ''plan_fingerprint'') (fld r ''environment_fingerprint'') (fld r ''test_data_fingerprint'')
         (JList (map JStr recorded))) (\<lambda>recorded_identity.
     Inr (JObj [(''current_identity'', JStr current_identity),
        (''reasons'', JList (map JStr (sort reasons))),
        (''recorded_identity'', JStr recorded_identity),
        (''status'', JStr (if reasons = [] then ''reusable'' else ''stale''))]))))))"

section \<open>Regression sets\<close>

text \<open>The artifact with its fingerprint computed anew.\<close>

definition refingerprint :: "world \<Rightarrow> json \<Rightarrow> json result" where
  "refingerprint w v = mapR (\<lambda>h. put v ''fingerprint'' (JStr h)) (qa_fingerprint w (without_keys [''fingerprint''] v))"

definition refresh_reasons :: "json \<Rightarrow> string list \<Rightarrow> string list \<Rightarrow> string list \<Rightarrow> string list" where
  "refresh_reasons regression environments sources reopened =
     (if environments \<noteq> text_items (fld regression ''environment_fingerprints'') then [''environment-fingerprint-changed''] else []) @
     (if sources \<noteq> text_items (fld regression ''source_fingerprints'') then [''source-fingerprint-changed''] else []) @
     map (\<lambda>d. ''defect-reopened:'' @ d) reopened"

definition stale_regression :: "json \<Rightarrow> string list \<Rightarrow> string list \<Rightarrow> string list \<Rightarrow> json" where
  "stale_regression regression environments sources reasons =
     put (put (put (put regression ''environment_fingerprints'' (JList (map JStr environments)))
       ''source_fingerprints'' (JList (map JStr sources)))
       ''stale_reasons'' (JList (map JStr (sorted_set reasons))))
       ''status'' (JStr ''stale'')"

definition refresh_regression_set :: "world \<Rightarrow> json \<Rightarrow> json \<Rightarrow> json \<Rightarrow> json \<Rightarrow> json result" where
  "refresh_regression_set w regression environment_fps source_fps reopened_refs =
     seqE (validate_regression_set w regression)
     (bindE (check_fingerprints environment_fps ''regression environment fingerprints'' [''qa-v1'', ''desktop-v1'']) (\<lambda>environments.
     bindE (check_fingerprints source_fps ''regression source fingerprints'' [''qa-v1'']) (\<lambda>sources.
     bindE (unique_strings reopened_refs ''reopened defect refs'') (\<lambda>reopened.
     seqE (reject_if (\<not> set reopened \<subseteq> set (text_items (fld regression ''defect_refs'')))
       (ContractError ''reopened defects are outside the regression set''))
     (let reasons = refresh_reasons regression environments sources reopened in
      if reasons = [] then Inr regression
      else bindE (refingerprint w (stale_regression regression environments sources reasons)) (\<lambda>revised.
        seqE (validate_regression_set w revised) (Inr revised)))))))"

section \<open>Reopening a defect\<close>

text \<open>The key of the sort; keys that are no texts count as not comparable.\<close>

definition ref_key :: "json \<Rightarrow> (string \<times> string) result" where
  "ref_key item =
     bindE (get_default item ''kind'' (JStr [])) (\<lambda>k. bindE (get_default item ''uri'' (JStr [])) (\<lambda>u.
     if is_str k \<and> is_str u then Inr (as_str k, as_str u) else Inl (TypeError ''<'')))"

definition sort_refs :: "json list \<Rightarrow> json list result" where
  "sort_refs items =
     bindE (mapE ref_key items) (\<lambda>_.
     Inr (sort_key (\<lambda>i. (as_str (fld_or i ''kind'' (JStr [])), as_str (fld_or i ''uri'' (JStr [])))) items))"

definition reopen_defect :: "world \<Rightarrow> json \<Rightarrow> json \<Rightarrow> json result" where
  "reopen_defect w defect evidence_refs =
     seqE (validate_defect_report w defect)
     (seqE (reject_if (as_str (fld defect ''status'') \<notin> set [''verified'', ''closed''])
       (ContractError ''only verified or closed defects can be reopened''))
     (seqE (reject_if (\<not> is_list evidence_refs \<or> as_list evidence_refs = []) (ContractError ''reopened defect requires new evidence''))
     (bindE (sort_refs (as_list (fld defect ''evidence_refs'') @ as_list evidence_refs)) (\<lambda>refs.
     bindE (refingerprint w (put (put defect ''evidence_refs'' (JList refs)) ''status'' (JStr ''reopened''))) (\<lambda>revised.
     seqE (validate_defect_report w revised) (Inr revised))))))"

section \<open>The loop guard\<close>

record guard =
  max_attempts :: int
  failed_attempts :: "(string, int) dict"

definition new_guard :: "json \<Rightarrow> guard result" where
  "new_guard limit =
     seqE (reject_if (\<not> is_strict_int limit \<or> as_int limit < 1) (ContractError ''QA loop max_attempts is invalid''))
     (Inr \<lparr>max_attempts = as_int limit, failed_attempts = []\<rparr>)"

definition attempts_of :: "guard \<Rightarrow> string \<Rightarrow> int" where
  "attempts_of g issue = (case dict_get (failed_attempts g) issue of Some n \<Rightarrow> n | None \<Rightarrow> 0)"

definition guard_answer :: "string \<Rightarrow> int \<Rightarrow> string \<Rightarrow> string \<Rightarrow> string \<Rightarrow> json" where
  "guard_answer action attempt issue next_action status =
     JObj [(''action'', JStr action), (''attempt'', JInt attempt), (''issue_class'', JStr issue), (''next_action'', JStr next_action),
       (''status'', JStr status)]"

definition record_outcome :: "guard \<Rightarrow> json \<Rightarrow> json \<Rightarrow> (guard \<times> json) result" where
  "record_outcome g issue outcome =
     seqE (reject_if (\<not> nonblank issue) (ContractError ''QA loop issue_class is invalid''))
     (seqE (require_in outcome [''failed'', ''resolved'', ''cancelled''] (ContractError ''QA loop outcome is invalid''))
     (let i = as_str issue; n = attempts_of g i in
      if outcome = JStr ''failed'' then
        Inr (g\<lparr>failed_attempts := dict_set i (n + 1) (failed_attempts g)\<rparr>,
          if max_attempts g \<le> n + 1 then guard_answer ''blocked'' (n + 1) i ''independent-triage'' ''blocked''
          else guard_answer ''fix-and-rerun'' (n + 1) i ''fix'' ''retrying'')
      else Inr (g,
        if outcome = JStr ''resolved'' then guard_answer ''report'' n i ''report'' ''passed''
        else guard_answer ''cancel-cleanup'' n i ''confirm-cleanup'' ''cancelled'')))"

end
