(* ===== verification/QaFacts.thy ===== *)
theory QaFacts
  imports QaAggregate QaRuntime JsonFacts
begin

text \<open>
  What acceptance by the QA validators means, field by field, and the facts about identities, case numbers and counts
  that the properties rest on.
\<close>

section \<open>Shared checks\<close>

lemma require_text_set_eq_Inr [result_simps]:
  "require_text_set v label some = Inr u \<longleftrightarrow> is_list v \<and> (some \<longrightarrow> as_list v \<noteq> []) \<and> (\<forall>i \<in> set (as_list v). nonblank i) \<and>
     text_items v = sorted_set (text_items v)"
  by (auto simp: require_text_set_def require_strings_def sorted_unique_def list_ex_iff result_simps)

lemma sorted_strings_eq_Inr [result_simps]:
  "sorted_strings v label some = Inr xs \<longleftrightarrow> is_list v \<and> (some \<longrightarrow> as_list v \<noteq> []) \<and> (\<forall>i \<in> set (as_list v). nonblank i) \<and>
     xs = sorted_set (text_items v)"
  by (auto simp: sorted_strings_def require_strings_def list_ex_iff result_simps)

lemma exact_object_eq_Inr [result_simps]:
  "exact_object v fs kind = Inr u \<longleftrightarrow> is_obj v \<and> set (map fst (as_dict v)) = set fs"
  by (auto simp: exact_object_def)

lemma require_nonblank_eq_Inr [result_simps]:
  "require_nonblank v fs label = Inr u \<longleftrightarrow> (\<forall>f \<in> set fs. nonblank (fld v f))"
  by (auto simp: require_nonblank_def result_simps)

lemma qa_fingerprint_eq_Inr [result_simps]:
  "qa_fingerprint w v = Inr h \<longleftrightarrow> (\<exists>d. sha256 w v = Inr d \<and> h = ''qa-v1:'' @ d)"
  by (auto simp: qa_fingerprint_def result_simps)

lemma sorted_unique_eq_Inr [result_simps]: "sorted_unique xs label = Inr u \<longleftrightarrow> xs = sorted_set xs"
  by (simp add: sorted_unique_def)

lemma texts_simps [simp]: "as_list (texts xs) = xs_json \<longleftrightarrow> xs_json = map JStr xs" "text_items (texts xs) = xs" "is_list (texts xs)"
  by (auto simp: texts_def text_items_def o_def)

lemma text_items_map [simp]: "text_items (JList (map JStr xs)) = xs"
  by (simp add: text_items_def o_def)

section \<open>Coverage\<close>

lemma compile_coverage_D:
  assumes "compile_coverage risks kind requested = Inr c"
  obtains scan where "foldE scan_risk \<lparr>risk_ids = [], risk_categories = [], maximum_score = 0\<rparr> risks = Inr scan"
    and "fld c ''compiled_level'' = JStr (highest (as_str requested) (floors_of scan kind))"
    and "requested \<in> JStr ` set COVERAGE_LEVELS" and "kind \<in> set [''prd'', ''bug'', ''release'']"
    and "fld c ''risk_refs'' = JList (map JStr (risk_ids scan))" and "risk_ids scan = sorted_set (risk_ids scan)"
    and "fld c ''requested_level'' = requested"
  using assms unfolding compile_coverage_def
  by (auto simp only: result_simps Let_def list_ex_iff sum.inject simp_thms)
     (auto simp: json_simps)

text \<open>Every floor of a set of risks.\<close>

definition coverage_floors :: "json list \<Rightarrow> string \<Rightarrow> string \<Rightarrow> string set" where
  "coverage_floors risks kind requested =
     {requested} \<union> (if risks = [] then {''smoke''} else {}) \<union> {score_level (risk_score r) | r. r \<in> set risks} \<union>
     {f. \<exists>r \<in> set risks. \<exists>c \<in> set (categories_of r). dict_get CATEGORY_FLOORS c = Some f} \<union>
     (if kind = ''release'' then {''release-candidate''} else {})"

lemma fold_max_in: "fold max xs (m::int) \<in> set (m # xs)"
proof (induction xs arbitrary: m)
  case (Cons x xs)
  show ?case using Cons.IH [of "max x m"] by (auto simp: max_def split: if_splits)
qed simp

lemma risk_score_pos: "risk_ok r \<Longrightarrow> 1 \<le> risk_score r"
  using mult_mono [of 1 "as_int (fld r ''likelihood'')" 1 "as_int (fld r ''impact'')"]
  by (simp add: risk_ok_def is_score_def risk_score_def)

lemma scanned_floors:
  assumes "foldE scan_risk \<lparr>risk_ids = [], risk_categories = [], maximum_score = 0\<rparr> risks = Inr scan"
  shows "score_level (maximum_score scan) \<in> coverage_floors risks kind requested"
    and "r \<in> set risks \<Longrightarrow> level_index (score_level (risk_score r)) \<le> level_index (score_level (maximum_score scan))"
    and "f \<in> snd ` set (category_floors (risk_categories scan)) \<longleftrightarrow>
      (\<exists>r \<in> set risks. \<exists>c \<in> set (categories_of r). dict_get CATEGORY_FLOORS c = Some f)"
proof -
  note S = scan_risks [OF assms, simplified]
  have pos: "r \<in> set risks \<Longrightarrow> 1 \<le> risk_score r" for r
    using S by (auto simp: list_all_iff intro: risk_score_pos)
  have max_ge: "r \<in> set risks \<Longrightarrow> risk_score r \<le> maximum_score scan" for r
    using S by (auto intro!: fold_max_ge)
  show "score_level (maximum_score scan) \<in> coverage_floors risks kind requested"
  proof (cases risks)
    case Nil
    then show ?thesis using S by (simp add: coverage_floors_def score_level_def)
  next
    case (Cons r rs)
    have "maximum_score scan \<in> set (0 # map risk_score risks)" using S fold_max_in [of "map risk_score risks" 0] by simp
    moreover have "maximum_score scan \<noteq> 0" using max_ge [of r] pos [of r] Cons by simp
    ultimately show ?thesis by (auto simp: coverage_floors_def)
  qed
  show "level_index (score_level (risk_score r)) \<le> level_index (score_level (maximum_score scan))" if "r \<in> set risks"
    using score_level_mono [OF _ max_ge [OF that]] pos [OF that] by simp
  show "f \<in> snd ` set (category_floors (risk_categories scan)) \<longleftrightarrow>
      (\<exists>r \<in> set risks. \<exists>c \<in> set (categories_of r). dict_get CATEGORY_FLOORS c = Some f)"
  proof -
    have "f \<in> snd ` set (category_floors cs) \<longleftrightarrow> (\<exists>c. (c, f) \<in> set (category_floors cs))" for cs by force
    then show ?thesis using S by (simp add: category_floors_iff) blast
  qed
qed

section \<open>Aggregation\<close>

lemma identified_eq_Inr:
  "identified w k i body = Inr v \<longleftrightarrow> (\<exists>h. qa_fingerprint w (JObj ((k, JStr i) # body)) = Inr h \<and>
     v = JObj ((k, JStr i) # body @ [(''fingerprint'', JStr h)]))"
  by (auto simp: identified_def mapR_eq_Inr)

text \<open>A returned bundle, taken apart.\<close>

lemma aggregate_D:
  assumes "aggregate_workflow_results w compiled execution = Inr b"
  shows "\<exists>ctx declared supplied risks blockers gaps status residual recommendation report h.
    check_execution w compiled execution = Inr ctx \<and>
    sorted_strings (fld execution ''declared_gaps'') ''qa workflow execution declared_gaps'' False = Inr declared \<and>
    sorted_strings (fld execution ''blockers'') ''qa workflow execution blockers'' False = Inr supplied \<and>
    blockers = sorted_set (supplied @ concat (map (\<lambda>r. texts_in r ''blockers'') (as_list (fld execution ''test_results''))) @
      artifact_blockers (as_list (fld execution ''defect_reports'')) (fld execution ''regression_set'')) \<and>
    gaps = sorted_set (declared @ unexecuted (as_list (fld execution ''test_results'')) @
      artifact_gaps (as_list (fld execution ''defect_reports'')) (fld execution ''regression_set'')) \<and>
    status = aggregate_status (as_list (fld execution ''test_results'')) blockers gaps \<and>
    residual = sorted_set (risks @ texts_in compiled ''known_issues'' @ gaps) \<and>
    recommendation_for (as_str (fld compiled ''workflow_kind'')) status (fld (fld execution ''verification'') ''status'')
      residual (fld execution ''waivers'') = Inr recommendation \<and>
    make_report w compiled execution ctx blockers gaps residual status recommendation = Inr report \<and>
    b = JObj (bundle_body compiled execution ctx blockers gaps status report @ [(''fingerprint'', JStr h)]) \<and>
    validate_workflow_bundle w b = Inr ()"
  using assms unfolding aggregate_workflow_results_def Let_def bindE_eq_Inr seqE_eq_Inr sum.inject
  apply (elim exE conjE)
  apply (intro exI conjI)
            apply (assumption | rule refl | rule sym, assumption | (simp only: ; fail))+
  done

lemma bundle_body_fields:
  "fld (JObj (bundle_body compiled execution ctx blockers gaps status report @ r)) ''status'' = JStr status"
  "fld (JObj (bundle_body compiled execution ctx blockers gaps status report @ r)) ''report'' = report"
  "fld (JObj (bundle_body compiled execution ctx blockers gaps status report @ r)) ''test_results'' = fld execution ''test_results''"
  "fld (JObj (bundle_body compiled execution ctx blockers gaps status report @ r)) ''test_cases'' = fld compiled ''test_cases''"
  "fld (JObj (bundle_body compiled execution ctx blockers gaps status report @ r)) ''defect_reports'' = fld execution ''defect_reports''"
  "fld (JObj (bundle_body compiled execution ctx blockers gaps status report @ r)) ''regression_set'' = fld execution ''regression_set''"
  "fld (JObj (bundle_body compiled execution ctx blockers gaps status report @ r)) ''workflow_kind'' = fld compiled ''workflow_kind''"
  "fld (JObj (bundle_body compiled execution ctx blockers gaps status report @ r)) ''gaps'' = texts gaps"
  "fld (JObj (bundle_body compiled execution ctx blockers gaps status report @ r)) ''blockers'' = texts blockers"
  by (simp_all add: bundle_body_def json_simps)

lemma make_report_fields:
  assumes "make_report w compiled execution ctx blockers gaps residual status recommendation = Inr report"
  shows "fld report ''verification'' = fld execution ''verification''" "fld report ''release_recommendation'' = JStr recommendation"
    "fld report ''status'' = JStr status" "fld report ''delivery_context'' = ctx" "fld report ''blockers'' = texts blockers"
    "fld report ''workflow_kind'' = fld compiled ''workflow_kind''" "fld report ''residual_risks'' = texts residual"
    "fld report ''waivers'' = fld execution ''waivers''"
    "fld report ''quality'' = quality_summary (fld compiled ''plan'') (as_list (fld execution ''test_results''))
       (ids_of ''defect_id'' (as_list (fld execution ''defect_reports''))) gaps"
  using assms by (auto simp: make_report_def identified_eq_Inr json_simps)

lemma check_execution_D:
  assumes "check_execution w compiled execution = Inr ctx"
  shows "validate_compiled_workflow w compiled = Inr ()" and "validate_run_ledger (fld execution ''run_ledger'') = Inr ()"
    and "\<forall>r \<in> set (as_list (fld execution ''test_results'')). validate_test_result w r = Inr ()"
    and "ids_of ''case_id'' (as_list (fld execution ''test_results'')) = sort (ids_of ''case_id'' (as_list (fld compiled ''test_cases'')))"
    and "\<forall>d \<in> set (as_list (fld execution ''defect_reports'')).
      check_closed_defect ''closed defect fix verification must reference passed results''
        ''closed defect requires current regression ownership'' (as_list (fld execution ''test_results'')) (fld execution ''regression_set'') d = Inr ()"
    and "\<exists>s. current_validation_status (fld execution ''run_ledger'') = Inr s \<and> py_eq (fld (fld execution ''verification'') ''status'') s"
    and "exact_fields (fld execution ''verification'') [''level'', ''status'', ''evidence_refs'']"
  using assms unfolding check_execution_def ledger_identity_def check_execution_results_def check_execution_result_def
    check_execution_verification_def Let_def seqE_eq_Inr bindE_eq_Inr reject_if_eq_Inr for_each_eq_Inr
  by (elim exE conjE; simp)+

text \<open>A status other than these leaves a passed result.\<close>

lemma aggregate_status_passed:
  "aggregate_status results blockers gaps = ''passed'' \<longleftrightarrow> blockers = [] \<and> gaps = [] \<and> count_status results ''cancelled'' = 0 \<and>
     count_status results ''blocked'' = 0 \<and> count_status results ''failed'' = 0 \<and> count_status results ''skipped'' = 0"
  by (auto simp: aggregate_status_def)

lemma count_status_0: "count_status results s = 0 \<longleftrightarrow> (\<forall>r \<in> set results. fld r ''status'' \<noteq> JStr s)"
  by (auto simp: count_status_def filter_empty_conv)

lemma test_result_D:
  assumes "validate_test_result w r = Inr ()"
  shows "fld r ''status'' \<in> JStr ` set [''passed'', ''blocked'', ''failed'', ''cancelled'', ''skipped'']"
    and "fld r ''status'' = JStr ''passed'' \<Longrightarrow> as_list (fld r ''evidence_refs'') \<noteq> []"
    and "is_list (fld r ''blockers'')"
proof -
  have D: "require_in (fld r ''status'') [''passed'', ''blocked'', ''failed'', ''cancelled'', ''skipped''] (ContractError ''test-result status is invalid'') = Inr ()"
    "check_result_status r = Inr ()" "for_each (\<lambda>f. require_text_set (fld r f) (''test-result '' @ f) False) [''defect_refs'', ''blockers''] = Inr ()"
    using assms by (simp_all only: validate_test_result_def seqE_eq_Inr)
  show "fld r ''status'' \<in> JStr ` set [''passed'', ''blocked'', ''failed'', ''cancelled'', ''skipped'']"
    using D(1) by (simp only: require_in_eq_Inr image_iff)
  show "fld r ''status'' = JStr ''passed'' \<Longrightarrow> as_list (fld r ''evidence_refs'') \<noteq> []"
    using D(2) by (auto simp: check_result_status_def Let_def seqE_eq_Inr)
  show "is_list (fld r ''blockers'')" using D(3) by (simp add: require_text_set_eq_Inr seqE_eq_Inr)
qed

end
