(* ===== verification/QaRuntimeFacts.thy ===== *)
theory QaRuntimeFacts
  imports QaFacts KeySorted
begin

text \<open>
  Facts about the QA runtime: the loop guard counts failures, artifacts made of texts always have a fingerprint, and
  the identity of an execution determines its inputs.
\<close>

section \<open>The loop guard\<close>

text \<open>A sequence of reports to the guard.\<close>

definition guard_run :: "guard \<Rightarrow> (string \<times> string) list \<Rightarrow> guard result" where
  "guard_run g reports = foldE (\<lambda>g p. mapR fst (record_outcome g (JStr (fst p)) (JStr (snd p)))) g reports"

definition failures :: "string \<Rightarrow> (string \<times> string) list \<Rightarrow> nat" where
  "failures i reports = count_list reports (i, ''failed'')"

lemma record_outcome_state:
  assumes "record_outcome g (JStr i) (JStr out) = Inr (g', a)"
  shows "max_attempts g' = max_attempts g" and "attempts_of g' j = attempts_of g j + (if j = i \<and> out = ''failed'' then 1 else 0)"
  using assms by (auto simp: record_outcome_def seqE_eq_Inr Let_def attempts_of_def dict_get_set split: if_splits)

lemma guard_run_counts:
  assumes "guard_run g reports = Inr g'"
  shows "max_attempts g' = max_attempts g" and "attempts_of g' j = attempts_of g j + int (failures j reports)"
proof -
  have "max_attempts g' = max_attempts g \<and> attempts_of g' j = attempts_of g j + int (failures j reports)"
    using assms
  proof (induction reports arbitrary: g)
    case (Cons p reports)
    then obtain g1 a where r: "record_outcome g (JStr (fst p)) (JStr (snd p)) = Inr (g1, a)" and "guard_run g1 reports = Inr g'"
      by (auto simp: guard_run_def bindE_eq_Inr mapR_eq_Inr)
    from Cons.IH [OF this(2)] record_outcome_state [OF r] show ?case by (cases p) (simp add: failures_def)
  qed (simp add: guard_run_def failures_def)
  then show "max_attempts g' = max_attempts g" "attempts_of g' j = attempts_of g j + int (failures j reports)" by simp_all
qed

section \<open>Artifacts of texts\<close>

text \<open>A text, or a list of texts.\<close>

fun plain :: "json \<Rightarrow> bool" where
  "plain (JStr _) = True"
| "plain (JList xs) = list_all is_str xs"
| "plain _ = False"

lemma text_limits: "is_str x \<Longrightarrow> limits_ok x n" "is_str x \<Longrightarrow> \<not> has_nonfinite x"
  by (cases x; simp)+

lemma plain_limits:
  assumes "plain v"
  shows "limits_ok v (Suc 0)" and "\<not> has_nonfinite v"
proof -
  show "limits_ok v (Suc 0)"
  proof (cases v)
    case (JList xs)
    then show ?thesis using assms text_limits(1) by (simp add: list_all_iff MAX_CANONICAL_JSON_DEPTH_def)
  qed (use assms in simp_all)
  show "\<not> has_nonfinite v"
  proof (cases v)
    case (JList xs)
    then show ?thesis using assms text_limits(2) by (auto simp: list_all_iff list_ex_iff)
  qed (use assms in simp_all)
qed

lemma plain_object_hashed:
  assumes "\<forall>v \<in> snd ` set kvs. plain v"
  shows "\<exists>h. qa_fingerprint w (JObj kvs) = Inr h"
proof -
  have "limits_ok (JObj kvs) 0" "\<not> has_nonfinite (JObj kvs)"
    using assms plain_limits by (auto simp: MAX_CANONICAL_JSON_DEPTH_def list_ex_iff)
  from sha256_total [OF this, of w] obtain h where "sha256 w (JObj kvs) = Inr h" by blast
  then show ?thesis by (simp add: qa_fingerprint_def)
qed

section \<open>Execution identity\<close>

lemma has_namespace_str: "has_namespace ns v \<Longrightarrow> is_str v"
  by (simp add: has_namespace_def)

lemma unique_strings_eq_Inr:
  "unique_strings v l = Inr xs \<longleftrightarrow> is_list v \<and> (\<forall>i \<in> set (as_list v). is_nonempty_str i) \<and> xs = sorted_set (text_items v)"
  by (auto simp: unique_strings_def list_ex_iff result_simps)

lemma check_fingerprints_eq_Inr:
  "check_fingerprints v l ns = Inr xs \<longleftrightarrow> unique_strings v l = Inr xs \<and> (\<forall>x \<in> set xs. has_namespace ns (JStr x))"
  by (auto simp: check_fingerprints_def check_fingerprint_def bindE_eq_Inr seqE_eq_Inr for_each_eq_Inr)

lemma execution_identity_D:
  assumes "qa_execution_identity w p e d (JList (map JStr xs)) = Inr i" and "xs = sorted_set xs"
  shows "is_str p" "is_str e" "is_str d" "qa_fingerprint w (identity_body p e d xs) = Inr i"
  using assms has_namespace_str
  by (auto simp: qa_execution_identity_def seqE_eq_Inr bindE_eq_Inr check_fingerprint_def check_fingerprints_eq_Inr unique_strings_eq_Inr)

text \<open>The canonical text of an identity determines its parts.\<close>

lemma identity_body_inject:
  assumes "key_sorted (identity_body p e d xs) = key_sorted (identity_body p' e' d' xs')"
    and "is_str p" "is_str e" "is_str d"
  shows "p = p' \<and> e = e' \<and> d = d' \<and> xs = xs'"
proof -
  have same: "map_option key_sorted (dict_get (as_dict (identity_body p e d xs)) k) =
      map_option key_sorted (dict_get (as_dict (identity_body p' e' d' xs')) k)" for k
    using arg_cong [OF assms(1), of "\<lambda>v. dict_get (as_dict v) k"] unfolding identity_body_def dict_get_key_sorted by simp
  have texts: "map key_sorted (map JStr ys) = map JStr ys" for ys by simp
  show ?thesis
    using same [of "''plan_fingerprint''"] same [of "''environment_fingerprint''"] same [of "''test_data_fingerprint''"]
      same [of "''source_fingerprints''"] assms(2-4)
    by (auto simp: identity_body_def is_str_iff o_def inj_map_eq_map inj_def)
qed

lemma reuse_reasons_empty:
  "reuse_reasons r p e d recorded current = [] \<longleftrightarrow>
     fld r ''plan_fingerprint'' = p \<and> fld r ''environment_fingerprint'' = e \<and> fld r ''test_data_fingerprint'' = d \<and> recorded = current"
  by (simp add: reuse_reasons_def)

section \<open>Regression sets\<close>

lemma regression_set_D:
  assumes "validate_regression_set w r = Inr ()"
  shows "is_obj r" "set (map fst (as_dict r)) = set regression_fields" "fld r ''schema_version'' = JStr ''1.0''"
    "nonblank (fld r ''set_id'')"
    "\<forall>f \<in> set [''case_refs'', ''defect_refs'', ''stale_reasons'', ''source_fingerprints'', ''environment_fingerprints''].
      is_list (fld r f) \<and> (\<forall>i \<in> set (as_list (fld r f)). nonblank i) \<and> text_items (fld r f) = sorted_set (text_items (fld r f))"
    "as_list (fld r ''case_refs'') \<noteq> []"
  using assms unfolding validate_regression_set_def check_regression_fingerprints_def seqE_eq_Inr for_each_eq_Inr
  by (auto simp: result_simps)

section \<open>Fingerprints of artifacts\<close>

lemma sort_keys_same:
  assumes "set xs = set ys" and "distinct (map fst xs)" and "distinct (map fst ys)"
  shows "sort_key fst xs = sort_key fst (ys :: (string \<times> 'a) list)"
proof (rule map_sorted_distinct_set_unique [where f = fst])
  show "inj_on fst (set (sort_key fst xs) \<union> set (sort_key fst ys))" using assms by (simp add: distinct_map)
qed (use assms in \<open>simp_all add: distinct_map distinct_sort\<close>)

text \<open>The listed fields of an object with these keys, each once, are the object without its fingerprint.\<close>

lemma qa_body_key_sorted:
  assumes "distinct (map fst kvs)" and "set (map fst kvs) = set fs" and "distinct fs"
  shows "key_sorted (qa_body (JObj kvs) fs) = key_sorted (without_keys [''fingerprint''] (JObj kvs))"
proof -
  have get: "fld (JObj kvs) k = v" if "(k, v) \<in> set kvs" for k v
    using that assms(1) by (simp add: fld_def dict_get_def)
  let ?xs = "map (\<lambda>f. (f, key_sorted (fld (JObj kvs) f))) (filter (\<lambda>f. f \<noteq> ''fingerprint'') fs)"
  let ?ys = "map (\<lambda>kv. (fst kv, key_sorted (snd kv))) (filter (\<lambda>kv. fst kv \<notin> set [''fingerprint'']) kvs)"
  have "set ?xs = set ?ys"
  proof (rule set_eqI)
    fix p :: "string \<times> json"
    have "p \<in> set ?xs \<longleftrightarrow> fst p \<noteq> ''fingerprint'' \<and> fst p \<in> set (map fst kvs) \<and> snd p = key_sorted (fld (JObj kvs) (fst p))"
      using assms(2) by (cases p) auto
    also have "\<dots> \<longleftrightarrow> p \<in> set ?ys"
      using get by (cases p) (force simp: image_iff)
    finally show "p \<in> set ?xs \<longleftrightarrow> p \<in> set ?ys" .
  qed
  moreover have "distinct (map fst ?xs)" using assms(3) by (simp add: o_def)
  moreover have "distinct (map fst ?ys)" using assms(1) by (simp add: o_def distinct_map_filter)
  ultimately have "sort_key fst ?xs = sort_key fst ?ys" by (rule sort_keys_same)
  then show ?thesis by (simp add: qa_body_def without_keys_def o_def key_sorted.simps(2))
qed

lemma key_sorted_fingerprint:
  assumes "key_sorted u = key_sorted v" and "qa_fingerprint w v = Inr h"
  shows "qa_fingerprint w u = Inr h"
proof -
  have "limits_ok u 0 = limits_ok v 0" "has_nonfinite u = has_nonfinite v"
    using assms(1) limits_ok_key_sorted has_nonfinite_key_sorted by metis+
  moreover have "json_text (float_text w) u = json_text (float_text w) v" by (rule same_key_sorted_text [OF assms(1)])
  ultimately have "dumps w v = Inr s \<Longrightarrow> dumps w u = Inr s" for s by (simp add: dumps_eq_Inr)
  then show ?thesis using assms(2) by (auto simp: qa_fingerprint_eq_Inr sha256_def bindE_eq_Inr)
qed

lemma hashed_fingerprint:
  assumes "\<And>s. is_hex 64 (digest w s)" and "qa_fingerprint w v = Inr h"
  shows "require_fingerprint (JStr h) label = Inr ()"
proof -
  obtain s where "h = ''qa-v1:'' @ digest w s" using assms(2) by (auto simp: qa_fingerprint_eq_Inr sha256_def bindE_eq_Inr)
  with assms(1) show ?thesis by (simp add: require_fingerprint_def in_namespace_def startswith_iff)
qed

text \<open>An artifact whose fingerprint was computed from its other fields passes the fingerprint check.\<close>

lemma fingerprint_accepted:
  assumes "\<And>s. is_hex 64 (digest w s)" and "distinct (map fst kvs)" and "set (map fst kvs) = set fs" and "distinct fs"
    and "qa_fingerprint w (without_keys [''fingerprint''] (JObj kvs)) = Inr h" and "fld (JObj kvs) ''fingerprint'' = JStr h"
    and "nonblank (fld (JObj kvs) identity_field)"
  shows "validate_qa_fingerprint w (JObj kvs) fs label identity_field = Inr ()"
proof -
  have "qa_fingerprint w (qa_body (JObj kvs) fs) = Inr h"
    by (rule key_sorted_fingerprint [OF qa_body_key_sorted assms(5)]) (use assms(2-4) in simp_all)
  then show ?thesis
    using hashed_fingerprint [OF assms(1,5)] assms(6,7) by (simp add: validate_qa_fingerprint_def seqE_eq_Inr)
qed

lemma put_keys_same:
  assumes "is_obj v" and "distinct (map fst (as_dict v))" and "k \<in> set (map fst (as_dict v))"
  shows "distinct (map fst (as_dict (put v k x)))" and "set (map fst (as_dict (put v k x))) = set (map fst (as_dict v))"
    and "without_keys [k] (put v k x) = without_keys [k] v"
proof -
  obtain kvs where v: "v = JObj kvs" using assms(1) by (cases v) simp_all
  show "distinct (map fst (as_dict (put v k x)))" using assms(2) by (simp add: v dict_set_def distinct_update)
  show "set (map fst (as_dict (put v k x))) = set (map fst (as_dict v))" using put_keys [OF assms(1), of k x] assms(3) by auto
  have "filter (\<lambda>kv. fst kv \<noteq> k) (AList.update k x xs) = filter (\<lambda>kv. fst kv \<noteq> k) xs" for xs
    by (induction xs) auto
  then show "without_keys [k] (put v k x) = without_keys [k] v" by (simp add: v without_keys_def dict_set_def)
qed

lemma refingerprint_accepted:
  assumes "\<And>s. is_hex 64 (digest w s)" and "is_obj v" and "distinct (map fst (as_dict v))" and "set (map fst (as_dict v)) = set fs"
    and "distinct fs" and "''fingerprint'' \<in> set fs" and "refingerprint w v = Inr u"
    and "identity_field \<noteq> ''fingerprint''" and "nonblank (fld v identity_field)"
  shows "validate_qa_fingerprint w u fs label identity_field = Inr ()"
proof -
  obtain h where h: "qa_fingerprint w (without_keys [''fingerprint''] v) = Inr h" and u: "u = put v ''fingerprint'' (JStr h)"
    using assms(7) by (auto simp: refingerprint_def mapR_eq_Inr)
  have obj: "is_obj u" using assms(2) u by simp
  then obtain kvs where k: "u = JObj kvs" by (cases u) simp_all
  note P = put_keys_same [OF assms(2,3), of "''fingerprint''", unfolded assms(4), OF assms(6), of "JStr h", folded u]
  have get: "fld (JObj kvs) j = (if j = ''fingerprint'' then JStr h else fld v j)" for j
    using put_fld [of v "''fingerprint''" "JStr h" j] assms(2) u k by simp
  show ?thesis
    unfolding k
  proof (rule fingerprint_accepted [OF assms(1)])
    show "qa_fingerprint w (without_keys [''fingerprint''] (JObj kvs)) = Inr h" using h P(3) k by simp
    show "fld (JObj kvs) ''fingerprint'' = JStr h" by (simp add: get)
    show "nonblank (fld (JObj kvs) identity_field)" using assms(8,9) by (simp add: get)
  qed (use P k assms(5) in simp_all)
qed

section \<open>Refreshing a regression set\<close>

definition plain_object :: "json \<Rightarrow> bool" where
  "plain_object v \<longleftrightarrow> is_obj v \<and> distinct (map fst (as_dict v)) \<and> set (map fst (as_dict v)) = set regression_fields \<and>
     (\<forall>x \<in> snd ` set (as_dict v). plain x)"

lemma plain_object_put:
  assumes "plain_object v" and "plain x" and "k \<in> set regression_fields"
  shows "plain_object (put v k x)"
proof -
  obtain kvs where v: "v = JObj kvs" using assms(1) by (cases v) (simp_all add: plain_object_def)
  have "set (as_dict (put v k x)) \<subseteq> insert (k, x) (set kvs)" using set_dict_set by (simp add: v)
  then have "\<forall>y \<in> snd ` set (as_dict (put v k x)). plain y" using assms(1,2) by (fastforce simp: v plain_object_def)
  then show ?thesis using assms(1,3) put_keys_same [of v k x] by (simp add: plain_object_def)
qed

lemma plain_object_hashed_again:
  assumes "plain_object v"
  shows "\<exists>u. refingerprint w v = Inr u"
proof -
  obtain kvs where v: "v = JObj kvs" using assms by (cases v) (simp_all add: plain_object_def)
  have "\<exists>h. qa_fingerprint w (without_keys [''fingerprint''] v) = Inr h"
    unfolding without_keys_def by (rule plain_object_hashed) (use assms in \<open>auto simp: plain_object_def\<close>)
  then show ?thesis by (auto simp: refingerprint_def)
qed

lemma texts_plain: "is_list v \<Longrightarrow> \<forall>i \<in> set (as_list v). nonblank i \<Longrightarrow> plain v"
  by (cases v) (auto simp: nonblank_def list_all_iff)

lemma regression_plain:
  assumes "validate_regression_set w r = Inr ()" and "distinct (map fst (as_dict r))"
  shows "plain_object r"
proof -
  note D = regression_set_D [OF assms(1)]
  have lists: "plain (fld r f)" if "f \<in> set [''case_refs'', ''defect_refs'', ''stale_reasons'', ''source_fingerprints'', ''environment_fingerprints'']" for f
    using D(5) that texts_plain by blast
  have "require_in (fld r ''status'') [''current'', ''stale'', ''blocked''] (ContractError ''regression-set status is invalid'') = Inr ()"
      "require_fingerprint (fld r ''fingerprint'') ''regression-set fingerprint'' = Inr ()"
    using assms(1) by (simp_all add: validate_regression_set_def validate_qa_fingerprint_def seqE_eq_Inr)
  then have texts: "plain (fld r ''status'')" "plain (fld r ''fingerprint'')" "plain (fld r ''schema_version'')" "plain (fld r ''set_id'')"
    using D(3,4) by (auto simp: require_in_eq_Inr require_fingerprint_def nonblank_def is_str_iff)
  have "plain (fld r ''case_refs'')" "plain (fld r ''defect_refs'')" "plain (fld r ''stale_reasons'')" "plain (fld r ''source_fingerprints'')"
      "plain (fld r ''environment_fingerprints'')"
    by (rule lists, simp)+
  with texts have "list_all (\<lambda>f. plain (fld r f)) regression_fields" by (simp add: regression_fields_def)
  then have "plain (fld r f)" if "f \<in> set regression_fields" for f using that by (simp add: list_all_iff)
  moreover have "x = fld r k" if "(k, x) \<in> set (as_dict r)" for k x
    using that assms(2) by (simp add: fld_def dict_get_def)
  ultimately show ?thesis using D(1,2) assms(2) by (force simp: plain_object_def)
qed

lemma stale_regression_fields:
  assumes "is_obj r"
  shows "fld (stale_regression r es ss reasons) f =
    (if f = ''status'' then JStr ''stale'' else if f = ''stale_reasons'' then texts (sorted_set reasons)
     else if f = ''source_fingerprints'' then texts ss else if f = ''environment_fingerprints'' then texts es else fld r f)"
  using assms by (simp add: stale_regression_def put_fld texts_def)

lemma stale_regression_plain: "plain_object r \<Longrightarrow> plain_object (stale_regression r es ss reasons)"
  unfolding stale_regression_def by (intro plain_object_put) (simp_all add: regression_fields_def list_all_iff)

lemma blank_free:
  "nonblank (JStr (''qa-v1:'' @ s))" "nonblank (JStr (''desktop-v1:'' @ s))" "nonblank (JStr (''defect-reopened:'' @ s))"
  "nonblank (JStr ''environment-fingerprint-changed'')" "nonblank (JStr ''source-fingerprint-changed'')"
  by (simp_all add: nonblank_def is_blank_def is_space_def is_cont_def)

lemma namespace_nonblank: "has_namespace ns v \<Longrightarrow> set ns \<subseteq> {''qa-v1'', ''desktop-v1''} \<Longrightarrow> nonblank v"
proof -
  assume "has_namespace ns v" "set ns \<subseteq> {''qa-v1'', ''desktop-v1''}"
  then obtain n s where v: "v = JStr (n @ '':'' @ s)" and "n \<in> set ns"
    by (auto simp: has_namespace_def list_ex_iff in_namespace_def startswith_iff is_str_iff)
  with \<open>set ns \<subseteq> {''qa-v1'', ''desktop-v1''}\<close> have "n = ''qa-v1'' \<or> n = ''desktop-v1''" by blast
  then show "nonblank v" using v blank_free(1,2) [of s] by auto
qed

text \<open>The stale set passes the validator.\<close>

lemma stale_regression_accepted:
  assumes hex: "\<And>s. is_hex 64 (digest w s)" and valid: "validate_regression_set w r = Inr ()" and keys: "distinct (map fst (as_dict r))"
    and es: "es = sorted_set es" "es \<noteq> []" "\<forall>e \<in> set es. has_namespace [''qa-v1'', ''desktop-v1''] (JStr e)"
    and ss: "ss = sorted_set ss" "ss \<noteq> []" "\<forall>e \<in> set ss. has_namespace [''qa-v1''] (JStr e)"
    and reasons: "reasons \<noteq> []" "\<forall>x \<in> set reasons. nonblank (JStr x)"
  shows "\<exists>u. refingerprint w (stale_regression r es ss reasons) = Inr u \<and> validate_regression_set w u = Inr () \<and>
    (\<forall>f. f \<noteq> ''fingerprint'' \<longrightarrow> fld u f = fld (stale_regression r es ss reasons) f)"
proof -
  let ?s = "stale_regression r es ss reasons"
  note D = regression_set_D [OF valid] and P = stale_regression_plain [OF regression_plain [OF valid keys], of es ss reasons]
  note F = stale_regression_fields [OF D(1), of es ss reasons]
  obtain u where u: "refingerprint w ?s = Inr u" using plain_object_hashed_again [OF P] by blast
  then obtain h where put: "u = put ?s ''fingerprint'' (JStr h)" by (auto simp: refingerprint_def mapR_eq_Inr)
  have same: "fld u f = fld ?s f" if "f \<noteq> ''fingerprint''" for f using that by (simp add: put put_fld)
  have obj: "is_obj u" "set (map fst (as_dict u)) = set regression_fields"
    using P put put_keys_same(2) [of ?s "''fingerprint''" "JStr h"] by (auto simp: plain_object_def regression_fields_def)
  have fp: "validate_qa_fingerprint w u regression_fields ''regression-set'' ''set_id'' = Inr ()"
  proof (rule refingerprint_accepted [OF hex, where v = ?s])
    show "nonblank (fld ?s ''set_id'')" using D(4) by (simp add: F)
    show "distinct regression_fields" "''fingerprint'' \<in> set regression_fields" by code_simp+
  qed (use P u in \<open>simp_all add: plain_object_def\<close>)
  have env: "require_environment_fingerprint (JStr e) l = Inr ()" if "e \<in> set es" for e l
    using es(3) that by (auto simp: has_namespace_def require_environment_fingerprint_def)
  have src: "require_fingerprint (JStr e) l = Inr ()" if "e \<in> set ss" for e l
    using ss(3) that by (auto simp: has_namespace_def require_fingerprint_def)
  have nb: "\<forall>e \<in> set es. nonblank (JStr e)" "\<forall>e \<in> set ss. nonblank (JStr e)"
    using es(3) ss(3) namespace_nonblank [of "[''qa-v1'', ''desktop-v1'']"] namespace_nonblank [of "[''qa-v1'']"] by simp_all
  have lists: "is_list (texts xs)" "as_list (texts xs) = map JStr xs" "text_items (texts xs) = xs" for xs by (simp_all add: texts_def text_items_def o_def)
  have refs: "is_list (fld r f) \<and> (\<forall>i \<in> set (as_list (fld r f)). nonblank i) \<and> text_items (fld r f) = sorted_set (text_items (fld r f))"
    if "f = ''case_refs'' \<or> f = ''defect_refs''" for f
    using D(5) that by auto
  have sorted: "sorted_set (sorted_set reasons) = sorted_set reasons" "sorted_set reasons \<noteq> []"
    using reasons(1) set_sorted_set [of reasons] by (auto simp: sorted_set_id simp del: set_sorted_set)
  have fps: "check_regression_fingerprints u ''source_fingerprints'' = Inr ()" "check_regression_fingerprints u ''environment_fingerprints'' = Inr ()"
    using env src nb es(1,2) ss(1,2)
    by (simp_all add: check_regression_fingerprints_def seqE_eq_Inr for_each_eq_Inr require_text_set_eq_Inr same F lists)
  have "validate_regression_set w u = Inr ()"
    unfolding validate_regression_set_def seqE_eq_Inr for_each_eq_Inr reject_if_eq_Inr require_text_set_eq_Inr exact_object_eq_Inr
      require_version_eq_Inr require_nonblank_eq_Inr require_in_eq_Inr
    using obj refs [of "''case_refs''"] refs [of "''defect_refs''"] fps fp D(3,4,6) reasons(2) sorted
    by (simp add: same F lists)
  with u same show ?thesis by blast
qed

lemma refresh_reasons_nonblank: "\<forall>x \<in> set (refresh_reasons r es ss ds). nonblank (JStr x)"
  using blank_free by (auto simp: refresh_reasons_def)

lemma refresh_regression:
  assumes hex: "\<And>s. is_hex 64 (digest w s)" and valid: "validate_regression_set w r = Inr ()" and keys: "distinct (map fst (as_dict r))"
    and es: "\<And>l. check_fingerprints environments l [''qa-v1'', ''desktop-v1''] = Inr es" "es \<noteq> []"
    and ss: "\<And>l. check_fingerprints sources l [''qa-v1''] = Inr ss" "ss \<noteq> []"
    and ds: "\<And>l. unique_strings reopened l = Inr ds" "set ds \<subseteq> set (text_items (fld r ''defect_refs''))"
  shows "\<exists>v. refresh_regression_set w r environments sources reopened = Inr v \<and> validate_regression_set w v = Inr () \<and>
    (if refresh_reasons r es ss ds = [] then v = r
     else \<forall>f. f \<noteq> ''fingerprint'' \<longrightarrow> fld v f = fld (stale_regression r es ss (refresh_reasons r es ss ds)) f)"
proof (cases "refresh_reasons r es ss ds = []")
  case True
  then show ?thesis using assms by (simp add: refresh_regression_set_def Let_def)
next
  case False
  have "es = sorted_set es" "ss = sorted_set ss" "\<forall>e \<in> set es. has_namespace [''qa-v1'', ''desktop-v1''] (JStr e)"
      "\<forall>e \<in> set ss. has_namespace [''qa-v1''] (JStr e)"
    using es(1) [of "[]"] ss(1) [of "[]"] by (auto simp: check_fingerprints_eq_Inr unique_strings_eq_Inr sorted_set_id)
  from stale_regression_accepted [OF hex valid keys this(1) es(2) this(3) this(2) ss(2) this(4) False refresh_reasons_nonblank]
  obtain u where "refingerprint w (stale_regression r es ss (refresh_reasons r es ss ds)) = Inr u" "validate_regression_set w u = Inr ()"
      "\<forall>f. f \<noteq> ''fingerprint'' \<longrightarrow> fld u f = fld (stale_regression r es ss (refresh_reasons r es ss ds)) f"
    by blast
  then show ?thesis using False assms by (simp add: refresh_regression_set_def Let_def)
qed

end
