(* ===== verification/QaCases.thy ===== *)
theory QaCases
  imports QaFacts
begin

text \<open>
  The test cases of a compiled workflow: how many there are, how they are numbered, and why the numbers stop being in
  order at the hundredth.
\<close>

lemma make_cases_ids:
  "mapE (make_case w wid kind risks) numbered = Inr cases \<Longrightarrow>
     ids_of ''case_id'' cases = map (\<lambda>p. case_id_of wid (fst p)) numbered"
proof (induction numbered arbitrary: cases)
  case (Cons p numbered)
  then obtain c cs where "make_case w wid kind risks p = Inr c" "mapE (make_case w wid kind risks) numbered = Inr cs" "cases = c # cs"
    by (auto simp: bindE_eq_Inr)
  moreover have "as_str (fld c ''case_id'') = case_id_of wid (fst p)"
    using calculation(1) by (auto simp: make_case_def identified_eq_Inr json_simps split: prod.splits)
  ultimately show ?case using Cons.IH by (simp add: ids_of_def)
qed (simp add: ids_of_def)

lemma append_less_iff: "p @ s < p @ (t::string) \<longleftrightarrow> s < t"
  by (induction p) auto

lemma hundredth_case_is_out_of_order: "\<not> case_id_of wid 99 < case_id_of wid 100"
proof -
  have "two_digits 99 = ''99''" "two_digits 100 = ''100''" "\<not> ''99'' < ''100''" by code_simp+
  then show ?thesis by (simp add: case_id_of_def append_less_iff)
qed

lemma sorted_set_increases: "xs = sorted_set xs \<Longrightarrow> i < j \<Longrightarrow> j < length xs \<Longrightarrow> xs ! i < xs ! j"
  unfolding sorted_set_eq_iff by (simp add: order_less_le nth_eq_iff_index_eq sorted_nth_mono)

lemma numbered_nth: "i < length (numbered_cases subjects) \<Longrightarrow> fst (numbered_cases subjects ! i) = Suc i"
  by (simp add: numbered_cases_def nth_enumerate_eq length_enumerate)

text \<open>A returned workflow, taken apart.\<close>

lemma compile_workflow_D:
  assumes "compile_workflow w req kind subjects known = Inr c"
  shows "validate_compiled_workflow w c = Inr ()"
    and "ids_of ''case_id'' (as_list (fld c ''test_cases'')) =
      map (\<lambda>p. case_id_of (as_str (fld req ''workflow_id'')) (fst p)) (numbered_cases subjects)"
  using assms unfolding compile_workflow_def Let_def seqE_eq_Inr bindE_eq_Inr
  by (auto simp: json_simps dest: make_cases_ids)

lemma compiled_case_ids: "validate_compiled_workflow w c = Inr () \<Longrightarrow>
    ids_of ''case_id'' (as_list (fld c ''test_cases'')) = sorted_set (ids_of ''case_id'' (as_list (fld c ''test_cases'')))"
  by (simp add: validate_compiled_workflow_def Let_def seqE_eq_Inr)

lemma compiled_below_hundred:
  assumes "compile_workflow w req kind subjects known = Inr c"
  shows "length (numbered_cases subjects) < 100"
proof (rule ccontr)
  let ?ids = "ids_of ''case_id'' (as_list (fld c ''test_cases''))"
  assume "\<not> length (numbered_cases subjects) < 100"
  with compile_workflow_D(2) [OF assms] have "length ?ids \<ge> 100" by simp
  with compiled_case_ids [OF compile_workflow_D(1) [OF assms]] have "?ids ! 98 < ?ids ! 99"
    by (intro sorted_set_increases) simp_all
  moreover have "?ids ! 98 = case_id_of (as_str (fld req ''workflow_id'')) 99" "?ids ! 99 = case_id_of (as_str (fld req ''workflow_id'')) 100"
    using \<open>\<not> length (numbered_cases subjects) < 100\<close> by (simp_all add: compile_workflow_D(2) [OF assms] numbered_nth)
  ultimately show False using hundredth_case_is_out_of_order by simp
qed

lemma length_numbered: "length (numbered_cases subjects) = sum_list (map (\<lambda>s. length (s_dimensions s)) subjects)"
  by (simp add: numbered_cases_def length_enumerate length_concat o_def)

text \<open>The criteria of a requirement, without repetitions.\<close>

definition criteria_count :: "json \<Rightarrow> nat" where
  "criteria_count requirement = length (sorted_set (text_items (fld requirement ''acceptance_criteria'')))"

lemma prd_requirements:
  "mapE prd_requirement rs = Inr normalized \<Longrightarrow> map (\<lambda>n. length (snd (snd n))) normalized = map criteria_count rs"
proof (induction rs arbitrary: normalized)
  case (Cons r rs)
  then obtain n ns where "prd_requirement r = Inr n" "mapE prd_requirement rs = Inr ns" "normalized = n # ns"
    by (auto simp: bindE_eq_Inr)
  moreover have "length (snd (snd n)) = criteria_count r"
    using calculation(1) by (auto simp: prd_requirement_def criteria_count_def result_simps)
  ultimately show ?case using Cons.IH by simp
qed simp

lemma sum_list_sort_key: "sum_list (map f (sort_key k xs)) = (sum_list (map f xs) :: nat)"
proof -
  have "sum_list (map f (insort_key k x ys)) = (f x + sum_list (map f ys) :: nat)" for x ys
    by (induction ys) simp_all
  then show ?thesis by (induction xs) simp_all
qed

lemma prd_case_count:
  assumes "compile_prd_workflow w req = Inr c"
  shows "length (as_list (fld c ''test_cases'')) = 6 * sum_list (map criteria_count (as_list (fld req ''requirements'')))"
    and "length (as_list (fld c ''test_cases'')) < 100"
proof -
  obtain normalized where n: "mapE prd_requirement (as_list (fld req ''requirements'')) = Inr normalized"
      and c: "compile_workflow w req ''prd'' (concat (map prd_subjects (sort_key fst normalized))) [] = Inr c"
    using assms by (auto simp: compile_prd_workflow_def result_simps)
  have "length (as_list (fld c ''test_cases'')) = length (numbered_cases (concat (map prd_subjects (sort_key fst normalized))))"
    using arg_cong [OF compile_workflow_D(2) [OF c], of length] by (simp add: ids_of_def)
  moreover have "\<dots> = 6 * sum_list (map criteria_count (as_list (fld req ''requirements'')))"
  proof -
    have "sum_list (map (\<lambda>s. length (s_dimensions s)) (concat (map prd_subjects xs))) = sum_list (map (\<lambda>n. 6 * length (snd (snd n))) xs)" for xs
      by (induction xs) (simp_all add: prd_subjects_def o_def PRD_DIMENSIONS_def sum_list_triv)
    then show ?thesis
      by (simp add: length_numbered sum_list_sort_key prd_requirements [OF n, symmetric] sum_list_const_mult)
  qed
  ultimately show "length (as_list (fld c ''test_cases'')) = 6 * sum_list (map criteria_count (as_list (fld req ''requirements'')))"
      "length (as_list (fld c ''test_cases'')) < 100"
    using compiled_below_hundred [OF c] by simp_all
qed

end
