(* ===== verification/DeliveryFacts.thy ===== *)
theory DeliveryFacts
  imports QaFacts PolicyFacts
begin

text \<open>
  Facts about delivery reports: what an accepted QA report provides, the shape of the report built from a plan and a
  ledger, and the agreement of the two notions of a node's latest attempt.
\<close>

section \<open>What an accepted QA report provides\<close>

lemma validate_qa_report_D:
  assumes "validate_qa_report w qa = Inr ()"
  shows "\<forall>f \<in> set context_fields. nonblank (fld (fld qa ''delivery_context'') f)"
    and "fld qa ''status'' \<in> JStr ` set TERMINAL_QA_STATUSES"
    and "fld (fld qa ''verification'') ''status'' \<in> JStr ` set TERMINAL_QA_STATUSES"
    and "fld (fld qa ''quality'') ''coverage_level'' \<in> JStr ` set COVERAGE_LEVELS"
    and "fld qa ''release_recommendation'' \<in> JStr ` set RECOMMENDATIONS"
    and "require_fingerprint (fld qa ''plan_fingerprint'') l = Inr ()"
    and "require_fingerprint (fld qa ''fingerprint'') l = Inr ()"
    and "validate_evidence_refs (fld qa ''evidence_refs'') ''qa-report'' True = Inr ()"
    and "check_report_status qa = Inr ()" and "check_recommendation qa = Inr ()" and "check_quality (fld qa ''quality'') = Inr ()"
    and "is_obj (fld qa ''delivery_context'')"
proof -
  obtain today where t: "iso_date (as_str (fld qa ''evaluated_on'')) = Some today"
    using assms by (cases "iso_date (as_str (fld qa ''evaluated_on''))") (simp_all add: validate_qa_report_def seqE_eq_Inr)
  note D = assms [unfolded validate_qa_report_def t option.case seqE_eq_Inr]
  show "\<forall>f \<in> set context_fields. nonblank (fld (fld qa ''delivery_context'') f)" "is_obj (fld qa ''delivery_context'')"
    using D by (auto simp only: require_nonblank_eq_Inr exact_object_eq_Inr)
  show "fld qa ''status'' \<in> JStr ` set TERMINAL_QA_STATUSES" "fld qa ''release_recommendation'' \<in> JStr ` set RECOMMENDATIONS"
    using D by (simp_all only: require_in_eq_Inr image_iff)
  show "fld (fld qa ''verification'') ''status'' \<in> JStr ` set TERMINAL_QA_STATUSES"
    using D by (simp only: validate_verification_def seqE_eq_Inr require_in_eq_Inr image_iff)
  show "fld (fld qa ''quality'') ''coverage_level'' \<in> JStr ` set COVERAGE_LEVELS"
    using D by (simp only: check_quality_def seqE_eq_Inr require_in_eq_Inr image_iff)
  show "require_fingerprint (fld qa ''plan_fingerprint'') l = Inr ()" "require_fingerprint (fld qa ''fingerprint'') l = Inr ()"
    using D by (simp_all only: require_fingerprint_def validate_qa_fingerprint_def seqE_eq_Inr reject_if_eq_Inr not_False_eq_True)
  show "validate_evidence_refs (fld qa ''evidence_refs'') ''qa-report'' True = Inr ()" "check_report_status qa = Inr ()"
      "check_recommendation qa = Inr ()" "check_quality (fld qa ''quality'') = Inr ()"
    using D by (simp_all only:)
qed

lemma evidence_refs_D:
  assumes "validate_evidence_refs v label b = Inr ()"
  shows "is_list v" "\<forall>r \<in> set (as_list v). check_delivery_evidence r = Inr ()"
    "map evidence_identity (as_list v) = sorted_set (map evidence_identity (as_list v))"
  using assms unfolding validate_evidence_refs_def check_evidence_ref_def check_delivery_evidence_def Let_def
  by (simp_all add: seqE_eq_Inr for_each_eq_Inr exact_object_eq_Inr require_in_eq_Inr)

lemma py_eq_field:
  assumes "py_eq u v" and "nonblank (fld u k)"
  shows "fld v k = fld u k"
proof -
  obtain s where s: "fld u k = JStr s" using assms(2) by (auto simp: nonblank_def is_str_iff)
  then obtain kvs where u: "u = JObj kvs" by (cases u) (auto simp: fld_def)
  with s have "(k, JStr s) \<in> set kvs" by (auto simp: fld_def split: option.splits dest: dict_get_SomeD)
  with assms(1) u obtain b y where "v = JObj b" "dict_get b k = Some y" "py_eq (JStr s) y" by (auto simp: py_eq_JObj)
  then show ?thesis using s by (simp add: fld_def py_eq_JStr_iff)
qed

section \<open>The report\<close>

lemma reviews_block_D: "reviews_block xs = Inr rest \<Longrightarrow> rest = [] \<or> (\<exists>x. rest = [(''review'', x)])"
  by (auto simp: reviews_block_def mapR_eq_Inr split: if_splits)

lemma base_report_D:
  assumes "base_report plan rl = Inr r"
  shows "\<exists>b k m v mode s rest. r = JObj ([(''blocked_items'', b), (''known_risks'', k),
      (''routing'', JObj [(''missing_capabilities'', m), (''plan_id'', fld plan ''plan_id'')]), (''run_id'', fld rl ''run_id''),
      (''schema_version'', JStr ''1.0''), (''status'', fld rl ''final_status''),
      (''validation'', JObj [(''evidence'', v), (''mode'', mode), (''status'', s)])] @ rest) \<and>
      current_validation_status rl = Inr s \<and> (rest = [] \<or> (\<exists>x. rest = [(''review'', x)]))"
  using assms unfolding base_report_def Let_def bindE_eq_Inr getitem_eq_Inr
  apply (elim exE conjE)
  apply (drule reviews_block_D)
  apply (simp only: sum.inject)
  apply (intro exI conjI)
    apply (rule sym, assumption)
   apply (rule refl)
  apply assumption
  done

lemma base_report_fields:
  assumes "base_report plan rl = Inr r"
  shows "base r [''run_id'', ''status'', ''routing'', ''validation'', ''known_risks'', ''blocked_items''] k = Inr ()"
    and "fld r ''quality'' = JNull" and "fld r ''status'' = fld rl ''final_status''" and "fld r ''run_id'' = fld rl ''run_id''"
    and "is_obj (fld r ''routing'')" and "fld (fld r ''routing'') ''plan_id'' = fld plan ''plan_id''"
    and "is_obj (fld r ''validation'')" and "current_validation_status rl = Inr (fld (fld r ''validation'') ''status'')"
proof -
  obtain b n m v mode s rest where r: "r = JObj ([(''blocked_items'', b), (''known_risks'', n),
      (''routing'', JObj [(''missing_capabilities'', m), (''plan_id'', fld plan ''plan_id'')]), (''run_id'', fld rl ''run_id''),
      (''schema_version'', JStr ''1.0''), (''status'', fld rl ''final_status''),
      (''validation'', JObj [(''evidence'', v), (''mode'', mode), (''status'', s)])] @ rest)"
      and s: "current_validation_status rl = Inr s" and rest: "rest = [] \<or> (\<exists>x. rest = [(''review'', x)])"
    using base_report_D [OF assms] by blast
  show "fld r ''quality'' = JNull" using r rest by (auto simp: json_simps)
  show "base r [''run_id'', ''status'', ''routing'', ''validation'', ''known_risks'', ''blocked_items''] k = Inr ()"
      "fld r ''status'' = fld rl ''final_status''" "fld r ''run_id'' = fld rl ''run_id''" "is_obj (fld r ''routing'')"
      "fld (fld r ''routing'') ''plan_id'' = fld plan ''plan_id''" "is_obj (fld r ''validation'')"
      "current_validation_status rl = Inr (fld (fld r ''validation'') ''status'')"
    using s unfolding r by (simp_all add: base_eq_Inr json_simps)
qed

lemma base_put:
  assumes "base r fs k = Inr ()" and "j \<noteq> ''schema_version''"
  shows "base (put r j x) fs k = Inr ()"
  using assms by (auto simp: base_eq_Inr has_key_put put_fld)

text \<open>The quality block takes its fields from the QA report.\<close>

lemma quality_block_fields:
  "is_obj (quality_block qa)" "set (map fst (as_dict (quality_block qa))) = set quality_fields"
  "fld (quality_block qa) ''coverage_level'' = fld (fld qa ''quality'') ''coverage_level''"
  "fld (quality_block qa) ''evidence_refs'' = fld qa ''evidence_refs''"
  "fld (quality_block qa) ''qa_plan_fingerprint'' = fld qa ''plan_fingerprint''"
  "fld (quality_block qa) ''release_recommendation'' = fld qa ''release_recommendation''"
  "fld (quality_block qa) ''report_fingerprint'' = fld qa ''fingerprint''"
  "fld (quality_block qa) ''run_id'' = fld (fld qa ''delivery_context'') ''run_id''"
  "fld (quality_block qa) ''status'' = fld qa ''status''"
  "fld (quality_block qa) ''verification_status'' = fld (fld qa ''verification'') ''status''"
  "fld (quality_block qa) ''workflow_plan_fingerprint'' = fld (fld qa ''delivery_context'') ''workflow_plan_fingerprint''"
  "fld (quality_block qa) ''workflow_plan_id'' = fld (fld qa ''delivery_context'') ''workflow_plan_id''"
proof -
  have "set [''coverage_level'', ''evidence_refs'', ''qa_plan_fingerprint'', ''release_recommendation'', ''report_fingerprint'', ''run_id'',
      ''status'', ''verification_status'', ''workflow_plan_fingerprint'', ''workflow_plan_id''] = set quality_fields"
    by code_simp
  then show "set (map fst (as_dict (quality_block qa))) = set quality_fields" by (simp add: quality_block_def Let_def)
qed (simp_all add: quality_block_def Let_def json_simps)

lemma nonblank_str: "nonblank v \<Longrightarrow> is_nonempty_str v"
  by (auto simp: nonblank_def is_str_iff is_blank_def)

lemma check_qa_report_D:
  assumes "check_qa_report w plan rl r qa = Inr ()"
  shows "validate_qa_report w qa = Inr ()" and "py_eq (fld qa ''delivery_context'') (expected_context plan rl)"
    and "py_eq (fld (fld qa ''verification'') ''status'') (fld (fld r ''validation'') ''status'')"
    and "fld qa ''release_recommendation'' = JStr ''go'' \<Longrightarrow> fld r ''status'' = JStr ''completed''"
    and "fld qa ''release_recommendation'' = JStr ''conditional-go'' \<Longrightarrow> fld r ''status'' \<in> {JStr ''completed'', JStr ''partial''}"
  using assms unfolding check_qa_report_def seqE_eq_Inr bindE_eq_Inr reject_if_eq_Inr by (auto simp: require_in_eq_Inr)

lemma quality_block_accepted:
  assumes r: "base_report plan rl = Inr r" and qa: "check_qa_report w plan rl r qa = Inr ()"
  shows "check_quality_block (put r ''quality'' x) (quality_block qa) = Inr ()"
    and "check_quality_evidence (quality_block qa) = Inr ()"
    and "check_quality_verdict (put r ''quality'' x) (quality_block qa) = Inr ()"
proof -
  note Q = check_qa_report_D [OF qa] and V = validate_qa_report_D [OF check_qa_report_D(1) [OF qa]]
  note B = base_report_fields [OF r] and F = quality_block_fields [of qa] and E = evidence_refs_D [OF V(8)]
  have o: "is_obj r" using B(1) by (simp add: base_eq_Inr)
  have put: "fld (put r ''quality'' x) k = fld r k" if "k \<noteq> ''quality''" for k using that by (simp add: put_fld)
  have ctx: "nonblank (fld (fld qa ''delivery_context'') k)" if "k \<in> set context_fields" for k
    using V(1) that by blast
  have same: "fld (expected_context plan rl) k = fld (fld qa ''delivery_context'') k" if "k \<in> set context_fields" for k
    by (rule py_eq_field [OF Q(2) ctx [OF that]])
  have ids: "fld (fld qa ''delivery_context'') ''workflow_plan_id'' = fld plan ''plan_id''"
      "fld (fld qa ''delivery_context'') ''run_id'' = fld rl ''run_id''"
    using same [of "''workflow_plan_id''"] same [of "''run_id''"]
    by (simp_all add: expected_context_def json_simps context_fields_def)
  have self: "py_eq (fld (fld qa ''delivery_context'') k) (fld (fld qa ''delivery_context'') k)" if "k \<in> set context_fields" for k
    using ctx [OF that] by (auto simp: nonblank_def is_str_iff)
  show "check_quality_block (put r ''quality'' x) (quality_block qa) = Inr ()"
    unfolding check_quality_block_def seqE_eq_Inr exact_object_eq_Inr require_in_eq_Inr F reject_if_eq_Inr for_each_eq_Inr
    using V(2-7) nonblank_str [OF ctx [of "''workflow_plan_fingerprint''"]] self [of "''workflow_plan_id''"] self [of "''run_id''"]
    by (simp add: put B ids F require_fingerprint_def context_fields_def image_iff)
  show "check_quality_evidence (quality_block qa) = Inr ()"
    using E V(9) by (auto simp: check_quality_evidence_def seqE_eq_Inr for_each_eq_Inr F check_report_status_def Let_def)
  have go: "fld qa ''status'' = JStr ''passed'' \<and> fld (fld qa ''verification'') ''status'' = JStr ''passed''"
    if "fld qa ''release_recommendation'' = JStr ''go''"
    using V(2,3,10) that by (auto simp: check_recommendation_def Let_def seqE_eq_Inr)
  show "check_quality_verdict (put r ''quality'' x) (quality_block qa) = Inr ()"
    using Q(3-5) go by (auto simp: check_quality_verdict_def Let_def seqE_eq_Inr F put B py_eq_JStr_iff)
qed

lemma delivery_report_accepted:
  assumes "delivery_report w plan rl qa = Inr r"
    and "fld rl ''final_status'' \<in> JStr ` set [''completed'', ''partial'', ''blocked'', ''cancelled'']"
  shows "validate_delivery_report r = Inr ()"
proof -
  obtain rep where rep: "base_report plan rl = Inr rep" using assms(1) by (auto simp: delivery_report_def bindE_eq_Inr)
  note B = base_report_fields [OF rep]
  have o: "is_obj rep" using B(1) by (simp add: base_eq_Inr)
  show ?thesis
  proof (cases qa)
    case None
    with assms(1) rep have "r = rep" by (simp add: delivery_report_def)
    with assms(2) B show ?thesis by (auto simp: validate_delivery_report_def seqE_eq_Inr require_in_eq_Inr simp del: set_simps)
  next
    case (Some q)
    with assms(1) rep have q: "check_qa_report w plan rl rep q = Inr ()" and r: "r = put rep ''quality'' (quality_block q)"
      by (auto simp: delivery_report_def seqE_eq_Inr)
    have "fld r ''quality'' = quality_block q" "fld r ''status'' = fld rl ''final_status''" using o B(3) r by (simp_all add: put_fld)
    then show ?thesis
      using assms(2) base_put [OF B(1), of "''quality''"] quality_block_accepted [OF rep q] r
      by (auto simp: validate_delivery_report_def Let_def seqE_eq_Inr require_in_eq_Inr simp del: set_simps)
  qed
qed

end
