(* ===== verification/LatestAttempts.thy ===== *)
theory LatestAttempts
  imports DeliveryFacts
begin

text \<open>
  The two readings of a node's latest attempt agree: the status projection takes the attempt with the highest number,
  the delivery report the last one of the ledger.
\<close>

lemma py_lt_numbers: "num_of a = Some r \<Longrightarrow> num_of b = Some q \<Longrightarrow> py_lt a b = Inr (r < q)"
  by (cases a rule: num_of.cases; cases b rule: num_of.cases) auto

definition finite_number :: "json \<Rightarrow> bool" where
  "finite_number v \<longleftrightarrow> num_of v \<noteq> None"

definition number_value :: "json \<Rightarrow> rat" where
  "number_value v = (case num_of v of Some r \<Rightarrow> r | None \<Rightarrow> 0)"

lemma ascending_sorted:
  "ascending xs = Inr True \<Longrightarrow> list_all finite_number xs \<Longrightarrow> sorted (map number_value xs)"
proof (induction xs rule: ascending.induct)
  case (1 a b xs)
  then obtain r q where rq: "num_of a = Some r" "num_of b = Some q" by (auto simp: finite_number_def)
  with 1 have less: "\<not> q < r" "ascending (b # xs) = Inr True" "py_lt b a = Inr False"
    by (auto simp: bindE_eq_Inr py_lt_numbers split: if_splits)
  then have "sorted (map number_value (b # xs))" using "1.IH" [OF less(3)] "1.prems"(2) by simp
  moreover have "number_value a \<le> number_value b" using less(1) rq by (simp add: number_value_def)
  ultimately show ?case by auto
qed simp_all

lemma unique_numbers:
  "py_distinct py_eq xs \<Longrightarrow> list_all finite_number xs \<Longrightarrow> distinct (map number_value xs)"
proof (induction xs)
  case (Cons x xs)
  have "number_value x \<noteq> number_value y" if "y \<in> set xs" for y
  proof -
    have "finite_number x" "finite_number y" using Cons.prems(2) that by (simp_all add: list_all_iff)
    then obtain r q where rq: "num_of x = Some r" "num_of y = Some q" unfolding finite_number_def by blast
    have "\<not> py_eq x y" using Cons.prems(1) that by simp
    with rq show ?thesis by (simp add: py_eq_number number_value_def)
  qed
  with Cons show ?case by auto
qed simp

lemma increasing_numbers:
  assumes "increasing_unique xs = Inr True" and "list_all finite_number xs"
  shows "sorted_wrt (<) (map number_value xs)"
proof -
  have "ascending xs = Inr True" "py_distinct py_eq xs"
    using assms(1) by (auto simp: increasing_unique_def all_unique_def bindE_eq_Inr split: if_splits)
  then show ?thesis
    using ascending_sorted unique_numbers assms(2) strict_sorted_iff by blast
qed

lemma py_eq_sym: "hashable u \<Longrightarrow> py_eq u v \<Longrightarrow> py_eq v u"
proof (cases u)
  case (JFloat f)
  assume "py_eq u v"
  then show ?thesis using JFloat
    by (cases f) (auto simp: py_eq_number py_eq_infinite py_eq_NaN)
qed (auto simp: hashable_def py_eq_JNull py_eq_JStr_iff py_eq_number)

section \<open>The dictionaries\<close>

text \<open>Every entry is an attempt of its key, unless no value equals the key.\<close>

definition keyed_attempts :: "json list \<Rightarrow> (json \<times> json) list \<Rightarrow> bool" where
  "keyed_attempts as d \<longleftrightarrow> (\<forall>(k, p) \<in> set d. hashable k \<and> p \<in> set as \<and> (py_eq k (fld p ''node_id'') \<or> (\<forall>n. \<not> py_eq k n)))"

lemma keyed_set_in: "(k, p) \<in> set (keyed_set n a d) \<Longrightarrow> (k, p) \<in> set d \<or> p = a \<and> (k = n \<or> py_eq k n \<and> k \<in> fst ` set d)"
  by (induction d) (auto split: if_splits)

lemma keyed_attempts_set:
  assumes "keyed_attempts as d" and "hashable (fld a ''node_id'')"
  shows "keyed_attempts (as @ [a]) (keyed_set (fld a ''node_id'') a d)"
proof -
  have self: "py_eq n n \<or> (\<forall>m. \<not> py_eq n m)" if "hashable n" for n
    using that py_eq_sym py_eq_trans by blast
  show ?thesis
    unfolding keyed_attempts_def
  proof (rule ballI)
    fix x
    assume "x \<in> set (keyed_set (fld a ''node_id'') a d)"
    moreover obtain k p where x: "x = (k, p)" by (cases x)
    ultimately have "(k, p) \<in> set (keyed_set (fld a ''node_id'') a d)" by simp
    from keyed_set_in [OF this] show "case x of (k, p) \<Rightarrow> hashable k \<and> p \<in> set (as @ [a]) \<and> (py_eq k (fld p ''node_id'') \<or> (\<forall>n. \<not> py_eq k n))"
      using assms self by (auto simp: x keyed_attempts_def)
  qed
qed

lemma keyed_get_attempt:
  assumes "keyed_attempts as d" and "keyed_get d n = Some p"
  shows "p \<in> set as" and "py_eq (fld p ''node_id'') n" and "py_eq n n"
proof -
  have "\<exists>k. (k, p) \<in> set d \<and> py_eq k n"
    using assms(2) by (induction d) (auto simp: keyed_get_def split: if_splits)
  with assms(1) obtain k where "p \<in> set as" "py_eq k (fld p ''node_id'')" "py_eq k n" "hashable k" by (auto simp: keyed_attempts_def)
  then show "p \<in> set as" "py_eq (fld p ''node_id'') n" "py_eq n n" using py_eq_sym py_eq_trans by blast+
qed

lemma filter_order:
  assumes "xs = pre @ a # post" and "p \<in> set pre" and "P p" and "P a" and "sorted_wrt (<) (map f (filter P xs))"
  shows "f p < (f a :: 'b::order)"
  using assms by (auto simp: sorted_wrt_append)

lemma highest_is_latest:
  assumes numbers: "\<forall>a \<in> set as. increasing_unique (numbers_of_node as (fld a ''node_id'')) = Inr True"
    and ok: "\<forall>a \<in> set as. is_obj a \<and> has_key a ''node_id'' \<and> has_key a ''attempt_number'' \<and> hashable (fld a ''node_id'') \<and>
      finite_number (fld a ''attempt_number'')"
  shows "highest_attempts as = latest_attempts as"
proof -
  have "\<exists>d. highest_attempts pre = Inr d \<and> latest_attempts pre = Inr d \<and> keyed_attempts pre d" if "as = pre @ post" for pre post
    using that
  proof (induction pre arbitrary: post rule: rev_induct)
    case Nil
    then show ?case by (simp add: highest_attempts_def latest_attempts_def keyed_attempts_def)
  next
    case (snoc a pre)
    then obtain d where d: "highest_attempts pre = Inr d" "latest_attempts pre = Inr d" "keyed_attempts pre d" by auto
    let ?n = "fld a ''node_id''"
    have a: "is_obj a" "has_key a ''node_id''" "has_key a ''attempt_number''" "hashable ?n" "finite_number (fld a ''attempt_number'')" "a \<in> set as"
      using ok snoc.prems by auto
    have get: "getitem a ''node_id'' = Inr ?n" "getitem a ''attempt_number'' = Inr (fld a ''attempt_number'')"
      using a by (simp_all add: getitem_eq_Inr)
    have "note_highest d a = Inr (keyed_set ?n a d)"
    proof (cases "keyed_get d ?n")
      case None
      then show ?thesis using a(4) get by (simp add: note_highest_def)
    next
      case (Some p)
      note p = keyed_get_attempt [OF d(3) Some]
      have pin: "p \<in> set as" using p(1) snoc.prems by auto
      have p_ok: "finite_number (fld p ''attempt_number'')" "getitem p ''attempt_number'' = Inr (fld p ''attempt_number'')"
        using ok pin by (auto simp: getitem_eq_Inr)
      have "list_all finite_number (numbers_of_node as ?n)" using ok by (auto simp: numbers_of_node_def list_all_iff)
      with numbers a(6) have "sorted_wrt (<) (map number_value (numbers_of_node as ?n))" by (intro increasing_numbers) auto
      then have "sorted_wrt (<) (map (\<lambda>x. number_value (fld x ''attempt_number'')) (filter (\<lambda>x. py_eq (fld x ''node_id'') ?n) as))"
        by (simp add: numbers_of_node_def o_def)
      then have "number_value (fld p ''attempt_number'') < number_value (fld a ''attempt_number'')"
        using snoc.prems p(1) filter_order [of as pre a post p "\<lambda>x. py_eq (fld x ''node_id'') ?n", OF _ p] by simp
      then have "py_lt (fld p ''attempt_number'') (fld a ''attempt_number'') = Inr True"
        using a(5) p_ok(1) by (auto simp: finite_number_def number_value_def py_lt_numbers)
      then show ?thesis using Some a(4) get p_ok(2) by (simp add: note_highest_def)
    qed
    then have "highest_attempts (pre @ [a]) = Inr (keyed_set ?n a d)"
      using d(1) by (simp add: highest_attempts_def foldE_append)
    moreover have "latest_attempts (pre @ [a]) = Inr (keyed_set ?n a d)"
      using d(2) a(4) get by (simp add: latest_attempts_def foldE_append)
    ultimately show ?case using keyed_attempts_set [OF d(3) a(4)] by blast
  qed
  from this [of as "[]"] show ?thesis by auto
qed

lemma ledger_attempts_ordered:
  assumes "validate_run_ledger rl = Inr ()" and "iterate (fld rl ''node_attempts'') = Inr as"
  shows "\<forall>a \<in> set as. increasing_unique (numbers_of_node as (fld a ''node_id'')) = Inr True"
    and "\<forall>a \<in> set as. is_obj a \<and> has_key a ''node_id'' \<and> has_key a ''attempt_number'' \<and> has_key a ''attempt_id'' \<and>
      hashable (fld a ''node_id'')"
proof -
  have D: "\<forall>a \<in> set as. validate_node_attempt a = Inr ()"
      "all_pairs_unique (map (\<lambda>a. (fld a ''node_id'', fld a ''attempt_number'')) as) = Inr True"
      "anyE (\<lambda>a. mapR Not (increasing_unique (numbers_of_node as (fld a ''node_id'')))) as = Inr False"
    using assms unfolding validate_run_ledger_def Let_def seqE_eq_Inr bindE_eq_Inr reject_when_eq_Inr for_each_eq_Inr
    by (auto simp: mapR_eq_Inr)
  have "anyE p xs = Inr False \<Longrightarrow> x \<in> set xs \<Longrightarrow> p x = Inr False" for p xs and x :: json
    by (induction xs) (auto simp: bindE_eq_Inr split: if_splits)
  from this [OF D(3)] have "mapR Not (increasing_unique (numbers_of_node as (fld a ''node_id''))) = Inr False" if "a \<in> set as" for a
    using that by blast
  then show "\<forall>a \<in> set as. increasing_unique (numbers_of_node as (fld a ''node_id'')) = Inr True"
    by (fastforce simp: mapR_eq_Inr)
  have "\<forall>a \<in> set as. hashable (fld a ''node_id'')"
    using D(2) by (auto simp: all_pairs_unique_def list_all_iff split: if_splits)
  moreover have "is_obj a \<and> has_key a ''node_id'' \<and> has_key a ''attempt_number'' \<and> has_key a ''attempt_id''" if "validate_node_attempt a = Inr ()" for a
    using that unfolding validate_node_attempt_def seqE_eq_Inr base_eq_Inr by simp
  ultimately show "\<forall>a \<in> set as. is_obj a \<and> has_key a ''node_id'' \<and> has_key a ''attempt_number'' \<and> has_key a ''attempt_id'' \<and>
      hashable (fld a ''node_id'')"
    using D(1) by blast
qed

section \<open>The validation block\<close>

lemma filterE_restrict:
  assumes "filterE (refers_to ids) xs = Inr ys"
  shows "filterE (\<lambda>x. bindE (refers_to ids x) (\<lambda>b. if b then mapR P (get_opt x k) else Inr False)) xs = Inr (filter (\<lambda>y. P (fld y k)) ys)"
  using assms
proof (induction xs arbitrary: ys)
  case (Cons x xs)
  then obtain b zs where b: "refers_to ids x = Inr b" "filterE (refers_to ids) xs = Inr zs" "ys = (if b then x # zs else zs)"
    by (auto simp: bindE_eq_Inr)
  moreover have "is_obj x" using b(1) by (auto simp: refers_to_def bindE_eq_Inr get_opt_eq_Inr)
  then have "get_opt x k = Inr (fld x k)" by (simp add: get_opt_eq_Inr)
  ultimately show ?case using Cons.IH [OF b(2)] by simp
qed simp

definition severity :: "json \<Rightarrow> int" where
  "severity i = (case dict_get SEVERITY (as_str (fld i ''status'')) of Some n \<Rightarrow> n | None \<Rightarrow> -1)"

lemma severity_of_D: "severity_of (fld i ''status'') = Inr k \<Longrightarrow> k = (severity i, as_str (fld i ''status'')) \<and> fld i ''status'' = JStr (as_str (fld i ''status''))"
proof -
  have "dict_get SEVERITY [] = None" by code_simp
  then show "severity_of (fld i ''status'') = Inr k \<Longrightarrow> k = (severity i, as_str (fld i ''status'')) \<and> fld i ''status'' = JStr (as_str (fld i ''status''))"
    by (cases "fld i ''status''") (auto simp: severity_of_def severity_def split: if_splits option.splits)
qed

lemma worst_of:
  assumes "mapE severity_of (map (\<lambda>i. fld i ''status'') items) = Inr keys" and "items \<noteq> []"
  shows "\<exists>i \<in> set items. JStr (snd (fold max (tl keys) (hd keys))) = fld i ''status'' \<and> (\<forall>j \<in> set items. severity j \<le> severity i)"
proof -
  have "mapE severity_of (map (\<lambda>i. fld i ''status'') xs) = Inr ks \<Longrightarrow>
      ks = map (\<lambda>i. (severity i, as_str (fld i ''status''))) xs \<and> (\<forall>i \<in> set xs. fld i ''status'' = JStr (as_str (fld i ''status'')))" for xs ks
    by (induction xs arbitrary: ks) (auto simp: bindE_eq_Inr dest!: severity_of_D)
  from this [OF assms(1)] have keys: "keys = map (\<lambda>i. (severity i, as_str (fld i ''status''))) items"
      and texts: "\<forall>i \<in> set items. fld i ''status'' = JStr (as_str (fld i ''status''))" by auto
  have fold: "fold max xs m \<in> set (m # xs) \<and> (\<forall>y \<in> set (m # xs). y \<le> fold max xs m)" for xs and m :: "int \<times> string"
  proof (induction xs arbitrary: m)
    case (Cons x xs)
    from Cons.IH [of "max x m"] show ?case by (fastforce simp: max_def split: if_splits)
  qed simp
  let ?m = "fold max (tl keys) (hd keys)"
  have "keys \<noteq> []" using keys assms(2) by simp
  then have "?m \<in> set keys" "\<forall>y \<in> set keys. y \<le> ?m" using fold [where m = "hd keys" and xs = "tl keys"] by simp_all
  moreover from this(1) obtain i where i: "i \<in> set items" "?m = (severity i, as_str (fld i ''status''))" using keys by auto
  ultimately have "severity j \<le> severity i" if "j \<in> set items" for j
    using that keys by (fastforce simp: less_eq_prod_def)
  with i texts show ?thesis by auto
qed

lemma statuses_of: "mapE (\<lambda>i. getitem i k) xs = Inr ss \<Longrightarrow> ss = map (\<lambda>i. fld i k) xs"
  by (induction xs arbitrary: ss) (auto simp: bindE_eq_Inr getitem_eq_Inr)

lemma validation_block_worst:
  assumes ledger: "validate_run_ledger rl = Inr ()"
    and finite: "\<forall>a \<in> set (as_list (fld rl ''node_attempts'')). finite_number (fld a ''attempt_number'')"
    and list: "is_list (fld rl ''node_attempts'')" and base: "base_report plan rl = Inr r"
  shows "let items = as_list (fld (fld r ''validation'') ''evidence''); status = fld (fld r ''validation'') ''status'' in
    if items = [] then status = fld rl ''final_status''
    else \<exists>i \<in> set items. status = fld i ''status'' \<and> (\<forall>j \<in> set items. severity j \<le> severity i)"
proof -
  let ?as = "as_list (fld rl ''node_attempts'')"
  have as: "iterate (fld rl ''node_attempts'') = Inr ?as" using list by (rule iterate_JList_iff)
  note L = ledger_attempts_ordered [OF ledger as]
  have same: "highest_attempts ?as = latest_attempts ?as"
    by (rule highest_is_latest [OF L(1)]) (use L(2) finite in blast)
  obtain latest ids v items evidence where lat: "latest_attempts ?as = Inr latest" "attempt_ids_of latest = Inr ids"
      "get_default rl ''evidence'' (JList []) = Inr v" "iterate v = Inr items" "filterE (refers_to ids) items = Inr evidence"
      and ev: "fld (fld r ''validation'') ''evidence'' = JList (filter (\<lambda>i. fld i ''kind'' = JStr ''validation'') evidence)"
    using base as unfolding base_report_def Let_def bindE_eq_Inr getitem_eq_Inr sum.inject
    by (elim exE conjE) (auto simp: json_simps)
  have status: "current_validation_status rl = Inr (fld (fld r ''validation'') ''status'')" by (rule base_report_fields(8) [OF base])
  let ?items = "filter (\<lambda>i. fld i ''kind'' = JStr ''validation'') evidence"
  note F = filterE_restrict [OF lat(5), of "\<lambda>k. k = JStr ''validation''" "''kind''"]
  obtain statuses where st: "mapE (\<lambda>item. getitem item ''status'') ?items = Inr statuses"
      and res: "(if statuses = [] then getitem rl ''final_status''
        else bindE (mapE severity_of statuses) (\<lambda>keys. Inr (JStr (snd (fold max (tl keys) (hd keys)))))) = Inr (fld (fld r ''validation'') ''status'')"
    using status as same lat F unfolding current_validation_status_def bindE_eq_Inr getitem_eq_Inr by auto
  have statuses: "statuses = map (\<lambda>i. fld i ''status'') ?items" by (rule statuses_of [OF st])
  show ?thesis
  proof (cases "?items = []")
    case True
    then show ?thesis using res statuses ev by (simp add: Let_def getitem_eq_Inr)
  next
    case False
    then have "statuses \<noteq> []" using statuses by simp
    then obtain keys where keys: "mapE severity_of statuses = Inr keys" "fld (fld r ''validation'') ''status'' = JStr (snd (fold max (tl keys) (hd keys)))"
      using res by (auto simp: bindE_eq_Inr)
    from worst_of [OF keys(1) [unfolded statuses] False] False keys(2) ev show ?thesis by (simp add: Let_def)
  qed
qed

end
