(* ===== verification/SampleQa.thy ===== *)
theory SampleQa
  imports QaRuntimeFacts QaCases LatestAttempts Sample
begin

text \<open>
  A compiled release of one test case, its execution and its delivery, on which the witnesses evaluate. The digest of the
  sample world is constant, so every fingerprint is the same text.
\<close>

definition zero_fingerprint :: json where
  "zero_fingerprint = JStr (''qa-v1:'' @ replicate 64 (CHR ''0''))"

definition zero_digest :: json where
  "zero_digest = JStr (replicate 64 (CHR ''0''))"

definition sample_evidence_ref :: json where
  "sample_evidence_ref = JObj [(''kind'', JStr ''log''), (''sha256'', zero_digest), (''uri'', JStr ''artifact://log'')]"

section \<open>A compiled release\<close>

definition sample_coverage :: json where
  "sample_coverage = JObj [(''compiled_level'', JStr ''release-candidate''), (''dimensions'', texts [''functional'']),
     (''rationales'', texts [''max-risk-score:0'', ''requested-floor:smoke'', ''workflow-floor:release:release-candidate'']),
     (''requested_level'', JStr ''smoke''), (''risk_refs'', texts [])]"

definition sample_qa_plan :: json where
  "sample_qa_plan = JObj [(''plan_id'', JStr ''QAP-R1''), (''blockers'', texts []), (''coverage'', sample_coverage),
     (''entry_criteria'', texts [''scope-frozen'']),
     (''environments'', JList [JObj [(''id'', JStr ''ios''), (''platform'', JStr ''apple''),
        (''attributes'', JObj [(''os'', JStr ''26'')]), (''fingerprint'', zero_fingerprint)]]),
     (''exit_criteria'', texts [''evidence-reviewed'']), (''objective'', JStr ''ship''), (''risks'', JList []),
     (''schema_version'', JStr ''1.0''), (''scope'', JObj [(''included'', texts [''app'']), (''excluded'', texts [])]),
     (''status'', JStr ''planned''),
     (''verification'', JObj [(''evidence_refs'', JList []), (''level'', JStr ''affected-tests''), (''status'', JStr ''pending'')]),
     (''workflow_kind'', JStr ''release''), (''fingerprint'', zero_fingerprint)]"

definition sample_case :: json where
  "sample_case = JObj [(''case_id'', JStr ''TC-R1-01''), (''automation_suitability'', JStr ''high''),
     (''coverage_tags'', texts [''compatibility'', ''release'']), (''expected_results'', texts [''works'']),
     (''preconditions'', texts [''scope-frozen'']), (''requirement_refs'', texts [''C1'']), (''risk_refs'', texts []),
     (''schema_version'', JStr ''1.0''), (''status'', JStr ''active''),
     (''steps'', JList [JObj [(''action'', JStr ''Log in''), (''expected'', JStr ''works''), (''number'', JInt 1)]]),
     (''test_data'', JObj [(''subject'', JStr ''C1'')]), (''title'', JStr ''Login''), (''fingerprint'', zero_fingerprint)]"

definition sample_compiled :: json where
  "sample_compiled = JObj [(''known_issues'', texts []), (''plan'', sample_qa_plan), (''schema_version'', JStr ''1.0''),
     (''test_cases'', JList [sample_case]),
     (''traceability'', JList [JObj [(''case_refs'', texts [''TC-R1-01'']), (''coverage_dimensions'', texts [''compatibility'']),
        (''requirement_ref'', JStr ''C1'')]]),
     (''workflow_id'', JStr ''R1''), (''workflow_kind'', JStr ''release''), (''fingerprint'', zero_fingerprint)]"

section \<open>Its execution\<close>

text \<open>A plan of one node, and the ledger of its run with one attempt and one piece of validation evidence.\<close>

definition sample_run_plan :: json where
  "sample_run_plan = JObj [(''schema_version'', JStr ''1.0''), (''plan_id'', JStr ''P1''), (''fingerprint'', zero_digest),
     (''nodes'', JList []), (''edges'', JList []), (''status'', JStr ''ready'')]"

definition sample_run_attempt :: json where
  "sample_run_attempt = JObj [(''schema_version'', JStr ''1.0''), (''attempt_id'', JStr ''a1''), (''node_id'', JStr ''n1''),
     (''status'', JStr ''passed''), (''attempt_number'', JInt 1), (''max_retries'', JInt 0), (''timeout_seconds'', JInt 60),
     (''deadline'', JStr ''d''),
     (''events'', JList (map (\<lambda>p. JObj [(''at'', JStr ''t''), (''from'', fst p), (''to'', JStr (snd p)), (''reason'', JStr ''r'')])
        [(JNull, ''pending''), (JStr ''pending'', ''ready''), (JStr ''ready'', ''running''), (JStr ''running'', ''passed'')]))]"

definition sample_run_ledger :: json where
  "sample_run_ledger = JObj [(''schema_version'', JStr ''1.0''), (''run_id'', JStr ''run-1''), (''plan_fingerprint'', zero_digest),
     (''node_attempts'', JList [sample_run_attempt]), (''resource_events'', JList []), (''approval_records'', JList []),
     (''final_status'', JStr ''completed''),
     (''adapter_outcomes'', JList [JObj [(''attempt_id'', JStr ''a1''), (''node_id'', JStr ''n1''), (''provider'', JStr ''p''),
        (''request_id'', JStr ''q''), (''invocation_id'', JStr ''i''), (''status'', JStr ''completed''),
        (''failure_attribution'', JObj [(''category'', JStr ''none''), (''summary'', JStr ''none'')]), (''cleanup'', JList [])]]),
     (''evidence'', JList [JObj [(''attempt_id'', JStr ''a1''), (''node_id'', JStr ''n1''), (''provider'', JStr ''p''),
        (''kind'', JStr ''validation''), (''status'', JStr ''passed''), (''summary'', JStr ''ok''),
        (''data'', JObj [(''tests'', JInt 3)]), (''artifact_ids'', JList [])]])]"

definition sample_test_result :: "string \<Rightarrow> json" where
  "sample_test_result status = JObj [(''schema_version'', JStr ''1.0''), (''result_id'', JStr ''TR-1''), (''attempt_id'', JStr ''a1''),
     (''case_id'', JStr ''TC-R1-01''), (''plan_fingerprint'', zero_fingerprint), (''environment_fingerprint'', zero_fingerprint),
     (''test_data_fingerprint'', zero_fingerprint), (''status'', JStr status), (''evidence_refs'', JList [sample_evidence_ref]),
     (''defect_refs'', texts []), (''blockers'', texts []), (''fingerprint'', zero_fingerprint)]"

definition sample_execution :: "string \<Rightarrow> json" where
  "sample_execution status = JObj [(''schema_version'', JStr ''1.0''), (''test_results'', JList [sample_test_result status]),
     (''defect_reports'', JList []), (''regression_set'', JNull),
     (''verification'', JObj [(''level'', JStr ''affected-tests''), (''status'', JStr ''passed''), (''evidence_refs'', JList [sample_evidence_ref])]),
     (''qa_evidence_refs'', JList [sample_evidence_ref]), (''workflow_plan'', sample_run_plan), (''run_ledger'', sample_run_ledger),
     (''evaluated_on'', JStr ''2026-01-31''), (''declared_gaps'', texts []), (''blockers'', texts []), (''waivers'', JList []),
     (''residual_risks'', texts [])]"

lemma sample_run_ledger_valid: "validate_run_ledger sample_run_ledger = Inr ()"
  by code_simp

lemma sample_aggregated:
  "mapR (\<lambda>b. (fld b ''status'', fld (fld b ''report'') ''release_recommendation''))
     (aggregate_workflow_results sample_world sample_compiled (sample_execution ''passed'')) = Inr (JStr ''passed'', JStr ''go'')"
  by code_simp

text \<open>The release stopped by the caller: a cancelled result and a blocker.\<close>

definition sample_stopped :: json where
  "sample_stopped = put (sample_execution ''cancelled'') ''blockers'' (texts [''hold''])"

lemma sample_stopped_tests: "as_list (fld sample_stopped ''test_results'') = [sample_test_result ''cancelled'']"
  by (simp add: sample_stopped_def sample_execution_def put_fld json_simps)

lemma sample_stopped_aggregated: "is_ok (aggregate_workflow_results sample_world sample_compiled sample_stopped)"
  by code_simp

section \<open>Its delivery\<close>

definition sample_qa_report :: json where
  "sample_qa_report = JObj [(''report_id'', JStr ''QAR-R1''), (''blockers'', texts []),
     (''delivery_context'', JObj [(''run_id'', JStr ''run-1''), (''workflow_plan_fingerprint'', zero_digest), (''workflow_plan_id'', JStr ''P1'')]),
     (''evaluated_on'', JStr ''2026-01-31''), (''evidence_refs'', JList [sample_evidence_ref]), (''plan_fingerprint'', zero_fingerprint),
     (''quality'', quality_summary sample_qa_plan [sample_test_result ''passed''] [] []),
     (''release_recommendation'', JStr ''go''), (''residual_risks'', texts []), (''schema_version'', JStr ''1.0''),
     (''status'', JStr ''passed''),
     (''verification'', JObj [(''level'', JStr ''affected-tests''), (''status'', JStr ''passed''), (''evidence_refs'', JList [sample_evidence_ref])]),
     (''waivers'', JList []), (''workflow_kind'', JStr ''release''), (''fingerprint'', zero_fingerprint)]"

lemma sample_delivered: "is_ok (delivery_report sample_world sample_run_plan sample_run_ledger (Some sample_qa_report))"
  by code_simp

section \<open>A regression set\<close>

definition sample_regression :: json where
  "sample_regression = JObj [(''schema_version'', JStr ''1.0''), (''set_id'', JStr ''RS''), (''case_refs'', texts [''TC-R1-01'']),
     (''defect_refs'', texts [''D1'']), (''source_fingerprints'', JList [zero_fingerprint]),
     (''environment_fingerprints'', JList [zero_fingerprint]), (''status'', JStr ''current''), (''stale_reasons'', texts []),
     (''fingerprint'', zero_fingerprint)]"

lemma sample_regression_valid: "validate_regression_set sample_world sample_regression = Inr ()"
  by code_simp

end
