(* ===== verification/QaSpec.thy ===== *)
theory QaSpec
  imports SampleQa
begin

text \<open>
  The properties of the QA subsystem.
\<close>

text \<open>C22: the compiled coverage level is the least level that meets every floor: the requested one, the one of each risk's
  score, the one of each category and, for a release, the last one.\<close>

theorem coverage_is_least_floor:
  assumes "compile_coverage risks kind (JStr requested) = Inr c"
  shows "\<exists>level \<in> coverage_floors risks kind requested. fld c ''compiled_level'' = JStr level \<and>
    (\<forall>f \<in> coverage_floors risks kind requested. level_index f \<le> level_index level)"
proof -
  obtain scan where scan: "foldE scan_risk \<lparr>risk_ids = [], risk_categories = [], maximum_score = 0\<rparr> risks = Inr scan"
      and level: "fld c ''compiled_level'' = JStr (highest requested (floors_of scan kind))"
    using compile_coverage_D [OF assms] by auto
  note floors = scanned_floors [OF scan]
  have in_floors: "x \<in> coverage_floors risks kind requested" if "x \<in> set (requested # floors_of scan kind)" for x
  proof -
    from that consider "x = requested" | "x = score_level (maximum_score scan)" |
        "x \<in> snd ` set (category_floors (risk_categories scan))" | "kind = ''release''" "x = ''release-candidate''"
      by (auto simp: floors_of_def split: if_splits)
    then show ?thesis
    proof cases
      case 3
      with floors(3) [of x] show ?thesis by (simp add: coverage_floors_def)
    qed (use floors(1) in \<open>simp_all add: coverage_floors_def\<close>)
  qed
  then have "highest requested (floors_of scan kind) \<in> coverage_floors risks kind requested"
    using highest_in by blast
  moreover have "level_index f \<le> level_index (highest requested (floors_of scan kind))"
    if "f \<in> coverage_floors risks kind requested" for f
  proof (cases "f \<in> set (requested # floors_of scan kind)")
    case True
    then show ?thesis by (rule highest_ge)
  next
    case False
    have smoke: "level_index ''smoke'' \<le> n" for n
      by (simp add: level_index_def COVERAGE_LEVELS_def)
    from False that floors(3) obtain r where "f = ''smoke'' \<or> r \<in> set risks \<and> f = score_level (risk_score r)"
      unfolding coverage_floors_def floors_of_def by (simp split: if_splits) blast+
    moreover have "level_index (score_level (maximum_score scan)) \<le> level_index (highest requested (floors_of scan kind))"
      by (rule highest_ge) (simp add: floors_of_def)
    ultimately show ?thesis using floors(2) smoke by (meson order_trans)
  qed
  ultimately show ?thesis using level by blast
qed

definition sample_risk :: "string \<Rightarrow> int \<Rightarrow> string \<Rightarrow> json" where
  "sample_risk i impact category = JObj [(''id'', JStr i), (''title'', JStr i), (''likelihood'', JInt 2), (''impact'', JInt impact),
     (''categories'', texts [category]), (''requirement_refs'', texts [])]"

lemma sample_coverage_compiled:
  "mapR (\<lambda>c. fld c ''compiled_level'') (compile_coverage [sample_risk ''a'' 2 ''compatibility'', sample_risk ''b'' 5 ''privacy''] ''prd'' (JStr ''smoke'')) =
   Inr (JStr ''compatibility'')"
  by code_simp

lemma coverage_is_least_floor_sample:
  "''compatibility'' \<in> coverage_floors [sample_risk ''a'' 2 ''compatibility'', sample_risk ''b'' 5 ''privacy''] ''prd'' ''smoke'' \<and>
   level_index (score_level (risk_score (sample_risk ''b'' 5 ''privacy''))) \<le> level_index ''compatibility''"
proof -
  obtain c where "compile_coverage [sample_risk ''a'' 2 ''compatibility'', sample_risk ''b'' 5 ''privacy''] ''prd'' (JStr ''smoke'') = Inr c"
      "fld c ''compiled_level'' = JStr ''compatibility''"
    using sample_coverage_compiled by (auto simp: mapR_eq_Inr)
  moreover have "score_level (risk_score (sample_risk ''b'' 5 ''privacy''))
      \<in> coverage_floors [sample_risk ''a'' 2 ''compatibility'', sample_risk ''b'' 5 ''privacy''] ''prd'' ''smoke''"
    by (auto simp: coverage_floors_def)
  ultimately show ?thesis using coverage_is_least_floor [of _ _ "''smoke''" c] by auto
qed

section \<open>Aggregation and delivery\<close>

text \<open>C18: a bundle with status passed hides nothing: there is one passed result with evidence per frozen test case, every
  defect is verified or closed and owned by a current regression set, and the verification it reports is the status
  projected from the run ledger.\<close>

theorem passed_bundle_hides_nothing:
  assumes "aggregate_workflow_results w compiled execution = Inr b" and "fld b ''status'' = JStr ''passed''"
  shows "ids_of ''case_id'' (as_list (fld b ''test_results'')) = sort (ids_of ''case_id'' (as_list (fld compiled ''test_cases''))) \<and>
    (\<forall>r \<in> set (as_list (fld b ''test_results'')). fld r ''status'' = JStr ''passed'' \<and> as_list (fld r ''evidence_refs'') \<noteq> []) \<and>
    (\<forall>d \<in> set (as_list (fld b ''defect_reports'')). status_in d [''verified'', ''closed''] \<and> regression_owns (fld b ''regression_set'') d) \<and>
    (\<exists>s. current_validation_status (fld execution ''run_ledger'') = Inr s \<and>
      py_eq (fld (fld (fld b ''report'') ''verification'') ''status'') s)"
proof -
  obtain ctx blockers gaps status residual recommendation report h where check: "check_execution w compiled execution = Inr ctx"
      and status: "status = aggregate_status (as_list (fld execution ''test_results'')) blockers gaps"
      and report: "make_report w compiled execution ctx blockers gaps residual status recommendation = Inr report"
      and b: "b = JObj (bundle_body compiled execution ctx blockers gaps status report @ [(''fingerprint'', JStr h)])"
      and valid: "validate_workflow_bundle w b = Inr ()"
    using aggregate_D [OF assms(1)] by blast
  note F = bundle_body_fields [of compiled execution ctx blockers gaps status report "[(''fingerprint'', JStr h)]", folded b]
  note C = check_execution_D [OF check]
  have passed: "status = ''passed''" using assms(2) F(1) by simp
  then have "aggregate_status (as_list (fld execution ''test_results'')) blockers gaps = ''passed''" by (simp add: status)
  then have others: "\<forall>s \<in> set [''cancelled'', ''blocked'', ''failed'', ''skipped'']. \<forall>r \<in> set (as_list (fld execution ''test_results'')). fld r ''status'' \<noteq> JStr s"
    by (simp add: aggregate_status_passed count_status_0)
  have results: "fld r ''status'' = JStr ''passed''" if "r \<in> set (as_list (fld execution ''test_results''))" for r
    using that others C(3) test_result_D(1) [of w r] by auto
  have defects: "status_in d [''verified'', ''closed'']" if "d \<in> set (as_list (fld execution ''defect_reports''))" for d
    using valid that F passed unfolding validate_workflow_bundle_def check_bundle_passed_def Let_def
    by (auto simp: seqE_eq_Inr list_ex_iff)
  then have owned: "regression_owns (fld execution ''regression_set'') d" if "d \<in> set (as_list (fld execution ''defect_reports''))" for d
    using C(5) that by (auto simp: check_closed_defect_def seqE_eq_Inr)
  show ?thesis
    using C(3,4,6) results defects owned test_result_D(2) F make_report_fields(1) [OF report] by auto
qed

lemma passed_bundle_hides_nothing_sample:
  "\<exists>b. aggregate_workflow_results sample_world sample_compiled (sample_execution ''passed'') = Inr b \<and>
     list_all (\<lambda>r. fld r ''status'' = JStr ''passed'') (as_list (fld b ''test_results''))"
proof -
  obtain b where b: "aggregate_workflow_results sample_world sample_compiled (sample_execution ''passed'') = Inr b"
      "fld b ''status'' = JStr ''passed''"
    using sample_aggregated by (auto simp: mapR_eq_Inr)
  from passed_bundle_hides_nothing [OF this] b(1) show ?thesis unfolding list_all_iff by blast
qed

text \<open>C19: when a release with a cancelled result is aggregated, its bundle is cancelled and its report advises no-go and
  names a ground: a blocker, a failed or blocked result, or a failed, blocked or cancelled verification. The cancelled result is
  no ground by itself, so a release that has none of these is refused.\<close>

theorem cancelled_release_names_its_ground:
  assumes "aggregate_workflow_results w compiled execution = Inr b" and "fld compiled ''workflow_kind'' = JStr ''release''"
    and "r \<in> set (as_list (fld execution ''test_results''))" and "fld r ''status'' = JStr ''cancelled''"
  shows "fld b ''status'' = JStr ''cancelled'' \<and> fld (fld b ''report'') ''release_recommendation'' = JStr ''no-go'' \<and>
    (fld b ''blockers'' \<noteq> texts [] \<or> list_ex (\<lambda>x. status_in x [''failed'', ''blocked'']) (as_list (fld execution ''test_results'')) \<or>
     status_in (fld execution ''verification'') [''failed'', ''blocked'', ''cancelled''])"
proof -
  from aggregate_D [OF assms(1)] obtain ctx supplied blockers gaps status residual recommendation report h where
      status: "status = aggregate_status (as_list (fld execution ''test_results'')) blockers gaps"
      and advice: "recommendation_for (as_str (fld compiled ''workflow_kind'')) status (fld (fld execution ''verification'') ''status'')
        residual (fld execution ''waivers'') = Inr recommendation"
      and report: "make_report w compiled execution ctx blockers gaps residual status recommendation = Inr report"
      and b: "b = JObj (bundle_body compiled execution ctx blockers gaps status report @ [(''fingerprint'', JStr h)])"
      and valid: "validate_workflow_bundle w b = Inr ()"
    by blast
  note F = bundle_body_fields [of compiled execution ctx blockers gaps status report "[(''fingerprint'', JStr h)]", folded b]
  note R = make_report_fields [OF report]
  have "count_status (as_list (fld execution ''test_results'')) ''cancelled'' \<noteq> 0"
    using assms(3,4) count_status_0 [of "as_list (fld execution ''test_results'')" "''cancelled''"] by blast
  then have cancelled: "status = ''cancelled''" by (simp add: status aggregate_status_def)
  with advice assms(2) have no_go: "recommendation = ''no-go''" by (simp add: recommendation_for_def)
  have "validate_qa_report w report = Inr ()"
    using valid bundle_body_fields(2) [of compiled execution ctx blockers gaps status report] unfolding b validate_workflow_bundle_def check_bundle_head_def Let_def
    by (simp only: seqE_eq_Inr)
  then have check: "check_recommendation report = Inr ()" by (rule validate_qa_report_D(10))
  have ground: "blockers \<noteq> [] \<or> list_ex (\<lambda>x. status_in x [''failed'', ''blocked'']) (as_list (fld execution ''test_results'')) \<or>
      status_in (fld execution ''verification'') [''failed'', ''blocked'', ''cancelled'']"
  proof (rule ccontr)
    assume n: "\<not> ?thesis"
    then have counts: "count_status (as_list (fld execution ''test_results'')) ''failed'' = 0"
        "count_status (as_list (fld execution ''test_results'')) ''blocked'' = 0"
      by (auto simp: count_status_0 status_in_def list_ex_iff)
    with check no_go n R show False
      by (auto simp: check_recommendation_def Let_def seqE_eq_Inr quality_summary_def count_of_def json_simps status_in_def texts_def)
  qed
  show ?thesis using F(1,2,9) R(2) cancelled no_go ground by (auto simp: texts_def)
qed

lemma cancelled_release_names_its_ground_sample:
  "\<exists>b. aggregate_workflow_results sample_world sample_compiled sample_stopped = Inr b \<and> fld b ''status'' = JStr ''cancelled'' \<and>
     fld (fld b ''report'') ''release_recommendation'' = JStr ''no-go''"
proof -
  obtain b where b: "aggregate_workflow_results sample_world sample_compiled sample_stopped = Inr b"
    using sample_stopped_aggregated by (auto simp: is_ok_def split: sum.splits)
  have "fld sample_compiled ''workflow_kind'' = JStr ''release''" by code_simp
  moreover have "sample_test_result ''cancelled'' \<in> set (as_list (fld sample_stopped ''test_results''))" by (simp add: sample_stopped_tests)
  moreover have "fld (sample_test_result ''cancelled'') ''status'' = JStr ''cancelled''" by code_simp
  ultimately show ?thesis using cancelled_release_names_its_ground [OF b] b by blast
qed

text \<open>C20: whatever QA report is attached, a delivery report made for a run that ended in one of the four final statuses is
  accepted by its validator.\<close>

theorem delivery_report_is_accepted:
  assumes "delivery_report w plan rl qa = Inr r"
    and "fld rl ''final_status'' \<in> JStr ` set [''completed'', ''partial'', ''blocked'', ''cancelled'']"
  shows "validate_delivery_report r = Inr ()"
  using assms by (rule delivery_report_accepted)

lemma delivery_report_is_accepted_sample:
  "\<exists>r. delivery_report sample_world sample_run_plan sample_run_ledger (Some sample_qa_report) = Inr r \<and> validate_delivery_report r = Inr ()"
proof -
  obtain r where r: "delivery_report sample_world sample_run_plan sample_run_ledger (Some sample_qa_report) = Inr r"
    using sample_delivered by (auto simp: is_ok_def split: sum.splits)
  have "fld sample_run_ledger ''final_status'' = JStr ''completed''" by code_simp
  then have "fld sample_run_ledger ''final_status'' \<in> JStr ` set [''completed'', ''partial'', ''blocked'', ''cancelled'']" by simp
  from delivery_report_is_accepted [OF r this] r show ?thesis by blast
qed

text \<open>C21: the validation block of a delivery report made from an accepted ledger with finite attempt numbers shows the worst
  status of exactly the evidence it lists, or the final status of the run when it lists none: the projection, which looks
  for the highest attempt numbers, and the report, which takes the last attempts, mean the same attempts.\<close>

theorem delivery_shows_worst_evidence:
  assumes "delivery_report w plan rl qa = Inr r" and "validate_run_ledger rl = Inr ()" and "is_list (fld rl ''node_attempts'')"
    and "\<forall>a \<in> set (as_list (fld rl ''node_attempts'')). finite_number (fld a ''attempt_number'')"
  shows "let items = as_list (fld (fld r ''validation'') ''evidence''); status = fld (fld r ''validation'') ''status'' in
    if items = [] then status = fld rl ''final_status''
    else \<exists>i \<in> set items. status = fld i ''status'' \<and> (\<forall>j \<in> set items. severity j \<le> severity i)"
proof -
  obtain rep where rep: "base_report plan rl = Inr rep" and "r = rep \<or> (\<exists>x. r = put rep ''quality'' x)"
    using assms(1) by (auto simp: delivery_report_def bindE_eq_Inr seqE_eq_Inr split: option.splits)
  then have "fld r ''validation'' = fld rep ''validation''" by (auto simp: put_fld)
  with validation_block_worst [OF assms(2,4,3) rep] show ?thesis by simp
qed

lemma sample_delivered_evidence:
  "mapR (\<lambda>r. as_list (fld (fld r ''validation'') ''evidence'') = []) (delivery_report sample_world sample_run_plan sample_run_ledger (Some sample_qa_report)) = Inr False"
  by code_simp

lemma delivery_shows_worst_evidence_sample:
  "\<exists>r. delivery_report sample_world sample_run_plan sample_run_ledger (Some sample_qa_report) = Inr r \<and>
     list_ex (\<lambda>i. fld (fld r ''validation'') ''status'' = fld i ''status'' \<and>
       list_all (\<lambda>j. severity j \<le> severity i) (as_list (fld (fld r ''validation'') ''evidence'')))
       (as_list (fld (fld r ''validation'') ''evidence''))"
proof -
  obtain r where r: "delivery_report sample_world sample_run_plan sample_run_ledger (Some sample_qa_report) = Inr r"
      and some: "as_list (fld (fld r ''validation'') ''evidence'') \<noteq> []"
    using sample_delivered_evidence by (auto simp: mapR_eq_Inr)
  have nodes: "is_list (fld sample_run_ledger ''node_attempts'')"
    by code_simp
  have finite: "\<forall>a \<in> set (as_list (fld sample_run_ledger ''node_attempts'')). finite_number (fld a ''attempt_number'')"
    by (simp add: sample_run_ledger_def sample_run_attempt_def json_simps finite_number_def)
  show ?thesis
    using delivery_shows_worst_evidence [OF r sample_run_ledger_valid nodes finite] r some
    by (auto simp: Let_def list_ex_iff list_all_iff)
qed

section \<open>Compilers and runtime\<close>

text \<open>C23: a PRD request with more than 16 acceptance criteria never compiles, however well formed it is: there are six test
  cases per criterion, they are numbered with two digits, and the hundredth is out of order for the validator that every
  compiled workflow must pass.\<close>

theorem seventeen_criteria_never_compile:
  assumes "16 < sum_list (map criteria_count (as_list (fld req ''requirements'')))"
  shows "\<not> is_ok (compile_prd_workflow w req)"
proof
  assume "is_ok (compile_prd_workflow w req)"
  then obtain c where "compile_prd_workflow w req = Inr c" by (auto simp: is_ok_def split: sum.splits)
  from prd_case_count [OF this] assms show False by simp
qed

definition sample_long_prd :: json where
  "sample_long_prd = JObj [(''requirements'', JList [JObj [(''id'', JStr ''R''), (''title'', JStr ''T''),
     (''acceptance_criteria'', texts (map (\<lambda>c. [c]) ''abcdefghijklmnopq''))]])]"

lemma seventeen_criteria_never_compile_sample:
  "sum_list (map criteria_count (as_list (fld sample_long_prd ''requirements''))) = 17 \<and> \<not> is_ok (compile_prd_workflow sample_world sample_long_prd)"
proof -
  have "sum_list (map criteria_count (as_list (fld sample_long_prd ''requirements''))) = 17" by code_simp
  with seventeen_criteria_never_compile [of sample_long_prd] show ?thesis by simp
qed

text \<open>C24: after any reports, the guard answers a failure of an issue class with the number of its failures, and blocks
  exactly from the limit on; resolved and cancelled outcomes do not reset the count.\<close>

theorem guard_blocks_at_limit:
  assumes "new_guard (JInt limit) = Inr g" and "guard_run g reports = Inr g'"
    and "record_outcome g' (JStr i) (JStr ''failed'') = Inr (g'', answer)"
  shows "fld answer ''attempt'' = JInt (int (failures i reports) + 1) \<and>
    (fld answer ''status'' = JStr ''blocked'' \<longleftrightarrow> limit \<le> int (failures i reports) + 1)"
proof -
  have "max_attempts g = limit" "attempts_of g i = 0" using assms(1) by (auto simp: new_guard_def seqE_eq_Inr attempts_of_def)
  with guard_run_counts [OF assms(2)] have "max_attempts g' = limit" "attempts_of g' i = int (failures i reports)" by simp_all
  with assms(3) show ?thesis
    by (auto simp: record_outcome_def seqE_eq_Inr Let_def guard_answer_def json_simps split: if_splits)
qed

lemma guard_blocks_at_limit_sample:
  "\<exists>g g' g'' answer. new_guard (JInt 2) = Inr g \<and> guard_run g [(''crash'', ''failed''), (''crash'', ''resolved'')] = Inr g' \<and>
     record_outcome g' (JStr ''crash'') (JStr ''failed'') = Inr (g'', answer) \<and> fld answer ''status'' = JStr ''blocked''"
proof -
  have "is_ok (bindE (new_guard (JInt 2)) (\<lambda>g. bindE (guard_run g [(''crash'', ''failed''), (''crash'', ''resolved'')]) (\<lambda>g'.
      record_outcome g' (JStr ''crash'') (JStr ''failed''))))"
    by code_simp
  then obtain g g' g'' answer where run: "new_guard (JInt 2) = Inr g" "guard_run g [(''crash'', ''failed''), (''crash'', ''resolved'')] = Inr g'"
      "record_outcome g' (JStr ''crash'') (JStr ''failed'') = Inr (g'', answer)"
    by (auto simp: is_ok_def bindE_def split: sum.splits)
  have "failures ''crash'' [(''crash'', ''failed''), (''crash'', ''resolved'')] = 1" by code_simp
  with guard_blocks_at_limit [OF run] run show ?thesis by auto
qed

text \<open>C25: as long as the digest does not collide on the two texts hashed, the evidence of a result is reusable exactly when
  the identity of the recorded execution equals the current one.\<close>

theorem reuse_is_same_identity:
  assumes "float_text_ok (float_text w)" and "evidence_reuse_status w r p e d recorded current = Inr v"
    and "dumps w (identity_body (fld r ''plan_fingerprint'') (fld r ''environment_fingerprint'') (fld r ''test_data_fingerprint'')
      (sorted_set (text_items recorded))) = Inr s"
    and "dumps w (identity_body p e d (sorted_set (text_items current))) = Inr t"
    and "digest w s = digest w t \<Longrightarrow> s = t"
  shows "fld v ''status'' = JStr ''reusable'' \<longleftrightarrow> fld v ''recorded_identity'' = fld v ''current_identity''"
proof -
  let ?rec = "sorted_set (text_items recorded)" and ?cur = "sorted_set (text_items current)"
  let ?p = "fld r ''plan_fingerprint''" and ?e = "fld r ''environment_fingerprint''" and ?d = "fld r ''test_data_fingerprint''"
  obtain i j where i: "qa_execution_identity w p e d (JList (map JStr ?cur)) = Inr i"
      and j: "qa_execution_identity w ?p ?e ?d (JList (map JStr ?rec)) = Inr j"
      and v: "v = JObj [(''current_identity'', JStr i), (''reasons'', JList (map JStr (sort (reuse_reasons r p e d ?rec ?cur)))),
        (''recorded_identity'', JStr j), (''status'', JStr (if reuse_reasons r p e d ?rec ?cur = [] then ''reusable'' else ''stale''))]"
    using assms(2) by (auto simp: evidence_reuse_status_def seqE_eq_Inr bindE_eq_Inr Let_def check_fingerprints_eq_Inr unique_strings_eq_Inr)
  note I = execution_identity_D [OF i] and J = execution_identity_D [OF j]
  have "i = ''qa-v1:'' @ digest w t" "j = ''qa-v1:'' @ digest w s"
    using I(4) J(4) sha256_dumps [OF assms(3)] sha256_dumps [OF assms(4)] by (auto simp: qa_fingerprint_eq_Inr sorted_set_id)
  then have "j = i \<longleftrightarrow> s = t" using assms(5) by auto
  also have "\<dots> \<longleftrightarrow> ?p = p \<and> ?e = e \<and> ?d = d \<and> ?rec = ?cur"
  proof
    assume "s = t"
    with assms(4) have "dumps w (identity_body p e d ?cur) = Inr s" by simp
    from dumps_determines_value [OF assms(1,3) this] show "?p = p \<and> ?e = e \<and> ?d = d \<and> ?rec = ?cur"
      by (rule identity_body_inject) (use J(1-3) in \<open>simp_all add: sorted_set_id\<close>)
  qed (use assms(3,4) in auto)
  finally show ?thesis by (simp add: v json_simps reuse_reasons_empty)
qed

lemma sample_reuse:
  "mapR (\<lambda>v. fld v ''status'') (evidence_reuse_status sample_world (sample_test_result ''passed'') zero_fingerprint zero_fingerprint zero_fingerprint
     (JList [zero_fingerprint]) (JList [zero_fingerprint])) = Inr (JStr ''reusable'')"
  by code_simp

lemma reuse_is_same_identity_sample:
  "\<exists>v. evidence_reuse_status sample_world (sample_test_result ''passed'') zero_fingerprint zero_fingerprint zero_fingerprint
     (JList [zero_fingerprint]) (JList [zero_fingerprint]) = Inr v \<and> fld v ''recorded_identity'' = fld v ''current_identity''"
proof -
  obtain v where v: "evidence_reuse_status sample_world (sample_test_result ''passed'') zero_fingerprint zero_fingerprint zero_fingerprint
      (JList [zero_fingerprint]) (JList [zero_fingerprint]) = Inr v" "fld v ''status'' = JStr ''reusable''"
    using sample_reuse by (auto simp: mapR_eq_Inr)
  have fields: "fld (sample_test_result ''passed'') ''plan_fingerprint'' = zero_fingerprint"
      "fld (sample_test_result ''passed'') ''environment_fingerprint'' = zero_fingerprint"
      "fld (sample_test_result ''passed'') ''test_data_fingerprint'' = zero_fingerprint"
    by (simp_all add: sample_test_result_def json_simps)
  let ?body = "identity_body zero_fingerprint zero_fingerprint zero_fingerprint (sorted_set (text_items (JList [zero_fingerprint])))"
  have "small_value 0 ?body \<and> \<not> has_nonfinite ?body" by code_simp
  then obtain s where "dumps sample_world ?body = Inr s" using small_value_limits [of 0 ?body] by (auto simp: dumps_eq_Inr)
  from reuse_is_same_identity [OF _ v(1)] this v show ?thesis by (simp add: fields fraction_text_ok)
qed



end
