(* ===== verification/Spec2Isabelle.thy ===== *)
theory Spec2Isabelle
  imports CoreSpec RuntimeSpec PlanSpec PolicySpec LockSpec MigrationSpec ManifestContract ResolveSpec QaSpec
begin

text \<open>
  A verification library for the Python package \<^verbatim>\<open>src/agent_workflow\<close>, the workflow engine of the
  repository. The engine reads versioned contracts (JSON objects), resolves a policy, compiles a plan of nodes and
  edges from registered manifests, freezes it to a package lock, and runs it while it appends every event to a ledger.
  All paths below are relative to that package.

  Common ground. \<^verbatim>\<open>Prelude\<close> has exceptions as values (\<open>py_error\<close>), results (\<open>py_error + 'a\<close>) with their
  sequencing and loop combinators, sorted sets and dictionaries in insertion order. \<^verbatim>\<open>Json\<close> has the values the
  contracts are made of and Python's operations on them; text is its UTF-8 bytes. \<^verbatim>\<open>Canonical\<close> models
  \<^verbatim>\<open>models.py\<close> and \<^verbatim>\<open>canonical_json.py\<close>; what lies outside the sources (digest, float printer, JSON parser, clock,
  UUIDs, date texts) is the record \<open>world\<close>, a parameter. \<^verbatim>\<open>Text\<close>, \<^verbatim>\<open>KeySorted\<close> and \<^verbatim>\<open>JsonFacts\<close> hold shared facts.
  Error messages keep their text except where the code formats a value with \<open>repr\<close>.

  Contracts (\<^verbatim>\<open>contracts.py\<close>). \<^verbatim>\<open>LedgerContracts\<close>: node attempts, resource events, approvals, the run ledger.
  \<^verbatim>\<open>PlanContracts\<close>: capability contracts, resolved policies, workflow plans. \<^verbatim>\<open>InstallTree\<close> and \<^verbatim>\<open>InstallPlan\<close>:
  install plans with their limits, trees, selected packages, dependencies, instructions, assets and providers.
  \<^verbatim>\<open>ManifestContract\<close>: plugin manifests. \<^verbatim>\<open>Migrations\<close> also has the activation lock. A validator is a sequence of
  checks in the order of the code; it returns the first error or \<open>Inr ()\<close>.

  Runtime (\<^verbatim>\<open>runtime/\<close>). \<^verbatim>\<open>NodeMachine\<close>: state_machine.py; \<^verbatim>\<open>Scheduler\<close>: scheduler.py; \<^verbatim>\<open>Approval\<close>: approval.py;
  \<^verbatim>\<open>Ledger\<close>: ledger.py, the file as bytes; \<^verbatim>\<open>Dag\<close> and \<^verbatim>\<open>Executor\<close>: executor.py, state passed explicitly through \<^verbatim>\<open>Exec\<close>,
  the overridable methods of the executor as a record of hooks. The retry loop of a node carries fuel, computed from
  its retries (\<open>loop_fuel\<close>); \<^verbatim>\<open>RuntimeLoop\<close> and \<^verbatim>\<open>RuntimeRun\<close> show that it is enough, so that running out is never the
  answer.
  \<^verbatim>\<open>LedgerReplay\<close>, \<^verbatim>\<open>LedgerFacts\<close>, \<^verbatim>\<open>RuntimeSteps\<close>, \<^verbatim>\<open>RuntimeNode\<close>, \<^verbatim>\<open>RuntimeApproval\<close> and \<^verbatim>\<open>RuntimeOrder\<close> hold
  the invariants of a run.

  Planning. \<^verbatim>\<open>Versions\<close>: registry/versions.py; \<^verbatim>\<open>Recipes\<close>: recipes.py; \<^verbatim>\<open>Registry\<close>, \<^verbatim>\<open>RegistryGraph\<close> and
  \<^verbatim>\<open>RegistryChecks\<close>: registry/manifests.py; \<^verbatim>\<open>Planner\<close>: planning/compiler.py; \<^verbatim>\<open>Policy\<close> and \<^verbatim>\<open>Resolver\<close>:
  policy/resolver.py. \<^verbatim>\<open>PlannerFacts\<close>, \<^verbatim>\<open>PolicyFacts\<close> and \<^verbatim>\<open>PlanRuns\<close> hold their lemmas; the last one shows that a
  compiled plan passes the checks of the executor.

  Locks and migrations. \<^verbatim>\<open>LockSource\<close>, \<^verbatim>\<open>LockFiles\<close>, \<^verbatim>\<open>PackageLock\<close>, \<^verbatim>\<open>DagStack\<close> and \<^verbatim>\<open>LockOps\<close>: package_lock.py;
  \<open>package_lock_checks\<close> are the checks the plan compiler calls. \<^verbatim>\<open>LockFacts\<close>, \<^verbatim>\<open>LockFilesFacts\<close> and
  \<^verbatim>\<open>InstallFacts\<close> hold what acceptance guarantees. \<^verbatim>\<open>Migrations\<close>: migrations.py, the breadth-first search ends because
  the queue and the unvisited versions shrink together; \<^verbatim>\<open>MigrationFacts\<close> has its invariant.

  Installation. \<^verbatim>\<open>PackageResolve\<close> models the package resolver of installation.py: the closure of the requested
  packages, the optional dependencies among them and their order. The catalogue of manifests, which the code reads from
  directories, is an argument. \<^verbatim>\<open>PackageResolveFacts\<close> has the invariant of its depth-first search.

  QA and delivery. \<^verbatim>\<open>QaCoverage\<close>: qa/coverage.py; \<^verbatim>\<open>QaContracts\<close> and \<^verbatim>\<open>QaReport\<close>: the validators of
  qa/contracts.py; \<^verbatim>\<open>QaWorkflows\<close>: the compilers of qa/workflows.py and the validator of what they return;
  \<^verbatim>\<open>QaAggregate\<close>: its aggregator and the validator of bundles; \<^verbatim>\<open>QaRuntime\<close>: qa/runtime.py, the loop guard as a record
  with a step that returns it updated. \<^verbatim>\<open>Delivery\<close>: ledger_status.py, reporting/delivery.py and the delivery report of
  contracts.py. \<^verbatim>\<open>QaFacts\<close>, \<^verbatim>\<open>QaRuntimeFacts\<close>, \<^verbatim>\<open>QaCases\<close>, \<^verbatim>\<open>LatestAttempts\<close> and \<^verbatim>\<open>DeliveryFacts\<close> hold what
  acceptance guarantees, the numbering of test cases and the agreement of the two notions of latest attempt.
  \<^verbatim>\<open>FastText\<close> has equations that let the simplifier evaluate canonical texts quickly.

  Interfaces. \<open>node_sorter\<close> (\<^verbatim>\<open>Dag\<close>) is the contract of a topological sorter; Kahn's queue of the executor, the
  stack of the lock validator and the sorted queue of the package resolver provide it.

  Properties stand in \<^verbatim>\<open>CoreSpec\<close>, \<^verbatim>\<open>RuntimeSpec\<close>, \<^verbatim>\<open>PlanSpec\<close>, \<^verbatim>\<open>PolicySpec\<close>, \<^verbatim>\<open>LockSpec\<close>, \<^verbatim>\<open>MigrationSpec\<close>,
  \<^verbatim>\<open>ResolveSpec\<close> and \<^verbatim>\<open>QaSpec\<close>, each after a text that states it, with a witness at a concrete input from \<^verbatim>\<open>Sample\<close>,
  \<^verbatim>\<open>SampleLock\<close>, \<^verbatim>\<open>SampleQa\<close> or its own theory.

  Approximations. Values are trees, so sharing and cycles of Python objects are not represented. Where a value that is
  no text would be used as a node or package id the model answers with a \<open>TypeError\<close>. The file system of
  \<^verbatim>\<open>LockFiles\<close> is a record of the questions the code asks; errors of the operating system are not modelled. Loops over
  a set of fields visit them in the order the model lists them, so of several errors the model may name another field.
  Lists that the QA code sorts by keys of mixed types count as not comparable; dates are read from ASCII text.

  Not modelled: reading and writing files and directories (copying installation trees, activation, doctor, upgrade, discovery,
  worktree sessions), the command line, provider adapters and their invocation contracts, the design
  subsystem, the scripts of the repository, the platform skills and the Rust port.
\<close>

end
